(* ===== verification/Prelude.thy ===== *)
theory Prelude
  imports Main "HOL-Library.Word" "HOL-Library.Sublist"
begin

text \<open>
  The prelude of the development: the named collections of facts that the component
  theories fill, and generic facts about lists, options and sums that several of them
  share.

  Conventions used everywhere. A Go \<open>string\<close> or \<open>[]byte\<close> is a list of bytes, and so a
  HOL \<open>string\<close> (a \<open>char\<close> is a byte). A Go \<open>uint64\<close> is a \<open>64 word\<close>. A Go slice whose
  nil-ness is observable (through the JSON encoder, which prints nil as \<open>null\<close>) is a list
  option. A Go \<open>(T, error)\<close> result is a sum, \<open>Inl\<close> of the error or \<open>Inr\<close> of the value.
\<close>

named_theorems handler_defs "unfolding equations of the HTTP handlers and their helpers"
named_theorems codec_simps "evaluation of the byte-level encoders and decoders"
named_theorems frame_simps "fields of the state that an operation does not write"

type_synonym u64 = "64 word"
type_synonym bytes = string
type_synonym 'a slice = "'a list option"

section \<open>Positions in a list\<close>

fun index_of :: "'a \<Rightarrow> 'a list \<Rightarrow> nat option" where
  "index_of x [] = None"
| "index_of x (y # ys) = (if x = y then Some 0 else map_option Suc (index_of x ys))"

lemma index_of_bound: "index_of x xs = Some i \<Longrightarrow> i < length xs"
  by (induction xs arbitrary: i) (auto split: if_splits)

lemma index_of_nth: "distinct xs \<Longrightarrow> i < length xs \<Longrightarrow> index_of (xs ! i) xs = Some i"
proof (induction xs arbitrary: i)
  case Nil
  then show ?case by simp
next
  case (Cons y ys)
  then show ?case by (cases i) auto
qed

section \<open>Sequencing fallible computations over a list\<close>

text \<open>\<open>map_opt f xs\<close> applies a fallible function to every element, and fails if one fails.\<close>

fun map_opt :: "('a \<Rightarrow> 'b option) \<Rightarrow> 'a list \<Rightarrow> 'b list option" where
  "map_opt f [] = Some []"
| "map_opt f (x # xs) =
     (case f x of None \<Rightarrow> None | Some y \<Rightarrow> map_option ((#) y) (map_opt f xs))"

lemma map_opt_length: "map_opt f xs = Some ys \<Longrightarrow> length ys = length xs"
  by (induction xs arbitrary: ys) (auto split: option.splits)

lemma map_opt_total: "(\<And>x. x \<in> set xs \<Longrightarrow> f x = Some (g x)) \<Longrightarrow> map_opt f xs = Some (map g xs)"
  by (induction xs) auto

section \<open>The first element of a list with a property\<close>

lemma find_SomeD: "find P xs = Some x \<Longrightarrow> x \<in> set xs \<and> P x"
  by (auto simp: find_Some_iff)

lemma find_None_all: "find P xs = None \<longleftrightarrow> (\<forall>x \<in> set xs. \<not> P x)"
  by (auto simp: find_None_iff)

lemma sublist_concat_map: "x \<in> set xs \<Longrightarrow> sublist (f x) (concat (map f xs))"
proof (induction xs)
  case (Cons y ys)
  then show ?case by (cases "x = y") (auto simp: sublist_append intro: sublist_append_leftI)
qed simp

lemma sublist_inside: "sublist xs ys \<Longrightarrow> zs = as @ ys @ bs \<Longrightarrow> sublist xs zs"
  by (metis append_assoc sublist_def)

end
