(* ===== verification/Go_Strings.thy ===== *)
theory Go_Strings
  imports Prelude
begin

text \<open>
  What the source uses of Go's \<open>strings\<close>, \<open>strconv\<close> and \<open>fmt\<close>, on byte strings:
  \<open>TrimSpace\<close>, \<open>TrimRight\<close>, \<open>SplitN\<close>, \<open>EqualFold\<close>, \<open>Cut\<close>, \<open>Contains\<close>, \<open>HasSuffix\<close>, \<open>Join\<close>,
  \<open>ParseUint\<close> and \<open>ParseInt\<close> in base 10 and 64 bits with their two errors, and the decimal
  printing of \<open>%d\<close>. The numeric part works on \<open>64 word\<close>s, with the overflow checks of
  \<open>strconv\<close> as it makes them, and is proved against the value of the digits in \<open>nat\<close>.
\<close>

section \<open>Trimming white space\<close>

text \<open>
  \<open>strings.TrimSpace\<close> removes the code points of \<open>unicode.IsSpace\<close> at both ends. Each one
  is a fixed byte sequence in UTF-8: six ASCII bytes and the encodings of U+0085, U+00A0,
  U+1680, U+2000 to U+200A, U+2028, U+2029, U+202F, U+205F and U+3000.
\<close>

definition space_seqs :: "string list" where
  "space_seqs = map (map char_of)
     ([[9], [10], [11], [12], [13], [32], [194, 133], [194, 160], [225, 154, 128]]
      @ map (\<lambda>i. [226, 128, i]) [128..<139]
      @ [[226, 128, 168], [226, 128, 169], [226, 128, 175], [226, 129, 159], [227, 128, 128 :: nat]])"

lemma space_seqs_nonempty: "p \<in> set space_seqs \<Longrightarrow> p \<noteq> []"
  by (auto simp: space_seqs_def)

function trim_left_space :: "string \<Rightarrow> string" where
  "trim_left_space s =
     (case find (\<lambda>p. prefix p s) space_seqs of
        None \<Rightarrow> s
      | Some p \<Rightarrow> trim_left_space (drop (length p) s))"
  by pat_completeness auto
termination
proof (relation "measure length")
  fix s p assume "find (\<lambda>p. prefix p s) space_seqs = Some p"
  then have "p \<in> set space_seqs" and "prefix p s" by (auto dest: find_SomeD)
  then have "p \<noteq> []" and "length p \<le> length s"
    by (auto dest: space_seqs_nonempty prefix_length_le)
  then show "(drop (length p) s, s) \<in> measure length" by (cases p) auto
qed simp

function trim_right_space :: "string \<Rightarrow> string" where
  "trim_right_space s =
     (case find (\<lambda>p. suffix p s) space_seqs of
        None \<Rightarrow> s
      | Some p \<Rightarrow> trim_right_space (take (length s - length p) s))"
  by pat_completeness auto
termination
proof (relation "measure length")
  fix s p assume "find (\<lambda>p. suffix p s) space_seqs = Some p"
  then have "p \<in> set space_seqs" and "suffix p s" by (auto dest: find_SomeD)
  then have "p \<noteq> []" and "length p \<le> length s"
    by (auto dest: space_seqs_nonempty suffix_length_le)
  then show "(take (length s - length p) s, s) \<in> measure length" by (cases p) auto
qed simp

declare trim_left_space.simps [simp del] trim_right_space.simps [simp del]

definition TrimSpace :: "string \<Rightarrow> string" where
  "TrimSpace s = trim_right_space (trim_left_space s)"

text \<open>
  The result neither begins nor ends with a space, and a string that begins and ends with a
  graphic ASCII byte is left as it is.
\<close>

lemma trim_left_no_prefix: "p \<in> set space_seqs \<Longrightarrow> \<not> prefix p (trim_left_space s)"
proof (induction s rule: trim_left_space.induct)
  case (1 s)
  show ?case
  proof (cases "find (\<lambda>p. prefix p s) space_seqs")
    case None
    then have "trim_left_space s = s" by (simp add: trim_left_space.simps [of s])
    with None 1 show ?thesis by (simp add: find_None_all)
  next
    case (Some q)
    with 1 show ?thesis by (simp add: trim_left_space.simps [of s])
  qed
qed

lemma trim_right_props:
  "prefix (trim_right_space s) s \<and> (p \<in> set space_seqs \<longrightarrow> \<not> suffix p (trim_right_space s))"
proof (induction s rule: trim_right_space.induct)
  case (1 s)
  show ?case
  proof (cases "find (\<lambda>p. suffix p s) space_seqs")
    case None
    then have "trim_right_space s = s" by (simp add: trim_right_space.simps [of s])
    with None show ?thesis by (simp add: find_None_all)
  next
    case (Some q)
    with 1 show ?thesis
      by (auto simp: trim_right_space.simps [of s] intro: prefix_order.trans take_is_prefix)
  qed
qed

lemma TrimSpace_trimmed:
  assumes "p \<in> set space_seqs"
  shows "\<not> prefix p (TrimSpace s)" and "\<not> suffix p (TrimSpace s)"
  using assms trim_left_no_prefix trim_right_props
  unfolding TrimSpace_def by (blast intro: prefix_order.trans)+

lemma TrimSpace_fixpoint:
  "(\<And>p. p \<in> set space_seqs \<Longrightarrow> \<not> prefix p s \<and> \<not> suffix p s) \<Longrightarrow> TrimSpace s = s"
  by (simp add: TrimSpace_def trim_left_space.simps [of s] trim_right_space.simps [of s]
      find_None_all [THEN iffD2])

lemma TrimSpace_idem: "TrimSpace (TrimSpace s) = TrimSpace s"
  by (rule TrimSpace_fixpoint) (simp add: TrimSpace_trimmed)

definition is_graphic :: "char \<Rightarrow> bool" where
  "is_graphic c \<longleftrightarrow> 33 \<le> (of_char c :: nat) \<and> (of_char c :: nat) \<le> 126"

lemma space_seqs_ends:
  "p \<in> set space_seqs \<Longrightarrow> p \<noteq> [] \<and> \<not> is_graphic (hd p) \<and> \<not> is_graphic (last p)"
  by (auto simp: space_seqs_def is_graphic_def)

lemma TrimSpace_graphic [codec_simps]:
  assumes "is_graphic (hd s)" and "is_graphic (last s)" and "s \<noteq> []"
  shows "TrimSpace s = s"
proof (rule TrimSpace_fixpoint)
  fix p assume "p \<in> set space_seqs"
  with space_seqs_ends have p: "p \<noteq> []" "\<not> is_graphic (hd p)" "\<not> is_graphic (last p)" by auto
  with assms show "\<not> prefix p s \<and> \<not> suffix p s"
    by (auto simp: prefix_def suffix_def)
qed

lemma TrimSpace_Nil [simp]: "TrimSpace [] = []"
  using space_seqs_nonempty by (intro TrimSpace_fixpoint) auto

text \<open>\<open>strings.TrimRight(s, cutset)\<close> for a cutset of one ASCII byte.\<close>

definition TrimRight :: "string \<Rightarrow> char \<Rightarrow> string" where
  "TrimRight s c = rev (dropWhile (\<lambda>x. x = c) (rev s))"

lemma TrimRight_not_suffix: "TrimRight s c \<noteq> t @ [c]"
proof
  assume "TrimRight s c = t @ [c]"
  then have "dropWhile (\<lambda>x. x = c) (rev s) = c # rev t"
    by (simp add: TrimRight_def rev_swap)
  then show False by (metis (full_types) dropWhile_eq_Cons_conv)
qed

section \<open>Splitting\<close>

text \<open>
  \<open>strings.SplitN(s, sep, n)\<close> for a one-byte separator and \<open>n > 0\<close>: at most \<open>n\<close> parts,
  the last one holding the rest of the string unsplit.
\<close>

fun cut_at :: "char \<Rightarrow> string \<Rightarrow> (string \<times> string) option" where
  "cut_at c [] = None"
| "cut_at c (x # xs) =
     (if x = c then Some ([], xs)
      else map_option (\<lambda>(a, b). (x # a, b)) (cut_at c xs))"

fun SplitN :: "string \<Rightarrow> char \<Rightarrow> nat \<Rightarrow> string list" where
  "SplitN s c 0 = []"
| "SplitN s c (Suc 0) = [s]"
| "SplitN s c (Suc (Suc n)) =
     (case cut_at c s of None \<Rightarrow> [s] | Some (a, b) \<Rightarrow> a # SplitN b c (Suc n))"

lemma cut_at_Some: "cut_at c s = Some (a, b) \<longleftrightarrow> s = a @ c # b \<and> c \<notin> set a"
proof (induction s arbitrary: a)
  case Nil
  then show ?case by simp
next
  case (Cons x xs)
  then show ?case by (cases a) auto
qed

lemma cut_at_None: "cut_at c s = None \<longleftrightarrow> c \<notin> set s"
  by (induction s) auto

lemma cut_at_append [simp]: "c \<notin> set a \<Longrightarrow> cut_at c (a @ c # b) = Some (a, b)"
  by (simp add: cut_at_Some)

fun Join :: "string list \<Rightarrow> string \<Rightarrow> string" where
  "Join [] sep = []"
| "Join [x] sep = x"
| "Join (x # xs) sep = x @ sep @ Join xs sep"

lemma SplitN_Join: "0 < n \<Longrightarrow> Join (SplitN s c n) [c] = s"
proof (induction s c n rule: SplitN.induct)
  case (3 s c n)
  show ?case
  proof (cases "cut_at c s")
    case None
    then show ?thesis by simp
  next
    case (Some ab)
    obtain a b where ab: "ab = (a, b)" by (cases ab)
    with Some have s: "s = a @ c # b" by (simp add: cut_at_Some)
    have ih: "Join (SplitN b c (Suc n)) [c] = b" using "3" Some ab by simp
    have "SplitN b c (Suc n) \<noteq> []" by (cases n) (auto split: option.splits)
    then obtain y ys where "SplitN b c (Suc n) = y # ys" by (cases "SplitN b c (Suc n)") auto
    with ih s Some ab show ?thesis by simp
  qed
qed auto

text \<open>
  \<open>strings.Contains\<close> and \<open>strings.HasSuffix\<close> are \<open>sublist\<close> and \<open>suffix\<close> of the library with
  the arguments in the other order.
\<close>

abbreviation Contains :: "string \<Rightarrow> string \<Rightarrow> bool" where
  "Contains s sub \<equiv> sublist sub s"

abbreviation HasSuffix :: "string \<Rightarrow> string \<Rightarrow> bool" where
  "HasSuffix s suf \<equiv> suffix suf s"

section \<open>Letter case\<close>

definition ascii_lower :: "char \<Rightarrow> char" where
  "ascii_lower c =
     (let n = of_char c :: nat in if 65 \<le> n \<and> n \<le> 90 then char_of (n + 32) else c)"

definition is_ascii :: "string \<Rightarrow> bool" where
  "is_ascii s \<longleftrightarrow> list_all (\<lambda>c. (of_char c :: nat) < 128) s"

text \<open>
  \<open>strings.EqualFold\<close> against an ASCII string none of whose letters is \<open>k\<close> or \<open>s\<close> (the two
  that fold together with a code point beyond ASCII), which is how the source uses it;
  the prefix test of \<open>net/http\<close>'s \<open>BasicAuth\<close> is this comparison for any ASCII string.
\<close>

definition EqualFold :: "string \<Rightarrow> string \<Rightarrow> bool" where
  "EqualFold s t \<longleftrightarrow> map ascii_lower s = map ascii_lower t"

section \<open>Decimal numbers\<close>

datatype num_error = ErrSyntax | ErrRange

definition is_digit :: "char \<Rightarrow> bool" where
  "is_digit c \<longleftrightarrow> 48 \<le> (of_char c :: nat) \<and> (of_char c :: nat) \<le> 57"

definition digit_val :: "char \<Rightarrow> nat" where
  "digit_val c = of_char c - 48"

definition maxUint64 :: u64 where
  "maxUint64 = 18446744073709551615"

text \<open>The loop of \<open>strconv.ParseUint(s, 10, 64)\<close> with its two overflow checks, on words.\<close>

definition parse_cutoff :: u64 where
  "parse_cutoff = maxUint64 div 10 + 1"

fun parse_loop :: "u64 \<Rightarrow> string \<Rightarrow> num_error + u64" where
  "parse_loop n [] = Inr n"
| "parse_loop n (c # cs) =
     (if \<not> is_digit c then Inl ErrSyntax
      else if n \<ge> parse_cutoff then Inl ErrRange
      else let m = n * 10; n1 = m + of_nat (digit_val c)
           in if n1 < m \<or> n1 > maxUint64 then Inl ErrRange else parse_loop n1 cs)"

definition ParseUint :: "string \<Rightarrow> num_error + u64" where
  "ParseUint s = (if s = [] then Inl ErrSyntax else parse_loop 0 s)"

text \<open>
  \<open>strconv.ParseInt(s, 10, 64)\<close>: an optional sign, then \<open>ParseUint\<close>, then the bounds of
  \<open>int64\<close>. A Go \<open>int64\<close> that is only compared, never computed with, is an \<open>int\<close> here.
\<close>

definition ParseInt :: "string \<Rightarrow> num_error + int" where
  "ParseInt s =
     (if s = [] then Inl ErrSyntax
      else
        let neg = (hd s = CHR ''-'');
            t = (if hd s = CHR ''-'' \<or> hd s = CHR ''+'' then tl s else s)
        in case ParseUint t of
             Inl e \<Rightarrow> Inl e
           | Inr un \<Rightarrow>
               (if \<not> neg \<and> uint un \<ge> 2 ^ 63 then Inl ErrRange
                else if neg \<and> uint un > 2 ^ 63 then Inl ErrRange
                else Inr (if neg then - uint un else uint un)))"

text \<open>The decimal digits that \<open>fmt\<close>'s \<open>%d\<close> prints for a \<open>uint64\<close>.\<close>

fun dec_digits :: "nat \<Rightarrow> string" where
  "dec_digits n =
     (if n < 10 then [char_of (48 + n)]
      else dec_digits (n div 10) @ [char_of (48 + n mod 10)])"

declare dec_digits.simps [simp del]

definition FormatUint :: "u64 \<Rightarrow> string" where
  "FormatUint n = dec_digits (unat n)"

text \<open>The number that a digit string denotes, read from the left onto an accumulator.\<close>

definition dec_val :: "nat \<Rightarrow> string \<Rightarrow> nat" where
  "dec_val a s = foldl (\<lambda>a c. a * 10 + digit_val c) a s"

lemma dec_val_simps [simp]:
  "dec_val a [] = a"
  "dec_val a (c # cs) = dec_val (a * 10 + digit_val c) cs"
  "dec_val a (s @ [c]) = dec_val a s * 10 + digit_val c"
  by (simp_all add: dec_val_def)

lemma dec_val_mono: "a \<le> dec_val a s"
proof (induction s arbitrary: a)
  case Nil
  then show ?case by simp
next
  case (Cons c cs)
  have "a \<le> a * 10 + digit_val c" by simp
  also have "\<dots> \<le> dec_val (a * 10 + digit_val c) cs" by (rule Cons)
  finally show ?case by simp
qed

lemma digit_val_less: "is_digit c \<Longrightarrow> digit_val c < 10"
  by (auto simp: is_digit_def digit_val_def)

lemma unat_cutoff: "unat parse_cutoff = 1844674407370955162"
  by (simp add: parse_cutoff_def maxUint64_def unat_div unat_word_ariths)

lemma not_gt_maxUint64: "\<not> maxUint64 < (n :: u64)"
proof -
  have "unat n < 2 ^ 64" using unsigned_less [of n] by simp
  then show ?thesis by (simp add: maxUint64_def word_less_nat_alt)
qed

text \<open>One step of the loop: the checks on words are the bound \<open>2 ^ 64\<close> on the value.\<close>

lemma parse_step:
  fixes n :: u64
  assumes d: "is_digit c"
  defines "m \<equiv> n * 10" and "v \<equiv> unat n * 10 + digit_val c"
  shows "\<not> (n \<ge> parse_cutoff) \<and> \<not> (m + of_nat (digit_val c) < m) \<longleftrightarrow> v < 2 ^ 64"
    and "v < 2 ^ 64 \<Longrightarrow> unat (m + of_nat (digit_val c)) = v"
proof -
  have dv: "digit_val c < 10" using d by (rule digit_val_less)
  then have ud: "unat (of_nat (digit_val c) :: u64) = digit_val c"
    by (simp add: unat_of_nat)
  have um: "unat m = unat n * 10" if "unat n < 1844674407370955162"
    using that by (simp add: m_def unat_word_ariths)
  have us: "unat (m + of_nat (digit_val c)) = (unat m + digit_val c) mod 2 ^ 64"
    by (simp add: unat_word_ariths ud)
  show "unat (m + of_nat (digit_val c)) = v" if v: "v < 2 ^ 64"
  proof -
    from v have "unat n < 1844674407370955162" by (simp add: v_def)
    with us um v show ?thesis by (simp add: v_def)
  qed
  show "\<not> (n \<ge> parse_cutoff) \<and> \<not> (m + of_nat (digit_val c) < m) \<longleftrightarrow> v < 2 ^ 64"
  proof (cases "unat n < 1844674407370955162")
    case True
    then have lt: "\<not> (n \<ge> parse_cutoff)"
      by (simp add: word_le_nat_alt unat_cutoff)
    have "m + of_nat (digit_val c) < m \<longleftrightarrow> (unat n * 10 + digit_val c) mod 2 ^ 64 < unat n * 10"
      unfolding word_less_nat_alt us um [OF True] ..
    also have "\<dots> \<longleftrightarrow> \<not> v < 2 ^ 64"
    proof
      assume l: "(unat n * 10 + digit_val c) mod 2 ^ 64 < unat n * 10"
      show "\<not> v < 2 ^ 64"
      proof
        assume "v < 2 ^ 64"
        then have "(unat n * 10 + digit_val c) mod 2 ^ 64 = unat n * 10 + digit_val c"
          by (simp add: v_def)
        with l show False by simp
      qed
    next
      assume nv: "\<not> v < 2 ^ 64"
      have "v < 2 * 2 ^ 64" using True dv by (simp add: v_def)
      with nv have "v mod 2 ^ 64 = v - 2 ^ 64" by (simp add: mod_if)
      then show "(unat n * 10 + digit_val c) mod 2 ^ 64 < unat n * 10"
        using dv nv by (simp add: v_def)
    qed
    finally show ?thesis using lt by blast
  next
    case False
    then have "parse_cutoff \<le> n" by (simp add: word_le_nat_alt unat_cutoff)
    moreover have "\<not> v < 2 ^ 64" using False by (simp add: v_def)
    ultimately show ?thesis by blast
  qed
qed

lemma parse_loop_iff:
  "parse_loop n s = Inr m \<longleftrightarrow>
     list_all is_digit s \<and> dec_val (unat n) s < 2 ^ 64 \<and> unat m = dec_val (unat n) s"
proof (induction s arbitrary: n)
  case Nil
  have "unat n < 2 ^ 64" using unsigned_less [of n] by simp
  then show ?case by (auto simp: word_unat_eq_iff)
next
  case (Cons c cs)
  let ?v = "unat n * 10 + digit_val c"
  show ?case
  proof (cases "is_digit c \<and> ?v < 2 ^ 64")
    case True
    then have v: "?v < 2 ^ 64" and d: "is_digit c" by blast+
    from parse_step [OF d, of n] v
    have "parse_loop n (c # cs) = parse_loop (n * 10 + of_nat (digit_val c)) cs"
      and "unat (n * 10 + of_nat (digit_val c)) = ?v"
      by (simp_all add: Let_def d not_gt_maxUint64)
    then show ?thesis by (simp add: Cons.IH d)
  next
    case False
    show ?thesis
    proof (cases "is_digit c")
      case True
      with False have nv: "\<not> ?v < 2 ^ 64" by blast
      with parse_step(1) [OF True, of n] have "\<exists>e. parse_loop n (c # cs) = Inl e"
        by (auto simp: Let_def True)
      moreover have "\<not> dec_val ?v cs < 2 ^ 64" using nv dec_val_mono [of ?v cs] by linarith
      ultimately show ?thesis by (auto simp: True simp del: parse_loop.simps)
    qed simp
  qed
qed

lemma parse_loop_error:
  "list_all is_digit s \<Longrightarrow> \<not> dec_val (unat n) s < 2 ^ 64 \<Longrightarrow> parse_loop n s = Inl ErrRange"
proof (induction s arbitrary: n)
  case Nil
  have "unat n < 2 ^ 64" using unsigned_less [of n] by simp
  with Nil show ?case by simp
next
  case (Cons c cs)
  then have d: "is_digit c" by simp
  show ?case
  proof (cases "unat n * 10 + digit_val c < 2 ^ 64")
    case True
    with parse_step [OF d, of n]
    have "parse_loop n (c # cs) = parse_loop (n * 10 + of_nat (digit_val c)) cs"
      and "unat (n * 10 + of_nat (digit_val c)) = unat n * 10 + digit_val c"
      by (simp_all add: Let_def d not_gt_maxUint64)
    with Cons show ?thesis by simp
  next
    case False
    with parse_step(1) [OF d, of n] show ?thesis by (auto simp: Let_def d)
  qed
qed

text \<open>
  \<open>ParseUint\<close> accepts exactly the non-empty digit strings whose value fits 64 bits, and
  returns that value.
\<close>

lemma ParseUint_Inr_iff:
  "ParseUint s = Inr m \<longleftrightarrow>
     s \<noteq> [] \<and> list_all is_digit s \<and> dec_val 0 s < 2 ^ 64 \<and> unat m = dec_val 0 s"
  by (auto simp: ParseUint_def parse_loop_iff)

lemma ParseUint_Range:
  "s \<noteq> [] \<Longrightarrow> list_all is_digit s \<Longrightarrow> \<not> dec_val 0 s < 2 ^ 64 \<Longrightarrow> ParseUint s = Inl ErrRange"
  by (simp add: ParseUint_def parse_loop_error)

lemma is_digit_char_of [simp]: "(d :: nat) < 10 \<Longrightarrow> is_digit (char_of (48 + d))"
  by (simp add: is_digit_def)

lemma digit_val_char_of [simp]: "(d :: nat) < 10 \<Longrightarrow> digit_val (char_of (48 + d)) = d"
  by (simp add: digit_val_def)

lemma dec_digits_props:
  "dec_digits n \<noteq> [] \<and> list_all is_digit (dec_digits n) \<and> dec_val 0 (dec_digits n) = n"
proof (induction n rule: dec_digits.induct)
  case (1 n)
  show ?case
  proof (cases "n < 10")
    case True
    then show ?thesis by (simp add: dec_digits.simps [of n])
  next
    case False
    with 1 have "list_all is_digit (dec_digits (n div 10))"
      and "dec_val 0 (dec_digits (n div 10)) = n div 10" by blast+
    with False show ?thesis by (simp add: dec_digits.simps [of n])
  qed
qed

lemma ParseUint_FormatUint [simp]: "ParseUint (FormatUint n) = Inr n"
proof -
  have "unat n < 2 ^ 64" using unsigned_less [of n] by simp
  then show ?thesis
    using dec_digits_props [of "unat n"] by (simp add: ParseUint_Inr_iff FormatUint_def)
qed

lemma FormatUint_inject [simp]: "FormatUint m = FormatUint n \<longleftrightarrow> m = n"
  by (metis ParseUint_FormatUint sum.inject(2))

end
