(* ===== verification/Go_Json.thy ===== *)
theory Go_Json
  imports Go_Strings
begin

text \<open>
  JSON values and the part of \<open>encoding/json\<close> that fills Go values from them. A number is
  kept as its literal, as the decoder does until it knows the target's type. A decoder for
  a Go type takes the JSON value and the old value of the target and gives the new one, or
  \<open>None\<close> where \<open>Unmarshal\<close> reports a type error: null leaves a string, number, boolean or
  struct as it is and sets a slice or an interface to nil, members are matched to fields by
  name without regard to case, unknown members are skipped, and a member that occurs twice
  is stored twice, in order.

  The scanner from text to values is in \<open>Go_Json_Text\<close>.
\<close>

datatype json =
    JNull
  | JBool bool
  | JNum string
  | JStr string
  | JArr "json list"
  | JObj "(string \<times> json) list"

type_synonym 'a decoder = "json \<Rightarrow> 'a \<Rightarrow> 'a option"

fun dec_string :: "string decoder" where
  "dec_string (JStr s) old = Some s"
| "dec_string JNull old = Some old"
| "dec_string _ old = None"

fun dec_bool :: "bool decoder" where
  "dec_bool (JBool b) old = Some b"
| "dec_bool JNull old = Some old"
| "dec_bool _ old = None"

text \<open>Into \<open>int\<close> and \<open>int64\<close>: the literal must be an integer of 64 bits.\<close>

fun dec_int64 :: "int decoder" where
  "dec_int64 (JNum lit) old = (case ParseInt lit of Inl _ \<Rightarrow> None | Inr i \<Rightarrow> Some i)"
| "dec_int64 JNull old = Some old"
| "dec_int64 _ old = None"

text \<open>
  Into \<open>any\<close>: the value itself, null being nil. A number must fit \<open>float64\<close>: its magnitude
  rounds to infinity from 2^1024 - 2^970 on, and exponents are read up to ten thousand.
\<close>

definition cap_exponent :: "nat \<Rightarrow> nat" where
  "cap_exponent e = (if e < 10000 then e else 10000)"

definition float64_overflows :: "string \<Rightarrow> bool" where
  "float64_overflows lit =
     (let body = dropWhile (\<lambda>c. c = CHR ''-'') lit;
          mant = takeWhile (\<lambda>c. c \<noteq> CHR ''e'' \<and> c \<noteq> CHR ''E'') body;
          expo = drop (Suc (length mant)) body;
          ip = takeWhile is_digit mant;
          fp = drop (Suc (length ip)) mant;
          m = dec_val 0 (ip @ fp);
          neg = prefix ''-'' expo;
          e = cap_exponent (dec_val 0 (filter is_digit expo));
          bound = 2 ^ 1024 - 2 ^ 970;
          num = (if neg then m else m * 10 ^ e);
          den = 10 ^ length fp * (if neg then 10 ^ e else 1)
      in bound * den \<le> num)"

fun floats_fit :: "json \<Rightarrow> bool" where
  "floats_fit (JNum lit) = (\<not> float64_overflows lit)"
| "floats_fit (JArr js) = list_all floats_fit js"
| "floats_fit (JObj kvs) = list_all (\<lambda>(_, j). floats_fit j) kvs"
| "floats_fit _ = True"

definition dec_any :: "json decoder" where
  "dec_any j old = (if floats_fit j then Some j else None)"

text \<open>Into \<open>[]string\<close> and \<open>[]json.RawMessage\<close>.\<close>

fun dec_strings :: "string slice decoder" where
  "dec_strings (JArr js) old = map_option Some (map_opt (\<lambda>j. dec_string j []) js)"
| "dec_strings JNull old = Some None"
| "dec_strings _ old = None"

fun dec_raws :: "json slice decoder" where
  "dec_raws (JArr js) old = Some (Some js)"
| "dec_raws JNull old = Some None"
| "dec_raws _ old = None"

text \<open>
  Member names fold case: ASCII letters, and the two code points beyond ASCII that fold to
  one (U+017F, the long s, and U+212A, the Kelvin sign).
\<close>

definition ascii_upper :: "char \<Rightarrow> char" where
  "ascii_upper c =
     (let n = of_char c :: nat in if 97 \<le> n \<and> n \<le> 122 then char_of (n - 32) else c)"

fun foldName :: "string \<Rightarrow> string" where
  "foldName [] = []"
| "foldName (c # cs) =
     (if c = CHR 0xC5 \<and> prefix [CHR 0xBF] cs then CHR ''S'' # foldName (drop 1 cs)
      else if c = CHR 0xE2 \<and> prefix [CHR 0x84, CHR 0xAA] cs then CHR ''K'' # foldName (drop 2 cs)
      else ascii_upper c # foldName cs)"

text \<open>A struct: its fields in order, each a name and a decoder that works on the record.\<close>

type_synonym 'a field = "string \<times> 'a decoder"

definition dec_member :: "'a field list \<Rightarrow> string \<Rightarrow> json \<Rightarrow> 'a \<Rightarrow> 'a option" where
  "dec_member fs k j r =
     (case find (\<lambda>(name, _). foldName name = foldName k) fs of
        None \<Rightarrow> Some r
      | Some (_, d) \<Rightarrow> d j r)"

fun dec_members :: "'a field list \<Rightarrow> (string \<times> json) list \<Rightarrow> 'a \<Rightarrow> 'a option" where
  "dec_members fs [] r = Some r"
| "dec_members fs ((k, j) # kvs) r =
     (case dec_member fs k j r of None \<Rightarrow> None | Some r' \<Rightarrow> dec_members fs kvs r')"

fun dec_struct :: "'a field list \<Rightarrow> 'a decoder" where
  "dec_struct fs (JObj kvs) r = dec_members fs kvs r"
| "dec_struct fs JNull r = Some r"
| "dec_struct fs _ r = None"

lemmas json_decode_simps =
  dec_member_def dec_any_def ascii_upper_def

text \<open>Encoding: nil slices are null; \<open>omitempty\<close> drops empty members.\<close>

definition enc_strings :: "string slice \<Rightarrow> json" where
  "enc_strings xs = (case xs of None \<Rightarrow> JNull | Some ss \<Rightarrow> JArr (map JStr ss))"

definition omit_string :: "string \<Rightarrow> string \<Rightarrow> (string \<times> json) list" where
  "omit_string k s = (if s = [] then [] else [(k, JStr s)])"

definition omit_strings :: "string \<Rightarrow> string slice \<Rightarrow> (string \<times> json) list" where
  "omit_strings k xs =
     (case xs of Some (s # ss) \<Rightarrow> [(k, JArr (map JStr (s # ss)))] | _ \<Rightarrow> [])"

text \<open>
  \<open>FormatInt\<close>, for the numbers of a response.
\<close>

definition FormatInt :: "int \<Rightarrow> string" where
  "FormatInt i = (if i < 0 then CHR ''-'' # dec_digits (nat (- i)) else dec_digits (nat i))"

definition omit_int :: "string \<Rightarrow> int \<Rightarrow> (string \<times> json) list" where
  "omit_int k i = (if i = 0 then [] else [(k, JNum (FormatInt i))])"

definition omit_bool :: "string \<Rightarrow> bool \<Rightarrow> (string \<times> json) list" where
  "omit_bool k b = (if b then [(k, JBool True)] else [])"

end
