(* ===== verification/Model.thy ===== *)
theory Model
  imports Go_Json
begin

text \<open>
  The REST types of \<open>internal/model\<close>: one record per struct, with the JSON encoding of the
  response types (member names, order, \<open>omitempty\<close>) and the decoders of the request types,
  both read off the struct tags.
\<close>

section \<open>Devices (model/device.go)\<close>

record Device =
  dev_ID :: string
  dev_Addresses :: "string slice"
  dev_Name :: string
  dev_Hostname :: string
  dev_ClientVersion :: string
  dev_UpdateAvailable :: bool
  dev_FullyQualifiedDomainName :: string
  dev_OS :: string
  dev_Created :: string
  dev_LastSeen :: string
  dev_KeyExpiryDisabled :: bool
  dev_Expires :: string
  dev_Authorized :: bool
  dev_IsExternal :: bool
  dev_MachineKey :: string
  dev_NodeKey :: string
  dev_User :: string
  dev_Tags :: "string slice"
  dev_BlocksIncomingConnections :: bool

definition zero_Device :: Device where
  "zero_Device =
     \<lparr>dev_ID = [], dev_Addresses = None, dev_Name = [], dev_Hostname = [],
      dev_ClientVersion = [], dev_UpdateAvailable = False, dev_FullyQualifiedDomainName = [],
      dev_OS = [], dev_Created = [], dev_LastSeen = [], dev_KeyExpiryDisabled = False,
      dev_Expires = [], dev_Authorized = False, dev_IsExternal = False, dev_MachineKey = [],
      dev_NodeKey = [], dev_User = [], dev_Tags = None, dev_BlocksIncomingConnections = False\<rparr>"

definition enc_Device :: "Device \<Rightarrow> json" where
  "enc_Device d = JObj (
     [(''id'', JStr (dev_ID d)),
      (''addresses'', enc_strings (dev_Addresses d)),
      (''name'', JStr (dev_Name d)),
      (''hostname'', JStr (dev_Hostname d)),
      (''clientVersion'', JStr (dev_ClientVersion d)),
      (''updateAvailable'', JBool (dev_UpdateAvailable d))]
     @ omit_string ''fqdn'' (dev_FullyQualifiedDomainName d) @
     [(''os'', JStr (dev_OS d)),
      (''created'', JStr (dev_Created d)),
      (''lastSeen'', JStr (dev_LastSeen d)),
      (''keyExpiryDisabled'', JBool (dev_KeyExpiryDisabled d)),
      (''expires'', JStr (dev_Expires d)),
      (''authorized'', JBool (dev_Authorized d)),
      (''isExternal'', JBool (dev_IsExternal d)),
      (''machineKey'', JStr (dev_MachineKey d)),
      (''nodeKey'', JStr (dev_NodeKey d)),
      (''user'', JStr (dev_User d)),
      (''tags'', enc_strings (dev_Tags d)),
      (''blocksIncomingConnections'', JBool (dev_BlocksIncomingConnections d))])"

record DeviceList =
  dl_Devices :: "Device list"

definition enc_DeviceList :: "DeviceList \<Rightarrow> json" where
  "enc_DeviceList l = JObj [(''devices'', JArr (map enc_Device (dl_Devices l)))]"

record DeviceRoutes =
  dr_AdvertisedRoutes :: "string slice"
  dr_EnabledRoutes :: "string slice"

definition enc_DeviceRoutes :: "DeviceRoutes \<Rightarrow> json" where
  "enc_DeviceRoutes r = JObj
     [(''advertisedRoutes'', enc_strings (dr_AdvertisedRoutes r)),
      (''enabledRoutes'', enc_strings (dr_EnabledRoutes r))]"

text \<open>A struct field as a decoder on the record, from its getter and its update function.\<close>

definition field :: "string \<Rightarrow> 'b decoder \<Rightarrow> ('a \<Rightarrow> 'b) \<Rightarrow> (('b \<Rightarrow> 'b) \<Rightarrow> 'a \<Rightarrow> 'a) \<Rightarrow> 'a field" where
  "field k d get upd = (k, \<lambda>j r. map_option (\<lambda>v. upd (\<lambda>_. v) r) (d j (get r)))"

record DeviceRoutesRequest =
  drr_Routes :: "string slice"

definition dec_DeviceRoutesRequest :: "DeviceRoutesRequest decoder" where
  "dec_DeviceRoutesRequest =
     dec_struct [field ''routes'' dec_strings drr_Routes drr_Routes_update]"

record DeviceTagsRequest =
  dtr_Tags :: "string slice"

definition dec_DeviceTagsRequest :: "DeviceTagsRequest decoder" where
  "dec_DeviceTagsRequest = dec_struct [field ''tags'' dec_strings dtr_Tags dtr_Tags_update]"

record DeviceNameRequest =
  dnr_Name :: string

definition dec_DeviceNameRequest :: "DeviceNameRequest decoder" where
  "dec_DeviceNameRequest = dec_struct [field ''name'' dec_string dnr_Name dnr_Name_update]"

record DeviceAuthorizeRequest =
  dar_Authorized :: bool

definition dec_DeviceAuthorizeRequest :: "DeviceAuthorizeRequest decoder" where
  "dec_DeviceAuthorizeRequest =
     dec_struct [field ''authorized'' dec_bool dar_Authorized dar_Authorized_update]"

section \<open>Auth keys (model/key.go)\<close>

record KeyCapabilityDevicesCreate =
  kc_Reusable :: bool
  kc_Ephemeral :: bool
  kc_Preauthorized :: bool
  kc_Tags :: "string slice"

record KeyCapabilityDevices =
  kcd_Create :: KeyCapabilityDevicesCreate

record KeyCapability =
  kcap_Devices :: KeyCapabilityDevices

definition zero_KeyCapability :: KeyCapability where
  "zero_KeyCapability =
     \<lparr>kcap_Devices = \<lparr>kcd_Create =
        \<lparr>kc_Reusable = False, kc_Ephemeral = False, kc_Preauthorized = False, kc_Tags = None\<rparr>\<rparr>\<rparr>"

definition enc_KeyCapabilityDevicesCreate :: "KeyCapabilityDevicesCreate \<Rightarrow> json" where
  "enc_KeyCapabilityDevicesCreate c = JObj (
     [(''reusable'', JBool (kc_Reusable c)),
      (''ephemeral'', JBool (kc_Ephemeral c)),
      (''preauthorized'', JBool (kc_Preauthorized c))]
     @ omit_strings ''tags'' (kc_Tags c))"

definition enc_KeyCapability :: "KeyCapability \<Rightarrow> json" where
  "enc_KeyCapability k =
     JObj [(''devices'',
       JObj [(''create'', enc_KeyCapabilityDevicesCreate (kcd_Create (kcap_Devices k)))])]"

definition dec_KeyCapabilityDevicesCreate :: "KeyCapabilityDevicesCreate decoder" where
  "dec_KeyCapabilityDevicesCreate = dec_struct
     [field ''reusable'' dec_bool kc_Reusable kc_Reusable_update,
      field ''ephemeral'' dec_bool kc_Ephemeral kc_Ephemeral_update,
      field ''preauthorized'' dec_bool kc_Preauthorized kc_Preauthorized_update,
      field ''tags'' dec_strings kc_Tags kc_Tags_update]"

definition dec_KeyCapabilityDevices :: "KeyCapabilityDevices decoder" where
  "dec_KeyCapabilityDevices = dec_struct
     [field ''create'' dec_KeyCapabilityDevicesCreate kcd_Create kcd_Create_update]"

definition dec_KeyCapability :: "KeyCapability decoder" where
  "dec_KeyCapability = dec_struct
     [field ''devices'' dec_KeyCapabilityDevices kcap_Devices kcap_Devices_update]"

record Key =
  key_ID :: string
  key_Key :: string
  key_Description :: string
  key_Created :: string
  key_Expires :: string
  key_Revoked :: string
  key_Invalid :: bool
  key_Capabilities :: KeyCapability

definition enc_Key :: "Key \<Rightarrow> json" where
  "enc_Key k = JObj (
     [(''id'', JStr (key_ID k))]
     @ omit_string ''key'' (key_Key k)
     @ omit_string ''description'' (key_Description k) @
     [(''created'', JStr (key_Created k)),
      (''expires'', JStr (key_Expires k))]
     @ omit_string ''revoked'' (key_Revoked k) @
     [(''invalid'', JBool (key_Invalid k)),
      (''capabilities'', enc_KeyCapability (key_Capabilities k))])"

record KeyList =
  kl_Keys :: "Key list"

definition enc_KeyList :: "KeyList \<Rightarrow> json" where
  "enc_KeyList l = JObj [(''keys'', JArr (map enc_Key (kl_Keys l)))]"

text \<open>\<open>ExpirySeconds\<close> is a Go \<open>int\<close>, 64 bits wide; the source multiplies it.\<close>

record CreateKeyRequest =
  ckr_Capabilities :: KeyCapability
  ckr_ExpirySeconds :: "64 word"
  ckr_Description :: string

definition zero_CreateKeyRequest :: CreateKeyRequest where
  "zero_CreateKeyRequest =
     \<lparr>ckr_Capabilities = zero_KeyCapability, ckr_ExpirySeconds = 0, ckr_Description = []\<rparr>"

definition dec_int :: "64 word decoder" where
  "dec_int j old = map_option word_of_int (dec_int64 j (sint old))"

definition dec_CreateKeyRequest :: "CreateKeyRequest decoder" where
  "dec_CreateKeyRequest = dec_struct
     [field ''capabilities'' dec_KeyCapability ckr_Capabilities ckr_Capabilities_update,
      field ''expirySeconds'' dec_int ckr_ExpirySeconds ckr_ExpirySeconds_update,
      field ''description'' dec_string ckr_Description ckr_Description_update]"

section \<open>Users (model/user.go)\<close>

record User =
  usr_ID :: string
  usr_DisplayName :: string
  usr_LoginName :: string
  usr_ProfilePicURL :: string
  usr_TailnetID :: string
  usr_Created :: string
  usr_Role :: string
  usr_Status :: string
  usr_DeviceCount :: int
  usr_CurrentlyConnected :: bool

definition enc_User :: "User \<Rightarrow> json" where
  "enc_User u = JObj (
     [(''id'', JStr (usr_ID u)),
      (''displayName'', JStr (usr_DisplayName u)),
      (''loginName'', JStr (usr_LoginName u))]
     @ omit_string ''profilePicUrl'' (usr_ProfilePicURL u)
     @ omit_string ''tailnetId'' (usr_TailnetID u) @
     [(''created'', JStr (usr_Created u))]
     @ omit_string ''role'' (usr_Role u)
     @ omit_string ''status'' (usr_Status u)
     @ omit_int ''deviceCount'' (usr_DeviceCount u)
     @ omit_bool ''currentlyConnected'' (usr_CurrentlyConnected u))"

record UserList =
  ul_Users :: "User list"

definition enc_UserList :: "UserList \<Rightarrow> json" where
  "enc_UserList l = JObj [(''users'', JArr (map enc_User (ul_Users l)))]"

section \<open>Errors (model/error.go)\<close>

record Error =
  err_Message :: string

definition enc_Error :: "Error \<Rightarrow> json" where
  "enc_Error e = JObj [(''message'', JStr (err_Message e))]"

lemmas model_enc_defs =
  enc_Device_def enc_DeviceList_def enc_DeviceRoutes_def enc_KeyCapabilityDevicesCreate_def
  enc_KeyCapability_def enc_Key_def enc_KeyList_def enc_User_def enc_UserList_def enc_Error_def

lemmas model_dec_defs =
  dec_DeviceRoutesRequest_def dec_DeviceTagsRequest_def dec_DeviceNameRequest_def
  dec_DeviceAuthorizeRequest_def dec_KeyCapabilityDevicesCreate_def
  dec_KeyCapabilityDevices_def dec_KeyCapability_def dec_CreateKeyRequest_def field_def

end
