(* ===== verification/Go_Base64.thy ===== *)
theory Go_Base64
  imports Go_Strings
begin

text \<open>
  Go's \<open>encoding/base64\<close> as the source uses it: \<open>RawURLEncoding\<close> (the URL alphabet, no
  padding) for tokens, JWTs and JWKs, and the decoder of \<open>StdEncoding\<close> (padded) that
  \<open>net/http\<close>'s \<open>BasicAuth\<close> runs. Decoding is Go's, not strict: carriage returns and line
  feeds are skipped wherever they stand, and the unused low bits of the last sextet are not
  checked. A locale states what an encoding promises its users; it is interpreted on the raw
  URL encoding and on the decimal printing of identifiers.
\<close>

section \<open>Round-trip encodings\<close>

text \<open>
  The contract of an encoder and its decoder, and what follows for the users of one: an
  encoding is injective, and a decoder that is asked about an encoded value finds just it.
\<close>

locale encoding =
  fixes enc :: "'a \<Rightarrow> string"
    and dec :: "string \<Rightarrow> 'a option"
  assumes dec_enc: "dec (enc x) = Some x"
begin

lemma enc_inject: "enc x = enc y \<longleftrightarrow> x = y"
  by (metis dec_enc option.inject)

lemma dec_enc_iff: "dec (enc x) = Some y \<longleftrightarrow> x = y"
  by (simp add: dec_enc)

lemma find_enc_unique:
  assumes "distinct (map f xs)" and "x \<in> set xs"
  shows "find (\<lambda>y. enc (f y) = enc (f x)) xs = Some x"
  using assms by (induction xs) (auto simp: enc_inject rev_image_eqI)

end

interpretation decimal: encoding FormatUint "\<lambda>s. case ParseUint s of Inl _ \<Rightarrow> None | Inr n \<Rightarrow> Some n"
  by unfold_locales simp

section \<open>The alphabets\<close>

definition encodeURL :: string where
  "encodeURL = ''ABCDEFGHIJKLMNOPQRSTUVWXYZabcdefghijklmnopqrstuvwxyz0123456789-_''"

definition encodeStd :: string where
  "encodeStd = ''ABCDEFGHIJKLMNOPQRSTUVWXYZabcdefghijklmnopqrstuvwxyz0123456789+/''"

lemma encodeURL_props: "distinct encodeURL" "length encodeURL = 64"
  by (simp_all add: encodeURL_def)

section \<open>Encoding\<close>

text \<open>Three bytes make a number of 24 bits, printed as four sextets from the top.\<close>

text \<open>\<open>(v >> k) & 0x3F\<close>.\<close>

definition sextet :: "nat \<Rightarrow> nat \<Rightarrow> nat" where
  "sextet v k = v div 2 ^ k mod 64"

lemma sextet_less: "sextet v k < 64"
  by (simp add: sextet_def)

fun encode_raw :: "string \<Rightarrow> bytes \<Rightarrow> string" where
  "encode_raw al [] = []"
| "encode_raw al [a] =
     (let v = of_char a * 65536 :: nat
      in [al ! sextet v 18, al ! sextet v 12])"
| "encode_raw al [a, b] =
     (let v = of_char a * 65536 + of_char b * 256 :: nat
      in [al ! sextet v 18, al ! sextet v 12, al ! sextet v 6])"
| "encode_raw al (a # b # c # rest) =
     (let v = of_char a * 65536 + of_char b * 256 + of_char c :: nat
      in al ! sextet v 18 # al ! sextet v 12
         # al ! sextet v 6 # al ! sextet v 0 # encode_raw al rest)"

definition RawURLEncode :: "bytes \<Rightarrow> string" where
  "RawURLEncode bs = encode_raw encodeURL bs"

section \<open>Decoding\<close>

definition strip_newlines :: "string \<Rightarrow> string" where
  "strip_newlines s = filter (\<lambda>c. c \<noteq> CHR 0x0A \<and> c \<noteq> CHR 0x0D) s"

text \<open>
  The quanta of four sextets. At the end of the input the raw decoder takes two sextets for
  one byte and three for two, and refuses a single one.
\<close>

definition byte_of :: "nat \<Rightarrow> char" where
  "byte_of n = char_of (n mod 256)"

lemma byte_of_of_char [simp]: "byte_of (of_char c) = c"
  by (simp add: byte_of_def)

lemma byte_of_shift [simp]: "byte_of (256 * n + of_char c) = c"
  by (simp add: byte_of_def)

fun decode_sextets :: "nat list \<Rightarrow> bytes option" where
  "decode_sextets [] = Some []"
| "decode_sextets [s] = None"
| "decode_sextets [s0, s1] =
     (let v = s0 * 262144 + s1 * 4096 in Some [byte_of (v div 65536)])"
| "decode_sextets [s0, s1, s2] =
     (let v = s0 * 262144 + s1 * 4096 + s2 * 64
      in Some [byte_of (v div 65536), byte_of (v div 256)])"
| "decode_sextets (s0 # s1 # s2 # s3 # rest) =
     (let v = s0 * 262144 + s1 * 4096 + s2 * 64 + s3
      in map_option (\<lambda>bs. byte_of (v div 65536) # byte_of (v div 256) # byte_of v # bs)
           (decode_sextets rest))"

definition decode_raw :: "string \<Rightarrow> string \<Rightarrow> bytes option" where
  "decode_raw al s =
     (case map_opt (\<lambda>c. index_of c al) (strip_newlines s) of
        None \<Rightarrow> None
      | Some ss \<Rightarrow> decode_sextets ss)"

definition RawURLDecode :: "string \<Rightarrow> bytes option" where
  "RawURLDecode s = decode_raw encodeURL s"

text \<open>
  The padded decoder: after the newlines are skipped the length is a multiple of four, and
  the last quantum may end in one or two \<open>=\<close>, with nothing after them.
\<close>

definition StdDecode :: "string \<Rightarrow> bytes option" where
  "StdDecode s =
     (let t = strip_newlines s; n = length t
      in if n mod 4 \<noteq> 0 then None
         else if n = 0 then Some []
         else if suffix ''=='' t then decode_raw encodeStd (take (n - 2) t)
         else if suffix ''='' t then decode_raw encodeStd (take (n - 1) t)
         else decode_raw encodeStd t)"

section \<open>Round trip\<close>

lemma encode_raw_set: "length al = 64 \<Longrightarrow> set (encode_raw al bs) \<subseteq> set al"
  by (induction al bs rule: encode_raw.induct) (auto simp: Let_def sextet_less)

lemma strip_encodeURL: "strip_newlines (RawURLEncode bs) = RawURLEncode bs"
proof -
  have "set (RawURLEncode bs) \<subseteq> set encodeURL"
    unfolding RawURLEncode_def by (rule encode_raw_set [OF encodeURL_props(2)])
  moreover have "CHR 0x0A \<notin> set encodeURL" "CHR 0x0D \<notin> set encodeURL"
    by (simp_all add: encodeURL_def)
  ultimately show ?thesis
    unfolding strip_newlines_def by (intro filter_True) blast
qed

lemma regroup24:
  assumes "v < 16777216"
  shows "sextet v 18 * 262144 + sextet v 12 * 4096 + sextet v 6 * 64 + sextet v 0 = v"
proof -
  define q1 q2 q3 where "q1 = v div 64" and "q2 = q1 div 64" and "q3 = q2 div 64"
  have d: "v div 4096 = q2" "v div 262144 = q3"
    by (simp_all add: q1_def q2_def q3_def flip: div_mult2_eq)
  have "q3 < 64" using assms by (simp add: d(2) [symmetric] less_mult_imp_div_less)
  moreover have "v = 64 * q1 + v mod 64" "q1 = 64 * q2 + q1 mod 64" "q2 = 64 * q3 + q2 mod 64"
    by (simp_all add: q1_def q2_def q3_def)
  moreover have "sextet v 18 = q3 mod 64" "sextet v 12 = q2 mod 64" "sextet v 6 = q1 mod 64"
    "sextet v 0 = v mod 64" by (simp_all add: sextet_def d q1_def)
  ultimately show ?thesis by simp
qed

lemma bytes24:
  fixes a b c :: nat
  assumes "a < 256" "b < 256" "c < 256"
  shows "(a * 65536 + b * 256 + c) div 65536 = a"
    and "(a * 65536 + b * 256 + c) div 256 mod 256 = b"
    and "(a * 65536 + b * 256 + c) mod 256 = c"
proof -
  have "(a * 65536 + b * 256 + c) div 256 = a * 256 + b"
    using assms by (intro div_nat_eqI) simp_all
  then show "(a * 65536 + b * 256 + c) div 256 mod 256 = b" using assms by simp
  show "(a * 65536 + b * 256 + c) div 65536 = a"
    using assms by (intro div_nat_eqI) simp_all
  have "a * 65536 + b * 256 + c = c + 256 * (a * 256 + b)" by simp
  then show "(a * 65536 + b * 256 + c) mod 256 = c" using assms by (simp only: mod_mult_self2) simp
qed

text \<open>One quantum: the sextets of 24 bits, read back, give the three bytes.\<close>

lemma char24_bound:
  "of_char a * 65536 + of_char b * 256 + of_char c < (16777216 :: nat)"
  using nat_of_char_less_256 [of a] nat_of_char_less_256 [of b] nat_of_char_less_256 [of c]
  by linarith

lemma quantum3:
  assumes v: "v = of_char a * 65536 + of_char b * 256 + (of_char c :: nat)"
  shows "sextet v 18 * 262144 + sextet v 12 * 4096 + sextet v 6 * 64 + sextet v 0 = v"
    and "byte_of (v div 65536) = a" and "byte_of (v div 256) = b" and "byte_of v = c"
proof -
  show "sextet v 18 * 262144 + sextet v 12 * 4096 + sextet v 6 * 64 + sextet v 0 = v"
    by (rule regroup24) (simp only: v char24_bound)
  show "byte_of (v div 65536) = a" "byte_of (v div 256) = b" "byte_of v = c"
    using bytes24 [OF nat_of_char_less_256 [of a] nat_of_char_less_256 [of b]
        nat_of_char_less_256 [of c]]
    by (simp_all add: v byte_of_def)
qed

lemma quantum2:
  assumes v: "v = of_char a * 65536 + of_char b * (256 :: nat)"
  shows "sextet v 18 * 262144 + sextet v 12 * 4096 + sextet v 6 * 64 = v"
    and "byte_of (v div 65536) = a" and "byte_of (v div 256) = b"
proof -
  have v0: "v = of_char a * 65536 + of_char b * 256 + of_char (char_of (0 :: nat))"
    using v by simp
  have "v = 64 * (of_char a * 1024 + of_char b * 4)" using v by simp
  then have "sextet v 0 = 0" by (simp add: sextet_def)
  with quantum3(1) [OF v0]
  show "sextet v 18 * 262144 + sextet v 12 * 4096 + sextet v 6 * 64 = v" by simp
  show "byte_of (v div 65536) = a" "byte_of (v div 256) = b" by (rule quantum3(2,3) [OF v0])+
qed

lemma quantum1:
  assumes v: "v = of_char a * (65536 :: nat)"
  shows "sextet v 18 * 262144 + sextet v 12 * 4096 = v"
    and "byte_of (v div 65536) = a"
proof -
  have v0: "v = of_char a * 65536 + of_char (char_of (0 :: nat)) * 256" using v by simp
  have "v div 64 = 64 * (of_char a * 16)" using v by simp
  then have "sextet v 6 = 0" by (simp add: sextet_def)
  with quantum2(1) [OF v0] show "sextet v 18 * 262144 + sextet v 12 * 4096 = v" by simp
  show "byte_of (v div 65536) = a" by (rule quantum2(2) [OF v0])
qed

lemma sextets_of_encoding:
  assumes "\<And>v k. index_of (al ! sextet v k) al = Some (sextet v k)"
  shows "\<exists>ss. map_opt (\<lambda>c. index_of c al) (encode_raw al bs) = Some ss \<and> decode_sextets ss = Some bs"
  using assms
proof (induction al bs rule: encode_raw.induct)
  case (1 al)
  then show ?case by simp
next
  case (2 al a)
  then show ?case by (simp add: Let_def quantum1)
next
  case (3 al a b)
  then show ?case by (simp add: Let_def quantum2)
next
  case (4 al a b c rest)
  from 4 obtain ss where "map_opt (\<lambda>c. index_of c al) (encode_raw al rest) = Some ss"
    and "decode_sextets ss = Some rest" by (auto simp: Let_def)
  with 4 show ?case by (simp add: Let_def quantum3)
qed

lemma RawURLDecode_Encode [simp]: "RawURLDecode (RawURLEncode bs) = Some bs"
proof -
  have "\<exists>ss. map_opt (\<lambda>c. index_of c encodeURL) (encode_raw encodeURL bs) = Some ss
      \<and> decode_sextets ss = Some bs"
    by (rule sextets_of_encoding) (simp add: index_of_nth encodeURL_props sextet_less)
  then show ?thesis
    by (auto simp: RawURLDecode_def decode_raw_def strip_encodeURL) (simp add: RawURLEncode_def)
qed

interpretation rawurl: encoding RawURLEncode RawURLDecode
  by unfold_locales simp

text \<open>The encoded form has no separator dot, and its length is fixed by the input's.\<close>

lemma RawURLEncode_no_dot: "CHR ''.'' \<notin> set (RawURLEncode bs)"
  using encode_raw_set [OF encodeURL_props(2), of bs]
  by (auto simp: RawURLEncode_def encodeURL_def)

lemma length_encode_raw:
  "length (encode_raw al bs) = length bs div 3 * 4 + (if length bs mod 3 = 0 then 0 else length bs mod 3 + 1)"
  by (induction al bs rule: encode_raw.induct) (simp_all add: Let_def div_add_self1)

end
