(* ===== verification/Go_Time.thy ===== *)
theory Go_Time
  imports Go_Strings
begin

text \<open>
  Go's \<open>time\<close> as the source uses it. An instant is the number of nanoseconds since the Unix
  epoch; a \<open>time.Duration\<close> is an \<open>int64\<close> of nanoseconds, kept at its width because the
  source multiplies a caller's number of seconds into one. Instants are printed in RFC 3339
  by way of the proleptic Gregorian calendar, always in UTC (the protobuf timestamps that
  the source prints are converted by \<open>AsTime\<close>, which returns UTC).
\<close>

type_synonym time = int
type_synonym duration = "64 word"

definition Second :: duration where
  "Second = 1000000000"

definition Hour :: duration where
  "Hour = 3600000000000"

text \<open>\<open>t.Add(d)\<close>, \<open>t.After(u)\<close>, \<open>t.Sub(u)\<close> (the last never near the bounds of \<open>int64\<close> here).\<close>

definition Add :: "time \<Rightarrow> duration \<Rightarrow> time" where
  "Add t d = t + sint d"

definition After :: "time \<Rightarrow> time \<Rightarrow> bool" where
  "After t u \<longleftrightarrow> u < t"

definition Since :: "time \<Rightarrow> time \<Rightarrow> int" where
  "Since now t = now - t"

definition Unix :: "time \<Rightarrow> int" where
  "Unix t = t div 1000000000"

text \<open>\<open>IsZero\<close>: January 1 of year 1, 00:00:00 UTC.\<close>

definition IsZero :: "time \<Rightarrow> bool" where
  "IsZero t \<longleftrightarrow> t = -62135596800 * 1000000000"

lemma Add_Hour [simp]: "Add t Hour = t + 3600000000000"
  by (simp add: Add_def Hour_def)

section \<open>The calendar\<close>

text \<open>
  The civil date of a day number (days since 1970-01-01): eras of 400 years starting on
  March 1, in which the leap days fall at the ends of the years.
\<close>

definition civil_of_days :: "int \<Rightarrow> int \<times> int \<times> int" where
  "civil_of_days z0 =
     (let z = z0 + 719468;
          era = z div 146097;
          doe = z mod 146097;
          yoe = (doe - doe div 1460 + doe div 36524 - doe div 146096) div 365;
          doy = doe - (365 * yoe + yoe div 4 - yoe div 100);
          mp = (5 * doy + 2) div 153;
          d = doy - (153 * mp + 2) div 5 + 1;
          m = (if mp < 10 then mp + 3 else mp - 9)
      in (yoe + era * 400 + (if m \<le> 2 then 1 else 0), m, d))"

text \<open>Zero-padded decimals, and the layout \<open>2006-01-02T15:04:05Z07:00\<close> at offset 0.\<close>

definition pad_nat :: "nat \<Rightarrow> nat \<Rightarrow> string" where
  "pad_nat w n = (let s = dec_digits n in replicate (w - length s) CHR ''0'' @ s)"

definition append_int :: "int \<Rightarrow> nat \<Rightarrow> string" where
  "append_int x w = (if x < 0 then CHR ''-'' # pad_nat w (nat (- x)) else pad_nat w (nat x))"

definition FormatRFC3339 :: "time \<Rightarrow> string" where
  "FormatRFC3339 t =
     (let secs = Unix t;
          (y, m, d) = civil_of_days (secs div 86400);
          sod = secs mod 86400
      in append_int y 4 @ ''-'' @ append_int m 2 @ ''-'' @ append_int d 2
         @ ''T'' @ append_int (sod div 3600) 2 @ '':'' @ append_int (sod div 60 mod 60) 2
         @ '':'' @ append_int (sod mod 60) 2 @ ''Z'')"

end
