(* ===== verification/Go_Json_Text.thy ===== *)
theory Go_Json_Text
  imports Go_Json
begin

text \<open>
  The scanner of \<open>encoding/json\<close>: from text to values. \<open>json_Unmarshal\<close> wants one value with
  nothing but space after it; \<open>json_Decode\<close> (\<open>NewDecoder(r).Decode\<close>) takes the first value
  of the stream and ignores what follows. Nesting is limited to 10000 levels. Strings are
  unquoted as the package does it: escapes and surrogate pairs become UTF-8, bytes that are
  not UTF-8 become U+FFFD. The parser runs on fuel; \<open>json_fuel\<close> is enough, by
  \<open>parse_value_fuel\<close>.
\<close>

section \<open>UTF-8\<close>

abbreviation byte_val :: "char \<Rightarrow> int" where
  "byte_val c \<equiv> of_char c"

definition in_range :: "int \<Rightarrow> int \<Rightarrow> char \<Rightarrow> bool" where
  "in_range lo hi c \<longleftrightarrow> lo \<le> byte_val c \<and> byte_val c \<le> hi"

text \<open>The length of the encoded rune at the front of a text, 0 where there is none.\<close>

fun utf8_len :: "string \<Rightarrow> nat" where
  "utf8_len [] = 0"
| "utf8_len (c # cs) =
     (if in_range 0 0x7F c then 1
      else
        (case cs of
           [] \<Rightarrow> 0
         | c1 # cs1 \<Rightarrow>
             if in_range 0xC2 0xDF c \<and> in_range 0x80 0xBF c1 then 2
             else
               (case cs1 of
                  [] \<Rightarrow> 0
                | c2 # cs2 \<Rightarrow>
                    if (in_range 0xE0 0xE0 c \<and> in_range 0xA0 0xBF c1
                        \<or> in_range 0xE1 0xEC c \<and> in_range 0x80 0xBF c1
                        \<or> in_range 0xED 0xED c \<and> in_range 0x80 0x9F c1
                        \<or> in_range 0xEE 0xEF c \<and> in_range 0x80 0xBF c1)
                       \<and> in_range 0x80 0xBF c2 then 3
                    else
                      (case cs2 of
                         [] \<Rightarrow> 0
                       | c3 # _ \<Rightarrow>
                           if (in_range 0xF0 0xF0 c \<and> in_range 0x90 0xBF c1
                               \<or> in_range 0xF1 0xF3 c \<and> in_range 0x80 0xBF c1
                               \<or> in_range 0xF4 0xF4 c \<and> in_range 0x80 0x8F c1)
                              \<and> in_range 0x80 0xBF c2 \<and> in_range 0x80 0xBF c3 then 4
                           else 0))))"

definition RuneError :: string where
  "RuneError = [CHR 0xEF, CHR 0xBF, CHR 0xBD]"

definition utf8_encode :: "int \<Rightarrow> string" where
  "utf8_encode r =
     (if r < 0x80 then [char_of r]
      else if r < 0x800 then [char_of (0xC0 + r div 64), char_of (0x80 + r mod 64)]
      else if r < 0x10000 then
        [char_of (0xE0 + r div 4096), char_of (0x80 + r div 64 mod 64), char_of (0x80 + r mod 64)]
      else
        [char_of (0xF0 + r div 262144), char_of (0x80 + r div 4096 mod 64),
         char_of (0x80 + r div 64 mod 64), char_of (0x80 + r mod 64)])"

section \<open>Strings\<close>

definition hex_val :: "char \<Rightarrow> int option" where
  "hex_val c =
     (if is_digit c then Some (byte_val c - 48)
      else if in_range 97 102 c then Some (byte_val c - 87)
      else if in_range 65 70 c then Some (byte_val c - 55)
      else None)"

fun hex4 :: "string \<Rightarrow> (int \<times> string) option" where
  "hex4 (a # b # c # d # rest) =
     (case (hex_val a, hex_val b, hex_val c, hex_val d) of
        (Some x, Some y, Some z, Some w) \<Rightarrow> Some (((x * 16 + y) * 16 + z) * 16 + w, rest)
      | _ \<Rightarrow> None)"
| "hex4 _ = None"

text \<open>\<open>getu4\<close>: a whole escape of four hexadecimal digits.\<close>

definition getu4 :: "string \<Rightarrow> (int \<times> string) option" where
  "getu4 s = (if prefix [CHR 0x5C, CHR ''u''] s then hex4 (drop 2 s) else None)"

text \<open>
  An escape of the unit \<open>r\<close> with \<open>s\<close> after it: a high surrogate takes the low one that
  follows along; a surrogate left alone is an error rune.
\<close>

definition unescape :: "int \<Rightarrow> string \<Rightarrow> string \<times> string" where
  "unescape r s =
     (if r < 0xD800 \<or> 0xE000 \<le> r then (utf8_encode r, s)
      else
        (case getu4 s of
           None \<Rightarrow> (RuneError, s)
         | Some (r1, rest) \<Rightarrow>
             if r < 0xDC00 \<and> 0xDC00 \<le> r1 \<and> r1 < 0xE000
             then (utf8_encode ((r - 0xD800) * 1024 + (r1 - 0xDC00) + 0x10000), rest)
             else (RuneError, s)))"

definition simple_escape :: "char \<Rightarrow> char option" where
  "simple_escape c =
     (if c = CHR 0x22 \<or> c = CHR 0x5C \<or> c = CHR ''/'' then Some c
      else if c = CHR ''b'' then Some (CHR 0x08)
      else if c = CHR ''f'' then Some (CHR 0x0C)
      else if c = CHR ''n'' then Some (CHR 0x0A)
      else if c = CHR ''r'' then Some (CHR 0x0D)
      else if c = CHR ''t'' then Some (CHR 0x09)
      else None)"

lemma hex4_length: "hex4 s = Some (r, rest) \<Longrightarrow> length rest < length s"
  by (induction s rule: hex4.induct) (auto split: option.splits)

lemma unescape_length: "unescape r s = (u, rest) \<Longrightarrow> length rest \<le> length s"
  by (auto simp: unescape_def getu4_def split: if_splits option.splits dest!: hex4_length)

text \<open>The rest of a string literal, after its opening quote.\<close>

function parse_string :: "string \<Rightarrow> (string \<times> string) option" where
  "parse_string [] = None"
| "parse_string (c # cs) =
     (if c = CHR 0x22 then Some ([], cs)
      else if c = CHR 0x5C then
        (case cs of
           [] \<Rightarrow> None
         | e # cs' \<Rightarrow>
             if e = CHR ''u'' then
               (case hex4 cs' of
                  None \<Rightarrow> None
                | Some (r, cs'') \<Rightarrow>
                    map_option (\<lambda>(t, rest). (fst (unescape r cs'') @ t, rest))
                      (parse_string (snd (unescape r cs''))))
             else
               (case simple_escape e of
                  None \<Rightarrow> None
                | Some b \<Rightarrow> map_option (\<lambda>(t, rest). (b # t, rest)) (parse_string cs')))
      else if byte_val c < 0x20 then None
      else
        (let n = utf8_len (c # cs)
         in if n = 0 then map_option (\<lambda>(t, rest). (RuneError @ t, rest)) (parse_string cs)
            else map_option (\<lambda>(t, rest). (c # take (n - 1) cs @ t, rest))
                   (parse_string (drop (n - 1) cs))))"
  by pat_completeness auto

lemma unescape_snd_length: "length (snd (unescape r s)) \<le> length s"
  using unescape_length [of r s] by (cases "unescape r s") auto

termination parse_string
proof (relation "measure length", goal_cases)
  case (2 c cs e cs' x r cs'')
  then show ?case
    using hex4_length [of cs'] unescape_snd_length [of r cs''] by auto
qed auto

lemma parse_string_length: "parse_string s = Some (t, rest) \<Longrightarrow> length rest < length s"
proof (induction s arbitrary: t rule: parse_string.induct)
  case 1
  then show ?case by simp
next
  case (2 c cs)
  consider (q) "c = CHR 0x22" | (u) cs' r cs'' where "c = CHR 0x5C" "cs = CHR ''u'' # cs'"
      "hex4 cs' = Some (r, cs'')"
    | (e) e cs' b where "c = CHR 0x5C" "cs = e # cs'" "e \<noteq> CHR ''u''" "simple_escape e = Some b"
    | (p) "c \<noteq> CHR 0x22" "c \<noteq> CHR 0x5C" "\<not> byte_val c < 0x20"
    using 2(5) by (auto simp: simp del: utf8_len.simps split: if_splits list.splits option.splits)
  then show ?case
  proof cases
    case q
    with 2(5) show ?thesis by simp
  next
    case u
    with 2(5) obtain t' where "parse_string (snd (unescape r cs'')) = Some (t', rest)" by auto
    with u 2(1) have "length rest < length (snd (unescape r cs''))" by auto
    with u hex4_length [OF u(3)] unescape_snd_length [of r cs''] show ?thesis by simp
  next
    case e
    with 2(5) obtain t' where "parse_string cs' = Some (t', rest)" by auto
    with e 2(2) have "length rest < length cs'" by auto
    with e show ?thesis by simp
  next
    case p
    show ?thesis
    proof (cases "utf8_len (c # cs) = 0")
      case True
      with p 2(5) obtain t' where "parse_string cs = Some (t', rest)"
        by (auto simp del: utf8_len.simps)
      with p True 2(3) have "length rest < length cs" by (auto simp del: utf8_len.simps)
      then show ?thesis by simp
    next
      case False
      with p 2(5) obtain t' where "parse_string (drop (utf8_len (c # cs) - 1) cs) = Some (t', rest)"
        by (auto simp: Let_def simp del: utf8_len.simps)
      with p False 2(4) have "length rest < length (drop (utf8_len (c # cs) - 1) cs)"
        by (auto simp del: utf8_len.simps)
      then show ?thesis by simp
    qed
  qed
qed

section \<open>Numbers\<close>

text \<open>The digits at the front, at least one.\<close>

definition digits1 :: "string \<Rightarrow> (string \<times> string) option" where
  "digits1 s =
     (let ds = takeWhile is_digit s
      in if ds = [] then None else Some (ds, dropWhile is_digit s))"

definition parse_int_part :: "string \<Rightarrow> (string \<times> string) option" where
  "parse_int_part s =
     (case s of
        [] \<Rightarrow> None
      | c # cs \<Rightarrow> if c = CHR ''0'' then Some ([c], cs) else digits1 s)"

definition parse_frac_part :: "string \<Rightarrow> (string \<times> string) option" where
  "parse_frac_part s =
     (case s of
        c # cs \<Rightarrow> if c = CHR ''.'' then map_option (\<lambda>(ds, r). (c # ds, r)) (digits1 cs) else Some ([], s)
      | [] \<Rightarrow> Some ([], s))"

definition parse_exp_part :: "string \<Rightarrow> (string \<times> string) option" where
  "parse_exp_part s =
     (case s of
        c # cs \<Rightarrow>
          if c = CHR ''e'' \<or> c = CHR ''E'' then
            (case cs of
               x # r \<Rightarrow>
                 if x = CHR ''+'' \<or> x = CHR ''-''
                 then map_option (\<lambda>(ds, r). (c # x # ds, r)) (digits1 r)
                 else map_option (\<lambda>(ds, r). (c # ds, r)) (digits1 cs)
             | [] \<Rightarrow> None)
          else Some ([], s)
      | [] \<Rightarrow> Some ([], s))"

definition and_then :: "(string \<times> string) option \<Rightarrow> (string \<Rightarrow> (string \<times> string) option) \<Rightarrow> (string \<times> string) option" where
  "and_then p q =
     (case p of
        None \<Rightarrow> None
      | Some (a, s) \<Rightarrow> (case q s of None \<Rightarrow> None | Some (b, r) \<Rightarrow> Some (a @ b, r)))"

definition parse_number :: "string \<Rightarrow> (string \<times> string) option" where
  "parse_number s =
     and_then (if prefix ''-'' s then Some (''-'', drop 1 s) else Some ([], s)) (\<lambda>s.
       and_then (parse_int_part s) (\<lambda>s. and_then (parse_frac_part s) parse_exp_part))"

lemma digits1_length: "digits1 s = Some (a, r) \<Longrightarrow> length r < length s"
  by (cases s) (auto simp: digits1_def Let_def le_imp_less_Suc length_dropWhile_le split: if_splits)

lemma number_parts_length:
  "parse_int_part s = Some (a, r) \<Longrightarrow> length r < length s"
  "parse_frac_part s = Some (a, r) \<Longrightarrow> length r \<le> length s"
  "parse_exp_part s = Some (a, r) \<Longrightarrow> length r \<le> length s"
  by (auto simp: parse_int_part_def parse_frac_part_def parse_exp_part_def
      split: list.splits if_splits dest!: digits1_length)

lemma parse_number_length: "parse_number s = Some (a, r) \<Longrightarrow> length r < length s"
  by (auto simp: parse_number_def and_then_def split: if_splits option.splits
      dest!: number_parts_length prefix_length_le) linarith

section \<open>Values\<close>

definition is_json_space :: "char \<Rightarrow> bool" where
  "is_json_space c \<longleftrightarrow> c \<in> {CHR '' '', CHR 0x09, CHR 0x0D, CHR 0x0A}"

definition skip_space :: "string \<Rightarrow> string" where
  "skip_space s = dropWhile is_json_space s"

lemma skip_space_length: "length (skip_space s) \<le> length s"
  by (simp add: skip_space_def length_dropWhile_le)

definition maxNestingDepth :: int where
  "maxNestingDepth = 10000"

text \<open>
  \<open>d\<close> counts the levels still allowed. \<open>parse_elems\<close> and \<open>parse_members\<close> read what follows
  the opening bracket of a non-empty array or object up to its closing one.
\<close>

fun parse_value :: "nat \<Rightarrow> int \<Rightarrow> string \<Rightarrow> (json \<times> string) option"
and parse_elems :: "nat \<Rightarrow> int \<Rightarrow> string \<Rightarrow> (json list \<times> string) option"
and parse_members :: "nat \<Rightarrow> int \<Rightarrow> string \<Rightarrow> ((string \<times> json) list \<times> string) option" where
  "parse_value 0 d s = None"
| "parse_value (Suc n) d s =
     (case skip_space s of
        [] \<Rightarrow> None
      | c # cs \<Rightarrow>
          if c = CHR 0x22 then map_option (\<lambda>(t, r). (JStr t, r)) (parse_string cs)
          else if c = CHR ''{'' then
            (if d = 0 then None
             else if prefix ''}'' (skip_space cs) then Some (JObj [], drop 1 (skip_space cs))
             else map_option (\<lambda>(kvs, r). (JObj kvs, r)) (parse_members n (d - 1) cs))
          else if c = CHR ''['' then
            (if d = 0 then None
             else if prefix '']'' (skip_space cs) then Some (JArr [], drop 1 (skip_space cs))
             else map_option (\<lambda>(js, r). (JArr js, r)) (parse_elems n (d - 1) cs))
          else if prefix ''true'' (c # cs) then Some (JBool True, drop 4 (c # cs))
          else if prefix ''false'' (c # cs) then Some (JBool False, drop 5 (c # cs))
          else if prefix ''null'' (c # cs) then Some (JNull, drop 4 (c # cs))
          else map_option (\<lambda>(lit, r). (JNum lit, r)) (parse_number (c # cs)))"
| "parse_elems 0 d s = None"
| "parse_elems (Suc n) d s =
     (case parse_value n d s of
        None \<Rightarrow> None
      | Some (j, r) \<Rightarrow>
          (case skip_space r of
             [] \<Rightarrow> None
           | c # r' \<Rightarrow>
               if c = CHR '']'' then Some ([j], r')
               else if c = CHR '','' then map_option (\<lambda>(js, r). (j # js, r)) (parse_elems n d r')
               else None))"
| "parse_members 0 d s = None"
| "parse_members (Suc n) d s =
     (case skip_space s of
        [] \<Rightarrow> None
      | q # s1 \<Rightarrow>
          if q \<noteq> CHR 0x22 then None
          else
            (case parse_string s1 of
               None \<Rightarrow> None
             | Some (k, s2) \<Rightarrow>
                 (case skip_space s2 of
                    [] \<Rightarrow> None
                  | col # s3 \<Rightarrow>
                      if col \<noteq> CHR '':'' then None
                      else
                        (case parse_value n d s3 of
                           None \<Rightarrow> None
                         | Some (j, r) \<Rightarrow>
                             (case skip_space r of
                                [] \<Rightarrow> None
                              | c # r' \<Rightarrow>
                                  if c = CHR ''}'' then Some ([(k, j)], r')
                                  else if c = CHR '','' then
                                    map_option (\<lambda>(kvs, r). ((k, j) # kvs, r)) (parse_members n d r')
                                  else None)))))"

text \<open>A parser consumes what it reads.\<close>

lemma skip_space_Cons_length: "skip_space s = c # cs \<Longrightarrow> Suc (length cs) \<le> length s"
  using skip_space_length [of s] by simp

lemma parse_length:
  "parse_value n d s = Some (j, r) \<Longrightarrow> length r < length s"
  "parse_elems n d s = Some (js, r) \<Longrightarrow> length r < length s"
  "parse_members n d s = Some (kvs, r) \<Longrightarrow> length r < length s"
proof (induction n d s and n d s and n d s arbitrary: j r and js r and kvs r
    rule: parse_value_parse_elems_parse_members.induct)
  case (2 n d s)
  then obtain c cs where s: "skip_space s = c # cs" by (auto split: list.splits)
  note le = skip_space_Cons_length [OF s]
  have cl: "length (skip_space cs) \<le> length cs" by (rule skip_space_length)
  note res = 2(3) [unfolded parse_value.simps s list.case]
  consider (str) "c = CHR 0x22" | (obj) "c \<noteq> CHR 0x22" "c = CHR ''{''"
    | (arr) "c \<noteq> CHR 0x22" "c \<noteq> CHR ''{''" "c = CHR ''[''"
    | (lit) "c \<noteq> CHR 0x22" "c \<noteq> CHR ''{''" "c \<noteq> CHR ''[''" by blast
  then have "length r \<le> length cs"
  proof cases
    case str
    with res show ?thesis by (auto dest: parse_string_length)
  next
    case obj
    with res cl 2(1) [OF s obj(1)] show ?thesis
      by (auto split: if_splits simp del: parse_members.simps)
  next
    case arr
    with res cl 2(2) [OF s arr(1)] show ?thesis
      by (auto split: if_splits simp del: parse_elems.simps)
  next
    case lit
    note res' = res [unfolded if_not_P [OF lit(1)] if_not_P [OF lit(2)] if_not_P [OF lit(3)]]
    show ?thesis
    proof (cases "prefix ''true'' (c # cs) \<or> prefix ''false'' (c # cs) \<or> prefix ''null'' (c # cs)")
      case True
      with res' have "r \<in> {drop 4 (c # cs), drop 5 (c # cs)}"
        by (simp only: split: if_splits) simp_all
      then show ?thesis by (auto simp: drop_Cons')
    next
      case False
      with res' obtain l where "parse_number (c # cs) = Some (l, r)"
        by (cases "parse_number (c # cs)") (auto simp only: option.map option.simps prod.case if_False de_Morgan_disj prod.simps)
      from parse_number_length [OF this] show ?thesis by simp
    qed
  qed
  with le show ?case by simp
next
  case (4 n d s)
  then obtain j r0 where j: "parse_value n d s = Some (j, r0)" by (auto split: option.splits)
  with 4 obtain c r' where r': "skip_space r0 = c # r'" by (auto split: list.splits)
  from 4(1) [OF j] have "length r0 < length s" .
  with skip_space_Cons_length [OF r'] have "Suc (length r') < length s" by simp
  moreover have "length r \<le> length r'"
    using 4(3) j r' 4(2) [OF j _ r'] by (fastforce split: if_splits)
  ultimately show ?case by simp
next
  case (6 n d s)
  then obtain q s1 where s1: "skip_space s = q # s1" by (auto split: list.splits)
  with 6 obtain k s2 where k: "q = CHR 0x22" "parse_string s1 = Some (k, s2)"
    by (auto split: if_splits option.splits)
  with 6 s1 obtain col s3 where s3: "skip_space s2 = col # s3" "col = CHR '':''"
    by (auto split: list.splits if_splits)
  with 6 s1 k obtain j r0 where j: "parse_value n d s3 = Some (j, r0)" by (auto split: option.splits)
  with 6 s1 k s3 obtain c r' where r': "skip_space r0 = c # r'" by (auto split: list.splits)
  have "length r0 < length s3" using 6(1) s1 k s3 j by simp
  with skip_space_Cons_length [OF s1] skip_space_Cons_length [OF s3(1)]
    skip_space_Cons_length [OF r'] parse_string_length [OF k(2)]
  have "Suc (length r') < length s" by simp
  moreover have "length r \<le> length r'"
    using 6(2,3) s1 k s3 j r' by (fastforce split: if_splits)
  ultimately show ?case by simp
qed simp_all

text \<open>Beyond twice the length of the text, more fuel changes nothing.\<close>

lemma parse_fuel:
  "2 * length s + 2 \<le> n \<Longrightarrow> parse_value (Suc n) d s = parse_value n d s"
  "2 * length s + 3 \<le> n \<Longrightarrow> parse_elems (Suc n) d s = parse_elems n d s"
  "2 * length s + 3 \<le> n \<Longrightarrow> parse_members (Suc n) d s = parse_members n d s"
proof (induction n arbitrary: s d)
  case 0
  { case 1 then show ?case by simp }
  { case 2 then show ?case by simp }
  { case 3 then show ?case by simp }
next
  case (Suc n)
  { case 1
    have IH: "parse_members (Suc n) (d - 1) cs = parse_members n (d - 1) cs"
      "parse_elems (Suc n) (d - 1) cs = parse_elems n (d - 1) cs"
      if "skip_space s = c # cs" for c cs
      using Suc.IH(2,3) [of cs] 1 skip_space_Cons_length [OF that] by simp_all
    show ?case
    proof (cases "skip_space s")
      case Nil
      then show ?thesis by (simp only: parse_value.simps list.case)
    next
      case (Cons c cs)
      show ?thesis by (simp only: parse_value.simps Cons list.case IH [OF Cons])
    qed
  next
    case 2
    have v: "parse_value (Suc n) d s = parse_value n d s" using Suc.IH(1) 2 by simp
    have e: "parse_elems (Suc n) d r' = parse_elems n d r'"
      if "parse_value n d s = Some (j, r)" "skip_space r = c # r'" for j r c r'
      using parse_length(1) [OF that(1)] skip_space_Cons_length [OF that(2)] 2
      by (intro Suc.IH(2)) simp
    show ?case
      by (subst (1 2) parse_elems.simps(2)) (auto simp only: v e split: option.split list.split)
  next
    case 3
    have v: "parse_value (Suc n) d s3 = parse_value n d s3"
      if "length s3 < length s" for s3 using Suc.IH(1) [of s3] 3 that by simp
    have e: "parse_members (Suc n) d r' = parse_members n d r'"
      if "length r' < length s" for r' using Suc.IH(3) [of r'] 3 that by simp
    have l3: "length s3 < length s"
      if "skip_space s = q # s1" "parse_string s1 = Some (k, s2)" "skip_space s2 = col # s3"
      for q s1 k s2 col s3
      using skip_space_Cons_length [OF that(1)] parse_string_length [OF that(2)]
        skip_space_Cons_length [OF that(3)] by simp
    have lr: "length r' < length s3"
      if "parse_value n d s3 = Some (j, r)" "skip_space r = c # r'" for s3 j r c r'
      using parse_length(1) [OF that(1)] skip_space_Cons_length [OF that(2)] by simp
    show ?case
      by (rule trans [OF parse_members.simps(2) trans [OF _ parse_members.simps(2) [symmetric]]],
          intro list.case_cong option.case_cong prod.case_cong if_cong refl)
        (simp_all add: v l3 e [OF less_trans [OF lr l3]] del: parse_value.simps parse_members.simps) }
qed

lemma parse_value_fuel: "2 * length s + 2 \<le> n \<Longrightarrow> parse_value n d s = parse_value (2 * length s + 2) d s"
proof (induction n rule: dec_induct)
  case (step n)
  with parse_fuel(1) [of s n d] show ?case by (simp only: numeral_2_eq_2 add_Suc_right)
qed simp

definition json_fuel :: "string \<Rightarrow> nat" where
  "json_fuel s = 2 * length s + 2"

definition json_Decode :: "string \<Rightarrow> json option" where
  "json_Decode s = map_option fst (parse_value (json_fuel s) maxNestingDepth s)"

definition json_Unmarshal :: "string \<Rightarrow> json option" where
  "json_Unmarshal s =
     (case parse_value (json_fuel s) maxNestingDepth s of
        None \<Rightarrow> None
      | Some (j, r) \<Rightarrow> if skip_space r = [] then Some j else None)"

declare parse_value.simps [simp del] parse_elems.simps [simp del] parse_members.simps [simp del]

lemma json_Unmarshal_Decode: "json_Unmarshal s = Some j \<Longrightarrow> json_Decode s = Some j"
  by (auto simp: json_Unmarshal_def json_Decode_def split: option.splits if_splits)

section \<open>Printing\<close>

text \<open>
  \<open>json.NewEncoder(w).Encode(v)\<close>: no space, strings escaped for HTML too, bytes that are not
  UTF-8 printed as the escape of U+FFFD, and a newline at the end.
\<close>

definition hex_digit :: "int \<Rightarrow> char" where
  "hex_digit n = char_of (if n < 10 then 48 + n else 87 + n)"

definition escape_byte :: "char \<Rightarrow> string" where
  "escape_byte c =
     (if c = CHR 0x22 \<or> c = CHR 0x5C then [CHR 0x5C, c]
      else if c = CHR 0x08 then [CHR 0x5C, CHR ''b'']
      else if c = CHR 0x0C then [CHR 0x5C, CHR ''f'']
      else if c = CHR 0x0A then [CHR 0x5C, CHR ''n'']
      else if c = CHR 0x0D then [CHR 0x5C, CHR ''r'']
      else if c = CHR 0x09 then [CHR 0x5C, CHR ''t'']
      else if byte_val c < 0x20 \<or> c = CHR ''<'' \<or> c = CHR ''>'' \<or> c = CHR ''&'' then
        [CHR 0x5C, CHR ''u'', CHR ''0'', CHR ''0'', hex_digit (byte_val c div 16), hex_digit (byte_val c mod 16)]
      else [c])"

function escape_string :: "string \<Rightarrow> string" where
  "escape_string [] = []"
| "escape_string (c # cs) =
     (if byte_val c < 0x80 then escape_byte c @ escape_string cs
      else
        (let n = utf8_len (c # cs)
         in if n = 0 then CHR 0x5C # ''ufffd'' @ escape_string cs
            else if take n (c # cs) = [CHR 0xE2, CHR 0x80, CHR 0xA8]
              then CHR 0x5C # ''u2028'' @ escape_string (drop (n - 1) cs)
            else if take n (c # cs) = [CHR 0xE2, CHR 0x80, CHR 0xA9]
              then CHR 0x5C # ''u2029'' @ escape_string (drop (n - 1) cs)
            else c # take (n - 1) cs @ escape_string (drop (n - 1) cs)))"
  by pat_completeness auto
termination by (relation "measure length") auto

definition print_string :: "string \<Rightarrow> string" where
  "print_string s = CHR 0x22 # escape_string s @ [CHR 0x22]"

fun print_json :: "json \<Rightarrow> string" where
  "print_json JNull = ''null''"
| "print_json (JBool b) = (if b then ''true'' else ''false'')"
| "print_json (JNum lit) = lit"
| "print_json (JStr s) = print_string s"
| "print_json (JArr js) = ''['' @ Join (map print_json js) '','' @ '']''"
| "print_json (JObj kvs) =
     ''{'' @ Join (map (\<lambda>(k, j). print_string k @ '':'' @ print_json j) kvs) '','' @ ''}''"

definition json_Encode :: "json \<Rightarrow> string" where
  "json_Encode j = print_json j @ [CHR 0x0A]"

end
