(* ===== verification/Headscale.thy ===== *)
theory Headscale
  imports Go_Base64 Go_Time Go_Json_Text
begin

text \<open>
  The client of the headscale gRPC API (\<open>internal/headscale/client.go\<close>). The protobuf
  messages are records with the fields the source reads; the generated service stub, the
  gRPC runtime and the timestamp conversions are third-party code and so parameters: the
  record \<open>HeadscaleServiceClient\<close> of one function per RPC, over a state \<open>'s\<close> that stands for
  everything outside the process, and the record \<open>lib\<close>. \<open>HeadscaleClient\<close> is the Go
  interface that all handlers are written against; \<open>GRPCClient\<close> implements it. What the
  handlers rely on beyond the signatures is the locale \<open>headscale_client\<close>, interpreted at
  the end on \<open>GRPCClient\<close> over any service.
\<close>

section \<open>Messages\<close>

record Timestamp =
  ts_seconds :: int
  ts_nanos :: int

record pbUser =
  u_Id :: u64
  u_Name :: string
  u_CreatedAt :: "Timestamp option"
  u_DisplayName :: string
  u_ProfilePicUrl :: string

record Node =
  n_Id :: u64
  n_Name :: string
  n_NodeKey :: string
  n_IpAddresses :: "string slice"
  n_User :: "pbUser option"
  n_LastSeen :: "Timestamp option"
  n_Expiry :: "Timestamp option"
  n_Online :: bool
  n_ApprovedRoutes :: "string slice"
  n_AvailableRoutes :: "string slice"
  n_Tags :: "string slice"

record PreAuthKey =
  k_User :: "pbUser option"
  k_Id :: u64
  k_Key :: string
  k_Reusable :: bool
  k_Ephemeral :: bool
  k_Used :: bool
  k_Expiration :: "Timestamp option"
  k_CreatedAt :: "Timestamp option"
  k_AclTags :: "string slice"

record CreatePreAuthKeyRequest =
  cr_User :: u64
  cr_Reusable :: bool
  cr_Ephemeral :: bool
  cr_Expiration :: "Timestamp option"
  cr_AclTags :: "string slice"

text \<open>
  A getter of a generated message called on a nil pointer returns the zero value of the field.
\<close>

definition getter :: "'b \<Rightarrow> ('a \<Rightarrow> 'b) \<Rightarrow> 'a option \<Rightarrow> 'b" where
  "getter zero f p = (case p of None \<Rightarrow> zero | Some x \<Rightarrow> f x)"

lemma getter_simps [simp]:
  "getter zero f None = zero"
  "getter zero f (Some x) = f x"
  by (simp_all add: getter_def)

section \<open>Errors and contexts\<close>

datatype code =
    Canceled | Unknown | InvalidArgument | DeadlineExceeded | NotFound | AlreadyExists
  | PermissionDenied | ResourceExhausted | FailedPrecondition | Aborted | OutOfRange
  | Unimplemented | Internal | Unavailable | DataLoss | Unauthenticated | OtherCode nat

text \<open>
  An error returned by an RPC: what \<open>status.Code\<close> says of it (\<open>Unknown\<close> for an error that
  carries no status) and what its \<open>Error\<close> method prints.
\<close>

record grpc_error =
  status_code :: code
  err_text :: string

text \<open>The outgoing metadata of a request context.\<close>

type_synonym ctx = "(string \<times> string) list"

text \<open>
  Third-party functions: \<open>metadata.AppendToOutgoingContext\<close> for one key and value,
  \<open>codes.Code.String\<close>, and \<open>AsTime\<close> and \<open>New\<close> of \<open>timestamppb\<close>.
\<close>

record lib =
  AppendToOutgoingContext :: "ctx \<Rightarrow> string \<Rightarrow> string \<Rightarrow> ctx"
  code_String :: "code \<Rightarrow> string"
  AsTime :: "Timestamp \<Rightarrow> time"
  timestamppb_New :: "time \<Rightarrow> Timestamp"

section \<open>The service stub and the client interface\<close>

record 's HeadscaleServiceClient =
  rpc_ListNodes :: "ctx \<Rightarrow> string \<Rightarrow> 's \<Rightarrow> (grpc_error + Node list) \<times> 's"
  rpc_GetNode :: "ctx \<Rightarrow> u64 \<Rightarrow> 's \<Rightarrow> (grpc_error + Node option) \<times> 's"
  rpc_DeleteNode :: "ctx \<Rightarrow> u64 \<Rightarrow> 's \<Rightarrow> (grpc_error + unit) \<times> 's"
  rpc_ExpireNode :: "ctx \<Rightarrow> u64 \<Rightarrow> 's \<Rightarrow> (grpc_error + unit) \<times> 's"
  rpc_RenameNode :: "ctx \<Rightarrow> u64 \<Rightarrow> string \<Rightarrow> 's \<Rightarrow> (grpc_error + Node option) \<times> 's"
  rpc_SetTags :: "ctx \<Rightarrow> u64 \<Rightarrow> string slice \<Rightarrow> 's \<Rightarrow> (grpc_error + Node option) \<times> 's"
  rpc_SetApprovedRoutes :: "ctx \<Rightarrow> u64 \<Rightarrow> string slice \<Rightarrow> 's \<Rightarrow> (grpc_error + Node option) \<times> 's"
  rpc_RegisterNode :: "ctx \<Rightarrow> string \<Rightarrow> string \<Rightarrow> 's \<Rightarrow> (grpc_error + Node option) \<times> 's"
  rpc_ListPreAuthKeys :: "ctx \<Rightarrow> 's \<Rightarrow> (grpc_error + PreAuthKey list) \<times> 's"
  rpc_CreatePreAuthKey :: "ctx \<Rightarrow> CreatePreAuthKeyRequest \<Rightarrow> 's \<Rightarrow> (grpc_error + PreAuthKey option) \<times> 's"
  rpc_ExpirePreAuthKey :: "ctx \<Rightarrow> u64 \<Rightarrow> 's \<Rightarrow> (grpc_error + unit) \<times> 's"
  rpc_DeletePreAuthKey :: "ctx \<Rightarrow> u64 \<Rightarrow> 's \<Rightarrow> (grpc_error + unit) \<times> 's"
  rpc_ListUsers :: "ctx \<Rightarrow> 's \<Rightarrow> (grpc_error + pbUser list) \<times> 's"
  rpc_DeleteUser :: "ctx \<Rightarrow> u64 \<Rightarrow> 's \<Rightarrow> (grpc_error + unit) \<times> 's"
  rpc_GetPolicy :: "ctx \<Rightarrow> 's \<Rightarrow> (grpc_error + string) \<times> 's"
  rpc_SetPolicy :: "ctx \<Rightarrow> string \<Rightarrow> 's \<Rightarrow> (grpc_error + unit) \<times> 's"

record 's HeadscaleClient =
  hs_ListNodes :: "ctx \<Rightarrow> string \<Rightarrow> 's \<Rightarrow> (grpc_error + Node list) \<times> 's"
  hs_GetNode :: "ctx \<Rightarrow> u64 \<Rightarrow> 's \<Rightarrow> (grpc_error + Node option) \<times> 's"
  hs_DeleteNode :: "ctx \<Rightarrow> u64 \<Rightarrow> 's \<Rightarrow> (grpc_error + unit) \<times> 's"
  hs_ExpireNode :: "ctx \<Rightarrow> u64 \<Rightarrow> 's \<Rightarrow> (grpc_error + unit) \<times> 's"
  hs_RenameNode :: "ctx \<Rightarrow> u64 \<Rightarrow> string \<Rightarrow> 's \<Rightarrow> (grpc_error + Node option) \<times> 's"
  hs_SetTags :: "ctx \<Rightarrow> u64 \<Rightarrow> string slice \<Rightarrow> 's \<Rightarrow> (grpc_error + Node option) \<times> 's"
  hs_SetApprovedRoutes :: "ctx \<Rightarrow> u64 \<Rightarrow> string slice \<Rightarrow> 's \<Rightarrow> (grpc_error + Node option) \<times> 's"
  hs_AuthApprove :: "ctx \<Rightarrow> string \<Rightarrow> string \<Rightarrow> 's \<Rightarrow> (grpc_error + Node option) \<times> 's"
  hs_ListPreAuthKeys :: "ctx \<Rightarrow> string \<Rightarrow> 's \<Rightarrow> (grpc_error + PreAuthKey list) \<times> 's"
  hs_CreatePreAuthKey :: "ctx \<Rightarrow> CreatePreAuthKeyRequest \<Rightarrow> 's \<Rightarrow> (grpc_error + PreAuthKey option) \<times> 's"
  hs_ExpirePreAuthKey :: "ctx \<Rightarrow> u64 \<Rightarrow> 's \<Rightarrow> (grpc_error + unit) \<times> 's"
  hs_DeletePreAuthKey :: "ctx \<Rightarrow> u64 \<Rightarrow> 's \<Rightarrow> (grpc_error + unit) \<times> 's"
  hs_ListUsers :: "ctx \<Rightarrow> 's \<Rightarrow> (grpc_error + pbUser list) \<times> 's"
  hs_DeleteUser :: "ctx \<Rightarrow> u64 \<Rightarrow> 's \<Rightarrow> (grpc_error + unit) \<times> 's"
  hs_GetPolicy :: "ctx \<Rightarrow> 's \<Rightarrow> (grpc_error + string) \<times> 's"
  hs_SetPolicy :: "ctx \<Rightarrow> string \<Rightarrow> 's \<Rightarrow> (grpc_error + unit) \<times> 's"

section \<open>GRPCClient\<close>

record 's GRPCClient =
  gc_client :: "'s HeadscaleServiceClient"
  gc_apiKey :: string

definition withAPIKey :: "lib \<Rightarrow> 's GRPCClient \<Rightarrow> ctx \<Rightarrow> ctx" where
  "withAPIKey L c ctx = AppendToOutgoingContext L ctx ''authorization'' (''Bearer '' @ gc_apiKey c)"

definition grpc_ListNodes ::
  "lib \<Rightarrow> 's GRPCClient \<Rightarrow> ctx \<Rightarrow> string \<Rightarrow> 's \<Rightarrow> (grpc_error + Node list) \<times> 's" where
  "grpc_ListNodes L c ctx user s =
     (case rpc_ListNodes (gc_client c) (withAPIKey L c ctx) user s of
        (Inl err, s') \<Rightarrow> (Inl err, s')
      | (Inr r, s') \<Rightarrow> (Inr r, s'))"

definition grpc_GetNode ::
  "lib \<Rightarrow> 's GRPCClient \<Rightarrow> ctx \<Rightarrow> u64 \<Rightarrow> 's \<Rightarrow> (grpc_error + Node option) \<times> 's" where
  "grpc_GetNode L c ctx nid s =
     (case rpc_GetNode (gc_client c) (withAPIKey L c ctx) nid s of
        (Inl err, s') \<Rightarrow> (Inl err, s')
      | (Inr r, s') \<Rightarrow> (Inr r, s'))"

definition grpc_DeleteNode ::
  "lib \<Rightarrow> 's GRPCClient \<Rightarrow> ctx \<Rightarrow> u64 \<Rightarrow> 's \<Rightarrow> (grpc_error + unit) \<times> 's" where
  "grpc_DeleteNode L c ctx nid s =
     (case rpc_DeleteNode (gc_client c) (withAPIKey L c ctx) nid s of
        (Inl err, s') \<Rightarrow> (Inl err, s')
      | (Inr r, s') \<Rightarrow> (Inr (), s'))"

definition grpc_ExpireNode ::
  "lib \<Rightarrow> 's GRPCClient \<Rightarrow> ctx \<Rightarrow> u64 \<Rightarrow> 's \<Rightarrow> (grpc_error + unit) \<times> 's" where
  "grpc_ExpireNode L c ctx nid s =
     (case rpc_ExpireNode (gc_client c) (withAPIKey L c ctx) nid s of
        (Inl err, s') \<Rightarrow> (Inl err, s')
      | (Inr r, s') \<Rightarrow> (Inr (), s'))"

definition grpc_RenameNode ::
  "lib \<Rightarrow> 's GRPCClient \<Rightarrow> ctx \<Rightarrow> u64 \<Rightarrow> string \<Rightarrow> 's \<Rightarrow> (grpc_error + Node option) \<times> 's" where
  "grpc_RenameNode L c ctx nid name s =
     (case rpc_RenameNode (gc_client c) (withAPIKey L c ctx) nid name s of
        (Inl err, s') \<Rightarrow> (Inl err, s')
      | (Inr r, s') \<Rightarrow> (Inr r, s'))"

definition grpc_SetTags ::
  "lib \<Rightarrow> 's GRPCClient \<Rightarrow> ctx \<Rightarrow> u64 \<Rightarrow> string slice \<Rightarrow> 's \<Rightarrow> (grpc_error + Node option) \<times> 's" where
  "grpc_SetTags L c ctx nid tags s =
     (case rpc_SetTags (gc_client c) (withAPIKey L c ctx) nid tags s of
        (Inl err, s') \<Rightarrow> (Inl err, s')
      | (Inr r, s') \<Rightarrow> (Inr r, s'))"

definition grpc_SetApprovedRoutes ::
  "lib \<Rightarrow> 's GRPCClient \<Rightarrow> ctx \<Rightarrow> u64 \<Rightarrow> string slice \<Rightarrow> 's \<Rightarrow> (grpc_error + Node option) \<times> 's" where
  "grpc_SetApprovedRoutes L c ctx nid routes s =
     (case rpc_SetApprovedRoutes (gc_client c) (withAPIKey L c ctx) nid routes s of
        (Inl err, s') \<Rightarrow> (Inl err, s')
      | (Inr r, s') \<Rightarrow> (Inr r, s'))"

definition grpc_AuthApprove ::
  "lib \<Rightarrow> 's GRPCClient \<Rightarrow> ctx \<Rightarrow> string \<Rightarrow> string \<Rightarrow> 's \<Rightarrow> (grpc_error + Node option) \<times> 's" where
  "grpc_AuthApprove L c ctx user nodeKey s =
     (case rpc_RegisterNode (gc_client c) (withAPIKey L c ctx) user nodeKey s of
        (Inl err, s') \<Rightarrow> (Inl err, s')
      | (Inr r, s') \<Rightarrow> (Inr r, s'))"

definition grpc_ListPreAuthKeys ::
  "lib \<Rightarrow> 's GRPCClient \<Rightarrow> ctx \<Rightarrow> string \<Rightarrow> 's \<Rightarrow> (grpc_error + PreAuthKey list) \<times> 's" where
  "grpc_ListPreAuthKeys L c ctx user s =
     (case rpc_ListPreAuthKeys (gc_client c) (withAPIKey L c ctx) s of
        (Inl err, s') \<Rightarrow> (Inl err, s')
      | (Inr ks, s') \<Rightarrow>
          (if user = [] then (Inr ks, s')
           else (Inr (filter (\<lambda>k. k_User k \<noteq> None \<and> getter [] u_Name (k_User k) = user) ks), s')))"

definition grpc_CreatePreAuthKey ::
  "lib \<Rightarrow> 's GRPCClient \<Rightarrow> ctx \<Rightarrow> CreatePreAuthKeyRequest \<Rightarrow> 's \<Rightarrow> (grpc_error + PreAuthKey option) \<times> 's" where
  "grpc_CreatePreAuthKey L c ctx req s =
     (case rpc_CreatePreAuthKey (gc_client c) (withAPIKey L c ctx) req s of
        (Inl err, s') \<Rightarrow> (Inl err, s')
      | (Inr r, s') \<Rightarrow> (Inr r, s'))"

definition grpc_ExpirePreAuthKey ::
  "lib \<Rightarrow> 's GRPCClient \<Rightarrow> ctx \<Rightarrow> u64 \<Rightarrow> 's \<Rightarrow> (grpc_error + unit) \<times> 's" where
  "grpc_ExpirePreAuthKey L c ctx nid s =
     (case rpc_ExpirePreAuthKey (gc_client c) (withAPIKey L c ctx) nid s of
        (Inl err, s') \<Rightarrow> (Inl err, s')
      | (Inr r, s') \<Rightarrow> (Inr (), s'))"

definition grpc_DeletePreAuthKey ::
  "lib \<Rightarrow> 's GRPCClient \<Rightarrow> ctx \<Rightarrow> u64 \<Rightarrow> 's \<Rightarrow> (grpc_error + unit) \<times> 's" where
  "grpc_DeletePreAuthKey L c ctx nid s =
     (case rpc_DeletePreAuthKey (gc_client c) (withAPIKey L c ctx) nid s of
        (Inl err, s') \<Rightarrow> (Inl err, s')
      | (Inr r, s') \<Rightarrow> (Inr (), s'))"

definition grpc_ListUsers ::
  "lib \<Rightarrow> 's GRPCClient \<Rightarrow> ctx \<Rightarrow> 's \<Rightarrow> (grpc_error + pbUser list) \<times> 's" where
  "grpc_ListUsers L c ctx s =
     (case rpc_ListUsers (gc_client c) (withAPIKey L c ctx) s of
        (Inl err, s') \<Rightarrow> (Inl err, s')
      | (Inr r, s') \<Rightarrow> (Inr r, s'))"

definition grpc_DeleteUser ::
  "lib \<Rightarrow> 's GRPCClient \<Rightarrow> ctx \<Rightarrow> u64 \<Rightarrow> 's \<Rightarrow> (grpc_error + unit) \<times> 's" where
  "grpc_DeleteUser L c ctx nid s =
     (case rpc_DeleteUser (gc_client c) (withAPIKey L c ctx) nid s of
        (Inl err, s') \<Rightarrow> (Inl err, s')
      | (Inr r, s') \<Rightarrow> (Inr (), s'))"

definition grpc_GetPolicy ::
  "lib \<Rightarrow> 's GRPCClient \<Rightarrow> ctx \<Rightarrow> 's \<Rightarrow> (grpc_error + string) \<times> 's" where
  "grpc_GetPolicy L c ctx s =
     (case rpc_GetPolicy (gc_client c) (withAPIKey L c ctx) s of
        (Inl err, s') \<Rightarrow> (Inl err, s')
      | (Inr r, s') \<Rightarrow> (Inr r, s'))"

definition grpc_SetPolicy ::
  "lib \<Rightarrow> 's GRPCClient \<Rightarrow> ctx \<Rightarrow> string \<Rightarrow> 's \<Rightarrow> (grpc_error + unit) \<times> 's" where
  "grpc_SetPolicy L c ctx policy s =
     (case rpc_SetPolicy (gc_client c) (withAPIKey L c ctx) policy s of
        (Inl err, s') \<Rightarrow> (Inl err, s')
      | (Inr r, s') \<Rightarrow> (Inr (), s'))"

text \<open>The method set of \<open>*GRPCClient\<close>.\<close>

definition grpc_client :: "lib \<Rightarrow> 's GRPCClient \<Rightarrow> 's HeadscaleClient" where
  "grpc_client L c =
     \<lparr>hs_ListNodes = grpc_ListNodes L c,
      hs_GetNode = grpc_GetNode L c,
      hs_DeleteNode = grpc_DeleteNode L c,
      hs_ExpireNode = grpc_ExpireNode L c,
      hs_RenameNode = grpc_RenameNode L c,
      hs_SetTags = grpc_SetTags L c,
      hs_SetApprovedRoutes = grpc_SetApprovedRoutes L c,
      hs_AuthApprove = grpc_AuthApprove L c,
      hs_ListPreAuthKeys = grpc_ListPreAuthKeys L c,
      hs_CreatePreAuthKey = grpc_CreatePreAuthKey L c,
      hs_ExpirePreAuthKey = grpc_ExpirePreAuthKey L c,
      hs_DeletePreAuthKey = grpc_DeletePreAuthKey L c,
      hs_ListUsers = grpc_ListUsers L c,
      hs_DeleteUser = grpc_DeleteUser L c,
      hs_GetPolicy = grpc_GetPolicy L c,
      hs_SetPolicy = grpc_SetPolicy L c\<rparr>"

lemmas grpc_defs =
  grpc_ListNodes_def
  grpc_GetNode_def
  grpc_DeleteNode_def
  grpc_ExpireNode_def
  grpc_RenameNode_def
  grpc_SetTags_def
  grpc_SetApprovedRoutes_def
  grpc_AuthApprove_def
  grpc_ListPreAuthKeys_def
  grpc_CreatePreAuthKey_def
  grpc_ExpirePreAuthKey_def
  grpc_DeletePreAuthKey_def
  grpc_ListUsers_def
  grpc_DeleteUser_def
  grpc_GetPolicy_def
  grpc_SetPolicy_def

section \<open>What the handlers rely on\<close>

definition key_owned :: "string \<Rightarrow> PreAuthKey \<Rightarrow> bool" where
  "key_owned name k \<longleftrightarrow> (\<exists>u. k_User k = Some u \<and> u_Name u = name)"

text \<open>
  A client that lists the keys of a named user lists keys of that user only.
\<close>

locale headscale_client =
  fixes hs :: "'s HeadscaleClient"
  assumes keys_of_user:
    "hs_ListPreAuthKeys hs ctx user s = (Inr ks, s') \<Longrightarrow> user \<noteq> [] \<Longrightarrow> k \<in> set ks \<Longrightarrow> key_owned user k"

lemma grpc_ListPreAuthKeys_owned:
  assumes "grpc_ListPreAuthKeys L c ctx user s = (Inr ks, s')" and "user \<noteq> []" and "k \<in> set ks"
  shows "key_owned user k"
  using assms
  by (auto simp: grpc_ListPreAuthKeys_def key_owned_def split: prod.splits sum.splits if_splits)

text \<open>\<open>GRPCClient\<close> keeps that promise whatever the service answers: it filters itself.\<close>

interpretation grpc: headscale_client "grpc_client L c" for L c
proof unfold_locales
  fix ctx user s ks s' k
  assume "hs_ListPreAuthKeys (grpc_client L c) ctx user s = (Inr ks, s')"
    and "user \<noteq> []" and "k \<in> set ks"
  then show "key_owned user k"
    by (simp add: grpc_client_def grpc_ListPreAuthKeys_owned)
qed

section \<open>Every RPC carries the API key\<close>

text \<open>
  Two services agree on the contexts of a set when no RPC made with such a context tells
  them apart.
\<close>

definition agree_on :: "ctx set \<Rightarrow> 's HeadscaleServiceClient \<Rightarrow> 's HeadscaleServiceClient \<Rightarrow> bool" where
  "agree_on C v w \<longleftrightarrow> (\<forall>ctx \<in> C.
     rpc_ListNodes v ctx = rpc_ListNodes w ctx \<and>
     rpc_GetNode v ctx = rpc_GetNode w ctx \<and>
     rpc_DeleteNode v ctx = rpc_DeleteNode w ctx \<and>
     rpc_ExpireNode v ctx = rpc_ExpireNode w ctx \<and>
     rpc_RenameNode v ctx = rpc_RenameNode w ctx \<and>
     rpc_SetTags v ctx = rpc_SetTags w ctx \<and>
     rpc_SetApprovedRoutes v ctx = rpc_SetApprovedRoutes w ctx \<and>
     rpc_RegisterNode v ctx = rpc_RegisterNode w ctx \<and>
     rpc_ListPreAuthKeys v ctx = rpc_ListPreAuthKeys w ctx \<and>
     rpc_CreatePreAuthKey v ctx = rpc_CreatePreAuthKey w ctx \<and>
     rpc_ExpirePreAuthKey v ctx = rpc_ExpirePreAuthKey w ctx \<and>
     rpc_DeletePreAuthKey v ctx = rpc_DeletePreAuthKey w ctx \<and>
     rpc_ListUsers v ctx = rpc_ListUsers w ctx \<and>
     rpc_DeleteUser v ctx = rpc_DeleteUser w ctx \<and>
     rpc_GetPolicy v ctx = rpc_GetPolicy w ctx \<and>
     rpc_SetPolicy v ctx = rpc_SetPolicy w ctx)"

definition authorized_ctxs :: "string \<Rightarrow> ctx set" where
  "authorized_ctxs apiKey = {ctx. (''authorization'', ''Bearer '' @ apiKey) \<in> set ctx}"

lemma grpc_client_agree:
  assumes ag: "agree_on C (gc_client c) v" and C: "\<And>ctx. withAPIKey L c ctx \<in> C"
  shows "grpc_client L c = grpc_client L (c\<lparr>gc_client := v\<rparr>)"
proof -
  have k: "withAPIKey L (c\<lparr>gc_client := v\<rparr>) = withAPIKey L c"
    by (simp add: withAPIKey_def fun_eq_iff)
  from ag C have "agree_on (range (withAPIKey L c)) (gc_client c) v"
    by (auto simp: agree_on_def)
  then show ?thesis
    unfolding grpc_client_def grpc_defs k by (simp add: agree_on_def fun_eq_iff)
qed

end
