(* ===== verification/Translate.thy ===== *)
theory Translate
  imports Model Headscale
begin

text \<open>
  \<open>internal/translate\<close>: headscale's messages to the REST types and back. The arguments are
  pointers and the getters are nil-safe, so a missing message translates to zero values.
\<close>

section \<open>Devices (translate/device.go)\<close>

definition NodeToDevice :: "lib \<Rightarrow> Node option \<Rightarrow> Device" where
  "NodeToDevice L n =
     (let d = zero_Device
            \<lparr>dev_ID := FormatUint (getter 0 n_Id n),
             dev_Name := getter [] n_Name n,
             dev_Hostname := getter [] n_Name n,
             dev_Addresses := getter None n_IpAddresses n,
             dev_Authorized := True,
             dev_Tags := getter None n_Tags n,
             dev_NodeKey := getter [] n_NodeKey n\<rparr>;
          d = (case getter None n_User n of
                 None \<Rightarrow> d
               | Some u \<Rightarrow> d\<lparr>dev_User := u_Name u\<rparr>);
          d = (case getter None n_LastSeen n of
                 None \<Rightarrow> d
               | Some ls \<Rightarrow> d\<lparr>dev_LastSeen := FormatRFC3339 (AsTime L ls)\<rparr>);
          d = (case getter None n_Expiry n of
                 Some exp \<Rightarrow>
                   (let t = AsTime L exp
                    in d\<lparr>dev_KeyExpiryDisabled := IsZero t, dev_Expires := FormatRFC3339 t\<rparr>)
               | None \<Rightarrow> d\<lparr>dev_KeyExpiryDisabled := True\<rparr>)
      in if getter False n_Online n then d\<lparr>dev_Authorized := True\<rparr> else d)"

definition NodeToDeviceRoutes :: "Node option \<Rightarrow> DeviceRoutes" where
  "NodeToDeviceRoutes n =
     \<lparr>dr_AdvertisedRoutes = getter None n_AvailableRoutes n,
      dr_EnabledRoutes = getter None n_ApprovedRoutes n\<rparr>"

lemma NodeToDevice_ID [simp]: "dev_ID (NodeToDevice L n) = FormatUint (getter 0 n_Id n)"
  by (simp add: NodeToDevice_def Let_def split: option.split)

lemma NodeToDevice_Authorized [simp]: "dev_Authorized (NodeToDevice L n)"
  by (simp add: NodeToDevice_def Let_def split: option.split)

lemma NodeToDevice_Name [simp]:
  "dev_Name (NodeToDevice L n) = getter [] n_Name n"
  "dev_Hostname (NodeToDevice L n) = getter [] n_Name n"
  by (simp_all add: NodeToDevice_def Let_def split: option.split)

lemma NodeToDevice_expiry:
  "dev_Expires (NodeToDevice L n) =
     (case getter None n_Expiry n of None \<Rightarrow> [] | Some e \<Rightarrow> FormatRFC3339 (AsTime L e))"
  "dev_KeyExpiryDisabled (NodeToDevice L n) =
     (case getter None n_Expiry n of None \<Rightarrow> True | Some e \<Rightarrow> IsZero (AsTime L e))"
  by (simp_all add: NodeToDevice_def zero_Device_def Let_def split: option.split)

section \<open>Auth keys (translate/key.go)\<close>

definition PreAuthKeyToKey :: "lib \<Rightarrow> PreAuthKey option \<Rightarrow> Key" where
  "PreAuthKeyToKey L k =
     (let key =
            \<lparr>key_ID = FormatUint (getter 0 k_Id k), key_Key = [], key_Description = [],
             key_Created = [], key_Expires = [], key_Revoked = [],
             key_Invalid = getter False k_Used k,
             key_Capabilities = \<lparr>kcap_Devices = \<lparr>kcd_Create =
               \<lparr>kc_Reusable = getter False k_Reusable k,
                kc_Ephemeral = getter False k_Ephemeral k,
                kc_Preauthorized = False,
                kc_Tags = getter None k_AclTags k\<rparr>\<rparr>\<rparr>\<rparr>;
          key = (case getter None k_CreatedAt k of
                   None \<Rightarrow> key
                 | Some ca \<Rightarrow> key\<lparr>key_Created := FormatRFC3339 (AsTime L ca)\<rparr>);
          key = (case getter None k_Expiration k of
                   None \<Rightarrow> key
                 | Some exp \<Rightarrow> key\<lparr>key_Expires := FormatRFC3339 (AsTime L exp)\<rparr>)
      in if getter [] k_Key k \<noteq> [] then key\<lparr>key_Key := getter [] k_Key k\<rparr> else key)"

lemma PreAuthKeyToKey_fields [simp]:
  "key_ID (PreAuthKeyToKey L k) = FormatUint (getter 0 k_Id k)"
  "key_Key (PreAuthKeyToKey L k) = getter [] k_Key k"
  "key_Invalid (PreAuthKeyToKey L k) = getter False k_Used k"
  by (simp_all add: PreAuthKeyToKey_def Let_def split: option.split)

text \<open>
  The request for a new key. The caller's number of seconds is a Go \<open>int\<close>; anything not
  positive becomes an hour, and the product with \<open>time.Second\<close> is taken in \<open>int64\<close>.
\<close>

definition expiry_seconds :: "64 word \<Rightarrow> 64 word" where
  "expiry_seconds e = (if sint e \<le> 0 then 3600 else e)"

definition KeyRequestToCreatePreAuthKeyRequest ::
  "lib \<Rightarrow> time \<Rightarrow> CreateKeyRequest \<Rightarrow> u64 \<Rightarrow> CreatePreAuthKeyRequest" where
  "KeyRequestToCreatePreAuthKeyRequest L now r userID =
     (let create = kcd_Create (kcap_Devices (ckr_Capabilities r));
          expirySeconds = expiry_seconds (ckr_ExpirySeconds r);
          expiry = Add now (expirySeconds * Second)
      in \<lparr>cr_User = userID,
          cr_Reusable = kc_Reusable create,
          cr_Ephemeral = kc_Ephemeral create,
          cr_Expiration = Some (timestamppb_New L expiry),
          cr_AclTags = kc_Tags create\<rparr>)"

text \<open>
  Where the product fits \<open>int64\<close>, that is up to 9223372036 seconds (292 years), it is exact.
\<close>

lemma sint_seconds:
  assumes "0 < sint e" and "sint e \<le> 9223372036"
  shows "sint (e * Second) = sint e * 1000000000"
proof -
  have "sint (e * Second) = signed_take_bit 63 (sint e * 1000000000)"
    by (simp add: Second_def signed_take_bit_mult sint_word_ariths(3))
  also have "\<dots> = sint e * 1000000000"
    using assms by (intro signed_take_bit_int_eq_self) simp_all
  finally show ?thesis .
qed

lemma Add_expiry:
  assumes "sint e \<le> 9223372036"
  shows "Add now (expiry_seconds e * Second) = now + (if sint e \<le> 0 then 3600 else sint e) * 1000000000"
proof (cases "sint e \<le> 0")
  case True
  then show ?thesis by (simp add: expiry_seconds_def Add_def Second_def)
next
  case False
  with assms show ?thesis by (simp add: expiry_seconds_def Add_def sint_seconds)
qed

section \<open>Users (translate/user.go)\<close>

definition UserToTailscaleUser :: "lib \<Rightarrow> pbUser option \<Rightarrow> User" where
  "UserToTailscaleUser L u =
     (let user =
            \<lparr>usr_ID = FormatUint (getter 0 u_Id u),
             usr_DisplayName = getter [] u_DisplayName u,
             usr_LoginName = getter [] u_Name u,
             usr_ProfilePicURL = getter [] u_ProfilePicUrl u,
             usr_TailnetID = [], usr_Created = [],
             usr_Role = ''member'', usr_Status = ''active'',
             usr_DeviceCount = 0, usr_CurrentlyConnected = False\<rparr>;
          user = (if usr_DisplayName user = [] then user\<lparr>usr_DisplayName := getter [] u_Name u\<rparr>
                  else user)
      in case getter None u_CreatedAt u of
           None \<Rightarrow> user
         | Some ca \<Rightarrow> user\<lparr>usr_Created := FormatRFC3339 (AsTime L ca)\<rparr>)"

lemma UserToTailscaleUser_ID [simp]:
  "usr_ID (UserToTailscaleUser L u) = FormatUint (getter 0 u_Id u)"
  by (simp add: UserToTailscaleUser_def Let_def split: option.split)

lemma UserToTailscaleUser_names [simp]:
  "usr_LoginName (UserToTailscaleUser L u) = getter [] u_Name u"
  "usr_DisplayName (UserToTailscaleUser L u) =
     (if getter [] u_DisplayName u = [] then getter [] u_Name u else getter [] u_DisplayName u)"
  by (simp_all add: UserToTailscaleUser_def Let_def split: option.split)

definition FindUserByID :: "pbUser list \<Rightarrow> string \<Rightarrow> pbUser option" where
  "FindUserByID users sid = find (\<lambda>u. FormatUint (u_Id u) = sid) users"

section \<open>Policy (translate/policy.go)\<close>

definition PolicyToResponse :: "string \<Rightarrow> (string \<times> string) list" where
  "PolicyToResponse policy = [(''policy'', policy)]"

end
