(* ===== verification/Http.thy ===== *)
theory Http
  imports Translate
begin

text \<open>
  Requests, responses and the state that handlers share, with the helpers of
  \<open>internal/api/errors.go\<close> and \<open>logging_helpers.go\<close>, \<open>parseDeviceID\<close>, and \<open>net/http\<close>'s
  \<open>BasicAuth\<close>. A handler is a function from a request and a state to a response and a state.
\<close>

section \<open>Requests and responses\<close>

text \<open>
  What \<open>net/http\<close> and the router present to a handler: header values and form values by
  name (the first value of each), the error of \<open>ParseForm\<close>, the URL parameters and the route
  pattern of the router's context, the body (\<open>None\<close> when reading it fails).
\<close>

record request =
  Method :: string
  Path :: string
  Headers :: "(string \<times> string) list"
  FormErr :: bool
  Form :: "(string \<times> string) list"
  URLParams :: "(string \<times> string) list"
  RoutePattern :: "string option"
  Body :: "bytes option"
  RemoteAddr :: string
  ReqID :: string
  Context :: ctx

definition first_value :: "(string \<times> string) list \<Rightarrow> string \<Rightarrow> string" where
  "first_value kvs k = (case map_of kvs k of None \<Rightarrow> [] | Some v \<Rightarrow> v)"

abbreviation Header_Get :: "request \<Rightarrow> string \<Rightarrow> string" where
  "Header_Get r k \<equiv> first_value (Headers r) k"

abbreviation FormValue :: "request \<Rightarrow> string \<Rightarrow> string" where
  "FormValue r k \<equiv> first_value (Form r) k"

abbreviation URLParam :: "request \<Rightarrow> string \<Rightarrow> string" where
  "URLParam r k \<equiv> first_value (URLParams r) k"

datatype body = NoBody | JSONBody json | TextBody string

record response =
  Status :: nat
  ContentType :: "string option"
  RespBody :: body

text \<open>\<open>net/http\<close>: \<open>Authorization: Basic\<close> and the padded base64 of \<open>user:password\<close>.\<close>

definition parseBasicAuth :: "string \<Rightarrow> (string \<times> string) option" where
  "parseBasicAuth auth =
     (if length auth < 6 \<or> \<not> EqualFold (take 6 auth) ''Basic '' then None
      else case StdDecode (drop 6 auth) of
             None \<Rightarrow> None
           | Some c \<Rightarrow> cut_at (CHR '':'') c)"

definition BasicAuth :: "request \<Rightarrow> (string \<times> string) option" where
  "BasicAuth r =
     (let auth = Header_Get r ''Authorization''
      in if auth = [] then None else parseBasicAuth auth)"

section \<open>The state of the process and its surroundings\<close>

datatype level = LevelDebug | LevelInfo | LevelWarn | LevelError

datatype attr = AStr string | AInt int

record log_entry =
  log_level :: level
  log_msg :: string
  log_attrs :: "(string \<times> attr) list"

text \<open>
  \<open>world\<close> is everything outside the process that handlers reach: headscale and the identity
  provider. The counter vector of gRPC errors is indexed by its label. Components with state
  of their own (the token store, the key cache) extend the record.
\<close>

record 's st =
  world :: 's
  grpcErrorsTotal :: "string \<Rightarrow> nat"
  slog :: "log_entry list"

lemma world_update [simp]: "\<sigma>\<lparr>world := v, world := w\<rparr> = (\<sigma> :: ('s, 'm) st_scheme)\<lparr>world := w\<rparr>"
  by (cases \<sigma>) simp

text \<open>A call that acts on the surroundings only.\<close>

definition call :: "('s \<Rightarrow> 'r \<times> 's) \<Rightarrow> ('s, 'm) st_scheme \<Rightarrow> 'r \<times> ('s, 'm) st_scheme" where
  "call f \<sigma> = (let (r, w) = f (world \<sigma>) in (r, \<sigma>\<lparr>world := w\<rparr>))"

lemma call_frame [frame_simps]:
  "grpcErrorsTotal (snd (call f \<sigma>)) = grpcErrorsTotal \<sigma>"
  "slog (snd (call f \<sigma>)) = slog \<sigma>"
  "st.more (snd (call f \<sigma>)) = st.more \<sigma>"
  by (simp_all add: call_def split: prod.split)

lemma call_result: "fst (call f \<sigma>) = fst (f (world \<sigma>))" "world (snd (call f \<sigma>)) = snd (f (world \<sigma>))"
  by (simp_all add: call_def split: prod.split)

section \<open>Writing responses (errors.go)\<close>

definition writeError :: "nat \<Rightarrow> string \<Rightarrow> response" where
  "writeError statusCode msg =
     \<lparr>Status = statusCode, ContentType = Some ''application/json'',
      RespBody = JSONBody (enc_Error \<lparr>err_Message = msg\<rparr>)\<rparr>"

definition writeJSON :: "nat \<Rightarrow> json \<Rightarrow> response" where
  "writeJSON statusCode v =
     \<lparr>Status = statusCode, ContentType = Some ''application/json'', RespBody = JSONBody v\<rparr>"

definition WriteHeader :: "nat \<Rightarrow> response" where
  "WriteHeader statusCode = \<lparr>Status = statusCode, ContentType = None, RespBody = NoBody\<rparr>"

lemma write_Status [simp]:
  "Status (writeError n m) = n" "Status (writeJSON n v) = n" "Status (WriteHeader n) = n"
  by (simp_all add: writeError_def writeJSON_def WriteHeader_def)

lemma writeError_inject [simp]:
  "writeError n m = writeError n' m' \<longleftrightarrow> n = n' \<and> m = m'"
  by (auto simp: writeError_def enc_Error_def)

definition notImplementedReason :: "string \<Rightarrow> response" where
  "notImplementedReason reason = writeError 501 reason"

definition grpcStatusToHTTP :: "grpc_error \<Rightarrow> nat" where
  "grpcStatusToHTTP err =
     (case status_code err of
        NotFound \<Rightarrow> 404
      | PermissionDenied \<Rightarrow> 403
      | Unauthenticated \<Rightarrow> 401
      | AlreadyExists \<Rightarrow> 409
      | InvalidArgument \<Rightarrow> 400
      | _ \<Rightarrow> 500)"

lemma grpcStatusToHTTP_range: "grpcStatusToHTTP err \<in> {400, 401, 403, 404, 409, 500}"
  by (simp add: grpcStatusToHTTP_def split: code.split)

section \<open>Logging helpers (logging_helpers.go)\<close>

definition requestRoute :: "request \<Rightarrow> string" where
  "requestRoute r =
     (case RoutePattern r of
        None \<Rightarrow> ''unknown''
      | Some route \<Rightarrow> if route = [] then ''unknown'' else route)"

text \<open>\<open>net.SplitHostPort\<close>: the host, or \<open>None\<close> where it reports an error.\<close>

definition SplitHostPort :: "string \<Rightarrow> string option" where
  "SplitHostPort hp =
     (case cut_at (CHR '':'') (rev hp) of
        None \<Rightarrow> None
      | Some (_, rhost) \<Rightarrow>
          (let before = rev rhost
           in if hd hp = CHR ''['' then
                (case cut_at (CHR '']'') hp of
                   None \<Rightarrow> None
                 | Some (a, b) \<Rightarrow>
                     if a @ '']'' \<noteq> before then None
                     else if CHR ''['' \<in> set (tl hp) \<or> CHR '']'' \<in> set b then None
                     else Some (tl a))
              else if CHR '':'' \<in> set before then None
              else if CHR ''['' \<in> set hp \<or> CHR '']'' \<in> set hp then None
              else Some before))"

definition requestRemoteIP :: "request \<Rightarrow> string" where
  "requestRemoteIP r =
     (case SplitHostPort (RemoteAddr r) of
        Some host \<Rightarrow> host
      | None \<Rightarrow> RemoteAddr r)"

section \<open>Upstream failures (errors.go, metrics.go)\<close>

definition observeGRPCError :: "lib \<Rightarrow> code \<Rightarrow> ('s, 'm) st_scheme \<Rightarrow> ('s, 'm) st_scheme" where
  "observeGRPCError L c \<sigma> =
     \<sigma>\<lparr>grpcErrorsTotal := (grpcErrorsTotal \<sigma>)(code_String L c := Suc (grpcErrorsTotal \<sigma> (code_String L c)))\<rparr>"

definition writeGRPCError ::
  "lib \<Rightarrow> request \<Rightarrow> grpc_error \<Rightarrow> ('s, 'm) st_scheme \<Rightarrow> response \<times> ('s, 'm) st_scheme" where
  "writeGRPCError L r err \<sigma> =
     (let grpcCode = status_code err;
          httpStatus = grpcStatusToHTTP err;
          \<sigma> = observeGRPCError L grpcCode \<sigma>;
          lvl = (if httpStatus < 500 then LevelWarn else LevelError);
          entry = \<lparr>log_level = lvl, log_msg = ''upstream headscale error'',
                   log_attrs =
                     [(''upstream'', AStr ''headscale''),
                      (''method'', AStr (Method r)),
                      (''route'', AStr (requestRoute r)),
                      (''http_status'', AInt (int httpStatus)),
                      (''grpc_code'', AStr (code_String L grpcCode)),
                      (''request_id'', AStr (ReqID r)),
                      (''error'', AStr (err_text err))]\<rparr>
      in (writeError httpStatus (err_text err), \<sigma>\<lparr>slog := slog \<sigma> @ [entry]\<rparr>))"

lemma writeGRPCError_response [simp]:
  "fst (writeGRPCError L r err \<sigma>) = writeError (grpcStatusToHTTP err) (err_text err)"
  by (simp add: writeGRPCError_def Let_def)

lemma writeGRPCError_frame [frame_simps]:
  "world (snd (writeGRPCError L r err \<sigma>)) = world \<sigma>"
  "st.more (snd (writeGRPCError L r err \<sigma>)) = st.more \<sigma>"
  by (simp_all add: writeGRPCError_def observeGRPCError_def Let_def)

text \<open>
  The common ending of a handler: on an upstream error, report it; otherwise go on with the
  value.
\<close>

definition on_ok ::
  "lib \<Rightarrow> request \<Rightarrow> (grpc_error + 'a) \<times> ('s, 'm) st_scheme
   \<Rightarrow> ('a \<Rightarrow> ('s, 'm) st_scheme \<Rightarrow> response \<times> ('s, 'm) st_scheme)
   \<Rightarrow> response \<times> ('s, 'm) st_scheme" where
  "on_ok L r res k =
     (case res of
        (Inl err, \<sigma>) \<Rightarrow> writeGRPCError L r err \<sigma>
      | (Inr x, \<sigma>) \<Rightarrow> k x \<sigma>)"

lemma on_ok_simps [simp]:
  "on_ok L r (Inl err, \<sigma>) k = writeGRPCError L r err \<sigma>"
  "on_ok L r (Inr x, \<sigma>) k = k x \<sigma>"
  by (simp_all add: on_ok_def)

section \<open>Identifiers in the URL (devices.go)\<close>

definition parseDeviceID :: "request \<Rightarrow> num_error + u64" where
  "parseDeviceID r = ParseUint (URLParam r ''deviceId'')"

text \<open>
  A handler that only talks to headscale leaves the rest of the state alone. This is the
  frame of every handler of devices, keys, users and policy.
\<close>

definition keeps_more :: "(request \<Rightarrow> ('s, 'm) st_scheme \<Rightarrow> response \<times> ('s, 'm) st_scheme) \<Rightarrow> bool" where
  "keeps_more h \<longleftrightarrow> (\<forall>r \<sigma>. st.more (snd (h r \<sigma>)) = st.more \<sigma>)"

lemma keeps_moreD: "keeps_more h \<Longrightarrow> st.more (snd (h r \<sigma>)) = st.more \<sigma>"
  by (simp add: keeps_more_def)

lemma on_ok_more:
  "st.more (snd res) = st.more \<sigma> \<Longrightarrow>
   (\<And>x \<sigma>'. st.more \<sigma>' = st.more \<sigma> \<Longrightarrow> st.more (snd (k x \<sigma>')) = st.more \<sigma>) \<Longrightarrow>
   st.more (snd (on_ok L r res k)) = st.more \<sigma>"
  by (cases res; cases "fst res") (auto simp: on_ok_def frame_simps split: sum.splits)

text \<open>A reply with a decoded body, or 400 when the body cannot be read or decoded.\<close>

definition decode_body :: "'a decoder \<Rightarrow> 'a \<Rightarrow> request \<Rightarrow> 'a option" where
  "decode_body dec zero r =
     (case Body r of
        None \<Rightarrow> None
      | Some b \<Rightarrow> (case json_Decode b of None \<Rightarrow> None | Some j \<Rightarrow> dec j zero))"

end
