(* ===== verification/Devices.thy ===== *)
theory Devices
  imports Http
begin

text \<open>
  The device endpoints (\<open>internal/api/devices.go\<close>): nine handlers over the headscale client,
  each translated with its guards in the source's order. The lemmas give the two early
  exits every handler with an identifier shares, and the frame.
\<close>

record 's devicesHandler =
  dh_hs :: "'s HeadscaleClient"
  dh_tailnetName :: string

definition ListDevices ::
  "lib \<Rightarrow> 's devicesHandler \<Rightarrow> request \<Rightarrow> ('s, 'm) st_scheme \<Rightarrow> response \<times> ('s, 'm) st_scheme" where
  "ListDevices L h r \<sigma> =
     on_ok L r (call (hs_ListNodes (dh_hs h) (Context r) []) \<sigma>) (\<lambda>nodes \<sigma>.
       (let devices = map (\<lambda>n. NodeToDevice L (Some n)) nodes
        in (writeJSON 200 (enc_DeviceList \<lparr>dl_Devices = devices\<rparr>), \<sigma>)))"

definition GetDevice ::
  "lib \<Rightarrow> 's devicesHandler \<Rightarrow> request \<Rightarrow> ('s, 'm) st_scheme \<Rightarrow> response \<times> ('s, 'm) st_scheme" where
  "GetDevice L h r \<sigma> =
     (case parseDeviceID r of
        Inl _ \<Rightarrow> (writeError 400 ''invalid device id'', \<sigma>)
      | Inr did \<Rightarrow>
          on_ok L r (call (hs_GetNode (dh_hs h) (Context r) did) \<sigma>) (\<lambda>node \<sigma>.
            (writeJSON 200 (enc_Device (NodeToDevice L node)), \<sigma>)))"

definition DeleteDevice ::
  "lib \<Rightarrow> 's devicesHandler \<Rightarrow> request \<Rightarrow> ('s, 'm) st_scheme \<Rightarrow> response \<times> ('s, 'm) st_scheme" where
  "DeleteDevice L h r \<sigma> =
     (case parseDeviceID r of
        Inl _ \<Rightarrow> (writeError 400 ''invalid device id'', \<sigma>)
      | Inr did \<Rightarrow>
          on_ok L r (call (hs_DeleteNode (dh_hs h) (Context r) did) \<sigma>) (\<lambda>_ \<sigma>.
            (WriteHeader 200, \<sigma>)))"

definition AuthorizeDevice ::
  "lib \<Rightarrow> 's devicesHandler \<Rightarrow> request \<Rightarrow> ('s, 'm) st_scheme \<Rightarrow> response \<times> ('s, 'm) st_scheme" where
  "AuthorizeDevice L h r \<sigma> =
     (case parseDeviceID r of
        Inl _ \<Rightarrow> (writeError 400 ''invalid device id'', \<sigma>)
      | Inr did \<Rightarrow>
          (case decode_body dec_DeviceAuthorizeRequest \<lparr>dar_Authorized = False\<rparr> r of
             None \<Rightarrow> (writeError 400 ''invalid request body'', \<sigma>)
           | Some req \<Rightarrow>
               on_ok L r (call (hs_GetNode (dh_hs h) (Context r) did) \<sigma>) (\<lambda>node \<sigma>.
                 if dar_Authorized req then
                   (let user = (case getter None n_User node of
                                  None \<Rightarrow> []
                                | Some u \<Rightarrow> u_Name u)
                    in on_ok L r
                         (call (hs_AuthApprove (dh_hs h) (Context r) user (getter [] n_NodeKey node)) \<sigma>)
                         (\<lambda>_ \<sigma>. (WriteHeader 200, \<sigma>)))
                 else (WriteHeader 200, \<sigma>))))"

definition ExpireDevice ::
  "lib \<Rightarrow> 's devicesHandler \<Rightarrow> request \<Rightarrow> ('s, 'm) st_scheme \<Rightarrow> response \<times> ('s, 'm) st_scheme" where
  "ExpireDevice L h r \<sigma> =
     (case parseDeviceID r of
        Inl _ \<Rightarrow> (writeError 400 ''invalid device id'', \<sigma>)
      | Inr did \<Rightarrow>
          on_ok L r (call (hs_ExpireNode (dh_hs h) (Context r) did) \<sigma>) (\<lambda>_ \<sigma>.
            (WriteHeader 200, \<sigma>)))"

definition RenameDevice ::
  "lib \<Rightarrow> 's devicesHandler \<Rightarrow> request \<Rightarrow> ('s, 'm) st_scheme \<Rightarrow> response \<times> ('s, 'm) st_scheme" where
  "RenameDevice L h r \<sigma> =
     (case parseDeviceID r of
        Inl _ \<Rightarrow> (writeError 400 ''invalid device id'', \<sigma>)
      | Inr did \<Rightarrow>
          (case decode_body dec_DeviceNameRequest \<lparr>dnr_Name = []\<rparr> r of
             None \<Rightarrow> (writeError 400 ''invalid request body'', \<sigma>)
           | Some req \<Rightarrow>
               on_ok L r (call (hs_RenameNode (dh_hs h) (Context r) did (dnr_Name req)) \<sigma>) (\<lambda>node \<sigma>.
                 (writeJSON 200 (enc_Device (NodeToDevice L node)), \<sigma>))))"

definition SetDeviceTags ::
  "lib \<Rightarrow> 's devicesHandler \<Rightarrow> request \<Rightarrow> ('s, 'm) st_scheme \<Rightarrow> response \<times> ('s, 'm) st_scheme" where
  "SetDeviceTags L h r \<sigma> =
     (case parseDeviceID r of
        Inl _ \<Rightarrow> (writeError 400 ''invalid device id'', \<sigma>)
      | Inr did \<Rightarrow>
          (case decode_body dec_DeviceTagsRequest \<lparr>dtr_Tags = None\<rparr> r of
             None \<Rightarrow> (writeError 400 ''invalid request body'', \<sigma>)
           | Some req \<Rightarrow>
               on_ok L r (call (hs_SetTags (dh_hs h) (Context r) did (dtr_Tags req)) \<sigma>) (\<lambda>node \<sigma>.
                 (writeJSON 200 (enc_Device (NodeToDevice L node)), \<sigma>))))"

definition GetDeviceRoutes ::
  "lib \<Rightarrow> 's devicesHandler \<Rightarrow> request \<Rightarrow> ('s, 'm) st_scheme \<Rightarrow> response \<times> ('s, 'm) st_scheme" where
  "GetDeviceRoutes L h r \<sigma> =
     (case parseDeviceID r of
        Inl _ \<Rightarrow> (writeError 400 ''invalid device id'', \<sigma>)
      | Inr did \<Rightarrow>
          on_ok L r (call (hs_GetNode (dh_hs h) (Context r) did) \<sigma>) (\<lambda>node \<sigma>.
            (writeJSON 200 (enc_DeviceRoutes (NodeToDeviceRoutes node)), \<sigma>)))"

definition SetDeviceRoutes ::
  "lib \<Rightarrow> 's devicesHandler \<Rightarrow> request \<Rightarrow> ('s, 'm) st_scheme \<Rightarrow> response \<times> ('s, 'm) st_scheme" where
  "SetDeviceRoutes L h r \<sigma> =
     (case parseDeviceID r of
        Inl _ \<Rightarrow> (writeError 400 ''invalid device id'', \<sigma>)
      | Inr did \<Rightarrow>
          (case decode_body dec_DeviceRoutesRequest \<lparr>drr_Routes = None\<rparr> r of
             None \<Rightarrow> (writeError 400 ''invalid request body'', \<sigma>)
           | Some req \<Rightarrow>
               on_ok L r (call (hs_SetApprovedRoutes (dh_hs h) (Context r) did (drr_Routes req)) \<sigma>) (\<lambda>node \<sigma>.
                 (writeJSON 200 (enc_DeviceRoutes (NodeToDeviceRoutes node)), \<sigma>))))"

lemmas device_handlers [handler_defs] =
  ListDevices_def GetDevice_def DeleteDevice_def AuthorizeDevice_def ExpireDevice_def
  RenameDevice_def SetDeviceTags_def GetDeviceRoutes_def SetDeviceRoutes_def

section \<open>Frame\<close>

lemma devices_keep_more:
  "keeps_more (ListDevices L h)" "keeps_more (GetDevice L h)" "keeps_more (DeleteDevice L h)"
  "keeps_more (AuthorizeDevice L h)" "keeps_more (ExpireDevice L h)"
  "keeps_more (RenameDevice L h)" "keeps_more (SetDeviceTags L h)"
  "keeps_more (GetDeviceRoutes L h)" "keeps_more (SetDeviceRoutes L h)"
  unfolding keeps_more_def device_handlers
  by (auto intro!: on_ok_more simp: frame_simps Let_def split: sum.split option.split)

section \<open>A device that was read\<close>

lemma GetDevice_ok:
  assumes "GetDevice L h r \<sigma> = (resp, \<sigma>')" and "Status resp = 200"
  shows "\<exists>did node. hs_GetNode (dh_hs h) (Context r) did (world \<sigma>) = (Inr node, world \<sigma>') \<and>
    resp = writeJSON 200 (enc_Device (NodeToDevice L node))"
proof (cases "parseDeviceID r")
  case (Inl e)
  with assms show ?thesis by (auto simp: GetDevice_def)
next
  case (Inr did)
  obtain res w where res: "hs_GetNode (dh_hs h) (Context r) did (world \<sigma>) = (res, w)" by fastforce
  show ?thesis
  proof (cases res)
    case (Inl e)
    with assms Inr res writeGRPCError_response [of L r e "\<sigma>\<lparr>world := w\<rparr>"] grpcStatusToHTTP_range [of e]
    show ?thesis by (auto simp: GetDevice_def call_def simp del: writeGRPCError_response)
  next
    case node: (Inr node)
    with assms(1) Inr res have "resp = writeJSON 200 (enc_Device (NodeToDevice L node))" "\<sigma>' = \<sigma>\<lparr>world := w\<rparr>"
      by (auto simp: GetDevice_def call_def)
    with res node show ?thesis by (intro exI [of _ did] exI [of _ node]) simp
  qed
qed

section \<open>The handlers that name a device\<close>

definition device_id_handlers ::
  "lib \<Rightarrow> 's devicesHandler \<Rightarrow> (request \<Rightarrow> ('s, 'm) st_scheme \<Rightarrow> response \<times> ('s, 'm) st_scheme) list" where
  "device_id_handlers L h =
     [GetDevice L h, DeleteDevice L h, AuthorizeDevice L h, ExpireDevice L h, RenameDevice L h,
      SetDeviceTags L h, GetDeviceRoutes L h, SetDeviceRoutes L h]"

lemma device_id_invalid:
  assumes "parseDeviceID r = Inl e" and "f \<in> set (device_id_handlers L h)"
  shows "f r \<sigma> = (writeError 400 ''invalid device id'', \<sigma>)"
  using assms by (auto simp: device_id_handlers_def device_handlers)

end
