(* ===== verification/Keys.thy ===== *)
theory Keys
  imports Http
begin

text \<open>
  The auth key endpoints (\<open>internal/api/keys.go\<close>): the resolution of a tailnet to a headscale
  user, the lookup of a key by its printed identifier, and the four handlers. What the
  handlers owe to the client they are given is proved inside the locale \<open>headscale_client\<close>
  and used through its interpretation on \<open>GRPCClient\<close>.
\<close>

record 's keysHandler =
  kh_hs :: "'s HeadscaleClient"
  kh_tailnetName :: string

text \<open>The two kinds of error of \<open>resolveTailnetUser\<close>: its own, and one of the client.\<close>

datatype resolve_error = keyResolveError nat string | UpstreamError grpc_error

definition writeResolveError ::
  "lib \<Rightarrow> request \<Rightarrow> resolve_error \<Rightarrow> ('s, 'm) st_scheme \<Rightarrow> response \<times> ('s, 'm) st_scheme" where
  "writeResolveError L r err \<sigma> =
     (case err of
        keyResolveError status msg \<Rightarrow> (writeError status msg, \<sigma>)
      | UpstreamError e \<Rightarrow> writeGRPCError L r e \<sigma>)"

text \<open>The pure part of the resolution, once the users are known.\<close>

definition resolve_user :: "string \<Rightarrow> string \<Rightarrow> pbUser list \<Rightarrow> resolve_error + pbUser" where
  "resolve_user tailnetName tailnet users =
     (if length users = 0 then Inl (keyResolveError 404 ''no users exist in headscale'')
      else
        let resolved = (if tailnet = ''-'' then tailnetName else tailnet)
        in if resolved = ''-'' then
             (if length users \<noteq> 1 then
                Inl (keyResolveError 400 ''tailnet is ambiguous; set TAILNET_NAME to a dedicated user'')
              else Inr (users ! 0))
           else if tailnetName \<noteq> ''-'' \<and> tailnet \<noteq> ''-'' \<and> tailnet \<noteq> tailnetName then
             Inl (keyResolveError 404 (''tailnet '' @ tailnet @ '' not found''))
           else
             (case find (\<lambda>u. u_Name u = resolved) users of
                Some u \<Rightarrow> Inr u
              | None \<Rightarrow> Inl (keyResolveError 404 (''tailnet '' @ tailnet @ '' not found''))))"

definition resolveTailnetUser ::
  "'s keysHandler \<Rightarrow> ctx \<Rightarrow> string \<Rightarrow> ('s, 'm) st_scheme \<Rightarrow> (resolve_error + pbUser) \<times> ('s, 'm) st_scheme" where
  "resolveTailnetUser h ctx tailnet \<sigma> =
     (case call (hs_ListUsers (kh_hs h) ctx) \<sigma> of
        (Inl err, \<sigma>) \<Rightarrow> (Inl (UpstreamError err), \<sigma>)
      | (Inr users, \<sigma>) \<Rightarrow> (resolve_user (kh_tailnetName h) tailnet users, \<sigma>))"

definition findKeyByID :: "PreAuthKey list \<Rightarrow> string \<Rightarrow> PreAuthKey option" where
  "findKeyByID ks kid = find (\<lambda>k. FormatUint (k_Id k) = kid) ks"

text \<open>The opening of all four handlers: resolve the user or report why not.\<close>

definition with_user ::
  "lib \<Rightarrow> 's keysHandler \<Rightarrow> request \<Rightarrow> ('s, 'm) st_scheme
   \<Rightarrow> (pbUser \<Rightarrow> ('s, 'm) st_scheme \<Rightarrow> response \<times> ('s, 'm) st_scheme)
   \<Rightarrow> response \<times> ('s, 'm) st_scheme" where
  "with_user L h r \<sigma> k =
     (case resolveTailnetUser h (Context r) (URLParam r ''tailnet'') \<sigma> of
        (Inl err, \<sigma>) \<Rightarrow> writeResolveError L r err \<sigma>
      | (Inr user, \<sigma>) \<Rightarrow> k user \<sigma>)"

definition ListKeys ::
  "lib \<Rightarrow> 's keysHandler \<Rightarrow> request \<Rightarrow> ('s, 'm) st_scheme \<Rightarrow> response \<times> ('s, 'm) st_scheme" where
  "ListKeys L h r \<sigma> =
     with_user L h r \<sigma> (\<lambda>user \<sigma>.
       on_ok L r (call (hs_ListPreAuthKeys (kh_hs h) (Context r) (u_Name user)) \<sigma>) (\<lambda>ks \<sigma>.
         (let result = map (\<lambda>k. PreAuthKeyToKey L (Some k)) ks
          in (writeJSON 200 (enc_KeyList \<lparr>kl_Keys = result\<rparr>), \<sigma>))))"

text \<open>\<open>now\<close> is the reading of the clock by the translation of the request.\<close>

definition CreateKey ::
  "lib \<Rightarrow> time \<Rightarrow> 's keysHandler \<Rightarrow> request \<Rightarrow> ('s, 'm) st_scheme \<Rightarrow> response \<times> ('s, 'm) st_scheme" where
  "CreateKey L now h r \<sigma> =
     with_user L h r \<sigma> (\<lambda>user \<sigma>.
       (case decode_body dec_CreateKeyRequest zero_CreateKeyRequest r of
          None \<Rightarrow> (writeError 400 ''invalid request body'', \<sigma>)
        | Some req \<Rightarrow>
            (let protoReq = KeyRequestToCreatePreAuthKeyRequest L now req (u_Id user)
             in on_ok L r (call (hs_CreatePreAuthKey (kh_hs h) (Context r) protoReq) \<sigma>) (\<lambda>key \<sigma>.
                  (writeJSON 200 (enc_Key (PreAuthKeyToKey L key)), \<sigma>)))))"

definition GetKey ::
  "lib \<Rightarrow> 's keysHandler \<Rightarrow> request \<Rightarrow> ('s, 'm) st_scheme \<Rightarrow> response \<times> ('s, 'm) st_scheme" where
  "GetKey L h r \<sigma> =
     (let keyID = URLParam r ''keyId''
      in with_user L h r \<sigma> (\<lambda>user \<sigma>.
           on_ok L r (call (hs_ListPreAuthKeys (kh_hs h) (Context r) (u_Name user)) \<sigma>) (\<lambda>ks \<sigma>.
             (case findKeyByID ks keyID of
                None \<Rightarrow> (writeError 404 (''key '' @ keyID @ '' not found''), \<sigma>)
              | Some key \<Rightarrow> (writeJSON 200 (enc_Key (PreAuthKeyToKey L (Some key))), \<sigma>)))))"

definition DeleteKey ::
  "lib \<Rightarrow> 's keysHandler \<Rightarrow> request \<Rightarrow> ('s, 'm) st_scheme \<Rightarrow> response \<times> ('s, 'm) st_scheme" where
  "DeleteKey L h r \<sigma> =
     (let keyID = URLParam r ''keyId''
      in with_user L h r \<sigma> (\<lambda>user \<sigma>.
           on_ok L r (call (hs_ListPreAuthKeys (kh_hs h) (Context r) (u_Name user)) \<sigma>) (\<lambda>ks \<sigma>.
             (case findKeyByID ks keyID of
                None \<Rightarrow> (writeError 404 (''key '' @ keyID @ '' not found''), \<sigma>)
              | Some key \<Rightarrow>
                  on_ok L r (call (hs_ExpirePreAuthKey (kh_hs h) (Context r) (k_Id key)) \<sigma>) (\<lambda>_ \<sigma>.
                    on_ok L r (call (hs_DeletePreAuthKey (kh_hs h) (Context r) (k_Id key)) \<sigma>) (\<lambda>_ \<sigma>.
                      (WriteHeader 200, \<sigma>)))))))"

lemmas key_handlers [handler_defs] =
  ListKeys_def CreateKey_def GetKey_def DeleteKey_def

section \<open>Frame\<close>

lemma with_user_more:
  "(\<And>u \<sigma>'. st.more \<sigma>' = st.more \<sigma> \<Longrightarrow> st.more (snd (k u \<sigma>')) = st.more \<sigma>) \<Longrightarrow>
   st.more (snd (with_user L h r \<sigma> k)) = st.more \<sigma>"
  by (auto simp: with_user_def resolveTailnetUser_def writeResolveError_def call_def frame_simps
      split: prod.splits sum.splits resolve_error.splits)

lemma keys_keep_more:
  "keeps_more (ListKeys L h)" "keeps_more (CreateKey L now h)" "keeps_more (GetKey L h)"
  "keeps_more (DeleteKey L h)"
  unfolding keeps_more_def key_handlers Let_def
  by (auto intro!: with_user_more on_ok_more simp: frame_simps split: option.split)

section \<open>Resolution\<close>

text \<open>Success names a listed user, and which one depends on the two names only.\<close>

lemma resolve_user_Inr:
  "resolve_user tn t users = Inr u \<longleftrightarrow>
     (let resolved = (if t = ''-'' then tn else t)
      in if resolved = ''-'' then users = [u]
         else (tn = ''-'' \<or> t = ''-'' \<or> t = tn) \<and> find (\<lambda>u. u_Name u = resolved) users = Some u)"
  by (cases users) (auto simp: resolve_user_def Let_def split: option.splits)

lemma resolve_user_pinned:
  assumes "resolve_user tn t users = Inr u" and "tn \<noteq> ''-''"
  shows "u \<in> set users" and "u_Name u = tn" and "t = ''-'' \<or> t = tn"
  using assms by (auto simp: resolve_user_Inr Let_def split: if_splits dest: find_SomeD)

lemma findKeyByID_Some:
  "findKeyByID ks kid = Some k \<Longrightarrow> k \<in> set ks \<and> FormatUint (k_Id k) = kid"
  by (auto simp: findKeyByID_def dest: find_SomeD)

section \<open>What a deletion does\<close>

text \<open>A handler that reports success got past each of its exits.\<close>

lemma writeGRPCError_not_200: "Status (fst (writeGRPCError L r e \<sigma>)) \<noteq> 200"
  using grpcStatusToHTTP_range [of e] by auto

lemma resolve_user_Inl:
  assumes "resolve_user tn t us = Inl err"
  shows "\<exists>n m. err = keyResolveError n m \<and> n \<in> {400, 404}"
  using assms by (auto simp: resolve_user_def Let_def split: if_splits option.splits)

lemma on_ok_200:
  assumes "Status (fst (on_ok L r (call f \<sigma>) k)) = 200"
  shows "\<exists>x w. f (world \<sigma>) = (Inr x, w) \<and> on_ok L r (call f \<sigma>) k = k x (\<sigma>\<lparr>world := w\<rparr>)"
proof (cases "f (world \<sigma>)")
  case (Pair res w)
  then have "call f \<sigma> = (res, \<sigma>\<lparr>world := w\<rparr>)" by (simp add: call_def)
  with assms Pair show ?thesis
    by (cases res) (simp_all add: writeGRPCError_not_200 del: writeGRPCError_response)
qed

lemma with_user_200:
  assumes "Status (fst (with_user L h r \<sigma> k)) = 200"
  shows "\<exists>users w user. hs_ListUsers (kh_hs h) (Context r) (world \<sigma>) = (Inr users, w) \<and>
    resolve_user (kh_tailnetName h) (URLParam r ''tailnet'') users = Inr user \<and>
    with_user L h r \<sigma> k = k user (\<sigma>\<lparr>world := w\<rparr>)"
proof (cases "hs_ListUsers (kh_hs h) (Context r) (world \<sigma>)")
  case (Pair res w)
  then have c: "call (hs_ListUsers (kh_hs h) (Context r)) \<sigma> = (res, \<sigma>\<lparr>world := w\<rparr>)"
    by (simp add: call_def)
  show ?thesis
  proof (cases res)
    case (Inl e)
    with assms c show ?thesis
      by (simp add: with_user_def resolveTailnetUser_def writeResolveError_def
          writeGRPCError_not_200 del: writeGRPCError_response)
  next
    case (Inr users)
    show ?thesis
    proof (cases "resolve_user (kh_tailnetName h) (URLParam r ''tailnet'') users")
      case (Inl e)
      with resolve_user_Inl [OF Inl] assms c Inr show ?thesis
        by (auto simp: with_user_def resolveTailnetUser_def writeResolveError_def)
    next
      case user: (Inr user)
      with c Inr Pair show ?thesis
        by (simp add: with_user_def resolveTailnetUser_def)
    qed
  qed
qed

text \<open>
  The calls of a deletion that reports success, in order: the users, the keys of the
  resolved user, the expiry of the key with the asked identifier, its deletion.
\<close>

lemma DeleteKey_ok:
  assumes "Status (fst (DeleteKey L h r \<sigma>)) = 200"
  shows "\<exists>users s1 user ks s2 k s3 s4.
     hs_ListUsers (kh_hs h) (Context r) (world \<sigma>) = (Inr users, s1) \<and>
     resolve_user (kh_tailnetName h) (URLParam r ''tailnet'') users = Inr user \<and>
     hs_ListPreAuthKeys (kh_hs h) (Context r) (u_Name user) s1 = (Inr ks, s2) \<and>
     k \<in> set ks \<and> FormatUint (k_Id k) = URLParam r ''keyId'' \<and>
     hs_ExpirePreAuthKey (kh_hs h) (Context r) (k_Id k) s2 = (Inr (), s3) \<and>
     hs_DeletePreAuthKey (kh_hs h) (Context r) (k_Id k) s3 = (Inr (), s4) \<and>
     world (snd (DeleteKey L h r \<sigma>)) = s4"
proof -
  note ok = assms [unfolded DeleteKey_def Let_def]
  from with_user_200 [OF ok] obtain users s1 user where
    users: "hs_ListUsers (kh_hs h) (Context r) (world \<sigma>) = (Inr users, s1)" and
    user: "resolve_user (kh_tailnetName h) (URLParam r ''tailnet'') users = Inr user" and
    eq1: "DeleteKey L h r \<sigma> = on_ok L r
      (call (hs_ListPreAuthKeys (kh_hs h) (Context r) (u_Name user)) (\<sigma>\<lparr>world := s1\<rparr>)) (\<lambda>ks \<sigma>.
             (case findKeyByID ks (URLParam r ''keyId'') of
                None \<Rightarrow> (writeError 404 (''key '' @ URLParam r ''keyId'' @ '' not found''), \<sigma>)
              | Some key \<Rightarrow>
                  on_ok L r (call (hs_ExpirePreAuthKey (kh_hs h) (Context r) (k_Id key)) \<sigma>) (\<lambda>_ \<sigma>.
                    on_ok L r (call (hs_DeletePreAuthKey (kh_hs h) (Context r) (k_Id key)) \<sigma>) (\<lambda>_ \<sigma>.
                      (WriteHeader 200, \<sigma>)))))"
    unfolding DeleteKey_def Let_def by blast
  from on_ok_200 [OF assms [unfolded eq1], unfolded world_update st.simps] obtain ks s2 where
    ks: "hs_ListPreAuthKeys (kh_hs h) (Context r) (u_Name user) s1 = (Inr ks, s2)" and
    eq2: "DeleteKey L h r \<sigma> =
             (case findKeyByID ks (URLParam r ''keyId'') of
                None \<Rightarrow> (writeError 404 (''key '' @ URLParam r ''keyId'' @ '' not found''), \<sigma>\<lparr>world := s2\<rparr>)
              | Some key \<Rightarrow>
                  on_ok L r (call (hs_ExpirePreAuthKey (kh_hs h) (Context r) (k_Id key)) (\<sigma>\<lparr>world := s2\<rparr>)) (\<lambda>_ \<sigma>.
                    on_ok L r (call (hs_DeletePreAuthKey (kh_hs h) (Context r) (k_Id key)) \<sigma>) (\<lambda>_ \<sigma>.
                      (WriteHeader 200, \<sigma>))))"
    unfolding eq1 by auto
  from assms eq2 obtain k where k: "findKeyByID ks (URLParam r ''keyId'') = Some k"
    by (cases "findKeyByID ks (URLParam r ''keyId'')") simp_all
  from on_ok_200 [OF assms [unfolded eq2 k option.case], unfolded world_update st.simps] obtain s3 where
    s3: "hs_ExpirePreAuthKey (kh_hs h) (Context r) (k_Id k) s2 = (Inr (), s3)" and
    eq3: "DeleteKey L h r \<sigma> =
       on_ok L r (call (hs_DeletePreAuthKey (kh_hs h) (Context r) (k_Id k)) (\<sigma>\<lparr>world := s3\<rparr>))
         (\<lambda>_ \<sigma>. (WriteHeader 200, \<sigma>))"
    unfolding eq2 k option.case by auto
  from on_ok_200 [OF assms [unfolded eq3]] obtain s4 where
    s4: "hs_DeletePreAuthKey (kh_hs h) (Context r) (k_Id k) s3 = (Inr (), s4)" and
    eq4: "DeleteKey L h r \<sigma> = (WriteHeader 200, \<sigma>\<lparr>world := s4\<rparr>)"
    unfolding eq3 by auto
  from users user ks findKeyByID_Some [OF k] s3 s4 eq4 show ?thesis by auto
qed

text \<open>The calls of a creation that reports success: the users, then one request for a key.\<close>

lemma CreateKey_ok:
  assumes "Status (fst (CreateKey L now h r \<sigma>)) = 200"
  shows "\<exists>users s1 user req key s2.
     hs_ListUsers (kh_hs h) (Context r) (world \<sigma>) = (Inr users, s1) \<and>
     resolve_user (kh_tailnetName h) (URLParam r ''tailnet'') users = Inr user \<and>
     decode_body dec_CreateKeyRequest zero_CreateKeyRequest r = Some req \<and>
     hs_CreatePreAuthKey (kh_hs h) (Context r)
       (KeyRequestToCreatePreAuthKeyRequest L now req (u_Id user)) s1 = (Inr key, s2) \<and>
     CreateKey L now h r \<sigma> = (writeJSON 200 (enc_Key (PreAuthKeyToKey L key)), \<sigma>\<lparr>world := s2\<rparr>)"
proof -
  from with_user_200 [OF assms [unfolded CreateKey_def]] obtain users s1 user where
    users: "hs_ListUsers (kh_hs h) (Context r) (world \<sigma>) = (Inr users, s1)" and
    user: "resolve_user (kh_tailnetName h) (URLParam r ''tailnet'') users = Inr user" and
    eq: "CreateKey L now h r \<sigma> =
       (case decode_body dec_CreateKeyRequest zero_CreateKeyRequest r of
          None \<Rightarrow> (writeError 400 ''invalid request body'', \<sigma>\<lparr>world := s1\<rparr>)
        | Some req \<Rightarrow>
            (let protoReq = KeyRequestToCreatePreAuthKeyRequest L now req (u_Id user)
             in on_ok L r (call (hs_CreatePreAuthKey (kh_hs h) (Context r) protoReq) (\<sigma>\<lparr>world := s1\<rparr>))
                  (\<lambda>key \<sigma>. (writeJSON 200 (enc_Key (PreAuthKeyToKey L key)), \<sigma>))))"
    unfolding CreateKey_def by blast
  from assms eq obtain req where
    req: "decode_body dec_CreateKeyRequest zero_CreateKeyRequest r = Some req"
    by (cases "decode_body dec_CreateKeyRequest zero_CreateKeyRequest r") simp_all
  from on_ok_200 [OF assms [unfolded eq req option.case Let_def], unfolded world_update st.simps]
  obtain key s2 where
    "hs_CreatePreAuthKey (kh_hs h) (Context r)
       (KeyRequestToCreatePreAuthKeyRequest L now req (u_Id user)) s1 = (Inr key, s2)"
    "CreateKey L now h r \<sigma> = (writeJSON 200 (enc_Key (PreAuthKeyToKey L key)), \<sigma>\<lparr>world := s2\<rparr>)"
    unfolding eq req option.case Let_def by auto
  with users user req show ?thesis by blast
qed

context headscale_client
begin

lemma DeleteKey_own_key:
  assumes ok: "Status (fst (DeleteKey L h r \<sigma>)) = 200" and hs: "kh_hs h = hs"
    and pin: "kh_tailnetName h \<noteq> ''-''" "kh_tailnetName h \<noteq> []"
  shows "\<exists>k s3. key_owned (kh_tailnetName h) k \<and> FormatUint (k_Id k) = URLParam r ''keyId'' \<and>
     hs_DeletePreAuthKey hs (Context r) (k_Id k) s3 = (Inr (), world (snd (DeleteKey L h r \<sigma>)))"
proof -
  from DeleteKey_ok [OF ok] obtain users s1 user ks s2 k s3 s4 where
    res: "resolve_user (kh_tailnetName h) (URLParam r ''tailnet'') users = Inr user" and
    ks: "hs_ListPreAuthKeys hs (Context r) (u_Name user) s1 = (Inr ks, s2)" "k \<in> set ks" and
    kid: "FormatUint (k_Id k) = URLParam r ''keyId''" and
    del: "hs_DeletePreAuthKey hs (Context r) (k_Id k) s3 = (Inr (), s4)"
         "world (snd (DeleteKey L h r \<sigma>)) = s4"
    by (auto simp: hs)
  from resolve_user_pinned(2) [OF res pin(1)] have n: "u_Name user = kh_tailnetName h" .
  with keys_of_user [OF ks(1) _ ks(2)] pin(2) have "key_owned (kh_tailnetName h) k" by simp
  with kid del show ?thesis by blast
qed

end

end
