(* ===== verification/Users.thy ===== *)
theory Users
  imports Http
begin

text \<open>The user endpoints (\<open>internal/api/users.go\<close>).\<close>

definition ListUsers ::
  "lib \<Rightarrow> 's HeadscaleClient \<Rightarrow> request \<Rightarrow> ('s, 'm) st_scheme \<Rightarrow> response \<times> ('s, 'm) st_scheme" where
  "ListUsers L hs r \<sigma> =
     on_ok L r (call (hs_ListUsers hs (Context r)) \<sigma>) (\<lambda>users \<sigma>.
       (let result = map (\<lambda>u. UserToTailscaleUser L (Some u)) users
        in (writeJSON 200 (enc_UserList \<lparr>ul_Users = result\<rparr>), \<sigma>)))"

definition GetUser ::
  "lib \<Rightarrow> 's HeadscaleClient \<Rightarrow> request \<Rightarrow> ('s, 'm) st_scheme \<Rightarrow> response \<times> ('s, 'm) st_scheme" where
  "GetUser L hs r \<sigma> =
     (let userID = URLParam r ''userId''
      in on_ok L r (call (hs_ListUsers hs (Context r)) \<sigma>) (\<lambda>users \<sigma>.
           (case FindUserByID users userID of
              None \<Rightarrow> (writeError 404 (''user '' @ userID @ '' not found''), \<sigma>)
            | Some u \<Rightarrow> (writeJSON 200 (enc_User (UserToTailscaleUser L (Some u))), \<sigma>))))"

definition DeleteUser ::
  "lib \<Rightarrow> 's HeadscaleClient \<Rightarrow> request \<Rightarrow> ('s, 'm) st_scheme \<Rightarrow> response \<times> ('s, 'm) st_scheme" where
  "DeleteUser L hs r \<sigma> =
     (case ParseUint (URLParam r ''userId'') of
        Inl _ \<Rightarrow> (writeError 400 ''invalid user id'', \<sigma>)
      | Inr uid \<Rightarrow>
          on_ok L r (call (hs_DeleteUser hs (Context r) uid) \<sigma>) (\<lambda>_ \<sigma>. (WriteHeader 200, \<sigma>)))"

lemmas user_handlers [handler_defs] = ListUsers_def GetUser_def DeleteUser_def

lemma users_keep_more:
  "keeps_more (ListUsers L hs)" "keeps_more (GetUser L hs)" "keeps_more (DeleteUser L hs)"
  unfolding keeps_more_def user_handlers Let_def
  by (auto intro!: on_ok_more simp: frame_simps split: sum.split option.split)

lemma FindUserByID_Some:
  "FindUserByID users sid = Some u \<Longrightarrow> u \<in> set users \<and> FormatUint (u_Id u) = sid"
  by (auto simp: FindUserByID_def dest: find_SomeD)

end
