(* ===== verification/Policy.thy ===== *)
theory Policy
  imports Http
begin

text \<open>The policy endpoints (\<open>internal/api/policy.go\<close>).\<close>

definition GetPolicy ::
  "lib \<Rightarrow> 's HeadscaleClient \<Rightarrow> request \<Rightarrow> ('s, 'm) st_scheme \<Rightarrow> response \<times> ('s, 'm) st_scheme" where
  "GetPolicy L hs r \<sigma> =
     (let respond = (\<lambda>policy \<sigma>.
            if Contains (Header_Get r ''Accept'') ''application/hujson'' then
              (\<lparr>Status = 200, ContentType = Some ''application/hujson'',
                RespBody = TextBody policy\<rparr>, \<sigma>)
            else (writeJSON 200 (JObj [(''policy'', JStr policy)]), \<sigma>))
      in case call (hs_GetPolicy hs (Context r)) \<sigma> of
           (Inl err, \<sigma>) \<Rightarrow>
             (if status_code err = NotFound \<or> status_code err = Unknown
              then respond ''{}'' \<sigma>
              else writeGRPCError L r err \<sigma>)
         | (Inr policy, \<sigma>) \<Rightarrow> respond policy \<sigma>)"

definition SetPolicy ::
  "lib \<Rightarrow> 's HeadscaleClient \<Rightarrow> request \<Rightarrow> ('s, 'm) st_scheme \<Rightarrow> response \<times> ('s, 'm) st_scheme" where
  "SetPolicy L hs r \<sigma> =
     (case Body r of
        None \<Rightarrow> (writeError 400 ''failed to read request body'', \<sigma>)
      | Some policyStr \<Rightarrow>
          on_ok L r (call (hs_SetPolicy hs (Context r) policyStr) \<sigma>) (\<lambda>_ \<sigma>.
            (writeJSON 200 (JObj [(''policy'', JStr policyStr)]), \<sigma>)))"

lemmas policy_handlers [handler_defs] = GetPolicy_def SetPolicy_def

lemma policy_keep_more:
  "keeps_more (GetPolicy L hs)" "keeps_more (SetPolicy L hs)"
  unfolding keeps_more_def policy_handlers Let_def
  by (auto intro!: on_ok_more simp: frame_simps call_def split: sum.split option.split prod.split)

end
