(* ===== verification/Token_Store.thy ===== *)
theory Token_Store
  imports Go_Time
begin

text \<open>
  The in-memory store of issued tokens (\<open>internal/api/auth.go\<close>, \<open>tokenStore\<close>). Each operation
  runs under the store's mutex and so is one step. \<open>purge\<close> ranges over a Go map while it
  deletes from it: the order is the runtime's choice, an argument here. The locale
  \<open>token_store\<close> states what the users of a store rely on; everything they need is proved
  there, and the Go map discharges its laws.
\<close>

record tokenEntry =
  expiry :: time

type_synonym tokenStore = "string \<rightharpoonup> tokenEntry"

definition newTokenStore :: tokenStore where
  "newTokenStore = Map.empty"

definition store :: "tokenStore \<Rightarrow> string \<Rightarrow> tokenEntry \<Rightarrow> tokenStore" where
  "store ts token entry = ts(token \<mapsto> entry)"

definition lookup :: "tokenStore \<Rightarrow> string \<Rightarrow> tokenEntry option" where
  "lookup ts token = ts token"

text \<open>
  One iteration of the range loop. A key that is gone when its turn comes is skipped, as Go's
  range does.
\<close>

definition purge_step :: "time \<Rightarrow> string \<Rightarrow> tokenStore \<Rightarrow> tokenStore" where
  "purge_step now tok ts =
     (case ts tok of
        None \<Rightarrow> ts
      | Some e \<Rightarrow> if After now (expiry e) then ts(tok := None) else ts)"

definition purge :: "time \<Rightarrow> string list \<Rightarrow> tokenStore \<Rightarrow> tokenStore" where
  "purge now toks ts = fold (purge_step now) toks ts"

text \<open>The keys that a range over the map yields, in some order.\<close>

definition ranges_over :: "string list \<Rightarrow> tokenStore \<Rightarrow> bool" where
  "ranges_over toks ts \<longleftrightarrow> distinct toks \<and> set toks = dom ts"

definition live :: "time \<Rightarrow> tokenEntry option \<Rightarrow> bool" where
  "live now e = (case e of None \<Rightarrow> False | Some e \<Rightarrow> \<not> After now (expiry e))"

lemma live_mono: "live t e \<Longrightarrow> t' \<le> t \<Longrightarrow> live t' e"
  by (auto simp: live_def After_def split: option.splits)

lemma live_simps [simp]:
  "\<not> live now None" "live now (Some e) \<longleftrightarrow> now \<le> expiry e"
  by (simp_all add: live_def After_def not_less)

section \<open>The contract\<close>

locale token_store =
  fixes store_op :: "'t \<Rightarrow> string \<Rightarrow> tokenEntry \<Rightarrow> 't"
    and lookup_op :: "'t \<Rightarrow> string \<Rightarrow> tokenEntry option"
    and purge_op :: "time \<Rightarrow> string list \<Rightarrow> 't \<Rightarrow> 't"
    and ranges :: "string list \<Rightarrow> 't \<Rightarrow> bool"
  assumes lookup_store: "lookup_op (store_op ts tok e) t = (if t = tok then Some e else lookup_op ts t)"
    and lookup_purge: "ranges toks ts \<Longrightarrow>
      lookup_op (purge_op now toks ts) t = (if live now (lookup_op ts t) then lookup_op ts t else None)"
begin

definition accepts :: "time \<Rightarrow> 't \<Rightarrow> string \<Rightarrow> bool" where
  "accepts now ts tok = live now (lookup_op ts tok)"

lemma accepts_stored: "accepts now (store_op ts tok e) tok \<longleftrightarrow> now \<le> expiry e"
  by (simp add: accepts_def lookup_store)

lemma accepts_other: "t \<noteq> tok \<Longrightarrow> accepts now (store_op ts tok e) t = accepts now ts t"
  by (simp add: accepts_def lookup_store)

text \<open>A purge that read the clock no later than the decision does not change the decision.\<close>

lemma accepts_purge:
  assumes "ranges toks ts" and "now \<le> later"
  shows "accepts later (purge_op now toks ts) t = accepts later ts t"
  using assms live_mono by (auto simp: accepts_def lookup_purge)

text \<open>The order of the range does not matter, and a second purge finds nothing to do.\<close>

lemma purge_order:
  assumes "ranges toks ts" and "ranges toks' ts"
  shows "lookup_op (purge_op now toks ts) t = lookup_op (purge_op now toks' ts) t"
  using assms by (simp add: lookup_purge)

lemma purge_again:
  assumes "ranges toks ts" and "ranges toks' (purge_op now toks ts)" and "now' \<le> now"
  shows "lookup_op (purge_op now' toks' (purge_op now toks ts)) t = lookup_op (purge_op now toks ts) t"
  using assms live_mono by (auto simp: lookup_purge)

lemma purge_subset: "ranges toks ts \<Longrightarrow> lookup_op (purge_op now toks ts) t = Some e \<Longrightarrow> lookup_op ts t = Some e"
  by (auto simp: lookup_purge split: if_splits)

end

section \<open>The Go map\<close>

lemma purge_step_apply:
  "purge_step now tok ts t = (if t = tok \<and> \<not> live now (ts t) then None else ts t)"
  by (auto simp: purge_step_def After_def split: option.splits)

lemma purge_apply:
  "purge now toks ts t = (if t \<in> set toks \<and> \<not> live now (ts t) then None else ts t)"
  unfolding purge_def by (induction toks arbitrary: ts) (auto simp: purge_step_apply)

interpretation go_map: token_store store lookup purge ranges_over
proof unfold_locales
  fix ts tok e t
  show "lookup (store ts tok e) t = (if t = tok then Some e else lookup ts t)"
    by (simp add: lookup_def store_def)
next
  fix toks ts now t
  assume "ranges_over toks ts"
  then show "lookup (purge now toks ts) t = (if live now (lookup ts t) then lookup ts t else None)"
    by (auto simp: lookup_def purge_apply ranges_over_def domIff)
qed

lemma finite_purge: "finite (dom ts) \<Longrightarrow> finite (dom (purge now toks ts))"
  by (rule finite_subset [of _ "dom ts"]) (auto simp: purge_apply split: if_splits)

end
