(* ===== verification/Go_Crypto.thy ===== *)
theory Go_Crypto
  imports Prelude
begin

text \<open>
  The parts of Go's \<open>crypto\<close> tree that the source calls: \<open>sha256.Sum256\<close> (FIPS 180-4),
  \<open>hmac.New(sha256.New, key)\<close> (FIPS 198-1), \<open>rsa.VerifyPKCS1v15\<close> for SHA-256 (RFC 8017, with
  the checks of the public key that Go 1.25 makes), and \<open>ecdsa.VerifyASN1\<close> on P-256 and P-384
  (FIPS 186, the signature being the DER encoding of two positive integers).
\<close>

unbundle bit_operations_syntax

section \<open>Bytes and numbers\<close>

text \<open>\<open>new(big.Int).SetBytes\<close>, and the fixed-width big-endian form \<open>FillBytes\<close>.\<close>

definition SetBytes :: "bytes \<Rightarrow> int" where
  "SetBytes bs = foldl (\<lambda>n b. n * 256 + of_char b) 0 bs"

primrec FillBytes :: "nat \<Rightarrow> int \<Rightarrow> bytes" where
  "FillBytes 0 n = []"
| "FillBytes (Suc k) n = FillBytes k (n div 256) @ [char_of n]"

lemma length_FillBytes [simp]: "length (FillBytes k n) = k"
  by (induction k arbitrary: n) simp_all

lemma SetBytes_snoc: "SetBytes (bs @ [b]) = SetBytes bs * 256 + of_char b"
  by (simp add: SetBytes_def)

lemma SetBytes_nonneg [simp]: "0 \<le> SetBytes bs"
proof (induction bs rule: rev_induct)
  case Nil
  then show ?case by (simp add: SetBytes_def)
next
  case (snoc b bs)
  have "(0 :: int) \<le> of_char b" by (metis of_nat_0_le_iff of_nat_of_char)
  with snoc show ?case by (simp add: SetBytes_snoc)
qed

lemma SetBytes_FillBytes: "SetBytes (FillBytes k n) = n mod 256 ^ k"
proof (induction k arbitrary: n)
  case 0
  then show ?case by (simp add: SetBytes_def)
next
  case (Suc k)
  have "n mod (256 * 256 ^ k) = 256 * (n div 256 mod 256 ^ k) + n mod 256"
    by (rule zmod_zmult2_eq) simp
  with Suc show ?case by (simp add: SetBytes_snoc)
qed

function BitLen :: "int \<Rightarrow> nat" where
  "BitLen n = (if n \<le> 0 then 0 else Suc (BitLen (n div 2)))"
  by pat_completeness auto
termination by (relation "measure nat") auto

declare BitLen.simps [simp del]

section \<open>SHA-256\<close>

type_synonym w32 = "32 word"

definition sha_K :: "w32 list" where
  "sha_K =
     [1116352408, 1899447441, 3049323471, 3921009573, 961987163, 1508970993, 2453635748, 2870763221,
      3624381080, 310598401, 607225278, 1426881987, 1925078388, 2162078206, 2614888103, 3248222580,
      3835390401, 4022224774, 264347078, 604807628, 770255983, 1249150122, 1555081692, 1996064986,
      2554220882, 2821834349, 2952996808, 3210313671, 3336571891, 3584528711, 113926993, 338241895,
      666307205, 773529912, 1294757372, 1396182291, 1695183700, 1986661051, 2177026350, 2456956037,
      2730485921, 2820302411, 3259730800, 3345764771, 3516065817, 3600352804, 4094571909, 275423344,
      430227734, 506948616, 659060556, 883997877, 958139571, 1322822218, 1537002063, 1747873779,
      1955562222, 2024104815, 2227730452, 2361852424, 2428436474, 2756734187, 3204031479, 3329325298]"

type_synonym sha_state = "w32 \<times> w32 \<times> w32 \<times> w32 \<times> w32 \<times> w32 \<times> w32 \<times> w32"

definition sha_H0 :: sha_state where
  "sha_H0 = (0x6a09e667, 0xbb67ae85, 0x3c6ef372, 0xa54ff53a, 0x510e527f, 0x9b05688c, 0x1f83d9ab, 0x5be0cd19)"

definition rotr :: "nat \<Rightarrow> w32 \<Rightarrow> w32" where
  "rotr n x = drop_bit n x OR push_bit (32 - n) x"

text \<open>One round of the compression function, with the word of the schedule and the constant.\<close>

fun sha_round :: "sha_state \<Rightarrow> w32 \<times> w32 \<Rightarrow> sha_state" where
  "sha_round (a, b, c, d, e, f, g, h) (w, k) =
     (let s1 = rotr 6 e XOR rotr 11 e XOR rotr 25 e;
          ch = (e AND f) XOR (NOT e AND g);
          t1 = h + s1 + ch + k + w;
          s0 = rotr 2 a XOR rotr 13 a XOR rotr 22 a;
          maj = (a AND b) XOR (a AND c) XOR (b AND c);
          t2 = s0 + maj
      in (t1 + t2, a, b, c, d + t1, e, f, g))"

text \<open>The message schedule, kept as the last sixteen words with the newest first.\<close>

definition sha_next :: "w32 list \<Rightarrow> w32" where
  "sha_next ws =
     (let w2 = ws ! 1; w7 = ws ! 6; w15 = ws ! 14; w16 = ws ! 15;
          s0 = rotr 7 w15 XOR rotr 18 w15 XOR drop_bit 3 w15;
          s1 = rotr 17 w2 XOR rotr 19 w2 XOR drop_bit 10 w2
      in s1 + w7 + s0 + w16)"

primrec sha_extend :: "nat \<Rightarrow> w32 list \<Rightarrow> w32 list" where
  "sha_extend 0 ws = ws"
| "sha_extend (Suc n) ws = sha_extend n (sha_next ws # ws)"

fun words_of :: "bytes \<Rightarrow> w32 list" where
  "words_of (a # b # c # d # rest) =
     word_of_int (SetBytes [a, b, c, d]) # words_of rest"
| "words_of _ = []"

fun sha_add :: "sha_state \<Rightarrow> sha_state \<Rightarrow> sha_state" where
  "sha_add (a, b, c, d, e, f, g, h) (a', b', c', d', e', f', g', h') =
     (a + a', b + b', c + c', d + d', e + e', f + f', g + g', h + h')"

definition sha_block :: "bytes \<Rightarrow> sha_state \<Rightarrow> sha_state" where
  "sha_block blk st =
     (let ws = rev (sha_extend 48 (rev (words_of blk)))
      in sha_add st (foldl sha_round st (zip ws sha_K)))"

definition sha_pad :: "bytes \<Rightarrow> bytes" where
  "sha_pad m =
     (let n = length m; z = (119 - n mod 64) mod 64
      in m @ CHR 0x80 # replicate z (CHR 0x00) @ FillBytes 8 (8 * int n))"

function sha_blocks :: "bytes \<Rightarrow> sha_state \<Rightarrow> sha_state" where
  "sha_blocks bs st =
     (if length bs < 64 then st else sha_blocks (drop 64 bs) (sha_block (take 64 bs) st))"
  by pat_completeness auto
termination by (relation "measure (length \<circ> fst)") auto

declare sha_blocks.simps [simp del]

fun sha_output :: "sha_state \<Rightarrow> bytes" where
  "sha_output (a, b, c, d, e, f, g, h) =
     concat (map (\<lambda>w. FillBytes 4 (uint w)) [a, b, c, d, e, f, g, h])"

definition Sum256 :: "bytes \<Rightarrow> bytes" where
  "Sum256 m = sha_output (sha_blocks (sha_pad m) sha_H0)"

lemma length_Sum256 [simp]: "length (Sum256 m) = 32"
proof -
  obtain a b c d e f g h where "sha_blocks (sha_pad m) sha_H0 = (a, b, c, d, e, f, g, h)"
    by (cases "sha_blocks (sha_pad m) sha_H0") auto
  then show ?thesis by (simp add: Sum256_def)
qed

text \<open>The padded message is a whole number of blocks.\<close>

lemma sha_pad_blocks: "64 dvd length (sha_pad m)"
proof -
  define r where "r = length m mod 64"
  have r: "r < 64" by (simp add: r_def)
  have "length (sha_pad m) = length m + 9 + (119 - r) mod 64"
    by (simp add: sha_pad_def Let_def r_def)
  moreover have "(r + 9 + (119 - r) mod 64) mod 64 = 0"
  proof (cases "r \<le> 55")
    case True
    then have "(119 - r) mod 64 = 55 - r" by (intro mod_nat_eqI) auto
    with True show ?thesis by simp
  next
    case False
    then have "(119 - r) mod 64 = 119 - r" by simp
    with False r show ?thesis by simp
  qed
  moreover have "(length m + 9 + (119 - r) mod 64) mod 64 = (r + 9 + (119 - r) mod 64) mod 64"
    unfolding r_def by (simp only: mod_add_left_eq add.assoc)
  ultimately show ?thesis by (simp add: mod_eq_0_iff_dvd)
qed

section \<open>HMAC\<close>

definition xor_pad :: "int \<Rightarrow> bytes \<Rightarrow> bytes" where
  "xor_pad p key = map (\<lambda>c. char_of (of_char c XOR p)) key"

definition hmac_sha256 :: "bytes \<Rightarrow> bytes \<Rightarrow> bytes" where
  "hmac_sha256 key m =
     (let k0 = (if length key > 64 then Sum256 key else key);
          k = k0 @ replicate (64 - length k0) (CHR 0x00)
      in Sum256 (xor_pad 0x5c k @ Sum256 (xor_pad 0x36 k @ m)))"

lemma length_hmac [simp]: "length (hmac_sha256 key m) = 32"
  by (simp add: hmac_sha256_def Let_def)

section \<open>RSA\<close>

function exp_mod :: "int \<Rightarrow> int \<Rightarrow> int \<Rightarrow> int" where
  "exp_mod b e n =
     (if e \<le> 0 then 1 mod n
      else if e mod 2 = 1 then b * exp_mod b (e - 1) n mod n
      else exp_mod (b * b mod n) (e div 2) n)"
  by pat_completeness auto
termination by (relation "measure (\<lambda>(b, e, n). nat e)") auto

declare exp_mod.simps [simp del]

lemma exp_mod_eq: "exp_mod b e n = b ^ nat e mod n"
proof (induction b e n rule: exp_mod.induct)
  case (1 b e n)
  consider (zero) "e \<le> 0" | (odd) "0 < e" "e mod 2 = 1" | (even) "0 < e" "e mod 2 \<noteq> 1" by linarith
  then show ?case
  proof cases
    case zero
    then show ?thesis by (simp add: exp_mod.simps [of b e])
  next
    case odd
    with 1(1) have "exp_mod b e n = b * (b ^ nat (e - 1) mod n) mod n"
      by (simp add: exp_mod.simps [of b e])
    also have "\<dots> = b ^ Suc (nat (e - 1)) mod n" by (simp add: mod_mult_right_eq)
    also have "Suc (nat (e - 1)) = nat e" using odd by simp
    finally show ?thesis .
  next
    case even
    with 1(2) have "exp_mod b e n = (b * b mod n) ^ nat (e div 2) mod n"
      by (simp add: exp_mod.simps [of b e])
    also have "\<dots> = (b * b) ^ nat (e div 2) mod n" by (rule power_mod)
    also have "(b * b) ^ nat (e div 2) = b ^ (2 * nat (e div 2))"
      by (simp add: power_mult power2_eq_square)
    also have "2 * nat (e div 2) = nat (2 * (e div 2))" by (simp add: nat_mult_distrib)
    also have "2 * (e div 2) = e" using even by presburger
    finally show ?thesis .
  qed
qed

text \<open>
  The public key: the modulus and the exponent, a Go \<open>int\<close>. Keys of less than 1024 bits,
  even moduli, and exponents that are small, even or above 2^31 - 1 are refused.
\<close>

record rsa_PublicKey =
  rsa_N :: int
  rsa_E :: "64 word"

definition rsa_key_ok :: "rsa_PublicKey \<Rightarrow> bool" where
  "rsa_key_ok pub \<longleftrightarrow>
     1024 \<le> BitLen (rsa_N pub) \<and> odd (rsa_N pub) \<and>
     2 \<le> sint (rsa_E pub) \<and> odd (sint (rsa_E pub)) \<and> sint (rsa_E pub) \<le> 2147483647"

text \<open>The DER prefix of a SHA-256 digest, and the padded block.\<close>

definition sha256_prefix :: bytes where
  "sha256_prefix = map (\<lambda>n. char_of (n :: int))
     [48, 49, 48, 13, 6, 9, 96, 134, 72, 1, 101, 3, 4, 2, 1,
      5, 0, 4, 32]"

definition pkcs1v15ConstructEM :: "nat \<Rightarrow> bytes \<Rightarrow> bytes option" where
  "pkcs1v15ConstructEM k hashed =
     (let t = sha256_prefix @ hashed
      in if k < length t + 11 then None
         else Some ([CHR 0x00, CHR 0x01] @ replicate (k - length t - 3) (CHR 0xFF) @ [CHR 0x00] @ t))"

definition VerifyPKCS1v15 :: "rsa_PublicKey \<Rightarrow> bytes \<Rightarrow> bytes \<Rightarrow> bool" where
  "VerifyPKCS1v15 pub hashed sig =
     (let k = (BitLen (rsa_N pub) + 7) div 8
      in length hashed = 32 \<and> rsa_key_ok pub \<and> length sig = k \<and> SetBytes sig < rsa_N pub \<and>
         pkcs1v15ConstructEM k hashed =
           Some (FillBytes k (exp_mod (SetBytes sig) (sint (rsa_E pub)) (rsa_N pub))))"


section \<open>A key and a signature for any digest\<close>

text \<open>
  With exponent 3 and no condition on the modulus beyond its size and parity, a signature can
  be chosen first and the modulus after it. This shows that the verification above accepts
  something for every digest.
\<close>

lemma of_char_bounds: "(0 :: int) \<le> of_char b" "of_char b < (256 :: int)"
proof -
  have "(of_char b :: int) = int (of_char b)" by (rule of_nat_of_char [symmetric])
  with nat_of_char_less_256 [of b] show "(0 :: int) \<le> of_char b" "of_char b < (256 :: int)"
    by linarith+
qed

lemma SetBytes_Cons: "SetBytes (b # bs) = of_char b * 256 ^ length bs + SetBytes bs"
proof (induction bs rule: rev_induct)
  case Nil
  then show ?case by (simp add: SetBytes_def)
next
  case (snoc x xs)
  have "SetBytes (b # xs @ [x]) = SetBytes (b # xs) * 256 + of_char x"
    using SetBytes_snoc [of "b # xs" x] by simp
  with snoc show ?case by (simp add: SetBytes_snoc algebra_simps)
qed

lemma SetBytes_less: "SetBytes bs < 256 ^ length bs"
proof (induction bs rule: rev_induct)
  case Nil
  then show ?case by (simp add: SetBytes_def)
next
  case (snoc b bs)
  with of_char_bounds [of b] show ?case by (simp add: SetBytes_snoc)
qed

lemma FillBytes_SetBytes: "FillBytes (length bs) (SetBytes bs) = bs"
proof (induction bs rule: rev_induct)
  case Nil
  then show ?case by simp
next
  case (snoc b bs)
  have "(SetBytes bs * 256 + of_char b) div 256 = SetBytes bs"
    using of_char_bounds [of b] by simp
  moreover have "(SetBytes bs * 256 + of_char b) mod 256 = of_char b" by simp
  then have "char_of (SetBytes bs * 256 + of_char b) = b" by (metis char_of_char char_of_mod_256)
  ultimately show ?case using snoc by (simp add: SetBytes_snoc)
qed

lemma BitLen_eq: "2 ^ k \<le> n \<Longrightarrow> n < 2 ^ Suc k \<Longrightarrow> BitLen n = Suc k"
proof (induction k arbitrary: n)
  case 0
  then have "n = 1" by simp
  then show ?case by (simp add: BitLen.simps [of 1] BitLen.simps [of 0])
next
  case (Suc k)
  then have "BitLen (n div 2) = Suc k" by (intro Suc.IH) auto
  moreover have "0 < n" using Suc.prems(1) by (smt (verit) zero_less_power)
  ultimately show ?case by (simp add: BitLen.simps [of n])
qed

definition some_em :: "bytes \<Rightarrow> bytes" where
  "some_em h = [CHR 0x00, CHR 0x01] @ replicate 74 (CHR 0xFF) @ [CHR 0x00] @ sha256_prefix @ h"

definition some_root :: "bytes \<Rightarrow> int" where
  "some_root h = 5 * 2 ^ 339 + (if odd (SetBytes (some_em h)) then 0 else 1)"

definition some_key :: "bytes \<Rightarrow> rsa_PublicKey" where
  "some_key h = \<lparr>rsa_N = some_root h ^ 3 - SetBytes (some_em h), rsa_E = 3\<rparr>"

lemma some_em_props:
  assumes "length h = 32"
  shows "length (some_em h) = 128" and "SetBytes (some_em h) < 2 ^ 1009"
    and "pkcs1v15ConstructEM 128 h = Some (some_em h)"
proof -
  show l: "length (some_em h) = 128" using assms by (simp add: some_em_def sha256_prefix_def)
  define t where "t = replicate 74 (CHR 0xFF) @ [CHR 0x00] @ sha256_prefix @ h"
  have t: "some_em h = CHR 0x00 # CHR 0x01 # t" by (simp add: some_em_def t_def)
  with l have lt: "length t = 126" by simp
  have "SetBytes (some_em h) = 256 ^ 126 + SetBytes t" by (simp add: t SetBytes_Cons lt)
  also have "\<dots> < 2 * 256 ^ 126" using SetBytes_less [of t] by (simp add: lt)
  finally show "SetBytes (some_em h) < 2 ^ 1009" by simp
  show "pkcs1v15ConstructEM 128 h = Some (some_em h)"
    using assms by (simp add: pkcs1v15ConstructEM_def some_em_def sha256_prefix_def Let_def)
qed

lemma some_key_props:
  assumes "length h = 32"
  shows "2 ^ 1023 \<le> rsa_N (some_key h)" and "rsa_N (some_key h) < 2 ^ 1024" and "odd (rsa_N (some_key h))"
proof -
  have em: "0 \<le> SetBytes (some_em h)" "SetBytes (some_em h) < 2 ^ 1009"
    using some_em_props(2) [OF assms] by simp_all
  have c: "(5 * 2 ^ 339 :: int) ^ 3 \<le> some_root h ^ 3" "some_root h ^ 3 \<le> (5 * 2 ^ 339 + 1 :: int) ^ 3"
    by (rule power_mono; simp add: some_root_def)+
  have lo: "(2 :: int) ^ 1023 \<le> (5 * 2 ^ 339) ^ 3 - 2 ^ 1009" by simp
  have hi: "(5 * 2 ^ 339 + 1 :: int) ^ 3 < 2 ^ 1024" by simp
  have n: "rsa_N (some_key h) = some_root h ^ 3 - SetBytes (some_em h)" by (simp add: some_key_def)
  show "2 ^ 1023 \<le> rsa_N (some_key h)" using em(2) c(1) lo unfolding n by linarith
  show "rsa_N (some_key h) < 2 ^ 1024" using em(1) c(2) hi unfolding n by linarith
  show "odd (rsa_N (some_key h))" unfolding n by (simp add: some_root_def)
qed

lemma some_key_verifies:
  assumes "length h = 32"
  shows "VerifyPKCS1v15 (some_key h) h (FillBytes 128 (some_root h))"
proof -
  note k = some_key_props [OF assms] and em = some_em_props [OF assms]
  have b: "BitLen (rsa_N (some_key h)) = 1024"
    using BitLen_eq [of 1023 "rsa_N (some_key h)"] k(1,2) by simp
  have r: "0 \<le> some_root h" "some_root h < 2 ^ 1009" by (simp_all add: some_root_def)
  have small: "(2 :: int) ^ 1009 \<le> 2 ^ 1023" "(2 :: int) ^ 1009 \<le> 256 ^ 128" by simp_all
  have s: "SetBytes (FillBytes 128 (some_root h)) = some_root h"
    using r small by (simp only: SetBytes_FillBytes mod_pos_pos_trivial)
  have "some_root h ^ 3 = SetBytes (some_em h) + rsa_N (some_key h)" by (simp add: some_key_def)
  then have "some_root h ^ 3 mod rsa_N (some_key h) = SetBytes (some_em h) mod rsa_N (some_key h)"
    by simp
  also have "\<dots> = SetBytes (some_em h)"
    using em(2) k(1) small by (intro mod_pos_pos_trivial) auto
  finally have m: "exp_mod (some_root h) 3 (rsa_N (some_key h)) = SetBytes (some_em h)"
    by (simp add: exp_mod_eq)
  have e: "sint (rsa_E (some_key h)) = 3" by (simp add: some_key_def)
  have "some_root h < rsa_N (some_key h)" using r k(1) small by linarith
  with k(3) b s m e em(1,3) FillBytes_SetBytes [of "some_em h"] assms show ?thesis
    by (simp add: VerifyPKCS1v15_def rsa_key_ok_def)
qed

section \<open>ECDSA\<close>

text \<open>
  The curves \<open>y^2 = x^3 - 3x + b\<close> over a prime field, a base point and its order. A point is
  a pair of coordinates, \<open>None\<close> being the point at infinity.
\<close>

datatype curve = P256 | P384

definition curve_p :: "curve \<Rightarrow> int" where
  "curve_p c =
     (case c of
        P256 \<Rightarrow> 0xffffffff00000001000000000000000000000000ffffffffffffffffffffffff
      | P384 \<Rightarrow> 0xfffffffffffffffffffffffffffffffffffffffffffffffffffffffffffffffeffffffff0000000000000000ffffffff)"

definition curve_n :: "curve \<Rightarrow> int" where
  "curve_n c =
     (case c of
        P256 \<Rightarrow> 0xffffffff00000000ffffffffffffffffbce6faada7179e84f3b9cac2fc632551
      | P384 \<Rightarrow> 0xffffffffffffffffffffffffffffffffffffffffffffffffc7634d81f4372ddf581a0db248b0a77aecec196accc52973)"

definition curve_b :: "curve \<Rightarrow> int" where
  "curve_b c =
     (case c of
        P256 \<Rightarrow> 0x5ac635d8aa3a93e7b3ebbd55769886bc651d06b0cc53b0f63bce3c3e27d2604b
      | P384 \<Rightarrow> 0xb3312fa7e23ee7e4988e056be3f82d19181d9c6efe8141120314088f5013875ac656398d8a2ed19d2a85c8edd3ec2aef)"

type_synonym point = "(int \<times> int) option"

definition curve_G :: "curve \<Rightarrow> point" where
  "curve_G c =
     (case c of
        P256 \<Rightarrow>
          Some (0x6b17d1f2e12c4247f8bce6e563a440f277037d812deb33a0f4a13945d898c296,
                0x4fe342e2fe1a7f9b8ee7eb4a7c0f9e162bce33576b315ececbb6406837bf51f5)
      | P384 \<Rightarrow>
          Some (0xaa87ca22be8b05378eb1c71ef320ad746e1d3b628ba79b9859f741e082542a385502f25dbf55296c3a545e3872760ab7,
                0x3617de4a96262c6f5d9e98bf9292dc29f8f41dbd289a147ce9da3113b5f0b8c00a60b1ce1d7e819d7a431d7c90ea0e5f))"

definition on_curve :: "curve \<Rightarrow> int \<Rightarrow> int \<Rightarrow> bool" where
  "on_curve c x y \<longleftrightarrow>
     0 \<le> x \<and> x < curve_p c \<and> 0 \<le> y \<and> y < curve_p c \<and>
     y * y mod curve_p c = (x * x * x - 3 * x + curve_b c) mod curve_p c"

text \<open>Inverses modulo a prime, by Fermat.\<close>

definition inv_mod :: "int \<Rightarrow> int \<Rightarrow> int" where
  "inv_mod a q = exp_mod (a mod q) (q - 2) q"

fun point_add :: "curve \<Rightarrow> point \<Rightarrow> point \<Rightarrow> point" where
  "point_add c None q = q"
| "point_add c p None = p"
| "point_add c (Some (x1, y1)) (Some (x2, y2)) =
     (let m = curve_p c in
      if x1 = x2 \<and> (y1 + y2) mod m = 0 then None
      else
        let l = (if x1 = x2 then (3 * x1 * x1 - 3) * inv_mod (2 * y1) m
                 else (y2 - y1) * inv_mod (x2 - x1) m) mod m;
            x3 = (l * l - x1 - x2) mod m
        in Some (x3, (l * (x1 - x3) - y1) mod m))"

function scalar_mult :: "curve \<Rightarrow> int \<Rightarrow> point \<Rightarrow> point" where
  "scalar_mult c k p =
     (if k \<le> 0 then None
      else
        let q = scalar_mult c (k div 2) (point_add c p p)
        in if odd k then point_add c p q else q)"
  by pat_completeness auto
termination by (relation "measure (\<lambda>(c, k, p). nat k)") auto

declare scalar_mult.simps [simp del]

text \<open>
  DER: a sequence of two integers, minimal and not negative, and nothing else. Only the short
  form of lengths matters: a longer sequence holds a number beyond the order of the curves.
\<close>

definition der_element :: "char \<Rightarrow> bytes \<Rightarrow> (bytes \<times> bytes) option" where
  "der_element tag bs =
     (case bs of
        t # l # rest \<Rightarrow>
          let n = of_char l :: nat in
          if t = tag \<and> n < 128 \<and> n \<le> length rest then Some (take n rest, drop n rest) else None
      | _ \<Rightarrow> None)"

definition der_integer :: "bytes \<Rightarrow> (int \<times> bytes) option" where
  "der_integer bs =
     (case der_element (CHR 0x02) bs of
        None \<Rightarrow> None
      | Some (body, rest) \<Rightarrow>
          (case body of
             [] \<Rightarrow> None
           | b # bs' \<Rightarrow>
               if (128 :: int) \<le> of_char b then None
               else if b = CHR 0x00 \<and> (case bs' of [] \<Rightarrow> False | b' # _ \<Rightarrow> of_char b' < (128 :: int)) then None
               else Some (SetBytes body, rest)))"

definition parseSignature :: "bytes \<Rightarrow> (int \<times> int) option" where
  "parseSignature sig =
     (case der_element (CHR 0x30) sig of
        None \<Rightarrow> None
      | Some (inner, rest) \<Rightarrow>
          if rest \<noteq> [] then None
          else
            (case der_integer inner of
               None \<Rightarrow> None
             | Some (r, inner') \<Rightarrow>
                 (case der_integer inner' of
                    None \<Rightarrow> None
                  | Some (s, inner'') \<Rightarrow> if inner'' \<noteq> [] then None else Some (r, s))))"

record ecdsa_PublicKey =
  ec_Curve :: curve
  ec_X :: int
  ec_Y :: int

definition ecdsa_verify :: "ecdsa_PublicKey \<Rightarrow> bytes \<Rightarrow> int \<Rightarrow> int \<Rightarrow> bool" where
  "ecdsa_verify pub hash r s \<longleftrightarrow>
     (let c = ec_Curve pub; n = curve_n c in
      on_curve c (ec_X pub) (ec_Y pub) \<and> 0 < r \<and> r < n \<and> 0 < s \<and> s < n \<and>
      (let w = inv_mod s n;
           u1 = SetBytes hash * w mod n;
           u2 = r * w mod n
       in case point_add c (scalar_mult c u1 (curve_G c))
                 (scalar_mult c u2 (Some (ec_X pub, ec_Y pub))) of
            None \<Rightarrow> False
          | Some (x, _) \<Rightarrow> x mod n = r))"

definition VerifyASN1 :: "ecdsa_PublicKey \<Rightarrow> bytes \<Rightarrow> bytes \<Rightarrow> bool" where
  "VerifyASN1 pub hash sig =
     (case parseSignature sig of
        None \<Rightarrow> False
      | Some (r, s) \<Rightarrow> ecdsa_verify pub hash r s)"

text \<open>A signature is a DER sequence that fills the bytes.\<close>

lemma parseSignature_shape:
  assumes "parseSignature sig = Some rs"
  shows "\<exists>l rest. sig = CHR 0x30 # l # rest \<and> of_char l = length rest"
  using assms
  by (auto simp: parseSignature_def der_element_def Let_def split: option.splits list.splits if_splits)

end
