(* ===== verification/Auth.thy ===== *)
theory Auth
  imports Http Token_Store Go_Crypto
begin

text \<open>
  Token issue and bearer authentication (\<open>internal/api/auth.go\<close>). The random bytes and the
  readings of the clock are arguments; a middleware takes the handler it wraps.
\<close>

record 's auth_st = "'s st" +
  tokens :: tokenStore

definition oauthTokenTTL :: duration where
  "oauthTokenTTL = Hour"

record oauthTokenResponse =
  AccessToken :: string
  TokenType :: string
  ExpiresIn :: int

definition enc_oauthTokenResponse :: "oauthTokenResponse \<Rightarrow> json" where
  "enc_oauthTokenResponse t =
     JObj [(''access_token'', JStr (AccessToken t)),
           (''token_type'', JStr (TokenType t)),
           (''expires_in'', JNum (FormatInt (ExpiresIn t)))]"

section \<open>Tokens\<close>

text \<open>\<open>rand\<close> is what \<open>rand.Read\<close> put into the 32 bytes, \<open>None\<close> if it failed.\<close>

definition generateToken :: "string \<Rightarrow> bytes option \<Rightarrow> string option" where
  "generateToken hmacSecret rand =
     (case rand of
        None \<Rightarrow> None
      | Some nonce \<Rightarrow>
          (let nonce64 = RawURLEncode nonce;
               sig = RawURLEncode (hmac_sha256 hmacSecret nonce64)
           in Some (nonce64 @ ''.'' @ sig)))"

definition parseOAuthCredentials :: "request \<Rightarrow> (string \<times> string) option" where
  "parseOAuthCredentials r =
     (let form = (if FormErr r then None
                  else
                    (let cid = FormValue r ''client_id''; secret = FormValue r ''client_secret''
                     in if cid \<noteq> [] \<and> secret \<noteq> [] then Some (cid, secret) else None))
      in case BasicAuth r of
           Some (cid, secret) \<Rightarrow> if cid \<noteq> [] then Some (cid, secret) else form
         | None \<Rightarrow> form)"

text \<open>Issuing a token, the common ending of the two token endpoints.\<close>

definition issueToken ::
  "string \<Rightarrow> bytes option \<Rightarrow> time \<Rightarrow> ('s, 'm) auth_st_scheme \<Rightarrow> response \<times> ('s, 'm) auth_st_scheme" where
  "issueToken hmacSecret rand now \<sigma> =
     (case generateToken hmacSecret rand of
        None \<Rightarrow> (writeError 500 ''failed to generate token'', \<sigma>)
      | Some tok \<Rightarrow>
          (let expiry = Add now oauthTokenTTL;
               \<sigma> = \<sigma>\<lparr>tokens := store (tokens \<sigma>) tok \<lparr>expiry = expiry\<rparr>\<rparr>
           in (writeJSON 200 (enc_oauthTokenResponse
                 \<lparr>AccessToken = tok, TokenType = ''Bearer'',
                  ExpiresIn = sint oauthTokenTTL div sint Second\<rparr>), \<sigma>)))"

definition OAuthTokenHandler ::
  "string \<Rightarrow> string \<Rightarrow> string \<Rightarrow> bytes option \<Rightarrow> time \<Rightarrow> request
   \<Rightarrow> ('s, 'm) auth_st_scheme \<Rightarrow> response \<times> ('s, 'm) auth_st_scheme" where
  "OAuthTokenHandler clientID clientSecret hmacSecret rand now r \<sigma> =
     (case parseOAuthCredentials r of
        None \<Rightarrow> (writeError 400 ''missing credentials'', \<sigma>)
      | Some (cid, secret) \<Rightarrow>
          (let grantType = FormValue r ''grant_type''
           in if grantType = [] then (writeError 400 ''missing grant_type'', \<sigma>)
              else if grantType \<noteq> ''client_credentials'' then
                (writeError 400 ''unsupported grant_type; only client_credentials is supported'', \<sigma>)
              else if cid \<noteq> clientID \<or> secret \<noteq> clientSecret then
                (writeError 401 ''invalid client credentials'', \<sigma>)
              else issueToken hmacSecret rand now \<sigma>))"

section \<open>Bearer authentication\<close>

definition extractBearerToken :: "request \<Rightarrow> string" where
  "extractBearerToken r =
     (let auth = Header_Get r ''Authorization''
      in if auth = [] then []
         else
           (case SplitN auth (CHR '' '') 2 of
              [scheme, rest] \<Rightarrow> if EqualFold scheme ''bearer'' then TrimSpace rest else []
            | _ \<Rightarrow> []))"

text \<open>The token a request presents: the bearer token, or else the Basic user name.\<close>

definition presentedToken :: "request \<Rightarrow> string" where
  "presentedToken r =
     (let tok = extractBearerToken r
      in if tok = [] then (case BasicAuth r of Some (u, _) \<Rightarrow> u | None \<Rightarrow> tok) else tok)"

definition BearerAuthMiddleware ::
  "string \<Rightarrow> time \<Rightarrow> (request \<Rightarrow> ('s, 'm) auth_st_scheme \<Rightarrow> response \<times> ('s, 'm) auth_st_scheme)
   \<Rightarrow> request \<Rightarrow> ('s, 'm) auth_st_scheme \<Rightarrow> response \<times> ('s, 'm) auth_st_scheme" where
  "BearerAuthMiddleware headscaleAPIKey now next_h r \<sigma> =
     (let tok = presentedToken r
      in if tok = [] then (writeError 401 ''missing authorization token'', \<sigma>)
         else if tok = headscaleAPIKey then next_h r \<sigma>
         else
           (case lookup (tokens \<sigma>) tok of
              None \<Rightarrow> (writeError 401 ''invalid or expired token'', \<sigma>)
            | Some entry \<Rightarrow>
                if After now (expiry entry)
                then (writeError 401 ''invalid or expired token'', \<sigma>)
                else next_h r \<sigma>))"

section \<open>What a token looks like\<close>

definition wellformed_token :: "string \<Rightarrow> string \<Rightarrow> bool" where
  "wellformed_token secret tok \<longleftrightarrow>
     (case cut_at (CHR ''.'') tok of
        None \<Rightarrow> False
      | Some (nonce64, sig) \<Rightarrow>
          RawURLDecode nonce64 \<noteq> None \<and>
          RawURLDecode sig = Some (hmac_sha256 secret nonce64))"

lemma generateToken_cut:
  "generateToken secret (Some nonce) = Some tok \<Longrightarrow>
   cut_at (CHR ''.'') tok =
     Some (RawURLEncode nonce, RawURLEncode (hmac_sha256 secret (RawURLEncode nonce)))"
  using cut_at_append [OF RawURLEncode_no_dot, of nonce]
  by (auto simp: generateToken_def Let_def)

lemma generateToken_wellformed: "generateToken secret rand = Some tok \<Longrightarrow> wellformed_token secret tok"
  by (cases rand) (auto simp: wellformed_token_def generateToken_cut, simp add: generateToken_def)

lemma generateToken_inject:
  "generateToken secret (Some n) = Some t \<Longrightarrow> generateToken secret (Some m) = Some t \<Longrightarrow> n = m"
  using generateToken_cut [of secret n t] generateToken_cut [of secret m t]
  by (simp add: rawurl.enc_inject)

lemma generateToken_not_Nil: "generateToken secret rand = Some tok \<Longrightarrow> tok \<noteq> []"
  by (auto simp: generateToken_def Let_def split: option.splits)

section \<open>Presenting a token\<close>

lemma encodeURL_graphic: "c \<in> set encodeURL \<Longrightarrow> is_graphic c"
  by (auto simp: encodeURL_def is_graphic_def)

lemma generateToken_graphic:
  assumes "generateToken secret rand = Some tok"
  shows "list_all is_graphic tok"
proof -
  have enc: "list_all is_graphic (RawURLEncode bs)" for bs
    using encode_raw_set [OF encodeURL_props(2)] encodeURL_graphic
    by (auto simp: list_all_iff RawURLEncode_def)
  have "is_graphic (CHR ''.'')" by (simp add: is_graphic_def)
  with enc assms show ?thesis by (auto simp: generateToken_def Let_def split: option.splits)
qed

lemma bearer_presented:
  assumes "Header_Get r ''Authorization'' = ''Bearer '' @ tok" and "list_all is_graphic tok" and "tok \<noteq> []"
  shows "presentedToken r = tok"
proof -
  have "TrimSpace tok = tok"
    using assms(2,3) by (intro TrimSpace_graphic) (simp_all add: list_all_iff)
  moreover have "SplitN (''Bearer '' @ tok) (CHR '' '') 2 = [''Bearer'', tok]"
    by (simp add: numeral_2_eq_2)
  moreover have "EqualFold ''Bearer'' ''bearer''" by code_simp
  ultimately have "extractBearerToken r = tok"
    using assms(1) by (simp add: extractBearerToken_def)
  with assms(3) show ?thesis by (simp add: presentedToken_def)
qed

section \<open>The decision of the middleware\<close>

definition authorized :: "string \<Rightarrow> time \<Rightarrow> request \<Rightarrow> tokenStore \<Rightarrow> bool" where
  "authorized headscaleAPIKey now r ts \<longleftrightarrow>
     presentedToken r \<noteq> [] \<and>
     (presentedToken r = headscaleAPIKey \<or> live now (lookup ts (presentedToken r)))"

lemma BearerAuthMiddleware_eq:
  "BearerAuthMiddleware key now h r \<sigma> =
     (if authorized key now r (tokens \<sigma>) then h r \<sigma>
      else (writeError 401 (if presentedToken r = [] then ''missing authorization token''
                            else ''invalid or expired token''), \<sigma>))"
  by (auto simp: BearerAuthMiddleware_def authorized_def live_def Let_def split: option.splits)

lemma issueToken_eq:
  "issueToken secret rand now \<sigma> =
     (case generateToken secret rand of
        None \<Rightarrow> (writeError 500 ''failed to generate token'', \<sigma>)
      | Some tok \<Rightarrow> (writeJSON 200 (JObj [(''access_token'', JStr tok), (''token_type'', JStr ''Bearer''),
            (''expires_in'', JNum ''3600'')]),
          \<sigma>\<lparr>tokens := (tokens \<sigma>)(tok \<mapsto> \<lparr>expiry = now + 3600000000000\<rparr>)\<rparr>))"
proof -
  have "FormatInt (sint oauthTokenTTL div sint Second) = ''3600''" by code_simp
  then show ?thesis
    by (simp add: issueToken_def enc_oauthTokenResponse_def Let_def store_def oauthTokenTTL_def
        split: option.split)
qed

end
