(* ===== verification/Wif.thy ===== *)
theory Wif
  imports Auth Model
begin

text \<open>
  Workload identity federation (\<open>internal/api/wif.go\<close>): validation of a JWT against the keys
  of an OIDC issuer, the cache of those keys, and the token exchange endpoint. The HTTP
  client is a parameter, as the network is outside; the readings of the clock are arguments,
  one for each call of \<open>time.Now\<close>, in the order of the source.
\<close>

section \<open>Claims\<close>

record JWTClaims =
  Issuer :: string
  Subject :: string
  Audience :: json
  ExpiresAt :: int
  IssuedAt :: int

definition zero_JWTClaims :: JWTClaims where
  "zero_JWTClaims = \<lparr>Issuer = [], Subject = [], Audience = JNull, ExpiresAt = 0, IssuedAt = 0\<rparr>"

definition dec_JWTClaims :: "JWTClaims decoder" where
  "dec_JWTClaims = dec_struct
     [field ''iss'' dec_string Issuer Issuer_update,
      field ''sub'' dec_string Subject Subject_update,
      field ''aud'' dec_any Audience Audience_update,
      field ''exp'' dec_int64 ExpiresAt ExpiresAt_update,
      field ''iat'' dec_int64 IssuedAt IssuedAt_update]"

definition AudienceContains :: "JWTClaims \<Rightarrow> string \<Rightarrow> bool" where
  "AudienceContains c aud =
     (case Audience c of
        JStr v \<Rightarrow> v = aud
      | JArr js \<Rightarrow> list_ex (\<lambda>a. a = JStr aud) js
      | _ \<Rightarrow> False)"

section \<open>Keys\<close>

datatype publicKey = RSAKey rsa_PublicKey | ECKey ecdsa_PublicKey

definition parseRSAPublicKey :: "string \<Rightarrow> string \<Rightarrow> rsa_PublicKey option" where
  "parseRSAPublicKey nB64 eB64 =
     (case RawURLDecode nB64 of
        None \<Rightarrow> None
      | Some nBytes \<Rightarrow>
          (case RawURLDecode eB64 of
             None \<Rightarrow> None
           | Some eBytes \<Rightarrow>
               (let n = SetBytes nBytes;
                    e = foldl (\<lambda>e b. push_bit 8 e + of_char b) (0 :: 64 word) eBytes
                in Some \<lparr>rsa_N = n, rsa_E = e\<rparr>)))"

definition parseECPublicKey :: "string \<Rightarrow> string \<Rightarrow> string \<Rightarrow> ecdsa_PublicKey option" where
  "parseECPublicKey crv xB64 yB64 =
     (case (if crv = ''P-256'' then Some P256 else if crv = ''P-384'' then Some P384 else None) of
        None \<Rightarrow> None
      | Some curve \<Rightarrow>
          (case RawURLDecode xB64 of
             None \<Rightarrow> None
           | Some xBytes \<Rightarrow>
               (case RawURLDecode yB64 of
                  None \<Rightarrow> None
                | Some yBytes \<Rightarrow>
                    Some \<lparr>ec_Curve = curve, ec_X = SetBytes xBytes, ec_Y = SetBytes yBytes\<rparr>)))"

datatype sig_error = KeyNotRSA | KeyNotECDSA | SignatureMismatch | UnsupportedAlgorithm string

text \<open>\<open>None\<close> is a nil error: the signature is good.\<close>

definition verifySignature :: "string \<Rightarrow> publicKey \<Rightarrow> bytes \<Rightarrow> bytes \<Rightarrow> sig_error option" where
  "verifySignature alg key msg sig =
     (if alg = ''RS256'' then
        (case key of
           RSAKey rsaKey \<Rightarrow>
             if VerifyPKCS1v15 rsaKey (Sum256 msg) sig then None else Some SignatureMismatch
         | _ \<Rightarrow> Some KeyNotRSA)
      else if alg = ''ES256'' then
        (case key of
           ECKey ecKey \<Rightarrow>
             if VerifyASN1 ecKey (Sum256 msg) sig then None else Some SignatureMismatch
         | _ \<Rightarrow> Some KeyNotECDSA)
      else Some (UnsupportedAlgorithm alg))"

section \<open>The cache of keys\<close>

record jwksCache =
  keys :: "string \<rightharpoonup> publicKey"
  fetchedAt :: time

definition jwksCacheTTL :: duration where
  "jwksCacheTTL = Hour"

record 's wif_st = "'s auth_st" +
  jwks :: "jwksCache option"

record OIDCValidator =
  issuerURL :: string
  audience :: string
  clientID :: string

definition NewOIDCValidator :: "string \<Rightarrow> string \<Rightarrow> string \<Rightarrow> OIDCValidator" where
  "NewOIDCValidator issuer aud cid =
     \<lparr>issuerURL = TrimRight issuer (CHR ''/''), audience = aud, clientID = cid\<rparr>"

text \<open>
  The HTTP client: whether a URL makes a request (\<open>NewRequest\<close> parses it), and the exchange
  with the network; a body is \<open>None\<close> when reading it fails.
\<close>

record http_response =
  hr_StatusCode :: nat
  hr_Body :: "bytes option"

record 's http_client =
  NewRequest :: "string \<Rightarrow> bool"
  Do_Get :: "string \<Rightarrow> 's \<Rightarrow> http_response option \<times> 's"

datatype key_error =
    BuildDiscoveryRequest | DiscoveryFetch | DiscoveryStatus nat | ParseDiscovery | MissingJWKSURI
  | BuildJWKSRequest | FetchJWKS | JWKSStatus nat | ReadJWKSBody | ParseJWKS
  | KidNotFound string

record discovery = JWKSURI :: string

definition dec_discovery :: "discovery decoder" where
  "dec_discovery = dec_struct [field ''jwks_uri'' dec_string JWKSURI JWKSURI_update]"

definition discoverJWKSURI ::
  "'s http_client \<Rightarrow> OIDCValidator \<Rightarrow> ('s, 'm) st_scheme \<Rightarrow> (key_error + string) \<times> ('s, 'm) st_scheme" where
  "discoverJWKSURI hc v \<sigma> =
     (let url = issuerURL v @ ''/.well-known/openid-configuration''
      in if \<not> NewRequest hc url then (Inl BuildDiscoveryRequest, \<sigma>)
         else
           (case call (Do_Get hc url) \<sigma> of
              (None, \<sigma>) \<Rightarrow> (Inl DiscoveryFetch, \<sigma>)
            | (Some resp, \<sigma>) \<Rightarrow>
                (if hr_StatusCode resp \<noteq> 200 then Inl (DiscoveryStatus (hr_StatusCode resp))
                 else
                   (case Option.bind (hr_Body resp) (\<lambda>b. Option.bind (json_Decode b)
                           (\<lambda>j. dec_discovery j \<lparr>JWKSURI = []\<rparr>)) of
                      None \<Rightarrow> Inl ParseDiscovery
                    | Some d \<Rightarrow> if JWKSURI d = [] then Inl MissingJWKSURI else Inr (JWKSURI d)), \<sigma>)))"

record jwk =
  Kty :: string
  Kid :: string
  jwk_N :: string
  jwk_E :: string
  Crv :: string
  jwk_X :: string
  jwk_Y :: string

definition dec_jwk :: "jwk decoder" where
  "dec_jwk = dec_struct
     [field ''kty'' dec_string Kty Kty_update,
      field ''kid'' dec_string Kid Kid_update,
      field ''n'' dec_string jwk_N jwk_N_update,
      field ''e'' dec_string jwk_E jwk_E_update,
      field ''crv'' dec_string Crv Crv_update,
      field ''x'' dec_string jwk_X jwk_X_update,
      field ''y'' dec_string jwk_Y jwk_Y_update]"

definition zero_jwk :: jwk where
  "zero_jwk = \<lparr>Kty = [], Kid = [], jwk_N = [], jwk_E = [], Crv = [], jwk_X = [], jwk_Y = []\<rparr>"

text \<open>One turn of the loop over the fetched keys: a key that cannot be used is skipped.\<close>

definition add_jwk :: "json \<Rightarrow> (string \<rightharpoonup> publicKey) \<Rightarrow> (string \<rightharpoonup> publicKey)" where
  "add_jwk raw ks =
     (case dec_jwk raw zero_jwk of
        None \<Rightarrow> ks
      | Some jwk \<Rightarrow>
          if Kty jwk = ''RSA'' then
            (case parseRSAPublicKey (jwk_N jwk) (jwk_E jwk) of
               None \<Rightarrow> ks
             | Some key \<Rightarrow> ks(Kid jwk \<mapsto> RSAKey key))
          else if Kty jwk = ''EC'' then
            (case parseECPublicKey (Crv jwk) (jwk_X jwk) (jwk_Y jwk) of
               None \<Rightarrow> ks
             | Some key \<Rightarrow> ks(Kid jwk \<mapsto> ECKey key))
          else ks)"

record jwks_doc = Keys :: "json slice"

definition dec_jwks :: "jwks_doc decoder" where
  "dec_jwks = dec_struct [field ''keys'' dec_raws Keys Keys_update]"

text \<open>\<open>io.LimitReader(resp.Body, 1<<20)\<close>.\<close>

definition LimitReader :: "int \<Rightarrow> bytes \<Rightarrow> bytes" where
  "LimitReader n bs = (if int (length bs) \<le> n then bs else take (nat n) bs)"

definition jwks_of_doc :: "jwks_doc \<Rightarrow> (string \<rightharpoonup> publicKey)" where
  "jwks_of_doc doc = fold add_jwk (case Keys doc of None \<Rightarrow> [] | Some raws \<Rightarrow> raws) Map.empty"

definition fetchJWKS ::
  "'s http_client \<Rightarrow> string \<Rightarrow> ('s, 'm) st_scheme \<Rightarrow> (key_error + jwks_doc) \<times> ('s, 'm) st_scheme" where
  "fetchJWKS hc jwksURI \<sigma> =
     (if \<not> NewRequest hc jwksURI then (Inl BuildJWKSRequest, \<sigma>)
      else
        (case call (Do_Get hc jwksURI) \<sigma> of
           (None, \<sigma>) \<Rightarrow> (Inl FetchJWKS, \<sigma>)
         | (Some resp, \<sigma>) \<Rightarrow>
             (if hr_StatusCode resp \<noteq> 200 then Inl (JWKSStatus (hr_StatusCode resp))
              else
                (case hr_Body resp of
                   None \<Rightarrow> Inl ReadJWKSBody
                 | Some b \<Rightarrow>
                     (case Option.bind (json_Unmarshal (LimitReader 1048576 b))
                             (\<lambda>j. dec_jwks j \<lparr>Keys = None\<rparr>) of
                        None \<Rightarrow> Inl ParseJWKS
                      | Some doc \<Rightarrow> Inr doc)), \<sigma>)))"

text \<open>The section under the lock, which reads the clock too.\<close>

definition storeJWKS :: "time \<Rightarrow> jwks_doc \<Rightarrow> ('s, 'm) wif_st_scheme \<Rightarrow> ('s, 'm) wif_st_scheme" where
  "storeJWKS now doc \<sigma> = \<sigma>\<lparr>jwks := Some \<lparr>keys = jwks_of_doc doc, fetchedAt = now\<rparr>\<rparr>"

definition refreshJWKS ::
  "'s http_client \<Rightarrow> OIDCValidator \<Rightarrow> time \<Rightarrow> ('s, 'm) wif_st_scheme
   \<Rightarrow> (key_error + unit) \<times> ('s, 'm) wif_st_scheme" where
  "refreshJWKS hc v now \<sigma> =
     (case discoverJWKSURI hc v \<sigma> of
        (Inl err, \<sigma>) \<Rightarrow> (Inl err, \<sigma>)
      | (Inr jwksURI, \<sigma>) \<Rightarrow>
          (case fetchJWKS hc jwksURI \<sigma> of
             (Inl err, \<sigma>) \<Rightarrow> (Inl err, \<sigma>)
           | (Inr doc, \<sigma>) \<Rightarrow> (Inr (), storeJWKS now doc \<sigma>)))"

text \<open>The fast path of \<open>getKey\<close>: a key of that id in a cache that is young enough.\<close>

definition cached_key :: "time \<Rightarrow> jwksCache option \<Rightarrow> string \<Rightarrow> publicKey option" where
  "cached_key now cache kid =
     (case cache of
        None \<Rightarrow> None
      | Some c \<Rightarrow> if Since now (fetchedAt c) < sint jwksCacheTTL then keys c kid else None)"

definition getKey ::
  "'s http_client \<Rightarrow> OIDCValidator \<Rightarrow> time \<Rightarrow> time \<Rightarrow> string \<Rightarrow> ('s, 'm) wif_st_scheme
   \<Rightarrow> (key_error + publicKey) \<times> ('s, 'm) wif_st_scheme" where
  "getKey hc v t_cache t_fetch kid \<sigma> =
     (case cached_key t_cache (jwks \<sigma>) kid of
        Some key \<Rightarrow> (Inr key, \<sigma>)
      | None \<Rightarrow>
          (case refreshJWKS hc v t_fetch \<sigma> of
             (Inl err, \<sigma>) \<Rightarrow> (Inl err, \<sigma>)
           | (Inr _, \<sigma>) \<Rightarrow>
               (case Option.bind (jwks \<sigma>) (\<lambda>c. keys c kid) of
                  None \<Rightarrow> (Inl (KidNotFound kid), \<sigma>)
                | Some key \<Rightarrow> (Inr key, \<sigma>))))"

section \<open>Validation\<close>

record jwt_header =
  Alg :: string
  hdr_Kid :: string

definition dec_jwt_header :: "jwt_header decoder" where
  "dec_jwt_header = dec_struct
     [field ''alg'' dec_string Alg Alg_update,
      field ''kid'' dec_string hdr_Kid hdr_Kid_update]"

datatype wif_error =
    MalformedJWT | InvalidHeaderEncoding | InvalidHeader | NoSigningKey key_error
  | InvalidSignatureEncoding | VerificationFailed sig_error | InvalidClaimsEncoding | InvalidClaims
  | TokenExpired | IssuerMismatch string string | AudienceNotFound string

record clock =
  t_cache :: time
  t_fetch :: time
  t_claims :: time

definition check_claims :: "OIDCValidator \<Rightarrow> int \<Rightarrow> JWTClaims \<Rightarrow> wif_error + JWTClaims" where
  "check_claims v now claims =
     (if ExpiresAt claims \<noteq> 0 \<and> now > ExpiresAt claims then Inl TokenExpired
      else if Issuer claims \<noteq> issuerURL v then Inl (IssuerMismatch (Issuer claims) (issuerURL v))
      else if audience v \<noteq> [] \<and> \<not> AudienceContains claims (audience v) then
        Inl (AudienceNotFound (audience v))
      else Inr claims)"

text \<open>What follows once the key is known: signature, claims, checks.\<close>

definition check_signed ::
  "OIDCValidator \<Rightarrow> time \<Rightarrow> string \<Rightarrow> publicKey \<Rightarrow> string \<Rightarrow> string \<Rightarrow> string \<Rightarrow> wif_error + JWTClaims" where
  "check_signed v now alg key p0 p1 p2 =
     (let msg = p0 @ ''.'' @ p1
      in case RawURLDecode p2 of
           None \<Rightarrow> Inl InvalidSignatureEncoding
         | Some sigBytes \<Rightarrow>
             (case verifySignature alg key msg sigBytes of
                Some err \<Rightarrow> Inl (VerificationFailed err)
              | None \<Rightarrow>
                  (case RawURLDecode p1 of
                     None \<Rightarrow> Inl InvalidClaimsEncoding
                   | Some claimsJSON \<Rightarrow>
                       (case Option.bind (json_Unmarshal claimsJSON) (\<lambda>j. dec_JWTClaims j zero_JWTClaims) of
                          None \<Rightarrow> Inl InvalidClaims
                        | Some claims \<Rightarrow> check_claims v (Unix now) claims))))"

definition Validate ::
  "'s http_client \<Rightarrow> OIDCValidator \<Rightarrow> clock \<Rightarrow> string \<Rightarrow> ('s, 'm) wif_st_scheme
   \<Rightarrow> (wif_error + JWTClaims) \<times> ('s, 'm) wif_st_scheme" where
  "Validate hc v clk rawJWT \<sigma> =
     (case SplitN rawJWT (CHR ''.'') 3 of
        [p0, p1, p2] \<Rightarrow>
          (case RawURLDecode p0 of
             None \<Rightarrow> (Inl InvalidHeaderEncoding, \<sigma>)
           | Some headerJSON \<Rightarrow>
               (case Option.bind (json_Unmarshal headerJSON)
                       (\<lambda>j. dec_jwt_header j \<lparr>Alg = [], hdr_Kid = []\<rparr>) of
                  None \<Rightarrow> (Inl InvalidHeader, \<sigma>)
                | Some header \<Rightarrow>
                    (case getKey hc v (t_cache clk) (t_fetch clk) (hdr_Kid header) \<sigma> of
                       (Inl err, \<sigma>) \<Rightarrow> (Inl (NoSigningKey err), \<sigma>)
                     | (Inr key, \<sigma>) \<Rightarrow>
                         (check_signed v (t_claims clk) (Alg header) key p0 p1 p2, \<sigma>))))
      | _ \<Rightarrow> (Inl MalformedJWT, \<sigma>))"

section \<open>The token exchange endpoint\<close>

text \<open>
  A \<open>JWTValidator\<close> is its \<open>Validate\<close> method, \<open>None\<close> when federation is off; \<open>text\<close> prints its
  errors.
\<close>

definition TokenExchangeHandler ::
  "(string \<Rightarrow> ('s, 'm) auth_st_scheme \<Rightarrow> ('e + JWTClaims) \<times> ('s, 'm) auth_st_scheme) option
   \<Rightarrow> ('e \<Rightarrow> string) \<Rightarrow> string \<Rightarrow> string \<Rightarrow> bytes option \<Rightarrow> time \<Rightarrow> request
   \<Rightarrow> ('s, 'm) auth_st_scheme \<Rightarrow> response \<times> ('s, 'm) auth_st_scheme" where
  "TokenExchangeHandler validator text hmacSecret expectedClientID rand now r \<sigma> =
     (case validator of
        None \<Rightarrow> (writeError 501 ''workload identity federation is not configured'', \<sigma>)
      | Some validate \<Rightarrow>
          if FormValue r ''grant_type'' \<noteq> ''client_credentials'' then
            (writeError 400 ''unsupported grant_type; only client_credentials is supported'', \<sigma>)
          else
            (let clientID = (case BasicAuth r of None \<Rightarrow> [] | Some (u, _) \<Rightarrow> u);
                 clientID = (if clientID = [] then FormValue r ''client_id'' else clientID)
             in if clientID = [] then (writeError 400 ''missing client_id'', \<sigma>)
                else if clientID \<noteq> expectedClientID then (writeError 401 ''invalid client_id'', \<sigma>)
                else
                  (let jwt = FormValue r ''jwt''
                   in if jwt = [] then (writeError 400 ''missing jwt parameter'', \<sigma>)
                      else
                        (case validate jwt \<sigma> of
                           (Inl err, \<sigma>) \<Rightarrow> (writeError 401 (''invalid JWT: '' @ text err), \<sigma>)
                         | (Inr claims, \<sigma>) \<Rightarrow> issueToken hmacSecret rand now \<sigma>))))"

section \<open>What validation leaves alone\<close>

lemma discoverJWKSURI_frame [frame_simps]:
  "grpcErrorsTotal (snd (discoverJWKSURI hc v \<sigma>)) = grpcErrorsTotal \<sigma>"
  "slog (snd (discoverJWKSURI hc v \<sigma>)) = slog \<sigma>"
  "st.more (snd (discoverJWKSURI hc v \<sigma>)) = st.more \<sigma>"
  by (auto simp: discoverJWKSURI_def call_def Let_def split: prod.split option.split)

text \<open>The fields of an extension are read off \<open>more\<close>.\<close>

lemma tokens_more: "st.more \<sigma> = st.more \<sigma>' \<Longrightarrow> tokens \<sigma> = tokens \<sigma>'"
  by (cases \<sigma>; cases \<sigma>') simp

lemma wif_more: "st.more \<sigma> = st.more \<sigma>' \<Longrightarrow> wif_st.more \<sigma> = wif_st.more \<sigma>'"
  by (cases \<sigma>; cases \<sigma>') simp

lemma jwks_more: "st.more \<sigma> = st.more \<sigma>' \<Longrightarrow> jwks \<sigma> = jwks \<sigma>'"
  by (cases \<sigma>; cases \<sigma>') simp

lemma fetchJWKS_frame [frame_simps]:
  "grpcErrorsTotal (snd (fetchJWKS hc uri \<sigma>)) = grpcErrorsTotal \<sigma>"
  "slog (snd (fetchJWKS hc uri \<sigma>)) = slog \<sigma>"
  "st.more (snd (fetchJWKS hc uri \<sigma>)) = st.more \<sigma>"
  by (auto simp: fetchJWKS_def call_def Let_def split: prod.split option.split)

lemma refreshJWKS_frame [frame_simps]:
  "grpcErrorsTotal (snd (refreshJWKS hc v now \<sigma>)) = grpcErrorsTotal \<sigma>"
  "slog (snd (refreshJWKS hc v now \<sigma>)) = slog \<sigma>"
  "tokens (snd (refreshJWKS hc v now \<sigma>)) = tokens \<sigma>"
  "wif_st.more (snd (refreshJWKS hc v now \<sigma>)) = wif_st.more \<sigma>"
proof -
  obtain res \<sigma>1 where 1: "discoverJWKSURI hc v \<sigma> = (res, \<sigma>1)" by fastforce
  have f1: "grpcErrorsTotal \<sigma>1 = grpcErrorsTotal \<sigma>" "slog \<sigma>1 = slog \<sigma>" "st.more \<sigma>1 = st.more \<sigma>"
    using discoverJWKSURI_frame [where hc = hc and v = v and \<sigma> = \<sigma>] 1 by simp_all
  have f2: "grpcErrorsTotal \<sigma>2 = grpcErrorsTotal \<sigma>" "slog \<sigma>2 = slog \<sigma>" "st.more \<sigma>2 = st.more \<sigma>"
    if "fetchJWKS hc uri \<sigma>1 = (x, \<sigma>2)" for uri x \<sigma>2
    using fetchJWKS_frame [where hc = hc and uri = uri and \<sigma> = \<sigma>1] that f1 by simp_all
  show "grpcErrorsTotal (snd (refreshJWKS hc v now \<sigma>)) = grpcErrorsTotal \<sigma>"
    "slog (snd (refreshJWKS hc v now \<sigma>)) = slog \<sigma>"
    "tokens (snd (refreshJWKS hc v now \<sigma>)) = tokens \<sigma>"
    "wif_st.more (snd (refreshJWKS hc v now \<sigma>)) = wif_st.more \<sigma>"
    using 1 f1 tokens_more [of \<sigma>1 \<sigma>] wif_more [of \<sigma>1 \<sigma>]
    by (auto simp: refreshJWKS_def storeJWKS_def f2 split: sum.split prod.split
        dest: f2 intro: tokens_more wif_more)
qed

lemma getKey_frame [frame_simps]:
  "grpcErrorsTotal (snd (getKey hc v t t' kid \<sigma>)) = grpcErrorsTotal \<sigma>"
  "slog (snd (getKey hc v t t' kid \<sigma>)) = slog \<sigma>"
  "tokens (snd (getKey hc v t t' kid \<sigma>)) = tokens \<sigma>"
  "wif_st.more (snd (getKey hc v t t' kid \<sigma>)) = wif_st.more \<sigma>"
  using refreshJWKS_frame [where hc = hc and v = v and now = t' and \<sigma> = \<sigma>]
  by (auto simp: getKey_def split: option.split prod.split sum.split)

lemma getKey_result_frame:
  assumes "getKey hc v t t' kid \<sigma> = (x, \<sigma>')"
  shows "grpcErrorsTotal \<sigma>' = grpcErrorsTotal \<sigma> \<and> slog \<sigma>' = slog \<sigma> \<and> tokens \<sigma>' = tokens \<sigma> \<and>
    wif_st.more \<sigma>' = wif_st.more \<sigma>"
  using getKey_frame [where hc = hc and v = v and t = t and t' = t' and kid = kid and \<sigma> = \<sigma>] assms
  by simp

lemma Validate_frame [frame_simps]:
  "grpcErrorsTotal (snd (Validate hc v clk raw \<sigma>)) = grpcErrorsTotal \<sigma>"
  "slog (snd (Validate hc v clk raw \<sigma>)) = slog \<sigma>"
  "tokens (snd (Validate hc v clk raw \<sigma>)) = tokens \<sigma>"
  "wif_st.more (snd (Validate hc v clk raw \<sigma>)) = wif_st.more \<sigma>"
  by (auto simp: Validate_def split: list.split option.split prod.split sum.split
      dest: getKey_result_frame)

section \<open>What an accepted JWT is\<close>

definition header_of :: "string \<Rightarrow> jwt_header option" where
  "header_of p0 = Option.bind (Option.bind (RawURLDecode p0) json_Unmarshal)
     (\<lambda>j. dec_jwt_header j \<lparr>Alg = [], hdr_Kid = []\<rparr>)"

definition claims_of :: "string \<Rightarrow> JWTClaims option" where
  "claims_of p1 = Option.bind (Option.bind (RawURLDecode p1) json_Unmarshal)
     (\<lambda>j. dec_JWTClaims j zero_JWTClaims)"

text \<open>
  The specification: three parts; a key of the issuer named by the header has signed the
  first two under the header's algorithm; the claims are those of the second part, from this
  issuer, not expired, for the configured audience if there is one.
\<close>

definition valid_jwt :: "OIDCValidator \<Rightarrow> time \<Rightarrow> (string \<rightharpoonup> publicKey) \<Rightarrow> string \<Rightarrow> JWTClaims \<Rightarrow> bool" where
  "valid_jwt v now ks raw claims \<longleftrightarrow>
     (\<exists>p0 p1 p2 hdr key sig.
        SplitN raw (CHR ''.'') 3 = [p0, p1, p2] \<and>
        header_of p0 = Some hdr \<and> ks (hdr_Kid hdr) = Some key \<and>
        RawURLDecode p2 = Some sig \<and>
        verifySignature (Alg hdr) key (p0 @ ''.'' @ p1) sig = None \<and>
        claims_of p1 = Some claims \<and>
        (ExpiresAt claims = 0 \<or> Unix now \<le> ExpiresAt claims) \<and>
        Issuer claims = issuerURL v \<and>
        (audience v = [] \<or> AudienceContains claims (audience v)))"

lemma check_claims_Inr:
  "check_claims v now claims = Inr c \<longleftrightarrow>
     c = claims \<and> (ExpiresAt claims = 0 \<or> now \<le> ExpiresAt claims) \<and> Issuer claims = issuerURL v \<and>
     (audience v = [] \<or> AudienceContains claims (audience v))"
  by (auto simp: check_claims_def)

lemma check_signed_Inr:
  "check_signed v now alg key p0 p1 p2 = Inr c \<longleftrightarrow>
     (\<exists>sig. RawURLDecode p2 = Some sig \<and> verifySignature alg key (p0 @ ''.'' @ p1) sig = None) \<and>
     claims_of p1 = Some c \<and> check_claims v (Unix now) c = Inr c"
  by (auto simp: check_signed_def claims_of_def Let_def check_claims_Inr
      split: option.splits Option.bind_splits)

lemma getKey_Inr:
  assumes "getKey hc v t t' kid \<sigma> = (Inr key, \<sigma>')"
  shows "\<exists>c. jwks \<sigma>' = Some c \<and> keys c kid = Some key \<and>
    (fetchedAt c = t' \<or> jwks \<sigma>' = jwks \<sigma> \<and> t - fetchedAt c < 3600000000000)"
  using assms
  by (auto simp: getKey_def cached_key_def Since_def refreshJWKS_def storeJWKS_def jwksCacheTTL_def
      Hour_def split: option.splits prod.splits sum.splits if_splits Option.bind_splits)

lemma Validate_unfold:
  "Validate hc v clk raw \<sigma> = (Inr claims, \<sigma>') \<longleftrightarrow>
     (\<exists>p0 p1 p2 hdr key. SplitN raw (CHR ''.'') 3 = [p0, p1, p2] \<and> header_of p0 = Some hdr \<and>
        getKey hc v (t_cache clk) (t_fetch clk) (hdr_Kid hdr) \<sigma> = (Inr key, \<sigma>') \<and>
        check_signed v (t_claims clk) (Alg hdr) key p0 p1 p2 = Inr claims)"
  by (auto simp: Validate_def header_of_def
      split: option.splits prod.splits sum.splits list.splits Option.bind_splits)

lemma Validate_sound:
  assumes "Validate hc v clk raw \<sigma> = (Inr claims, \<sigma>')"
  shows "\<exists>c. jwks \<sigma>' = Some c \<and> valid_jwt v (t_claims clk) (keys c) raw claims \<and>
    (fetchedAt c = t_fetch clk \<or> jwks \<sigma>' = jwks \<sigma> \<and> t_cache clk - fetchedAt c < 3600000000000)"
proof -
  from assms obtain p0 p1 p2 hdr key where
    s: "SplitN raw (CHR ''.'') 3 = [p0, p1, p2]" "header_of p0 = Some hdr" and
    k: "getKey hc v (t_cache clk) (t_fetch clk) (hdr_Kid hdr) \<sigma> = (Inr key, \<sigma>')" and
    c: "check_signed v (t_claims clk) (Alg hdr) key p0 p1 p2 = Inr claims"
    unfolding Validate_unfold by blast
  from getKey_Inr [OF k] s c show ?thesis
    unfolding valid_jwt_def check_signed_Inr check_claims_Inr by blast
qed

lemma Validate_cached:
  assumes "jwks \<sigma> = Some c" and "t_cache clk - fetchedAt c < 3600000000000"
    and "valid_jwt v (t_claims clk) (keys c) raw claims"
  shows "Validate hc v clk raw \<sigma> = (Inr claims, \<sigma>)"
proof -
  have "getKey hc v (t_cache clk) (t_fetch clk) kid \<sigma> = (Inr key, \<sigma>)" if "keys c kid = Some key" for kid key
    using assms(1,2) that by (simp add: getKey_def cached_key_def Since_def jwksCacheTTL_def Hour_def)
  with assms(3) show ?thesis
    unfolding Validate_unfold valid_jwt_def check_signed_Inr check_claims_Inr by blast
qed

section \<open>The validator interface\<close>

text \<open>The endpoint refuses before it asks the validator, or does what the verdict says.\<close>

lemma TokenExchangeHandler_cases:
  obtains (refused) n m where "n \<in> {400, 401}"
      "TokenExchangeHandler (Some validate) txt secret cid rand now r \<sigma> = (writeError n m, \<sigma>)"
    | (asked) "TokenExchangeHandler (Some validate) txt secret cid rand now r \<sigma> =
        (case validate (FormValue r ''jwt'') \<sigma> of
           (Inl err, \<sigma>) \<Rightarrow> (writeError 401 (''invalid JWT: '' @ txt err), \<sigma>)
         | (Inr claims, \<sigma>) \<Rightarrow> issueToken secret rand now \<sigma>)"
  unfolding TokenExchangeHandler_def Let_def option.case
  by (atomize_elim, simp only: split: if_split) auto

text \<open>
  What the endpoint relies on: a validator leaves the token store alone, and accepts only
  what is proved by the state it leaves.
\<close>

locale jwt_validator =
  fixes validate :: "string \<Rightarrow> ('s, 'm) auth_st_scheme \<Rightarrow> ('e + JWTClaims) \<times> ('s, 'm) auth_st_scheme"
    and proved :: "string \<Rightarrow> ('s, 'm) auth_st_scheme \<Rightarrow> bool"
  assumes tokens_kept: "tokens (snd (validate raw \<sigma>)) = tokens \<sigma>"
    and sound: "validate raw \<sigma> = (Inr c, \<sigma>') \<Longrightarrow> proved raw \<sigma>'"
begin

lemma exchange_refused:
  assumes "Status (fst (TokenExchangeHandler (Some validate) txt secret cid rand now r \<sigma>)) \<noteq> 200"
  shows "tokens (snd (TokenExchangeHandler (Some validate) txt secret cid rand now r \<sigma>)) = tokens \<sigma>"
proof (cases rule: TokenExchangeHandler_cases [of validate "txt" secret cid rand now r \<sigma>])
  case asked
  obtain v \<sigma>' where v: "validate (FormValue r ''jwt'') \<sigma> = (v, \<sigma>')" by fastforce
  with tokens_kept [of "FormValue r ''jwt''" \<sigma>] have "tokens \<sigma>' = tokens \<sigma>" by simp
  with assms asked v show ?thesis
    by (cases v; cases "generateToken secret rand") (simp_all add: issueToken_def Let_def)
qed simp

lemma exchange_issued:
  assumes "Status (fst (TokenExchangeHandler (Some validate) txt secret cid rand now r \<sigma>)) = 200"
  shows "\<exists>tok. generateToken secret rand = Some tok \<and>
    proved (FormValue r ''jwt'') (snd (validate (FormValue r ''jwt'') \<sigma>)) \<and>
    snd (TokenExchangeHandler (Some validate) txt secret cid rand now r \<sigma>) =
      (snd (validate (FormValue r ''jwt'') \<sigma>))
        \<lparr>tokens := store (tokens \<sigma>) tok \<lparr>expiry = now + 3600000000000\<rparr>\<rparr>"
proof (cases rule: TokenExchangeHandler_cases [of validate "txt" secret cid rand now r \<sigma>])
  case refused
  with assms show ?thesis by auto
next
  case asked
  obtain v \<sigma>' where v: "validate (FormValue r ''jwt'') \<sigma> = (v, \<sigma>')" by fastforce
  with tokens_kept [of "FormValue r ''jwt''" \<sigma>] have t: "tokens \<sigma>' = tokens \<sigma>" by simp
  show ?thesis
  proof (cases v)
    case (Inl err)
    with assms asked v show ?thesis by simp
  next
    case (Inr c)
    with sound [of "FormValue r ''jwt''" \<sigma>] assms asked v t show ?thesis
      by (cases "generateToken secret rand") (simp_all add: issueToken_def Let_def oauthTokenTTL_def)
  qed
qed

end

definition jwt_proved :: "OIDCValidator \<Rightarrow> time \<Rightarrow> string \<Rightarrow> ('s, 'm) wif_st_scheme \<Rightarrow> bool" where
  "jwt_proved v now raw \<sigma> \<longleftrightarrow>
     (\<exists>c claims. jwks \<sigma> = Some c \<and> valid_jwt v now (keys c) raw claims)"

interpretation oidc: jwt_validator "Validate hc v clk" "jwt_proved v (t_claims clk)" for hc v clk
proof unfold_locales
  show "tokens (snd (Validate hc v clk raw \<sigma>)) = tokens \<sigma>" for raw and \<sigma> :: "('a, 'b) wif_st_scheme"
    by (rule Validate_frame(3))
next
  fix raw c and \<sigma> \<sigma>' :: "('a, 'b) wif_st_scheme"
  assume "Validate hc v clk raw \<sigma> = (Inr c, \<sigma>')"
  from Validate_sound [OF this] show "jwt_proved v (t_claims clk) raw \<sigma>'"
    by (auto simp: jwt_proved_def)
qed

section \<open>The issuer\<close>

lemma NewOIDCValidator_no_slash: "issuerURL (NewOIDCValidator iss aud cid) \<noteq> t @ ''/''"
  by (simp add: NewOIDCValidator_def TrimRight_not_suffix)

end
