(* ===== verification/Logging.thy ===== *)
theory Logging
  imports Http
begin

text \<open>
  The logger (\<open>internal/logging/logger.go\<close>): levels, the classification of attribute keys and
  the redaction of values. \<open>strings.ToLower\<close> is exact on ASCII; for other texts the Unicode
  tables are the argument \<open>ul\<close>.
\<close>

section \<open>Levels\<close>

text \<open>\<open>slog\<close>'s levels are integers, four apart; a handler drops what is below its own.\<close>

definition level_int :: "level \<Rightarrow> int" where
  "level_int l = (case l of LevelDebug \<Rightarrow> -4 | LevelInfo \<Rightarrow> 0 | LevelWarn \<Rightarrow> 4 | LevelError \<Rightarrow> 8)"

lemma level_int_inject: "level_int a = level_int b \<longleftrightarrow> a = b"
  by (cases a; cases b) (simp_all add: level_int_def)

instantiation level :: linorder
begin

definition less_eq_level :: "level \<Rightarrow> level \<Rightarrow> bool" where
  "less_eq_level a b \<longleftrightarrow> level_int a \<le> level_int b"

definition less_level :: "level \<Rightarrow> level \<Rightarrow> bool" where
  "less_level a b \<longleftrightarrow> level_int a < level_int b"

instance
  by standard (auto simp: less_eq_level_def less_level_def level_int_inject)

end

definition ToLower :: "(string \<Rightarrow> string) \<Rightarrow> string \<Rightarrow> string" where
  "ToLower ul s = (if is_ascii s then map ascii_lower s else ul s)"

definition parseLevel :: "(string \<Rightarrow> string) \<Rightarrow> string \<Rightarrow> level" where
  "parseLevel ul raw =
     (let s = ToLower ul (TrimSpace raw)
      in if s = ''debug'' then LevelDebug
         else if s \<in> {''warn'', ''warning''} then LevelWarn
         else if s \<in> {''error'', ''err'', ''fatal''} then LevelError
         else LevelInfo)"

section \<open>Redaction\<close>

definition redactedValue :: string where
  "redactedValue = ''[REDACTED]''"

text \<open>The replacer deletes four single bytes.\<close>

definition normalizeKey :: "(string \<Rightarrow> string) \<Rightarrow> string \<Rightarrow> string" where
  "normalizeKey ul key =
     filter (\<lambda>c. c \<notin> {CHR ''-'', CHR ''_'', CHR ''.'', CHR '' ''}) (ToLower ul (TrimSpace key))"

definition isSensitiveKey :: "(string \<Rightarrow> string) \<Rightarrow> string \<Rightarrow> bool" where
  "isSensitiveKey ul key =
     (let normalized = normalizeKey ul key
      in if normalized = [] then False
         else if normalized \<in> {''authorization'', ''cookie'', ''setcookie'', ''token'', ''accesstoken'',
           ''refreshtoken'', ''clientsecret'', ''apikey'', ''xapikey'', ''password'', ''secret''} then True
         else HasSuffix normalized ''token'' \<or> HasSuffix normalized ''secret'' \<or>
              HasSuffix normalized ''password'' \<or> HasSuffix normalized ''apikey'')"

definition RedactAttr :: "(string \<Rightarrow> string) \<Rightarrow> string \<times> attr \<Rightarrow> string \<times> attr" where
  "RedactAttr ul a = (if isSensitiveKey ul (fst a) then (fst a, AStr redactedValue) else a)"

lemma isSensitiveKey_iff:
  "isSensitiveKey ul key \<longleftrightarrow>
     normalizeKey ul key \<in> {''authorization'', ''cookie'', ''setcookie''} \<or>
     (\<exists>w \<in> {''token'', ''secret'', ''password'', ''apikey''}. HasSuffix (normalizeKey ul key) w)"
  by (auto simp: isSensitiveKey_def Let_def suffix_def)

section \<open>The logger\<close>

datatype writer = Stdout | Writer nat

record Options =
  opt_Level :: string
  opt_AddSource :: bool
  opt_Service :: string
  opt_Version :: string
  opt_Env :: string
  opt_Output :: "writer option"

record Logger =
  lg_out :: writer
  lg_level :: level
  lg_addSource :: bool
  lg_attrs :: "(string \<times> attr) list"

definition New_logger :: "(string \<Rightarrow> string) \<Rightarrow> Options \<Rightarrow> Logger" where
  "New_logger ul opts =
     (let lvl = parseLevel ul (opt_Level opts);
          out = (case opt_Output opts of None \<Rightarrow> Stdout | Some w \<Rightarrow> w);
          attrs = (if opt_Service opts \<noteq> [] then [(''service'', AStr (opt_Service opts))] else []);
          attrs = attrs @ (if opt_Version opts \<noteq> [] then [(''version'', AStr (opt_Version opts))] else []);
          attrs = attrs @ (if opt_Env opts \<noteq> [] then [(''env'', AStr (opt_Env opts))] else [])
      in \<lparr>lg_out = out, lg_level = lvl, lg_addSource = opt_AddSource opts, lg_attrs = attrs\<rparr>)"

text \<open>
  \<open>slog.SetDefault\<close>: the process has one default logger, and \<open>Setup\<close> puts a new one in its
  place. \<open>New\<close> has no failing path, so its error is always nil.
\<close>

definition Setup :: "(string \<Rightarrow> string) \<Rightarrow> Options \<Rightarrow> Logger option \<Rightarrow> Logger option" where
  "Setup ul opts current = Some (New_logger ul opts)"

text \<open>What the JSON handler makes of a record: nothing, or the record with its attributes redacted.\<close>

definition emit :: "(string \<Rightarrow> string) \<Rightarrow> Logger \<Rightarrow> log_entry \<Rightarrow> log_entry option" where
  "emit ul lg e =
     (if lg_level lg \<le> log_level e
      then Some (e\<lparr>log_attrs := map (RedactAttr ul) (lg_attrs lg @ log_attrs e)\<rparr>)
      else None)"

lemma emit_redacted:
  assumes "emit ul lg e = Some e'" and "(k, v) \<in> set (log_attrs e')" and "isSensitiveKey ul k"
  shows "v = AStr redactedValue"
  using assms by (auto simp: emit_def RedactAttr_def split: if_splits)

end
