(* ===== verification/Metrics.thy ===== *)
theory Metrics
  imports Wif Logging
begin

text \<open>
  Metrics: the catalog (\<open>internal/api/metrics_catalog.go\<close>), the document rendered from it
  (\<open>metrics_docs.go\<close>), and the middleware that counts requests (\<open>metrics.go\<close>). The counter of
  upstream errors is in \<open>Http\<close>, next to its only use. A counter vector is a function from
  label values to counts, a histogram vector one to the list of observations.
\<close>

section \<open>The catalog\<close>

record MetricDoc =
  md_Name :: string
  md_Type :: string
  md_Help :: string
  md_Labels :: "string list"
  md_Notes :: string

definition customMetricDocs :: "MetricDoc list" where
  "customMetricDocs =
    [
     \<lparr>md_Name = ''headtotails_requests_total'',
      md_Type = ''counter'',
      md_Help = ''Total number of HTTP requests handled by headtotails.'',
      md_Labels = [''method'', ''path'', ''status''],
      md_Notes = ''path uses the chi route pattern when available to avoid high-cardinality labels from dynamic IDs.''\<rparr>,
     \<lparr>md_Name = ''headtotails_request_duration_seconds'',
      md_Type = ''histogram'',
      md_Help = ''Duration of HTTP requests handled by headtotails.'',
      md_Labels = [''method'', ''path''],
      md_Notes = ''uses default Prometheus histogram buckets (prometheus.DefBuckets).''\<rparr>,
     \<lparr>md_Name = ''headtotails_grpc_errors_total'',
      md_Type = ''counter'',
      md_Help = ''Total number of gRPC errors returned by headscale.'',
      md_Labels = [''grpc_code''],
      md_Notes = ''increments when handler paths call writeGRPCError() after upstream headscale failures.''\<rparr>]"

text \<open>\<open>None\<close> is the panic.\<close>

definition metricDocByName :: "string \<Rightarrow> MetricDoc option" where
  "metricDocByName name = find (\<lambda>doc. md_Name doc = name) customMetricDocs"

definition CustomMetricDocs :: "MetricDoc list" where
  "CustomMetricDocs = customMetricDocs"

definition requestsTotalDoc :: "MetricDoc option" where
  "requestsTotalDoc = metricDocByName ''headtotails_requests_total''"

definition requestDurationDoc :: "MetricDoc option" where
  "requestDurationDoc = metricDocByName ''headtotails_request_duration_seconds''"

definition grpcErrorsTotalDoc :: "MetricDoc option" where
  "grpcErrorsTotalDoc = metricDocByName ''headtotails_grpc_errors_total''"

text \<open>
  The collectors: a counter or histogram vector with its name, its help and the names of its
  labels. \<open>init\<close> hands them to the registry, unless a document was not found.
\<close>

datatype vec_kind = CounterVec | HistogramVec_DefBuckets

record metric_vec =
  mv_Kind :: vec_kind
  mv_Name :: string
  mv_Help :: string
  mv_Labels :: "string list"

definition NewVec :: "vec_kind \<Rightarrow> MetricDoc \<Rightarrow> metric_vec" where
  "NewVec kind doc = \<lparr>mv_Kind = kind, mv_Name = md_Name doc, mv_Help = md_Help doc, mv_Labels = md_Labels doc\<rparr>"

definition requestsTotal_vec :: "metric_vec option" where
  "requestsTotal_vec = map_option (NewVec CounterVec) requestsTotalDoc"

definition requestDuration_vec :: "metric_vec option" where
  "requestDuration_vec = map_option (NewVec HistogramVec_DefBuckets) requestDurationDoc"

definition grpcErrorsTotal_vec :: "metric_vec option" where
  "grpcErrorsTotal_vec = map_option (NewVec CounterVec) grpcErrorsTotalDoc"

definition metrics_init :: "metric_vec list option" where
  "metrics_init =
     Option.bind requestsTotal_vec (\<lambda>a.
     Option.bind requestDuration_vec (\<lambda>b.
     Option.bind grpcErrorsTotal_vec (\<lambda>c. Some [a, b, c])))"

section \<open>The document\<close>

definition nl :: string where
  "nl = [CHR 0x0A]"

definition metric_row :: "MetricDoc \<Rightarrow> string" where
  "metric_row metric =
     (let labels = (if md_Labels metric \<noteq> [] then Join (md_Labels metric) '', '' else ''-'')
      in ''| `'' @ md_Name metric @ ''` | `'' @ md_Type metric @ ''` | `'' @ labels @ ''` | ''
         @ md_Help metric @ '' |'' @ nl)"

definition metric_note :: "MetricDoc \<Rightarrow> string" where
  "metric_note metric = ''- `'' @ md_Name metric @ ''`: '' @ md_Notes metric @ nl"

text \<open>The fixed text before, between and after the two lists.\<close>

definition md_header :: string where
  "md_header =
     ''# Metrics'' @ nl @ nl
      @ ''<!-- Code generated by `go generate ./...`; DO NOT EDIT. -->'' @ nl @ nl
      @ ''This document is generated from `internal/api/metrics_catalog.go`.'' @ nl
      @ ''Custom metrics are exposed on the Prometheus scrape endpoint: `/metrics`.'' @ nl @ nl
      @ ''## Supported Custom Metrics'' @ nl @ nl
      @ ''| Name | Type | Labels | Help |'' @ nl
      @ ''|---|---|---|---|'' @ nl"

definition md_between :: string where
  "md_between = nl
      @ ''## Metric Notes'' @ nl @ nl"

definition md_tail :: string where
  "md_tail = nl
      @ ''## Production Monitoring Gaps'' @ nl @ nl
      @ ''The current implementation provides request totals/latency and upstream gRPC error counts.'' @ nl
      @ ''For stronger production monitoring, add:'' @ nl @ nl
      @ ''- `headtotails_http_inflight_requests` gauge for saturation and concurrency.'' @ nl
      @ ''- `headtotails_headscale_rpc_duration_seconds` histogram by gRPC method/code.'' @ nl
      @ ''- `headtotails_headscale_rpc_requests_total` counter by gRPC method/code.'' @ nl
      @ ''- `headtotails_oauth_token_requests_total` counter by result (`success`, `invalid_client`, `invalid_grant`).'' @ nl
      @ ''- Optional request/response size histograms for payload growth and cost visibility.'' @ nl @ nl
      @ ''## Starter Alerting and SLO Signals'' @ nl @ nl
      @ ''- Error rate: `sum(rate(headtotails_requests_total{status=~'' @ [CHR 0x22] @ ''5..'' @ [CHR 0x22] @ ''}[5m])) / sum(rate(headtotails_requests_total[5m]))`'' @ nl
      @ ''- Latency p95: `histogram_quantile(0.95, sum by (le) (rate(headtotails_request_duration_seconds_bucket[5m])))`'' @ nl
      @ ''- Upstream failures: `sum(rate(headtotails_grpc_errors_total[5m])) by (grpc_code)`'' @ nl"

definition RenderMetricsMarkdown :: string where
  "RenderMetricsMarkdown =
     md_header @ concat (map metric_row CustomMetricDocs)
     @ md_between @ concat (map metric_note CustomMetricDocs) @ md_tail"

lemma RenderMetricsMarkdown_lists:
  assumes "m \<in> set customMetricDocs"
  shows "sublist (metric_row m) RenderMetricsMarkdown" and "sublist (metric_note m) RenderMetricsMarkdown"
proof -
  show "sublist (metric_row m) RenderMetricsMarkdown"
    by (rule sublist_inside [OF sublist_concat_map [OF assms], where as = md_header])
      (simp add: RenderMetricsMarkdown_def CustomMetricDocs_def)
  show "sublist (metric_note m) RenderMetricsMarkdown"
    by (rule sublist_inside [OF sublist_concat_map [OF assms],
          where as = "md_header @ concat (map metric_row CustomMetricDocs) @ md_between"])
      (simp add: RenderMetricsMarkdown_def CustomMetricDocs_def)
qed

section \<open>Counting requests\<close>

record 's sys_st = "'s wif_st" +
  requestsTotal :: "string \<times> string \<times> string \<Rightarrow> nat"
  requestDuration :: "string \<times> string \<Rightarrow> int list"

definition bump :: "('a \<Rightarrow> nat) \<Rightarrow> 'a \<Rightarrow> 'a \<Rightarrow> nat" where
  "bump f x = f(x := Suc (f x))"

definition observe :: "('a \<Rightarrow> int list) \<Rightarrow> 'a \<Rightarrow> int \<Rightarrow> 'a \<Rightarrow> int list" where
  "observe f x v = f(x := f x @ [v])"

text \<open>
  The label for the path: the route pattern, or the raw path where no route matched. \<open>start\<close>
  and \<open>stop\<close> are the readings of the clock around the wrapped handler.
\<close>

definition path_label :: "request \<Rightarrow> string" where
  "path_label r =
     (let routePattern = (case RoutePattern r of None \<Rightarrow> [] | Some p \<Rightarrow> p)
      in if routePattern = [] then Path r else routePattern)"

definition prometheusMiddleware ::
  "time \<Rightarrow> time \<Rightarrow> (request \<Rightarrow> ('s, 'm) sys_st_scheme \<Rightarrow> response \<times> ('s, 'm) sys_st_scheme)
   \<Rightarrow> request \<Rightarrow> ('s, 'm) sys_st_scheme \<Rightarrow> response \<times> ('s, 'm) sys_st_scheme" where
  "prometheusMiddleware start stop next_h r \<sigma> =
     (let (resp, \<sigma>) = next_h r \<sigma>;
          routePattern = path_label r;
          status = FormatInt (int (Status resp));
          \<sigma> = \<sigma>\<lparr>requestsTotal := bump (requestsTotal \<sigma>) (Method r, routePattern, status)\<rparr>;
          \<sigma> = \<sigma>\<lparr>requestDuration := observe (requestDuration \<sigma>) (Method r, routePattern) (Since stop start)\<rparr>
      in (resp, \<sigma>))"

end
