(* ===== verification/Config.thy ===== *)
theory Config
  imports Go_Strings
begin

text \<open>
  Configuration (\<open>internal/config/config.go\<close>). \<open>envconfig\<close>, which fills the record from the
  environment, is a third-party package: its \<open>Process\<close> is an argument of \<open>Load\<close>.
\<close>

record Config =
  ListenAddr :: string
  HeadscaleAddr :: string
  HeadscaleAPIKey :: string
  TailnetName :: string
  OAuthHMACSecret :: string
  OAuthClientID :: string
  OAuthClientSecret :: string
  TLSCert :: string
  TLSKey :: string
  WIFEnabled :: bool
  WIFIssuerURL :: string
  WIFAudience :: string
  WIFClientID :: string
  LogLevel :: string
  LogAddSource :: bool
  Environment :: string

definition append_if_blank :: "string \<Rightarrow> string \<Rightarrow> string list \<Rightarrow> string list" where
  "append_if_blank v name missing = (if TrimSpace v = [] then missing @ [name] else missing)"

text \<open>The error text, or \<open>None\<close> for a nil error.\<close>

definition validate_config :: "Config \<Rightarrow> string option" where
  "validate_config c =
     (let missing = [];
          missing = append_if_blank (HeadscaleAPIKey c) ''HEADSCALE_API_KEY'' missing;
          missing = append_if_blank (OAuthClientID c) ''OAUTH_CLIENT_ID'' missing;
          missing = append_if_blank (OAuthClientSecret c) ''OAUTH_CLIENT_SECRET'' missing;
          missing = append_if_blank (OAuthHMACSecret c) ''OAUTH_HMAC_SECRET'' missing
      in if missing \<noteq> [] then
           Some (''required config values must be non-empty: '' @ Join missing '', '')
         else if WIFEnabled c then
           (let wifMissing = [];
                wifMissing = append_if_blank (WIFIssuerURL c) ''WIF_ISSUER_URL'' wifMissing;
                wifMissing = append_if_blank (WIFClientID c) ''WIF_CLIENT_ID'' wifMissing
            in if wifMissing \<noteq> [] then
                 Some (''WIF_ENABLED=true requires non-empty: '' @ Join wifMissing '', '')
               else None)
         else None)"

definition Load :: "('env \<Rightarrow> string + Config) \<Rightarrow> 'env \<Rightarrow> string + Config" where
  "Load Process env =
     (case Process env of
        Inl err \<Rightarrow> Inl err
      | Inr cfg \<Rightarrow> (case validate_config cfg of Some err \<Rightarrow> Inl err | None \<Rightarrow> Inr cfg))"

lemma validate_config_None:
  "validate_config c = None \<longleftrightarrow>
     TrimSpace (HeadscaleAPIKey c) \<noteq> [] \<and> TrimSpace (OAuthClientID c) \<noteq> [] \<and>
     TrimSpace (OAuthClientSecret c) \<noteq> [] \<and> TrimSpace (OAuthHMACSecret c) \<noteq> [] \<and>
     (WIFEnabled c \<longrightarrow> TrimSpace (WIFIssuerURL c) \<noteq> [] \<and> TrimSpace (WIFClientID c) \<noteq> [])"
  by (simp add: validate_config_def append_if_blank_def Let_def)

lemma Load_Inr:
  "Load Process env = Inr c \<longleftrightarrow> Process env = Inr c \<and> validate_config c = None"
  by (auto simp: Load_def split: sum.splits option.splits)

lemma TrimSpace_not_Nil: "TrimSpace s \<noteq> [] \<Longrightarrow> s \<noteq> []"
  by auto

end
