(* ===== verification/Router.thy ===== *)
theory Router
  imports Devices Keys Users Policy Wif Metrics Config
begin

text \<open>
  The router (\<open>internal/api/router.go\<close>): its dependencies, the table of routes, the middleware
  chain and the service of one request. \<open>chi\<close>, which matches a method and a path against the
  table, and the Prometheus exposition handler are third-party: they are in the record \<open>deps\<close>
  with the other code outside the repository.
\<close>

section \<open>Endpoints and routes\<close>

datatype endpoint =
    E_OAuthToken | E_TokenExchange | E_Healthz | E_Metrics
  | E_ListDevices | E_GetDevice | E_DeleteDevice | E_AuthorizeDevice | E_ExpireDevice
  | E_RenameDevice | E_SetDeviceTags | E_GetDeviceRoutes | E_SetDeviceRoutes
  | E_ListKeys | E_CreateKey | E_GetKey | E_DeleteKey
  | E_ListUsers | E_GetUser | E_DeleteUser
  | E_GetPolicy | E_SetPolicy
  | Stub string

text \<open>A route without a method takes all of them (\<open>Handle\<close>).\<close>

record route =
  rt_Method :: "string option"
  rt_Pattern :: string
  rt_Endpoint :: endpoint

definition route :: "string \<Rightarrow> string \<Rightarrow> endpoint \<Rightarrow> route" where
  "route m p e = \<lparr>rt_Method = Some m, rt_Pattern = p, rt_Endpoint = e\<rparr>"

definition root_routes :: "route list" where
  "root_routes =
     [route ''POST'' ''/oauth/token'' E_OAuthToken,
      route ''POST'' ''/api/v2/oauth/token'' E_OAuthToken,
      route ''POST'' ''/oauth/token-exchange'' E_TokenExchange,
      route ''POST'' ''/api/v2/oauth/token-exchange'' E_TokenExchange,
      route ''GET'' ''/healthz'' E_Healthz,
      \<lparr>rt_Method = None, rt_Pattern = ''/metrics'', rt_Endpoint = E_Metrics\<rparr>]"

text \<open>Why an endpoint is not implemented.\<close>

definition reason_deviceIP :: string where
  "reason_deviceIP = ''headscale assigns IPs at registration; no runtime IP assignment API''"

definition reason_deviceKey :: string where
  "reason_deviceKey = ''device key expiry management is a Tailscale SaaS feature''"

definition reason_posture :: string where
  "reason_posture = ''device posture is a Tailscale SaaS feature; headscale has no posture API''"

definition reason_deviceInvites :: string where
  "reason_deviceInvites = ''device invites are a Tailscale SaaS feature; headscale has no invite concept''"

definition reason_userSaaS :: string where
  "reason_userSaaS = ''user approval/suspension/roles are Tailscale SaaS features; headscale manages users directly''"

definition reason_aclSaaS :: string where
  "reason_aclSaaS = ''headscale has no dedicated policy validation or preview gRPC endpoint''"

definition reason_dns :: string where
  "reason_dns = ''headscale manages DNS via its config file; no gRPC API for runtime DNS changes''"

definition reason_webhooks :: string where
  "reason_webhooks = ''webhooks are a Tailscale SaaS feature; headscale has no event bus''"

definition reason_logging :: string where
  "reason_logging = ''log streaming is a Tailscale SaaS feature; headscale logs to stdout''"

definition reason_contacts :: string where
  "reason_contacts = ''contacts are a Tailscale SaaS feature; headscale has no contact management''"

definition reason_userInvites :: string where
  "reason_userInvites = ''user invites are a Tailscale SaaS feature; headscale creates users directly''"

definition reason_postureInteg :: string where
  "reason_postureInteg = ''posture integrations are a Tailscale SaaS feature; headscale has no posture API''"

definition reason_services :: string where
  "reason_services = ''VIP services are a Tailscale SaaS feature; headscale has no equivalent''"

definition reason_settings :: string where
  "reason_settings = ''tailnet settings (auto-updates, billing, HTTPS) are Tailscale SaaS features''"

definition reason_putKey :: string where
  "reason_putKey = ''OAuth client and federated identity keys are Tailscale SaaS features''"

definition reason_unknown :: string where
  "reason_unknown = ''endpoint not supported by headtotails; see https://github.com/alam0rt/headtotails for API coverage''"

text \<open>The routes under \<open>/api/v2\<close>, in the order of registration.\<close>

definition api_routes :: "route list" where
  "api_routes =
     [route ''GET'' ''/tailnet/{tailnet}/devices'' E_ListDevices,
      route ''GET'' ''/device/{deviceId}'' E_GetDevice,
      route ''DELETE'' ''/device/{deviceId}'' E_DeleteDevice,
      route ''POST'' ''/device/{deviceId}/authorized'' E_AuthorizeDevice,
      route ''POST'' ''/device/{deviceId}/expire'' E_ExpireDevice,
      route ''POST'' ''/device/{deviceId}/name'' E_RenameDevice,
      route ''POST'' ''/device/{deviceId}/tags'' E_SetDeviceTags,
      route ''GET'' ''/device/{deviceId}/routes'' E_GetDeviceRoutes,
      route ''POST'' ''/device/{deviceId}/routes'' E_SetDeviceRoutes,
      route ''POST'' ''/device/{deviceId}/ip'' (Stub reason_deviceIP),
      route ''POST'' ''/device/{deviceId}/key'' (Stub reason_deviceKey),
      route ''PATCH'' ''/tailnet/{tailnet}/device-attributes'' (Stub reason_posture),
      route ''GET'' ''/device/{deviceId}/attributes'' (Stub reason_posture),
      route ''POST'' ''/device/{deviceId}/attributes/{key}'' (Stub reason_posture),
      route ''DELETE'' ''/device/{deviceId}/attributes/{key}'' (Stub reason_posture),
      route ''GET'' ''/device/{deviceId}/device-invites'' (Stub reason_deviceInvites),
      route ''POST'' ''/device/{deviceId}/device-invites'' (Stub reason_deviceInvites),
      route ''GET'' ''/tailnet/{tailnet}/keys'' E_ListKeys,
      route ''POST'' ''/tailnet/{tailnet}/keys'' E_CreateKey,
      route ''GET'' ''/tailnet/{tailnet}/keys/{keyId}'' E_GetKey,
      route ''DELETE'' ''/tailnet/{tailnet}/keys/{keyId}'' E_DeleteKey,
      route ''PUT'' ''/tailnet/{tailnet}/keys/{keyId}'' (Stub reason_putKey),
      route ''GET'' ''/tailnet/{tailnet}/users'' E_ListUsers,
      route ''GET'' ''/users/{userId}'' E_GetUser,
      route ''POST'' ''/users/{userId}/delete'' E_DeleteUser,
      route ''POST'' ''/users/{userId}/approve'' (Stub reason_userSaaS),
      route ''POST'' ''/users/{userId}/suspend'' (Stub reason_userSaaS),
      route ''POST'' ''/users/{userId}/restore'' (Stub reason_userSaaS),
      route ''POST'' ''/users/{userId}/role'' (Stub reason_userSaaS),
      route ''GET'' ''/tailnet/{tailnet}/acl'' E_GetPolicy,
      route ''POST'' ''/tailnet/{tailnet}/acl'' E_SetPolicy,
      route ''POST'' ''/tailnet/{tailnet}/acl/preview'' (Stub reason_aclSaaS),
      route ''POST'' ''/tailnet/{tailnet}/acl/validate'' (Stub reason_aclSaaS),
      route ''GET'' ''/tailnet/{tailnet}/dns/nameservers'' (Stub reason_dns),
      route ''POST'' ''/tailnet/{tailnet}/dns/nameservers'' (Stub reason_dns),
      route ''GET'' ''/tailnet/{tailnet}/dns/preferences'' (Stub reason_dns),
      route ''POST'' ''/tailnet/{tailnet}/dns/preferences'' (Stub reason_dns),
      route ''GET'' ''/tailnet/{tailnet}/dns/searchpaths'' (Stub reason_dns),
      route ''POST'' ''/tailnet/{tailnet}/dns/searchpaths'' (Stub reason_dns),
      route ''GET'' ''/tailnet/{tailnet}/dns/configuration'' (Stub reason_dns),
      route ''POST'' ''/tailnet/{tailnet}/dns/configuration'' (Stub reason_dns),
      route ''GET'' ''/tailnet/{tailnet}/dns/split-dns'' (Stub reason_dns),
      route ''PATCH'' ''/tailnet/{tailnet}/dns/split-dns'' (Stub reason_dns),
      route ''PUT'' ''/tailnet/{tailnet}/dns/split-dns'' (Stub reason_dns),
      route ''GET'' ''/tailnet/{tailnet}/webhooks'' (Stub reason_webhooks),
      route ''POST'' ''/tailnet/{tailnet}/webhooks'' (Stub reason_webhooks),
      route ''GET'' ''/tailnet/{tailnet}/webhooks/{endpointId}'' (Stub reason_webhooks),
      route ''PATCH'' ''/tailnet/{tailnet}/webhooks/{endpointId}'' (Stub reason_webhooks),
      route ''DELETE'' ''/tailnet/{tailnet}/webhooks/{endpointId}'' (Stub reason_webhooks),
      route ''POST'' ''/tailnet/{tailnet}/webhooks/{endpointId}/rotate'' (Stub reason_webhooks),
      route ''POST'' ''/tailnet/{tailnet}/webhooks/{endpointId}/test'' (Stub reason_webhooks),
      route ''GET'' ''/tailnet/{tailnet}/logging/{logType}'' (Stub reason_logging),
      route ''POST'' ''/tailnet/{tailnet}/logging/{logType}'' (Stub reason_logging),
      route ''GET'' ''/tailnet/{tailnet}/logging/{logType}/stream'' (Stub reason_logging),
      route ''GET'' ''/tailnet/{tailnet}/contacts'' (Stub reason_contacts),
      route ''PATCH'' ''/tailnet/{tailnet}/contacts/{contactType}'' (Stub reason_contacts),
      route ''GET'' ''/tailnet/{tailnet}/user-invites'' (Stub reason_userInvites),
      route ''POST'' ''/tailnet/{tailnet}/user-invites'' (Stub reason_userInvites),
      route ''GET'' ''/tailnet/{tailnet}/user-invites/{userInviteId}'' (Stub reason_userInvites),
      route ''DELETE'' ''/tailnet/{tailnet}/user-invites/{userInviteId}'' (Stub reason_userInvites),
      route ''POST'' ''/tailnet/{tailnet}/user-invites/{userInviteId}/resend'' (Stub reason_userInvites),
      route ''GET'' ''/tailnet/{tailnet}/posture/integrations'' (Stub reason_postureInteg),
      route ''POST'' ''/tailnet/{tailnet}/posture/integrations'' (Stub reason_postureInteg),
      route ''GET'' ''/tailnet/{tailnet}/posture/integrations/{integrationId}'' (Stub reason_postureInteg),
      route ''PATCH'' ''/tailnet/{tailnet}/posture/integrations/{integrationId}'' (Stub reason_postureInteg),
      route ''DELETE'' ''/tailnet/{tailnet}/posture/integrations/{integrationId}'' (Stub reason_postureInteg),
      route ''GET'' ''/tailnet/{tailnet}/services'' (Stub reason_services),
      route ''PUT'' ''/tailnet/{tailnet}/services/{serviceId}'' (Stub reason_services),
      route ''DELETE'' ''/tailnet/{tailnet}/services/{serviceId}'' (Stub reason_services),
      route ''GET'' ''/tailnet/{tailnet}/settings'' (Stub reason_settings),
      route ''PATCH'' ''/tailnet/{tailnet}/settings'' (Stub reason_settings)]"

section \<open>Dependencies\<close>

record WIFConfig =
  wif_Enabled :: bool
  wif_IssuerURL :: string
  wif_Audience :: string
  wif_ClientID :: string

record 's Router =
  ro_hs :: "'s HeadscaleClient"
  ro_tailnetName :: string
  ro_headscaleAPIKey :: string
  ro_clientID :: string
  ro_clientSecret :: string
  ro_hmacSecret :: string
  ro_wifValidator :: "OIDCValidator option"
  ro_wifClientID :: string

definition NewRouter ::
  "'s HeadscaleClient \<Rightarrow> string \<Rightarrow> string \<Rightarrow> string \<Rightarrow> string \<Rightarrow> string \<Rightarrow> WIFConfig \<Rightarrow> 's Router" where
  "NewRouter hs tailnet apiKey cid secret hmac wif =
     \<lparr>ro_hs = hs, ro_tailnetName = tailnet, ro_headscaleAPIKey = apiKey, ro_clientID = cid,
      ro_clientSecret = secret, ro_hmacSecret = hmac,
      ro_wifValidator =
        (if wif_Enabled wif
         then Some (NewOIDCValidator (wif_IssuerURL wif) (wif_Audience wif) (wif_ClientID wif))
         else None),
      ro_wifClientID = wif_ClientID wif\<rparr>"

text \<open>
  What \<open>chi\<close> makes of a method and a path: which handler runs, below the root or below
  \<open>/api/v2\<close>, with the URL parameters and the pattern that it matched.
\<close>

datatype outcome =
    RootRoute endpoint | RootNotFound | RootMethodNotAllowed
  | ApiRoute endpoint | ApiNotFound | ApiMethodNotAllowed

record chi_match =
  cm_outcome :: outcome
  cm_params :: "(string \<times> string) list"
  cm_pattern :: string

record 's deps =
  d_lib :: lib
  d_http :: "'s http_client"
  d_chi :: "string \<Rightarrow> string \<Rightarrow> chi_match"
  d_notFound :: response
  d_methodNotAllowed :: response
  d_promhttp :: "request \<Rightarrow> (string \<times> string \<times> string \<Rightarrow> nat) \<Rightarrow> (string \<times> string \<Rightarrow> int list)
    \<Rightarrow> (string \<Rightarrow> nat) \<Rightarrow> response"
  d_wif_text :: "wif_error \<Rightarrow> string"

text \<open>\<open>chi\<close> runs a handler only for a route of the table, registered for the request's method.\<close>

definition routes_to :: "route list \<Rightarrow> string \<Rightarrow> endpoint \<Rightarrow> bool" where
  "routes_to rts m ep \<longleftrightarrow> (\<exists>rt \<in> set rts. rt_Endpoint rt = ep \<and> rt_Method rt \<in> {None, Some m})"

definition chi_sound :: "(string \<Rightarrow> string \<Rightarrow> chi_match) \<Rightarrow> bool" where
  "chi_sound chi \<longleftrightarrow> (\<forall>m p ep.
     (cm_outcome (chi m p) = RootRoute ep \<longrightarrow> routes_to root_routes m ep) \<and>
     (cm_outcome (chi m p) = ApiRoute ep \<longrightarrow> routes_to api_routes m ep))"

text \<open>What a request reads of the clock and of the random source, one field for each call.\<close>

record readings =
  in_start :: time
  in_auth :: time
  in_rand :: "bytes option"
  in_issue :: time
  in_key :: time
  in_wif :: clock
  in_stop :: time

section \<open>Service\<close>

definition healthzHandler :: "request \<Rightarrow> ('s, 'm) st_scheme \<Rightarrow> response \<times> ('s, 'm) st_scheme" where
  "healthzHandler r \<sigma> = (writeJSON 200 (JObj [(''status'', JStr ''ok'')]), \<sigma>)"

fun serve_endpoint ::
  "'s deps \<Rightarrow> 's Router \<Rightarrow> readings \<Rightarrow> endpoint \<Rightarrow> request \<Rightarrow> 's sys_st \<Rightarrow> response \<times> 's sys_st" where
  "serve_endpoint D ro i E_OAuthToken r \<sigma> =
     OAuthTokenHandler (ro_clientID ro) (ro_clientSecret ro) (ro_hmacSecret ro) (in_rand i) (in_issue i) r \<sigma>"
| "serve_endpoint D ro i E_TokenExchange r \<sigma> =
     TokenExchangeHandler (map_option (\<lambda>v. Validate (d_http D) v (in_wif i)) (ro_wifValidator ro))
       (d_wif_text D) (ro_hmacSecret ro) (ro_wifClientID ro) (in_rand i) (in_issue i) r \<sigma>"
| "serve_endpoint D ro i E_Healthz r \<sigma> = healthzHandler r \<sigma>"
| "serve_endpoint D ro i E_Metrics r \<sigma> =
     (d_promhttp D r (requestsTotal \<sigma>) (requestDuration \<sigma>) (grpcErrorsTotal \<sigma>), \<sigma>)"
| "serve_endpoint D ro i (Stub reason) r \<sigma> = (notImplementedReason reason, \<sigma>)"
| "serve_endpoint D ro i E_ListDevices r \<sigma> =
     ListDevices (d_lib D) \<lparr>dh_hs = ro_hs ro, dh_tailnetName = ro_tailnetName ro\<rparr> r \<sigma>"
| "serve_endpoint D ro i E_GetDevice r \<sigma> =
     GetDevice (d_lib D) \<lparr>dh_hs = ro_hs ro, dh_tailnetName = ro_tailnetName ro\<rparr> r \<sigma>"
| "serve_endpoint D ro i E_DeleteDevice r \<sigma> =
     DeleteDevice (d_lib D) \<lparr>dh_hs = ro_hs ro, dh_tailnetName = ro_tailnetName ro\<rparr> r \<sigma>"
| "serve_endpoint D ro i E_AuthorizeDevice r \<sigma> =
     AuthorizeDevice (d_lib D) \<lparr>dh_hs = ro_hs ro, dh_tailnetName = ro_tailnetName ro\<rparr> r \<sigma>"
| "serve_endpoint D ro i E_ExpireDevice r \<sigma> =
     ExpireDevice (d_lib D) \<lparr>dh_hs = ro_hs ro, dh_tailnetName = ro_tailnetName ro\<rparr> r \<sigma>"
| "serve_endpoint D ro i E_RenameDevice r \<sigma> =
     RenameDevice (d_lib D) \<lparr>dh_hs = ro_hs ro, dh_tailnetName = ro_tailnetName ro\<rparr> r \<sigma>"
| "serve_endpoint D ro i E_SetDeviceTags r \<sigma> =
     SetDeviceTags (d_lib D) \<lparr>dh_hs = ro_hs ro, dh_tailnetName = ro_tailnetName ro\<rparr> r \<sigma>"
| "serve_endpoint D ro i E_GetDeviceRoutes r \<sigma> =
     GetDeviceRoutes (d_lib D) \<lparr>dh_hs = ro_hs ro, dh_tailnetName = ro_tailnetName ro\<rparr> r \<sigma>"
| "serve_endpoint D ro i E_SetDeviceRoutes r \<sigma> =
     SetDeviceRoutes (d_lib D) \<lparr>dh_hs = ro_hs ro, dh_tailnetName = ro_tailnetName ro\<rparr> r \<sigma>"
| "serve_endpoint D ro i E_ListKeys r \<sigma> =
     ListKeys (d_lib D) \<lparr>kh_hs = ro_hs ro, kh_tailnetName = ro_tailnetName ro\<rparr> r \<sigma>"
| "serve_endpoint D ro i E_CreateKey r \<sigma> =
     CreateKey (d_lib D) (in_key i) \<lparr>kh_hs = ro_hs ro, kh_tailnetName = ro_tailnetName ro\<rparr> r \<sigma>"
| "serve_endpoint D ro i E_GetKey r \<sigma> =
     GetKey (d_lib D) \<lparr>kh_hs = ro_hs ro, kh_tailnetName = ro_tailnetName ro\<rparr> r \<sigma>"
| "serve_endpoint D ro i E_DeleteKey r \<sigma> =
     DeleteKey (d_lib D) \<lparr>kh_hs = ro_hs ro, kh_tailnetName = ro_tailnetName ro\<rparr> r \<sigma>"
| "serve_endpoint D ro i E_ListUsers r \<sigma> = ListUsers (d_lib D) (ro_hs ro) r \<sigma>"
| "serve_endpoint D ro i E_GetUser r \<sigma> = GetUser (d_lib D) (ro_hs ro) r \<sigma>"
| "serve_endpoint D ro i E_DeleteUser r \<sigma> = DeleteUser (d_lib D) (ro_hs ro) r \<sigma>"
| "serve_endpoint D ro i E_GetPolicy r \<sigma> = GetPolicy (d_lib D) (ro_hs ro) r \<sigma>"
| "serve_endpoint D ro i E_SetPolicy r \<sigma> = SetPolicy (d_lib D) (ro_hs ro) r \<sigma>"

text \<open>The mounted sub-router: authentication around all of it, its not-found handler included.\<close>

definition serve_api ::
  "'s deps \<Rightarrow> 's Router \<Rightarrow> readings \<Rightarrow> outcome \<Rightarrow> request \<Rightarrow> 's sys_st \<Rightarrow> response \<times> 's sys_st" where
  "serve_api D ro i out r \<sigma> =
     BearerAuthMiddleware (ro_headscaleAPIKey ro) (in_auth i)
       (\<lambda>r \<sigma>. case out of
          ApiRoute ep \<Rightarrow> serve_endpoint D ro i ep r \<sigma>
        | ApiNotFound \<Rightarrow> (notImplementedReason reason_unknown, \<sigma>)
        | _ \<Rightarrow> (d_methodNotAllowed D, \<sigma>)) r \<sigma>"

definition routeHTTP ::
  "'s deps \<Rightarrow> 's Router \<Rightarrow> readings \<Rightarrow> outcome \<Rightarrow> request \<Rightarrow> 's sys_st \<Rightarrow> response \<times> 's sys_st" where
  "routeHTTP D ro i out r \<sigma> =
     (case out of
        RootRoute ep \<Rightarrow> serve_endpoint D ro i ep r \<sigma>
      | RootNotFound \<Rightarrow> (d_notFound D, \<sigma>)
      | RootMethodNotAllowed \<Rightarrow> (d_methodNotAllowed D, \<sigma>)
      | _ \<Rightarrow> serve_api D ro i out r \<sigma>)"

definition body_length :: "body \<Rightarrow> nat" where
  "body_length b = (case b of NoBody \<Rightarrow> 0 | JSONBody j \<Rightarrow> length (json_Encode j) | TextBody t \<Rightarrow> length t)"

definition slogMiddleware ::
  "time \<Rightarrow> time \<Rightarrow> (request \<Rightarrow> ('s, 'm) st_scheme \<Rightarrow> response \<times> ('s, 'm) st_scheme)
   \<Rightarrow> request \<Rightarrow> ('s, 'm) st_scheme \<Rightarrow> response \<times> ('s, 'm) st_scheme" where
  "slogMiddleware start stop next_h r \<sigma> =
     (let (resp, \<sigma>) = next_h r \<sigma>;
          status = (if Status resp = 0 then 200 else Status resp);
          entry = \<lparr>log_level = LevelInfo, log_msg = ''request'',
                   log_attrs =
                     [(''method'', AStr (Method r)),
                      (''route'', AStr (requestRoute r)),
                      (''http_status'', AInt (int status)),
                      (''duration_ms'', AInt (Since stop start div 1000000)),
                      (''bytes_written'', AInt (int (body_length (RespBody resp)))),
                      (''remote_ip'', AStr (requestRemoteIP r)),
                      (''user_agent'', AStr (Header_Get r ''User-Agent'')),
                      (''request_id'', AStr (ReqID r))]\<rparr>
      in (resp, \<sigma>\<lparr>slog := slog \<sigma> @ [entry]\<rparr>))"

text \<open>
  The service of a request. The request is as the \<open>RequestID\<close> and \<open>RealIP\<close> middlewares leave
  it; the match fills in the URL parameters and the pattern.
\<close>

definition ServeHTTP ::
  "'s deps \<Rightarrow> 's Router \<Rightarrow> readings \<Rightarrow> request \<Rightarrow> 's sys_st \<Rightarrow> response \<times> 's sys_st" where
  "ServeHTTP D ro i r \<sigma> =
     (let m = d_chi D (Method r) (Path r);
          r = r\<lparr>URLParams := cm_params m, RoutePattern := Some (cm_pattern m)\<rparr>
      in prometheusMiddleware (in_start i) (in_stop i)
           (slogMiddleware (in_start i) (in_stop i) (routeHTTP D ro i (cm_outcome m))) r \<sigma>)"

end
