(* ===== verification/Startup.thy ===== *)
theory Startup
  imports Router Logging
begin

text \<open>
  The process (\<open>cmd/headtotails/main.go\<close>) and the construction of the client
  (\<open>headscale.New\<close>). The outcome of a start is a value: printing the version, leaving with an
  error, or a server with its router, its TLS mode and its logger. \<open>grpc.NewClient\<close>, the
  loading of a certificate and the listener are outside and so arguments.
\<close>

definition targetTailscaleAPIVersion :: string where
  "targetTailscaleAPIVersion = ''0.28.0''"

definition shouldPrintVersion :: "string list \<Rightarrow> bool" where
  "shouldPrintVersion args =
     (if length args < 2 then False
      else args ! 1 = ''--version'' \<or> args ! 1 = ''version'')"

definition printVersion :: "string \<Rightarrow> string" where
  "printVersion version =
     ''headtotails version: '' @ version @ nl
     @ ''target tailscale api: '' @ targetTailscaleAPIVersion @ nl"

definition New_GRPCClient ::
  "(string \<Rightarrow> string + 's HeadscaleServiceClient) \<Rightarrow> string \<Rightarrow> string \<Rightarrow> string + 's GRPCClient" where
  "New_GRPCClient NewClient addr apiKey =
     (case NewClient addr of
        Inl err \<Rightarrow> Inl (''dial headscale gRPC at '' @ addr @ '': '' @ err)
      | Inr conn \<Rightarrow> Inr \<lparr>gc_client = conn, gc_apiKey = apiKey\<rparr>)"

record 's server =
  srv_Addr :: string
  srv_Router :: "'s Router"
  srv_ReadTimeout :: duration
  srv_WriteTimeout :: duration
  srv_IdleTimeout :: duration
  srv_TLS :: bool
  srv_Logger :: "Logger option"

text \<open>A failure is logged by the logger installed at the time: message and \<open>error\<close> attribute.\<close>

datatype 's start_outcome =
    PrintedVersion string
  | ExitFailure "Logger option" string string
  | Serving "'s server"

text \<open>What surrounds the process: the environment, the connection, the certificate files.\<close>

record ('env, 's) host =
  h_args :: "string list"
  h_env :: 'env
  h_Process :: "'env \<Rightarrow> string + Config"
  h_NewClient :: "string \<Rightarrow> string + 's HeadscaleServiceClient"
  h_LoadX509KeyPair :: "string \<Rightarrow> string \<Rightarrow> string option"

definition bootstrap_options :: "string \<Rightarrow> Options" where
  "bootstrap_options version =
     \<lparr>opt_Level = ''info'', opt_AddSource = False, opt_Service = ''headtotails'', opt_Version = version,
      opt_Env = ''production'', opt_Output = None\<rparr>"

definition service_options :: "string \<Rightarrow> Config \<Rightarrow> Options" where
  "service_options version cfg =
     \<lparr>opt_Level = LogLevel cfg, opt_AddSource = LogAddSource cfg, opt_Service = ''headtotails'',
      opt_Version = version, opt_Env = Environment cfg, opt_Output = None\<rparr>"

definition main_start ::
  "lib \<Rightarrow> (string \<Rightarrow> string) \<Rightarrow> string \<Rightarrow> ('env, 's) host \<Rightarrow> 's start_outcome" where
  "main_start L ul version h =
     (if shouldPrintVersion (h_args h) then PrintedVersion (printVersion version)
      else
        (let lg = Setup ul (bootstrap_options version) None
         in case Load (h_Process h) (h_env h) of
              Inl err \<Rightarrow> ExitFailure lg ''failed to load config'' err
            | Inr cfg \<Rightarrow>
                (let lg = Setup ul (service_options version cfg) lg
                 in case New_GRPCClient (h_NewClient h) (HeadscaleAddr cfg) (HeadscaleAPIKey cfg) of
                      Inl err \<Rightarrow> ExitFailure lg ''failed to connect to headscale'' err
                    | Inr hs \<Rightarrow>
                        (let router = NewRouter (grpc_client L hs) (TailnetName cfg) (HeadscaleAPIKey cfg)
                               (OAuthClientID cfg) (OAuthClientSecret cfg) (OAuthHMACSecret cfg)
                               \<lparr>wif_Enabled = WIFEnabled cfg, wif_IssuerURL = WIFIssuerURL cfg,
                                wif_Audience = WIFAudience cfg, wif_ClientID = WIFClientID cfg\<rparr>;
                             srv = \<lparr>srv_Addr = ListenAddr cfg, srv_Router = router,
                                    srv_ReadTimeout = 15 * Second, srv_WriteTimeout = 15 * Second,
                                    srv_IdleTimeout = 60 * Second, srv_TLS = False, srv_Logger = lg\<rparr>
                         in if TLSCert cfg \<noteq> [] \<and> TLSKey cfg \<noteq> [] then
                              (case h_LoadX509KeyPair h (TLSCert cfg) (TLSKey cfg) of
                                 Some err \<Rightarrow> ExitFailure lg ''failed to load TLS certificate'' err
                               | None \<Rightarrow> Serving (srv\<lparr>srv_TLS := True\<rparr>))
                            else Serving srv))))"

text \<open>The start ends in a server in exactly this case.\<close>

lemma main_start_Serving:
  assumes "main_start L ul version h = Serving srv"
  shows "\<exists>cfg conn. h_Process h (h_env h) = Inr cfg \<and> validate_config cfg = None \<and>
    h_NewClient h (HeadscaleAddr cfg) = Inr conn \<and>
    srv_Logger srv = Some (New_logger ul (service_options version cfg)) \<and>
    srv_TLS srv = (TLSCert cfg \<noteq> [] \<and> TLSKey cfg \<noteq> []) \<and>
    srv_Addr srv = ListenAddr cfg \<and>
    srv_Router srv = NewRouter (grpc_client L \<lparr>gc_client = conn, gc_apiKey = HeadscaleAPIKey cfg\<rparr>)
      (TailnetName cfg) (HeadscaleAPIKey cfg) (OAuthClientID cfg) (OAuthClientSecret cfg)
      (OAuthHMACSecret cfg)
      \<lparr>wif_Enabled = WIFEnabled cfg, wif_IssuerURL = WIFIssuerURL cfg,
       wif_Audience = WIFAudience cfg, wif_ClientID = WIFClientID cfg\<rparr>"
  using assms
  by (auto simp: main_start_def New_GRPCClient_def Load_Inr Setup_def Let_def
      split: if_splits sum.splits option.splits)

section \<open>The state at the start\<close>

definition initial_state :: "'s \<Rightarrow> 's sys_st" where
  "initial_state w =
     \<lparr>world = w, grpcErrorsTotal = (\<lambda>_. 0), slog = [], tokens = newTokenStore, jwks = None,
      requestsTotal = (\<lambda>_. 0), requestDuration = (\<lambda>_. [])\<rparr>"

end
