(* ===== verification/System.thy ===== *)
theory System
  imports Startup
begin

text \<open>
  The running process as a transition system. The clock moves; a request is served in one
  step, at the moment it touches the token store: what it read of the clock to issue a token
  was read before, what it reads to judge one is read after. The purge of the store reads the
  clock and takes the lock in two steps, and anything may happen in between. Steps carry
  labels, so that a run can be asked what it did.
\<close>

record 's sys =
  sys_st :: "'s sys_st"
  clock_now :: time
  purging :: "time option"

datatype label =
    Tick
  | Serve readings request response
  | PurgeTick
  | PurgeRun "string list"

text \<open>The readings that a request served at time \<open>t\<close> may have made.\<close>

definition readings_ok :: "time \<Rightarrow> readings \<Rightarrow> bool" where
  "readings_ok t i \<longleftrightarrow> in_issue i \<le> t \<and> t \<le> in_auth i"

inductive step :: "'s deps \<Rightarrow> 's Router \<Rightarrow> 's sys \<Rightarrow> label \<Rightarrow> 's sys \<Rightarrow> bool"
  for D :: "'s deps" and ro :: "'s Router" where
  tick: "clock_now s \<le> t \<Longrightarrow> step D ro s Tick (s\<lparr>clock_now := t\<rparr>)"
| serve: "ServeHTTP D ro i r (sys_st s) = (resp, \<sigma>') \<Longrightarrow> readings_ok (clock_now s) i \<Longrightarrow>
    step D ro s (Serve i r resp) (s\<lparr>sys_st := \<sigma>'\<rparr>)"
| purge_tick: "purging s = None \<Longrightarrow> step D ro s PurgeTick (s\<lparr>purging := Some (clock_now s)\<rparr>)"
| purge_run: "purging s = Some t \<Longrightarrow> ranges_over toks (tokens (sys_st s)) \<Longrightarrow>
    step D ro s (PurgeRun toks)
      (s\<lparr>purging := None, sys_st := (sys_st s)\<lparr>tokens := purge t toks (tokens (sys_st s))\<rparr>\<rparr>)"

inductive_cases step_TickE: "step D ro s Tick s'"
inductive_cases step_ServeE: "step D ro s (Serve i r resp) s'"
inductive_cases step_PurgeRunE: "step D ro s (PurgeRun toks) s'"
inductive_simps step_PurgeTick_iff: "step D ro s PurgeTick s'"

inductive run :: "'s deps \<Rightarrow> 's Router \<Rightarrow> 's sys \<Rightarrow> label list \<Rightarrow> 's sys \<Rightarrow> bool"
  for D :: "'s deps" and ro :: "'s Router" where
  run_Nil: "run D ro s [] s"
| run_snoc: "run D ro s ls s' \<Longrightarrow> step D ro s' l s'' \<Longrightarrow> run D ro s (ls @ [l]) s''"

definition initial :: "'s \<Rightarrow> time \<Rightarrow> 's sys" where
  "initial w t = \<lparr>sys_st = initial_state w, clock_now = t, purging = None\<rparr>"

section \<open>What a request does to the token store\<close>

text \<open>
  Who may have a token: a client that knows the client secret, or one with a JWT that the
  configured validator accepts under the keys it has cached.
\<close>

definition entitled :: "'s Router \<Rightarrow> readings \<Rightarrow> request \<Rightarrow> 's sys_st \<Rightarrow> bool" where
  "entitled ro i r \<sigma> \<longleftrightarrow>
     parseOAuthCredentials r = Some (ro_clientID ro, ro_clientSecret ro) \<or>
     (\<exists>v. ro_wifValidator ro = Some v \<and> jwt_proved v (t_claims (in_wif i)) (FormValue r ''jwt'') \<sigma>)"

text \<open>
  A request leaves the store as it is, or it is entitled to a token and adds one that it
  generated, good for an hour.
\<close>

definition issues_at_most :: "'s Router \<Rightarrow> readings \<Rightarrow> request \<Rightarrow> 's sys_st \<Rightarrow> 's sys_st \<Rightarrow> bool" where
  "issues_at_most ro i r \<sigma> \<sigma>' \<longleftrightarrow>
     tokens \<sigma>' = tokens \<sigma> \<or>
     entitled ro i r \<sigma>' \<and>
     (\<exists>tok. generateToken (ro_hmacSecret ro) (in_rand i) = Some tok \<and>
        tokens \<sigma>' = store (tokens \<sigma>) tok \<lparr>expiry = in_issue i + 3600000000000\<rparr>)"

lemma issues_same: "tokens \<sigma>' = tokens \<sigma> \<Longrightarrow> issues_at_most ro i r \<sigma> \<sigma>'"
  by (simp add: issues_at_most_def)

lemma issueToken_issues:
  "entitled ro i r (snd (issueToken (ro_hmacSecret ro) (in_rand i) (in_issue i) \<sigma>)) \<Longrightarrow>
   issues_at_most ro i r \<sigma> (snd (issueToken (ro_hmacSecret ro) (in_rand i) (in_issue i) \<sigma>))"
  by (auto simp: issues_at_most_def issueToken_def oauthTokenTTL_def Let_def split: option.splits)

lemma OAuthTokenHandler_issues:
  "issues_at_most ro i r \<sigma> (snd (OAuthTokenHandler (ro_clientID ro) (ro_clientSecret ro)
     (ro_hmacSecret ro) (in_rand i) (in_issue i) r \<sigma>))"
  by (auto simp: OAuthTokenHandler_def Let_def entitled_def intro!: issues_same issueToken_issues
      split: option.split)

lemma TokenExchangeHandler_issues:
  "issues_at_most ro i r \<sigma> (snd (TokenExchangeHandler
     (map_option (\<lambda>v. Validate hc v (in_wif i)) (ro_wifValidator ro)) txt
     (ro_hmacSecret ro) cid (in_rand i) (in_issue i) r \<sigma>))"
proof (cases "ro_wifValidator ro")
  case None
  then show ?thesis by (simp add: TokenExchangeHandler_def issues_same)
next
  case v: (Some v)
  let ?h = "TokenExchangeHandler (Some (Validate hc v (in_wif i))) txt (ro_hmacSecret ro) cid
     (in_rand i) (in_issue i) r \<sigma>"
  show ?thesis
  proof (cases "Status (fst ?h) = 200")
    case True
    from oidc.exchange_issued [OF True] v show ?thesis
      by (auto simp: issues_at_most_def entitled_def jwt_proved_def)
  next
    case False
    from oidc.exchange_refused [OF False] v show ?thesis by (simp add: issues_same)
  qed
qed

lemma keeps_more_issues: "keeps_more h \<Longrightarrow> issues_at_most ro i r \<sigma> (snd (h r' \<sigma>))"
  unfolding keeps_more_def by (rule issues_same, rule tokens_more) blast

lemmas all_keep_more = devices_keep_more keys_keep_more users_keep_more policy_keep_more

lemma serve_endpoint_issues:
  "issues_at_most ro i r \<sigma> (snd (serve_endpoint D ro i ep r \<sigma>))"
  by (cases ep)
    (simp_all add: OAuthTokenHandler_issues TokenExchangeHandler_issues healthzHandler_def
      keeps_more_issues all_keep_more issues_same)

lemma serve_api_issues: "issues_at_most ro i r \<sigma> (snd (serve_api D ro i out r \<sigma>))"
  by (auto simp: serve_api_def BearerAuthMiddleware_eq serve_endpoint_issues issues_same
      split: outcome.split)

lemma routeHTTP_issues: "issues_at_most ro i r \<sigma> (snd (routeHTTP D ro i out r \<sigma>))"
  by (cases out) (simp_all add: routeHTTP_def serve_endpoint_issues serve_api_issues issues_same)

lemma middleware_frame:
  "tokens (snd (prometheusMiddleware t t' h r \<sigma>)) = tokens (snd (h r \<sigma>))"
  "jwks (snd (prometheusMiddleware t t' h r \<sigma>)) = jwks (snd (h r \<sigma>))"
  "world (snd (prometheusMiddleware t t' h r \<sigma>)) = world (snd (h r \<sigma>))"
  "grpcErrorsTotal (snd (prometheusMiddleware t t' h r \<sigma>)) = grpcErrorsTotal (snd (h r \<sigma>))"
  "fst (prometheusMiddleware t t' h r \<sigma>) = fst (h r \<sigma>)"
  "tokens (snd (slogMiddleware t t' h r \<sigma>)) = tokens (snd (h r \<sigma>))"
  "jwks (snd (slogMiddleware t t' h r \<sigma>)) = jwks (snd (h r \<sigma>))"
  "world (snd (slogMiddleware t t' h r \<sigma>)) = world (snd (h r \<sigma>))"
  "grpcErrorsTotal (snd (slogMiddleware t t' h r \<sigma>)) = grpcErrorsTotal (snd (h r \<sigma>))"
  "fst (slogMiddleware t t' h r \<sigma>) = fst (h r \<sigma>)"
  by (simp_all add: prometheusMiddleware_def slogMiddleware_def Let_def split: prod.split)

text \<open>Routing fills in the parameters and the pattern; what a token needs is not in them.\<close>

definition routed :: "'s deps \<Rightarrow> request \<Rightarrow> request" where
  "routed D r = (let m = d_chi D (Method r) (Path r)
     in r\<lparr>URLParams := cm_params m, RoutePattern := Some (cm_pattern m)\<rparr>)"

lemma ServeHTTP_routed:
  "ServeHTTP D ro i r \<sigma> =
     prometheusMiddleware (in_start i) (in_stop i) (slogMiddleware (in_start i) (in_stop i)
       (routeHTTP D ro i (cm_outcome (d_chi D (Method r) (Path r))))) (routed D r) \<sigma>"
  by (simp add: ServeHTTP_def routed_def Let_def)

lemma routed_fields [simp]:
  "Headers (routed D r) = Headers r" "Form (routed D r) = Form r" "FormErr (routed D r) = FormErr r"
  "Method (routed D r) = Method r" "Path (routed D r) = Path r" "Body (routed D r) = Body r"
  "Context (routed D r) = Context r"
  by (simp_all add: routed_def Let_def)

lemma routed_credentials [simp]:
  "BasicAuth (routed D r) = BasicAuth r"
  "parseOAuthCredentials (routed D r) = parseOAuthCredentials r"
  "presentedToken (routed D r) = presentedToken r"
  unfolding parseOAuthCredentials_def BasicAuth_def presentedToken_def extractBearerToken_def
    routed_fields by (rule refl)+

lemma ServeHTTP_issues: "issues_at_most ro i r \<sigma> (snd (ServeHTTP D ro i r \<sigma>))"
  using routeHTTP_issues [of ro i "routed D r" \<sigma> D "cm_outcome (d_chi D (Method r) (Path r))"]
  by (simp add: ServeHTTP_routed issues_at_most_def entitled_def jwt_proved_def middleware_frame)

section \<open>Invariants of every run\<close>

text \<open>
  Every token in the store carries the signature of the secret and expires within an hour;
  a purge that is under way read the clock in the past.
\<close>

definition store_ok :: "string \<Rightarrow> 's sys \<Rightarrow> bool" where
  "store_ok secret s \<longleftrightarrow>
     (\<forall>tok e. tokens (sys_st s) tok = Some e \<longrightarrow>
        wellformed_token secret tok \<and> expiry e \<le> clock_now s + 3600000000000) \<and>
     (\<forall>t. purging s = Some t \<longrightarrow> t \<le> clock_now s)"

lemma step_store_ok:
  assumes "step D ro s l s'" and "store_ok (ro_hmacSecret ro) s"
  shows "store_ok (ro_hmacSecret ro) s'"
  using assms
proof cases
  case (tick t)
  with assms(2) show ?thesis by (fastforce simp: store_ok_def)
next
  case (serve i r resp \<sigma>')
  with ServeHTTP_issues [of ro i r "sys_st s" D] assms(2) show ?thesis
    by (fastforce simp: store_ok_def issues_at_most_def store_def readings_ok_def
        generateToken_wellformed split: if_splits)
next
  case purge_tick
  with assms(2) show ?thesis by (auto simp: store_ok_def)
next
  case (purge_run t toks)
  with assms(2) show ?thesis by (auto simp: store_ok_def purge_apply split: if_splits)
qed

lemma initial_store_ok: "store_ok secret (initial w t)"
  by (simp add: store_ok_def initial_def initial_state_def newTokenStore_def)

lemma run_store_ok:
  "run D ro s ls s' \<Longrightarrow> store_ok (ro_hmacSecret ro) s \<Longrightarrow> store_ok (ro_hmacSecret ro) s'"
  by (induction rule: run.induct) (auto intro: step_store_ok)

lemma step_clock: "step D ro s l s' \<Longrightarrow> clock_now s \<le> clock_now s'"
  by (auto elim: step.cases)

lemma run_clock: "run D ro s ls s' \<Longrightarrow> clock_now s \<le> clock_now s'"
  by (induction rule: run.induct) (auto dest: step_clock)

section \<open>An issued token stays good for its hour\<close>

definition reissues :: "'s Router \<Rightarrow> string \<Rightarrow> label \<Rightarrow> bool" where
  "reissues ro tok l = (case l of Serve i r resp \<Rightarrow> generateToken (ro_hmacSecret ro) (in_rand i) = Some tok | _ \<Rightarrow> False)"

lemma step_token_kept:
  assumes "step D ro s l s'" and "store_ok (ro_hmacSecret ro) s" and "\<not> reissues ro tok l"
    and "tokens (sys_st s) tok = Some e" and "clock_now s' \<le> expiry e"
  shows "tokens (sys_st s') tok = Some e"
  using assms(1)
proof cases
  case (serve i r resp \<sigma>')
  with ServeHTTP_issues [of ro i r "sys_st s" D] assms show ?thesis
    by (auto simp: issues_at_most_def store_def reissues_def)
next
  case (purge_run t toks)
  with assms(2) have "t \<le> clock_now s" by (simp add: store_ok_def)
  with purge_run assms show ?thesis by (simp add: purge_apply)
qed (use assms in auto)

lemma run_token_kept:
  assumes "run D ro s ls s'" and "store_ok (ro_hmacSecret ro) s" and "\<not> list_ex (reissues ro tok) ls"
    and "tokens (sys_st s) tok = Some e" and "clock_now s' \<le> expiry e"
  shows "tokens (sys_st s') tok = Some e"
  using assms
proof (induction rule: run.induct)
  case (run_snoc s ls s' l s'')
  have "clock_now s' \<le> clock_now s''" by (rule step_clock [OF run_snoc.hyps(2)])
  with run_snoc show ?case
    by (intro step_token_kept [OF run_snoc.hyps(2)] run_store_ok [OF run_snoc.hyps(1)]) auto
qed simp

lemma stored_token_lets_in:
  assumes "run D ro s ls s'" and "store_ok (ro_hmacSecret ro) s" and "\<not> list_ex (reissues ro tok) ls"
    and "tokens (sys_st s) tok = Some e" and "clock_now s' \<le> expiry e" and "generateToken secret rand = Some tok"
    and "Header_Get r ''Authorization'' = ''Bearer '' @ tok" and "now \<le> expiry e"
  shows "authorized (ro_headscaleAPIKey ro) now r (tokens (sys_st s'))"
proof -
  from run_token_kept [OF assms(1-5)] have "tokens (sys_st s') tok = Some e" .
  moreover have "presentedToken r = tok"
    using bearer_presented [OF assms(7)] generateToken_graphic generateToken_not_Nil assms(6) by blast
  ultimately show ?thesis
    using generateToken_not_Nil [OF assms(6)] assms(8) by (simp add: authorized_def lookup_def)
qed

section \<open>Where a token comes from\<close>

lemma step_token_origin:
  assumes "step D ro s l s'" and "tokens (sys_st s') tok = Some e"
  shows "tokens (sys_st s) tok = Some e \<or>
    (\<exists>i r resp. l = Serve i r resp \<and> entitled ro i r (sys_st s') \<and>
       generateToken (ro_hmacSecret ro) (in_rand i) = Some tok \<and>
       expiry e = in_issue i + 3600000000000)"
  using assms(1)
proof cases
  case (serve i r resp \<sigma>')
  with ServeHTTP_issues [of ro i r "sys_st s" D] assms(2) show ?thesis
    by (auto simp: issues_at_most_def store_def split: if_splits)
next
  case (purge_run t toks)
  with assms(2) show ?thesis by (auto simp: purge_apply split: if_splits)
qed (use assms(2) in auto)

lemma run_token_origin:
  assumes "run D ro s ls s'" and "tokens (sys_st s) = newTokenStore" and "tokens (sys_st s') tok = Some e"
  shows "\<exists>ls1 i r resp ls2 s1 s2. ls = ls1 @ Serve i r resp # ls2 \<and> run D ro s ls1 s1 \<and>
    step D ro s1 (Serve i r resp) s2 \<and> entitled ro i r (sys_st s2) \<and>
    generateToken (ro_hmacSecret ro) (in_rand i) = Some tok \<and>
    expiry e = in_issue i + 3600000000000"
  using assms
proof (induction rule: run.induct)
  case (run_Nil s)
  then show ?case by (simp add: newTokenStore_def)
next
  case (run_snoc s ls s' l s'')
  from step_token_origin [OF run_snoc.hyps(2) run_snoc.prems(2)] show ?case
  proof (elim disjE exE conjE)
    assume "tokens (sys_st s') tok = Some e"
    from run_snoc.IH [OF run_snoc.prems(1) this] show ?thesis by fastforce
  next
    fix i r resp
    assume "l = Serve i r resp" "entitled ro i r (sys_st s'')"
      "generateToken (ro_hmacSecret ro) (in_rand i) = Some tok"
      "expiry e = in_issue i + 3600000000000"
    with run_snoc.hyps show ?thesis by blast
  qed
qed

section \<open>Refinement of a store of grants\<close>

text \<open>
  The specification: a set of grants, each a token and its expiry. Time takes away the grants
  that have run out; a request may give one grant, in place of an older one of the same token;
  a purge is not visible at all.
\<close>

type_synonym grants = "(string \<times> time) set"

definition grant_step :: "label \<Rightarrow> time \<Rightarrow> grants \<Rightarrow> grants \<Rightarrow> bool" where
  "grant_step l now G G' =
     (case l of
        Tick \<Rightarrow> G' = {(t, x) \<in> G. now \<le> x}
      | Serve i r resp \<Rightarrow>
          G' = G \<or> (\<exists>tok x. x = in_issue i + 3600000000000 \<and>
            G' = {(t, y) \<in> G. t \<noteq> tok} \<union> (if now \<le> x then {(tok, x)} else {}))
      | PurgeTick \<Rightarrow> G' = G
      | PurgeRun toks \<Rightarrow> G' = G)"

definition grants_of :: "'s sys \<Rightarrow> grants" where
  "grants_of s = {(t, x). \<exists>e. tokens (sys_st s) t = Some e \<and> x = expiry e \<and> clock_now s \<le> x}"

lemma grants_of_same:
  "tokens (sys_st s') = tokens (sys_st s) \<Longrightarrow> clock_now s' = clock_now s \<Longrightarrow> grants_of s' = grants_of s"
  by (simp add: grants_of_def)

lemma step_refines:
  assumes "step D ro s l s'" and "store_ok (ro_hmacSecret ro) s"
  shows "grant_step l (clock_now s') (grants_of s) (grants_of s')"
  using assms(1)
proof cases
  case (tick t)
  then show ?thesis by (auto simp: grant_step_def grants_of_def)
next
  case (serve i r resp \<sigma>')
  from ServeHTTP_issues [of ro i r "sys_st s" D] serve
  have iss: "issues_at_most ro i r (sys_st s) \<sigma>'" by simp
  show ?thesis
  proof (cases "tokens \<sigma>' = tokens (sys_st s)")
    case True
    with serve have "grants_of s' = grants_of s" by (intro grants_of_same) simp_all
    with serve show ?thesis by (simp add: grant_step_def)
  next
    case False
    with iss obtain tok where
      "tokens \<sigma>' = store (tokens (sys_st s)) tok \<lparr>expiry = in_issue i + 3600000000000\<rparr>"
      by (auto simp: issues_at_most_def)
    with serve have "grants_of s' = {(t, y) \<in> grants_of s. t \<noteq> tok} \<union>
        (if clock_now s' \<le> in_issue i + 3600000000000 then {(tok, in_issue i + 3600000000000)} else {})"
      by (auto simp: grants_of_def store_def split: if_splits)
    with serve show ?thesis by (auto simp: grant_step_def)
  qed
next
  case purge_tick
  then have "grants_of s' = grants_of s" by (intro grants_of_same) simp_all
  with purge_tick show ?thesis by (simp add: grant_step_def)
next
  case (purge_run t toks)
  with assms(2) have "t \<le> clock_now s" by (simp add: store_ok_def)
  with purge_run have "grants_of s' = grants_of s"
    by (auto simp: grants_of_def purge_apply split: if_splits)
  with purge_run show ?thesis by (simp add: grant_step_def)
qed

lemma authorized_grant:
  assumes "presentedToken r \<noteq> []" and "presentedToken r \<noteq> key"
  shows "authorized key (clock_now s) r (tokens (sys_st s)) \<longleftrightarrow> (\<exists>x. (presentedToken r, x) \<in> grants_of s)"
  using assms by (auto simp: authorized_def grants_of_def lookup_def live_def After_def not_less split: option.splits)

end
