(* ===== verification/Effects.thy ===== *)
theory Effects
  imports System
begin

text \<open>
  What requests do as a whole: which of them only read, and how the metrics count them.
\<close>

section \<open>Requests that only read\<close>

text \<open>The endpoints that are registered for \<open>GET\<close>, or for every method.\<close>

fun is_read :: "endpoint \<Rightarrow> bool" where
  "is_read E_Healthz = True"
| "is_read E_Metrics = True"
| "is_read E_ListDevices = True"
| "is_read E_GetDevice = True"
| "is_read E_GetDeviceRoutes = True"
| "is_read E_ListKeys = True"
| "is_read E_GetKey = True"
| "is_read E_ListUsers = True"
| "is_read E_GetUser = True"
| "is_read E_GetPolicy = True"
| "is_read (Stub _) = True"
| "is_read _ = False"

fun is_stub :: "endpoint \<Rightarrow> bool" where
  "is_stub (Stub _) = True"
| "is_stub _ = False"

lemma get_routes_read:
  "list_all (\<lambda>rt. rt_Method rt = None \<or> rt_Method rt = Some ''GET'' \<longrightarrow> is_read (rt_Endpoint rt))
     (root_routes @ api_routes)"
  by code_simp

lemma routes_to_GET: "routes_to root_routes ''GET'' ep \<or> routes_to api_routes ''GET'' ep \<Longrightarrow> is_read ep"
  using get_routes_read by (auto simp: routes_to_def list_all_iff)

text \<open>Clients that agree on what a lookup returns; they may differ in every operation that changes something.\<close>

definition agree_reads :: "'s HeadscaleClient \<Rightarrow> 's HeadscaleClient \<Rightarrow> bool" where
  "agree_reads v w \<longleftrightarrow>
     hs_ListNodes v = hs_ListNodes w \<and> hs_GetNode v = hs_GetNode w \<and>
     hs_ListPreAuthKeys v = hs_ListPreAuthKeys w \<and> hs_ListUsers v = hs_ListUsers w \<and>
     hs_GetPolicy v = hs_GetPolicy w"

lemma read_endpoint_agree:
  assumes "is_read ep" and "agree_reads (ro_hs ro) hs'"
  shows "serve_endpoint D (ro\<lparr>ro_hs := hs'\<rparr>) i ep r \<sigma> = serve_endpoint D ro i ep r \<sigma>"
  using assms
  by (cases ep)
    (simp_all add: agree_reads_def ListDevices_def GetDevice_def GetDeviceRoutes_def ListKeys_def
      GetKey_def ListUsers_def GetUser_def GetPolicy_def with_user_def resolveTailnetUser_def
      cong: sum.case_cong)

lemma read_endpoint_tokens:
  "is_read ep \<Longrightarrow> tokens (snd (serve_endpoint D ro i ep r \<sigma>)) = tokens \<sigma>"
  by (cases ep)
    (simp_all add: healthzHandler_def tokens_more [OF keeps_moreD] all_keep_more)

text \<open>The endpoint that the router picks, if it picks one.\<close>

fun endpoint_of :: "outcome \<Rightarrow> endpoint option" where
  "endpoint_of (RootRoute ep) = Some ep"
| "endpoint_of (ApiRoute ep) = Some ep"
| "endpoint_of _ = None"

lemma chi_sound_GET:
  assumes "chi_sound chi" and "endpoint_of (cm_outcome (chi ''GET'' p)) = Some ep"
  shows "is_read ep"
  using assms routes_to_GET by (cases "cm_outcome (chi ''GET'' p)") (auto simp: chi_sound_def)

lemma routeHTTP_reads:
  assumes "\<And>ep. endpoint_of out = Some ep \<Longrightarrow> is_read ep"
  shows "agree_reads (ro_hs ro) hs' \<Longrightarrow> routeHTTP D (ro\<lparr>ro_hs := hs'\<rparr>) i out = routeHTTP D ro i out"
    and "tokens (snd (routeHTTP D ro i out r \<sigma>)) = tokens \<sigma>"
  using assms
  by (cases out; simp add: fun_eq_iff routeHTTP_def serve_api_def BearerAuthMiddleware_eq
      read_endpoint_agree read_endpoint_tokens)+

section \<open>What the metrics count\<close>

text \<open>The counters and the histograms are written by the middleware only.\<close>

lemma keeps_more_metrics: "st.more \<sigma> = st.more \<sigma>' \<Longrightarrow> sys_st.requestsTotal \<sigma> = requestsTotal \<sigma>'"
  "st.more \<sigma> = st.more \<sigma>' \<Longrightarrow> sys_st.requestDuration \<sigma> = requestDuration \<sigma>'"
  by (cases \<sigma>; cases \<sigma>'; simp)+

lemma wif_more_metrics: "wif_st.more \<sigma> = wif_st.more \<sigma>' \<Longrightarrow> sys_st.requestsTotal \<sigma> = requestsTotal \<sigma>'"
  "wif_st.more \<sigma> = wif_st.more \<sigma>' \<Longrightarrow> sys_st.requestDuration \<sigma> = requestDuration \<sigma>'"
  by (cases \<sigma>; cases \<sigma>'; simp)+

definition metrics_of :: "'s sys_st \<Rightarrow> (string \<times> string \<times> string \<Rightarrow> nat) \<times> (string \<times> string \<Rightarrow> int list)" where
  "metrics_of \<sigma> = (requestsTotal \<sigma>, requestDuration \<sigma>)"

lemma metrics_keep: "keeps_more h \<Longrightarrow> metrics_of (snd (h r \<sigma>)) = metrics_of \<sigma>"
  using keeps_moreD [of h r \<sigma>] keeps_more_metrics [of "snd (h r \<sigma>)" \<sigma>] by (simp add: metrics_of_def)

lemma issueToken_metrics: "metrics_of (snd (issueToken secret rand now \<sigma>)) = metrics_of \<sigma>"
  by (simp add: issueToken_def metrics_of_def Let_def split: option.split)

lemma OAuthTokenHandler_metrics:
  "metrics_of (snd (OAuthTokenHandler cid cs secret rand now r \<sigma>)) = metrics_of \<sigma>"
  by (auto simp: OAuthTokenHandler_def issueToken_metrics Let_def split: option.split)

lemma TokenExchangeHandler_metrics:
  "metrics_of (snd (TokenExchangeHandler (map_option (\<lambda>v. Validate hc v clk) ov) txt secret cid rand now r \<sigma>))
     = metrics_of \<sigma>"
proof (cases ov)
  case None
  then show ?thesis by (simp add: TokenExchangeHandler_def)
next
  case (Some v)
  have v: "metrics_of (snd (Validate hc v clk raw \<sigma>)) = metrics_of \<sigma>" for raw
    using Validate_frame(4) [of hc v clk raw \<sigma>] wif_more_metrics unfolding metrics_of_def by blast
  show ?thesis
  proof (cases rule: TokenExchangeHandler_cases [of "Validate hc v clk" "txt" secret cid rand now r \<sigma>])
    case asked
    with Some v [of "FormValue r ''jwt''"] show ?thesis
      by (auto simp: issueToken_metrics split: prod.split sum.split)
  qed (use Some in simp)
qed

lemma serve_endpoint_metrics: "metrics_of (snd (serve_endpoint D ro i ep r \<sigma>)) = metrics_of \<sigma>"
  by (cases ep)
    (simp_all add: OAuthTokenHandler_metrics TokenExchangeHandler_metrics healthzHandler_def
      metrics_keep all_keep_more)

lemma routeHTTP_metrics: "metrics_of (snd (routeHTTP D ro i out r \<sigma>)) = metrics_of \<sigma>"
  by (cases out)
    (auto simp: routeHTTP_def serve_api_def BearerAuthMiddleware_eq serve_endpoint_metrics)

text \<open>The labels of a served request.\<close>

definition request_label :: "'s deps \<Rightarrow> request \<Rightarrow> response \<Rightarrow> string \<times> string \<times> string" where
  "request_label D r resp = (Method r, path_label (routed D r), FormatInt (int (Status resp)))"

lemma ServeHTTP_metrics:
  assumes "ServeHTTP D ro i r \<sigma> = (resp, \<sigma>')"
  shows "requestsTotal \<sigma>' = bump (requestsTotal \<sigma>) (request_label D r resp)"
    and "requestDuration \<sigma>' = observe (requestDuration \<sigma>) (Method r, path_label (routed D r))
      (Since (in_stop i) (in_start i))"
proof -
  let ?h = "routeHTTP D ro i (cm_outcome (d_chi D (Method r) (Path r))) (routed D r) \<sigma>"
  have "requestsTotal (snd ?h) = requestsTotal \<sigma>" "requestDuration (snd ?h) = requestDuration \<sigma>"
    using routeHTTP_metrics [of D ro i _ "routed D r" \<sigma>] by (simp_all add: metrics_of_def)
  with assms show "requestsTotal \<sigma>' = bump (requestsTotal \<sigma>) (request_label D r resp)"
    "requestDuration \<sigma>' = observe (requestDuration \<sigma>) (Method r, path_label (routed D r))
      (Since (in_stop i) (in_start i))"
    by (auto simp: ServeHTTP_routed prometheusMiddleware_def slogMiddleware_def request_label_def
        Let_def split: prod.splits)
qed

definition served_as :: "'s deps \<Rightarrow> (string \<times> string \<times> string \<Rightarrow> bool) \<Rightarrow> label \<Rightarrow> bool" where
  "served_as D P l = (case l of Serve i r resp \<Rightarrow> P (request_label D r resp) | _ \<Rightarrow> False)"

lemma served_as_simps [simp]:
  "served_as D P (Serve i r resp) = P (request_label D r resp)"
  "\<not> served_as D P Tick" "\<not> served_as D P PurgeTick" "\<not> served_as D P (PurgeRun toks)"
  by (simp_all add: served_as_def)

text \<open>The counters tell exactly how many requests a run has served with a label, and the histograms agree.\<close>

lemma run_counts:
  assumes "run D ro s ls s'" and "s = initial w t"
  shows "requestsTotal (sys_st s') x = length (filter (served_as D (\<lambda>y. y = x)) ls) \<and>
    length (requestDuration (sys_st s') mp) =
      length (filter (served_as D (\<lambda>(m, p, _). (m, p) = mp)) ls)"
  using assms
proof (induction rule: run.induct)
  case (run_Nil s)
  then show ?case by (simp add: initial_def initial_state_def)
next
  case (run_snoc s ls s' l s'')
  from run_snoc.hyps(2) run_snoc.IH [OF run_snoc.prems] show ?case
  proof cases
    case (serve i r resp \<sigma>')
    have l: "request_label D r resp = (Method r, path_label (routed D r), FormatInt (int (Status resp)))"
      by (simp add: request_label_def)
    from ServeHTTP_metrics [OF serve(3)] serve run_snoc.IH [OF run_snoc.prems] show ?thesis
      by (cases mp) (auto simp: bump_def observe_def l)
  qed simp_all
qed

end
