(* ===== verification/Routes.thy ===== *)
theory Routes
  imports Effects
begin

text \<open>
  The table of routes as the router sees it. Which handler runs for a path is decided by
  \<open>chi\<close>, outside the repository; what \<open>chi\<close> documents is a hypothesis here: it runs the handler
  of a route whose method and pattern match, if there is one, with the values of the pattern's
  parameters. The table is unambiguous, and so this much fixes the handler of every path.
\<close>

section \<open>Paths and patterns\<close>

fun segments :: "string \<Rightarrow> string list" where
  "segments [] = [[]]"
| "segments (c # cs) =
     (case segments cs of
        [] \<Rightarrow> [[c]]
      | s # ss \<Rightarrow> if c = CHR ''/'' then [] # s # ss else (c # s) # ss)"

lemma segments_not_Nil [simp]: "segments s \<noteq> []"
  by (cases s) (auto split: list.split)

lemma segments_plain: "CHR ''/'' \<notin> set a \<Longrightarrow> segments a = [a]"
  by (induction a) auto

lemma segments_append: "CHR ''/'' \<notin> set a \<Longrightarrow> segments (a @ CHR ''/'' # b) = a # segments b"
proof (induction a)
  case Nil
  then show ?case by (cases "segments b") auto
qed auto

lemma segments_Join:
  "ss \<noteq> [] \<Longrightarrow> \<forall>s \<in> set ss. CHR ''/'' \<notin> set s \<Longrightarrow> segments (Join ss ''/'') = ss"
proof (induction ss rule: list_nonempty_induct)
  case (cons s ss)
  then obtain s' ss' where "ss = s' # ss'" by (cases ss) auto
  with cons show ?case by (simp add: segments_append)
qed (simp add: segments_plain)

lemma segments_no_slash: "\<forall>s \<in> set (segments p). CHR ''/'' \<notin> set s"
proof (induction p)
  case (Cons c cs)
  then show ?case by (cases "segments cs") auto
qed simp

declare segments.simps [simp del]

text \<open>A segment \<open>{name}\<close> of a pattern stands for any segment of a path.\<close>

definition is_param :: "string \<Rightarrow> bool" where
  "is_param s \<longleftrightarrow> s \<noteq> [] \<and> hd s = CHR ''{''"

definition param_name :: "string \<Rightarrow> string" where
  "param_name s = butlast (tl s)"

fun match_segs :: "string list \<Rightarrow> string list \<Rightarrow> (string \<times> string) list option" where
  "match_segs [] [] = Some []"
| "match_segs (p # ps) (s # ss) =
     (if is_param p then map_option (\<lambda>bs. (param_name p, s) # bs) (match_segs ps ss)
      else if p = s then match_segs ps ss else None)"
| "match_segs _ _ = None"

text \<open>The values put in for the parameters.\<close>

fun fill_segs :: "string list \<Rightarrow> string list \<Rightarrow> string list" where
  "fill_segs [] args = []"
| "fill_segs (p # ps) (a # args) = (if is_param p then a # fill_segs ps args else p # fill_segs ps (a # args))"
| "fill_segs (p # ps) [] = p # fill_segs ps []"

definition params :: "string list \<Rightarrow> string list" where
  "params ps = map param_name (filter is_param ps)"

lemma match_fill:
  "length args = length (params ps) \<Longrightarrow> match_segs ps (fill_segs ps args) = Some (zip (params ps) args)"
  by (induction ps args rule: fill_segs.induct) (auto simp: params_def split: if_splits)

lemma fill_segs_Nil [simp]: "fill_segs ps args = [] \<longleftrightarrow> ps = []"
  by (cases "(ps, args)" rule: fill_segs.cases) auto

lemma fill_segs_set: "set (fill_segs ps args) \<subseteq> set ps \<union> set args"
  by (induction ps args rule: fill_segs.induct) auto

text \<open>Two patterns that one path could match.\<close>

fun overlap :: "string list \<Rightarrow> string list \<Rightarrow> bool" where
  "overlap [] [] \<longleftrightarrow> True"
| "overlap (p # ps) (q # qs) \<longleftrightarrow> (is_param p \<or> is_param q \<or> p = q) \<and> overlap ps qs"
| "overlap _ _ \<longleftrightarrow> False"

lemma match_overlap: "match_segs ps ss = Some b \<Longrightarrow> match_segs qs ss = Some c \<Longrightarrow> overlap ps qs"
proof (induction ps ss arbitrary: qs b c rule: match_segs.induct)
  case 1
  then show ?case by (cases qs) auto
next
  case (2 p ps s ss)
  then show ?case by (cases qs) (auto split: if_splits)
qed auto

section \<open>The table\<close>

text \<open>Every route with its whole pattern, and what running its handler is called.\<close>

definition all_routes :: "(route \<times> outcome) list" where
  "all_routes =
     map (\<lambda>rt. (rt, RootRoute (rt_Endpoint rt))) root_routes @
     map (\<lambda>rt. (rt\<lparr>rt_Pattern := ''/api/v2'' @ rt_Pattern rt\<rparr>, ApiRoute (rt_Endpoint rt))) api_routes"

definition route_matches :: "route \<Rightarrow> string \<Rightarrow> string \<Rightarrow> (string \<times> string) list option" where
  "route_matches rt m p =
     (if rt_Method rt \<in> {None, Some m} then match_segs (segments (rt_Pattern rt)) (segments p) else None)"

definition clash :: "string option \<times> string list \<Rightarrow> string option \<times> string list \<Rightarrow> bool" where
  "clash r r' \<longleftrightarrow>
     (fst r = None \<or> fst r' = None \<or> fst r = fst r') \<and> overlap (snd r) (snd r')"

fun no_clash :: "(string option \<times> string list) list \<Rightarrow> bool" where
  "no_clash [] \<longleftrightarrow> True"
| "no_clash (r # rs) \<longleftrightarrow> list_all (\<lambda>r'. \<not> clash r r') rs \<and> no_clash rs"

lemma no_clash_eq:
  "no_clash (map f xs) \<Longrightarrow> x \<in> set xs \<Longrightarrow> y \<in> set xs \<Longrightarrow> clash (f x) (f y) \<Longrightarrow> clash (f y) (f x) \<Longrightarrow> x = y"
  by (induction xs) (auto simp: list_all_iff)

definition route_key :: "route \<times> outcome \<Rightarrow> string option \<times> string list" where
  "route_key e = (rt_Method (fst e), segments (rt_Pattern (fst e)))"

lemma table_no_clash: "no_clash (map route_key all_routes)"
  by code_simp

lemma table_unambiguous:
  assumes "(rt, out) \<in> set all_routes" and "(rt', out') \<in> set all_routes"
    and "route_matches rt m p \<noteq> None" and "route_matches rt' m p \<noteq> None"
  shows "rt = rt' \<and> out = out'"
proof -
  from assms(3,4) obtain b c where
    m: "rt_Method rt \<in> {None, Some m}" "rt_Method rt' \<in> {None, Some m}" and
    s: "match_segs (segments (rt_Pattern rt)) (segments p) = Some b"
       "match_segs (segments (rt_Pattern rt')) (segments p) = Some c"
    by (auto simp: route_matches_def split: if_splits)
  with match_overlap [OF s] match_overlap [OF s(2,1)]
  have "clash (route_key (rt, out)) (route_key (rt', out'))" "clash (route_key (rt', out')) (route_key (rt, out))"
    by (auto simp: clash_def route_key_def)
  from no_clash_eq [OF table_no_clash assms(1,2) this] show ?thesis by simp
qed

section \<open>What the router promises\<close>

definition runs_handler :: "outcome \<Rightarrow> bool" where
  "runs_handler out \<longleftrightarrow> (case out of RootRoute _ \<Rightarrow> True | ApiRoute _ \<Rightarrow> True | _ \<Rightarrow> False)"

lemma all_routes_run: "(rt, out) \<in> set all_routes \<Longrightarrow> runs_handler out"
  by (auto simp: all_routes_def runs_handler_def)

text \<open>The methods \<open>chi\<close> knows.\<close>

definition chi_methods :: "string list" where
  "chi_methods =
     [''CONNECT'', ''DELETE'', ''GET'', ''HEAD'', ''OPTIONS'', ''PATCH'', ''POST'', ''PUT'', ''TRACE'']"

definition filled :: "(string \<times> string) list \<Rightarrow> bool" where
  "filled bs \<longleftrightarrow> (\<forall>(k, v) \<in> set bs. v \<noteq> [])"

text \<open>
  A handler runs only for a route that matches, with its pattern and the values of its
  parameters; and if a route matches with no parameter empty, a handler runs.
\<close>

definition chi_contract :: "(string \<Rightarrow> string \<Rightarrow> chi_match) \<Rightarrow> bool" where
  "chi_contract chi \<longleftrightarrow> (\<forall>m p.
     (runs_handler (cm_outcome (chi m p)) \<longrightarrow>
        (\<exists>rt bs. (rt, cm_outcome (chi m p)) \<in> set all_routes \<and> route_matches rt m p = Some bs \<and>
           cm_pattern (chi m p) = rt_Pattern rt \<and> (\<forall>(k, v) \<in> set bs. map_of (cm_params (chi m p)) k = Some v))) \<and>
     (\<forall>rt out bs. m \<in> set chi_methods \<longrightarrow> (rt, out) \<in> set all_routes \<longrightarrow>
        route_matches rt m p = Some bs \<longrightarrow> filled bs \<longrightarrow> runs_handler (cm_outcome (chi m p))))"

lemma contract_run:
  assumes "chi_contract chi" and "runs_handler (cm_outcome (chi m p))"
  obtains rt bs where "(rt, cm_outcome (chi m p)) \<in> set all_routes" and "route_matches rt m p = Some bs"
    and "cm_pattern (chi m p) = rt_Pattern rt" and "\<forall>(k, v) \<in> set bs. map_of (cm_params (chi m p)) k = Some v"
  using assms unfolding chi_contract_def by blast

lemma contract_runs:
  assumes "chi_contract chi" and "m \<in> set chi_methods" and "(rt, out) \<in> set all_routes"
    and "route_matches rt m p = Some bs" and "filled bs"
  shows "runs_handler (cm_outcome (chi m p))"
  using assms unfolding chi_contract_def by blast

text \<open>The contract fixes the handler, the pattern and the parameters of a path that matches.\<close>

lemma contract_route:
  assumes "chi_contract chi" and "m \<in> set chi_methods" and "(rt, out) \<in> set all_routes"
    and "route_matches rt m p = Some bs" and "filled bs"
  shows "cm_outcome (chi m p) = out \<and> cm_pattern (chi m p) = rt_Pattern rt \<and>
    (\<forall>(k, v) \<in> set bs. map_of (cm_params (chi m p)) k = Some v)"
proof -
  from contract_runs [OF assms] have "runs_handler (cm_outcome (chi m p))" .
  with assms(1) obtain rt' bs' where
    r: "(rt', cm_outcome (chi m p)) \<in> set all_routes" "route_matches rt' m p = Some bs'"
      "cm_pattern (chi m p) = rt_Pattern rt'" "\<forall>(k, v) \<in> set bs'. map_of (cm_params (chi m p)) k = Some v"
    by (rule contract_run)
  from table_unambiguous [OF assms(3) r(1), of m p] assms(4) r(2) have "rt = rt'" "out = cm_outcome (chi m p)"
    by simp_all
  with r assms(4) show ?thesis by simp
qed

text \<open>What the other properties assume of the router follows.\<close>

lemma all_routes_routed:
  "(rt, RootRoute ep) \<in> set all_routes \<Longrightarrow> route_matches rt m p = Some bs \<Longrightarrow> routes_to root_routes m ep"
  "(rt, ApiRoute ep) \<in> set all_routes \<Longrightarrow> route_matches rt m p = Some bs \<Longrightarrow> routes_to api_routes m ep"
  by (auto simp: all_routes_def routes_to_def route_matches_def split: if_splits)

lemma contract_sound:
  assumes "chi_contract chi"
  shows "chi_sound chi"
proof -
  have "routes_to root_routes m ep" if out: "cm_outcome (chi m p) = RootRoute ep" for m p ep
  proof -
    from out have "runs_handler (cm_outcome (chi m p))" by (simp add: runs_handler_def)
    with assms obtain rt bs where "(rt, cm_outcome (chi m p)) \<in> set all_routes" "route_matches rt m p = Some bs"
      by (rule contract_run)
    with out show ?thesis by (metis all_routes_routed(1))
  qed
  moreover have "routes_to api_routes m ep" if out: "cm_outcome (chi m p) = ApiRoute ep" for m p ep
  proof -
    from out have "runs_handler (cm_outcome (chi m p))" by (simp add: runs_handler_def)
    with assms obtain rt bs where "(rt, cm_outcome (chi m p)) \<in> set all_routes" "route_matches rt m p = Some bs"
      by (rule contract_run)
    with out show ?thesis by (metis all_routes_routed(2))
  qed
  ultimately show ?thesis by (simp add: chi_sound_def)
qed

section \<open>Reaching a route\<close>

text \<open>The path of an API route for given values of its parameters.\<close>

definition api_path :: "route \<Rightarrow> string list \<Rightarrow> string" where
  "api_path rt args = Join (fill_segs (segments (''/api/v2'' @ rt_Pattern rt)) args) ''/''"

definition api_params :: "route \<Rightarrow> string list" where
  "api_params rt = params (segments (''/api/v2'' @ rt_Pattern rt))"

lemma api_method_known: "rt \<in> set api_routes \<Longrightarrow> rt_Method rt = Some m \<Longrightarrow> m \<in> set chi_methods"
proof -
  have "list_all (\<lambda>rt. \<exists>m \<in> set chi_methods. rt_Method rt = Some m) api_routes" by code_simp
  then show "rt \<in> set api_routes \<Longrightarrow> rt_Method rt = Some m \<Longrightarrow> m \<in> set chi_methods"
    by (auto simp: list_all_iff)
qed

lemma api_path_reaches:
  assumes "chi_contract chi" and "rt \<in> set api_routes" and "rt_Method rt = Some m"
    and "length args = length (api_params rt)" and "\<forall>a \<in> set args. a \<noteq> [] \<and> CHR ''/'' \<notin> set a"
  shows "cm_outcome (chi m (api_path rt args)) = ApiRoute (rt_Endpoint rt) \<and>
    cm_pattern (chi m (api_path rt args)) = ''/api/v2'' @ rt_Pattern rt \<and>
    (\<forall>(k, v) \<in> set (zip (api_params rt) args). first_value (cm_params (chi m (api_path rt args))) k = v)"
proof -
  let ?ps = "segments (''/api/v2'' @ rt_Pattern rt)"
  have "\<forall>s \<in> set (fill_segs ?ps args). CHR ''/'' \<notin> set s"
    using fill_segs_set [of ?ps args] segments_no_slash [of "''/api/v2'' @ rt_Pattern rt"] assms(5) by blast
  then have "segments (api_path rt args) = fill_segs ?ps args"
    unfolding api_path_def by (intro segments_Join) simp_all
  moreover have "match_segs ?ps (fill_segs ?ps args) = Some (zip (api_params rt) args)"
    using assms(4) unfolding api_params_def by (rule match_fill)
  ultimately have "route_matches (rt\<lparr>rt_Pattern := ''/api/v2'' @ rt_Pattern rt\<rparr>) m (api_path rt args) =
      Some (zip (api_params rt) args)"
    using assms(3) by (simp add: route_matches_def)
  moreover have "(rt\<lparr>rt_Pattern := ''/api/v2'' @ rt_Pattern rt\<rparr>, ApiRoute (rt_Endpoint rt)) \<in> set all_routes"
    using assms(2) unfolding all_routes_def by simp
  moreover have "filled (zip (api_params rt) args)"
    using assms(5) by (auto simp: filled_def dest: set_zip_rightD)
  moreover have "m \<in> set chi_methods" by (rule api_method_known [OF assms(2,3)])
  ultimately show ?thesis
    using contract_route [OF assms(1)] by (fastforce simp: first_value_def)
qed

text \<open>What an authorized request for that path gets: the answer and the effect of the handler.\<close>

definition request_for :: "route \<Rightarrow> string list \<Rightarrow> request \<Rightarrow> bool" where
  "request_for rt args r \<longleftrightarrow>
     rt \<in> set api_routes \<and> rt_Method rt = Some (Method r) \<and> Path r = api_path rt args \<and>
     length args = length (api_params rt) \<and> (\<forall>a \<in> set args. a \<noteq> [] \<and> CHR ''/'' \<notin> set a)"

lemma request_for_served:
  assumes "chi_contract (d_chi D)" and "request_for rt args r"
    and "authorized (ro_headscaleAPIKey ro) (in_auth i) r (tokens \<sigma>)"
  shows "fst (ServeHTTP D ro i r \<sigma>) = fst (serve_endpoint D ro i (rt_Endpoint rt) (routed D r) \<sigma>) \<and>
    world (snd (ServeHTTP D ro i r \<sigma>)) = world (snd (serve_endpoint D ro i (rt_Endpoint rt) (routed D r) \<sigma>)) \<and>
    path_label (routed D r) = ''/api/v2'' @ rt_Pattern rt \<and>
    (\<forall>(k, v) \<in> set (zip (api_params rt) args). URLParam (routed D r) k = v)"
proof -
  from assms(2) have "rt \<in> set api_routes" "rt_Method rt = Some (Method r)" and path: "Path r = api_path rt args"
    and "length args = length (api_params rt)" "\<forall>a \<in> set args. a \<noteq> [] \<and> CHR ''/'' \<notin> set a"
    unfolding request_for_def by blast+
  note reached = api_path_reaches [OF assms(1) this(1,2,4,5), folded path]
  have "authorized (ro_headscaleAPIKey ro) (in_auth i) (routed D r) (tokens \<sigma>)"
    using assms(3) by (simp add: authorized_def)
  then have "routeHTTP D ro i (ApiRoute (rt_Endpoint rt)) (routed D r) \<sigma> =
      serve_endpoint D ro i (rt_Endpoint rt) (routed D r) \<sigma>"
    by (simp add: routeHTTP_def serve_api_def BearerAuthMiddleware_eq)
  moreover have "cm_outcome (d_chi D (Method r) (Path r)) = ApiRoute (rt_Endpoint rt)"
    using reached by blast
  ultimately have "routeHTTP D ro i (cm_outcome (d_chi D (Method r) (Path r))) (routed D r) \<sigma> =
      serve_endpoint D ro i (rt_Endpoint rt) (routed D r) \<sigma>" by (simp only:)
  moreover have "path_label (routed D r) = ''/api/v2'' @ rt_Pattern rt"
    using reached by (simp add: path_label_def routed_def Let_def)
  moreover have "URLParams (routed D r) = cm_params (d_chi D (Method r) (Path r))"
    by (simp add: routed_def Let_def)
  ultimately show ?thesis using reached by (simp add: ServeHTTP_routed middleware_frame)
qed

text \<open>The token endpoint, under both of its paths.\<close>

lemma login_reached:
  assumes "chi_contract chi" and "p \<in> {''/oauth/token'', ''/api/v2/oauth/token''}"
  shows "cm_outcome (chi ''POST'' p) = RootRoute E_OAuthToken"
proof -
  have "route_matches (route ''POST'' p E_OAuthToken) ''POST'' p = Some []"
  proof -
    have "route_matches (route ''POST'' ''/oauth/token'' E_OAuthToken) ''POST'' ''/oauth/token'' = Some []"
      "route_matches (route ''POST'' ''/api/v2/oauth/token'' E_OAuthToken) ''POST'' ''/api/v2/oauth/token'' = Some []"
      by code_simp+
    with assms(2) show ?thesis by blast
  qed
  moreover have "(route ''POST'' p E_OAuthToken, RootRoute E_OAuthToken) \<in> set all_routes"
    using assms(2) by (auto simp: all_routes_def root_routes_def route_def)
  moreover have "''POST'' \<in> set chi_methods" by (simp add: chi_methods_def)
  ultimately show ?thesis using contract_route [OF assms(1)] by (fastforce simp: filled_def)
qed

lemma login_served:
  assumes "chi_contract (d_chi D)" and "Method r = ''POST''" and "Path r \<in> {''/oauth/token'', ''/api/v2/oauth/token''}"
    and "parseOAuthCredentials r = Some (ro_clientID ro, ro_clientSecret ro)"
    and "FormValue r ''grant_type'' = ''client_credentials''"
    and "generateToken (ro_hmacSecret ro) (in_rand i) = Some tok"
  shows "fst (ServeHTTP D ro i r \<sigma>) = writeJSON 200 (JObj [(''access_token'', JStr tok),
      (''token_type'', JStr ''Bearer''), (''expires_in'', JNum ''3600'')]) \<and>
    tokens (snd (ServeHTTP D ro i r \<sigma>)) = (tokens \<sigma>)(tok \<mapsto> \<lparr>expiry = in_issue i + 3600000000000\<rparr>)"
  using assms login_reached [OF assms(1,3)]
  by (simp add: ServeHTTP_routed middleware_frame routeHTTP_def OAuthTokenHandler_def issueToken_eq)

section \<open>Requests that match no route\<close>

text \<open>A request without credentials.\<close>

definition bare_get :: "string \<Rightarrow> request" where
  "bare_get p =
     \<lparr>Method = ''GET'', Path = p, Headers = [], FormErr = False, Form = [], URLParams = [], RoutePattern = None,
      Body = None, RemoteAddr = [], ReqID = [], Context = []\<rparr>"

definition unmatched :: "(string \<Rightarrow> string \<Rightarrow> chi_match) \<Rightarrow> string \<Rightarrow> bool" where
  "unmatched chi p \<longleftrightarrow> cm_outcome (chi ''GET'' p) = RootNotFound \<and> cm_pattern (chi ''GET'' p) = []"

lemma unmatched_served:
  assumes "unmatched (d_chi D) p"
  shows "fst (ServeHTTP D ro i (bare_get p) \<sigma>) = d_notFound D"
    and "path_label (routed D (bare_get p)) = p"
  using assms
  by (simp_all add: unmatched_def ServeHTTP_routed middleware_frame routeHTTP_def path_label_def routed_def
      bare_get_def Let_def)

lemma unmatched_run:
  assumes "\<forall>p \<in> set ps. unmatched (d_chi D) p"
  shows "\<exists>ls s. run D ro s0 ls s \<and> list_all2 (\<lambda>p l. \<exists>i. l = Serve i (bare_get p) (d_notFound D)) ps ls"
  using assms
proof (induction ps rule: rev_induct)
  case Nil
  then show ?case using run_Nil by fastforce
next
  case (snoc p ps)
  then obtain ls s where ls: "run D ro s0 ls s"
    "list_all2 (\<lambda>p l. \<exists>i. l = Serve i (bare_get p) (d_notFound D)) ps ls" by auto
  define i :: readings where
    "i = \<lparr>in_start = 0, in_auth = clock_now s, in_rand = None, in_issue = clock_now s, in_key = 0,
      in_wif = \<lparr>t_cache = 0, t_fetch = 0, t_claims = 0\<rparr>, in_stop = 0\<rparr>"
  have "readings_ok (clock_now s) i" by (simp add: readings_ok_def i_def)
  moreover have "ServeHTTP D ro i (bare_get p) (sys_st s) =
      (d_notFound D, snd (ServeHTTP D ro i (bare_get p) (sys_st s)))"
    using snoc.prems unmatched_served(1) [of D p ro i "sys_st s"] by (metis in_set_conv_decomp prod.collapse)
  ultimately have "\<exists>s'. step D ro s (Serve i (bare_get p) (d_notFound D)) s'"
    by (blast intro: step.serve)
  then obtain s' where "run D ro s0 (ls @ [Serve i (bare_get p) (d_notFound D)]) s'"
    using run_snoc [OF ls(1)] by blast
  moreover have "list_all2 (\<lambda>p l. \<exists>i. l = Serve i (bare_get p) (d_notFound D)) (ps @ [p])
      (ls @ [Serve i (bare_get p) (d_notFound D)])"
    using ls(2) by (simp add: list_all2_appendI)
  ultimately show ?case by blast
qed

lemma unmatched_count:
  assumes "list_all2 (\<lambda>p l. \<exists>i. l = Serve i (bare_get p) (d_notFound D)) ps ls"
    and "\<forall>p \<in> set ps. unmatched (d_chi D) p"
  shows "length (filter (served_as D (\<lambda>y. y = (''GET'', p, FormatInt (int (Status (d_notFound D)))))) ls) =
    count_list ps p"
  using assms
  by (induction rule: list_all2_induct)
    (auto simp: request_label_def unmatched_served(2), auto simp: bare_get_def)

lemma count_list_distinct: "distinct ps \<Longrightarrow> p \<in> set ps \<Longrightarrow> count_list ps p = 1"
  by (induction ps) auto

text \<open>A request that a handler runs for is labelled by a pattern of the table.\<close>

lemma handled_label:
  assumes "chi_contract (d_chi D)" and "runs_handler (cm_outcome (d_chi D (Method r) (Path r)))"
  shows "path_label (routed D r) \<in> rt_Pattern ` fst ` set all_routes"
proof -
  from assms obtain rt bs where
    rt: "(rt, cm_outcome (d_chi D (Method r) (Path r))) \<in> set all_routes"
      "cm_pattern (d_chi D (Method r) (Path r)) = rt_Pattern rt"
    by (rule contract_run)
  have "list_all (\<lambda>(rt, out). rt_Pattern rt \<noteq> []) all_routes" by code_simp
  with rt have "path_label (routed D r) = rt_Pattern rt"
    by (auto simp: list_all_iff path_label_def routed_def Let_def)
  with rt(1) show ?thesis by force
qed

section \<open>A router that keeps the promise\<close>

definition table_chi :: "string \<Rightarrow> string \<Rightarrow> chi_match" where
  "table_chi m p =
     (case find (\<lambda>(rt, out). route_matches rt m p \<noteq> None) all_routes of
        Some (rt, out) \<Rightarrow>
          \<lparr>cm_outcome = out, cm_params = (case route_matches rt m p of Some bs \<Rightarrow> bs | None \<Rightarrow> []),
           cm_pattern = rt_Pattern rt\<rparr>
      | None \<Rightarrow>
          \<lparr>cm_outcome = (if prefix ''/api/v2/'' p then ApiNotFound else RootNotFound),
           cm_params = [], cm_pattern = []\<rparr>)"

lemma match_segs_params: "match_segs ps ss = Some bs \<Longrightarrow> map fst bs = params ps"
  by (induction ps ss arbitrary: bs rule: match_segs.induct) (auto simp: params_def split: if_splits)

lemma table_params: "(rt, out) \<in> set all_routes \<Longrightarrow> distinct (params (segments (rt_Pattern rt)))"
proof -
  have "list_all (\<lambda>(rt, out). distinct (params (segments (rt_Pattern rt)))) all_routes" by code_simp
  then show "(rt, out) \<in> set all_routes \<Longrightarrow> distinct (params (segments (rt_Pattern rt)))"
    by (auto simp: list_all_iff)
qed

lemma table_bindings:
  assumes "(rt, out) \<in> set all_routes" and "route_matches rt m p = Some bs"
  shows "\<forall>(k, v) \<in> set bs. map_of bs k = Some v"
proof -
  from assms(2) have "map fst bs = params (segments (rt_Pattern rt))"
    by (auto simp: route_matches_def dest: match_segs_params split: if_splits)
  with table_params [OF assms(1)] show ?thesis by auto
qed

lemma table_chi_contract: "chi_contract table_chi"
proof -
  let ?hit = "\<lambda>m p (rt, out). route_matches rt m p \<noteq> None"
  have hit: "\<exists>rt bs. (rt, cm_outcome (table_chi m p)) \<in> set all_routes \<and> route_matches rt m p = Some bs \<and>
      cm_pattern (table_chi m p) = rt_Pattern rt \<and> (\<forall>(k, v) \<in> set bs. map_of (cm_params (table_chi m p)) k = Some v)"
    if "find (?hit m p) all_routes = Some e" for m p e
  proof -
    obtain rt out where e: "e = (rt, out)" by fastforce
    with that have f: "find (?hit m p) all_routes = Some (rt, out)" by simp
    then obtain k where "k < length all_routes" "all_routes ! k = (rt, out)" "route_matches rt m p \<noteq> None"
      by (auto simp: find_Some_iff)
    then have h: "(rt, out) \<in> set all_routes" "route_matches rt m p \<noteq> None"
      by (metis nth_mem, simp)
    then obtain bs where "route_matches rt m p = Some bs" by blast
    with f h table_bindings [OF h(1)] show ?thesis by (auto simp: table_chi_def)
  qed
  have miss: "find (?hit m p) all_routes = None \<Longrightarrow> \<not> runs_handler (cm_outcome (table_chi m p))" for m p
    by (simp add: table_chi_def runs_handler_def)
  have found: "find (?hit m p) all_routes \<noteq> None"
    if "(rt, out) \<in> set all_routes" "route_matches rt m p = Some bs" for m p rt out bs
    unfolding find_None_iff using that by fastforce
  show ?thesis
    unfolding chi_contract_def
  proof (intro allI conjI impI)
    fix m p
    assume "runs_handler (cm_outcome (table_chi m p))"
    with miss obtain e where "find (?hit m p) all_routes = Some e" by blast
    then show "\<exists>rt bs. (rt, cm_outcome (table_chi m p)) \<in> set all_routes \<and> route_matches rt m p = Some bs \<and>
        cm_pattern (table_chi m p) = rt_Pattern rt \<and>
        (\<forall>(k, v) \<in> set bs. map_of (cm_params (table_chi m p)) k = Some v)"
      by (rule hit)
  next
    fix m p rt out bs
    assume "(rt, out) \<in> set all_routes" "route_matches rt m p = Some bs"
    then obtain e where "find (?hit m p) all_routes = Some e" using found by blast
    from hit [OF this] show "runs_handler (cm_outcome (table_chi m p))" using all_routes_run by blast
  qed
qed

end
