(* ===== verification/Haic.thy ===== *)
theory Haic
  imports Go_Time
begin

text \<open>
  The container harness of the integration tests (\<open>integration/haic/haic.go\<close>): the functional
  options, the environment that a container is started with, and the wait for the service to
  be healthy. Docker is a parameter. The wait is a \<open>partial_function\<close>: each turn of its loop has
  a reading of the clock and a reply, and not returning would be \<open>None\<close>.
\<close>

record HeadapiInContainer =
  hc_headscaleAddr :: string
  hc_headscaleAPIKey :: string
  hc_oauthClientID :: string
  hc_oauthClientSecret :: string
  hc_hmacSecret :: string
  hc_tailnetName :: string
  hc_container :: bool
  hc_listenPort :: string

type_synonym Option = "HeadapiInContainer \<Rightarrow> HeadapiInContainer"

definition WithOAuthCredentials :: "string \<Rightarrow> string \<Rightarrow> Option" where
  "WithOAuthCredentials cid secret h = h\<lparr>hc_oauthClientID := cid, hc_oauthClientSecret := secret\<rparr>"

definition WithHeadscaleAPIKey :: "string \<Rightarrow> Option" where
  "WithHeadscaleAPIKey key h = h\<lparr>hc_headscaleAPIKey := key\<rparr>"

definition WithTailnetName :: "string \<Rightarrow> Option" where
  "WithTailnetName name h = h\<lparr>hc_tailnetName := name\<rparr>"

definition WithHMACSecret :: "string \<Rightarrow> Option" where
  "WithHMACSecret secret h = h\<lparr>hc_hmacSecret := secret\<rparr>"

text \<open>The configuration before and after the options.\<close>

definition haic_config :: "string \<Rightarrow> Option list \<Rightarrow> HeadapiInContainer" where
  "haic_config hostname opts =
     fold (\<lambda>opt h. opt h) opts
       \<lparr>hc_headscaleAddr = hostname @ '':50443'', hc_headscaleAPIKey = [],
        hc_oauthClientID = ''headtotails-client'', hc_oauthClientSecret = ''headtotails-secret'',
        hc_hmacSecret = ''headtotails-hmac-secret-32-chars!!!'', hc_tailnetName = ''-'',
        hc_container = False, hc_listenPort = []\<rparr>"

definition haic_env :: "HeadapiInContainer \<Rightarrow> string list" where
  "haic_env h =
     [''LISTEN_ADDR=:8080'',
      ''HEADSCALE_ADDR='' @ hc_headscaleAddr h,
      ''HEADSCALE_API_KEY='' @ hc_headscaleAPIKey h,
      ''TAILNET_NAME='' @ hc_tailnetName h,
      ''OAUTH_CLIENT_ID='' @ hc_oauthClientID h,
      ''OAUTH_CLIENT_SECRET='' @ hc_oauthClientSecret h,
      ''OAUTH_HMAC_SECRET='' @ hc_hmacSecret h]"

text \<open>What \<open>New\<close> asks of Docker: an image to build, a container to run.\<close>

definition headtotailsImage :: string where
  "headtotailsImage = ''headtotails''"

definition headtotailsPort :: string where
  "headtotailsPort = ''8080/tcp''"

record build_options =
  bo_Name :: string
  bo_ContextDir :: string
  bo_Dockerfile :: string
  bo_SuppressOutput :: bool
  bo_Pull :: bool

record run_options =
  rn_Repository :: string
  rn_Tag :: string
  rn_Env :: "string list"
  rn_NetworkID :: string
  rn_AutoRemove :: bool
  rn_RestartPolicy :: string

definition build_opts :: build_options where
  "build_opts =
     \<lparr>bo_Name = headtotailsImage, bo_ContextDir = ''../../'', bo_Dockerfile = ''Dockerfile'',
      bo_SuppressOutput = True, bo_Pull = False\<rparr>"

definition run_opts :: "HeadapiInContainer \<Rightarrow> string \<Rightarrow> run_options" where
  "run_opts h net =
     \<lparr>rn_Repository = headtotailsImage, rn_Tag = ''latest'', rn_Env = haic_env h, rn_NetworkID = net,
      rn_AutoRemove = True, rn_RestartPolicy = ''no''\<rparr>"

text \<open>An error of \<open>New\<close>, or the panic of indexing an empty list of networks.\<close>

datatype haic_error = BuildError string | StartError string | IndexPanic

text \<open>
  Docker: the error of building the image, if any; the start of a container, an error or the
  ports of the host that its own ports got.
\<close>

definition New_haic ::
  "(build_options \<Rightarrow> string option) \<Rightarrow> (run_options \<Rightarrow> string + (string \<Rightarrow> string)) \<Rightarrow> string list \<Rightarrow> string
   \<Rightarrow> Option list \<Rightarrow> haic_error + HeadapiInContainer" where
  "New_haic BuildImage RunWithOptions networkIDs hostname opts =
     (let h = haic_config hostname opts
      in case BuildImage build_opts of
           Some err \<Rightarrow> Inl (BuildError (''build headtotails image: '' @ err))
         | None \<Rightarrow>
             (case networkIDs of
                [] \<Rightarrow> Inl IndexPanic
              | net # _ \<Rightarrow>
                  (case RunWithOptions (run_opts h net) of
                     Inl err \<Rightarrow> Inl (StartError (''start headtotails container: '' @ err))
                   | Inr GetPort \<Rightarrow> Inr (h\<lparr>hc_container := True, hc_listenPort := GetPort headtotailsPort\<rparr>))))"

definition GetEndpoint :: "HeadapiInContainer \<Rightarrow> string" where
  "GetEndpoint h = ''http://localhost:'' @ hc_listenPort h"

lemma run_opts_started: "run_opts (h\<lparr>hc_container := b, hc_listenPort := q\<rparr>) net = run_opts h net"
  by (simp add: run_opts_def haic_env_def)

lemma New_haic_Inr:
  assumes "New_haic build run nets hostname opts = Inr h"
  shows "\<exists>net GetPort. run (run_opts h net) = Inr GetPort \<and> GetEndpoint h = ''http://localhost:'' @ GetPort ''8080/tcp''"
  using assms
  by (fastforce simp: New_haic_def Let_def run_opts_started GetEndpoint_def headtotailsPort_def
      split: option.splits list.splits sum.splits)

definition GetOAuthClientID :: "HeadapiInContainer \<Rightarrow> string" where
  "GetOAuthClientID h = hc_oauthClientID h"

definition GetOAuthClientSecret :: "HeadapiInContainer \<Rightarrow> string" where
  "GetOAuthClientSecret h = hc_oauthClientSecret h"

text \<open>Stopping: the error of removing the container, if there is one.\<close>

definition Shutdown :: "string option \<Rightarrow> HeadapiInContainer \<Rightarrow> string option" where
  "Shutdown Purge h = (if hc_container h then Purge else None)"

section \<open>Waiting\<close>

text \<open>
  Turn \<open>n\<close> reads the clock (\<open>now n\<close>) and, before the deadline, asks \<open>/healthz\<close>: \<open>get n url\<close>
  is the status of the reply, \<open>None\<close> without one. \<open>Some None\<close> is a nil error.
\<close>

partial_function (option) wait_loop ::
  "time \<Rightarrow> (nat \<Rightarrow> time) \<Rightarrow> (nat \<Rightarrow> string \<Rightarrow> nat option) \<Rightarrow> string \<Rightarrow> nat \<Rightarrow> string option option" where
  "wait_loop deadline now get url n =
     (if now n < deadline then
        (if get n url = Some 200 then Some None
         else wait_loop deadline now get url (Suc n))
      else Some (Some ''headtotails did not become healthy within timeout''))"

definition WaitForRunning ::
  "HeadapiInContainer \<Rightarrow> time \<Rightarrow> (nat \<Rightarrow> time) \<Rightarrow> (nat \<Rightarrow> string \<Rightarrow> nat option) \<Rightarrow> string option option" where
  "WaitForRunning h start now get =
     (let healthURL = GetEndpoint h @ ''/healthz''; deadline = Add start (60 * Second)
      in wait_loop deadline now get healthURL 0)"

text \<open>The turn at which the loop stops: the first healthy reply or the first late reading.\<close>

lemma wait_loop_stops:
  assumes "n \<le> k" and "deadline \<le> now k \<or> get k url = Some 200"
    and "\<And>j. n \<le> j \<Longrightarrow> j < k \<Longrightarrow> now j < deadline \<and> get j url \<noteq> Some 200"
  shows "wait_loop deadline now get url n =
    (if now k < deadline then Some None
     else Some (Some ''headtotails did not become healthy within timeout''))"
  using assms
proof (induction n rule: inc_induct)
  case base
  then show ?case by (subst wait_loop.simps) auto
next
  case (step n)
  from step.prems(2) [of n] step.hyps have "now n < deadline" "get n url \<noteq> Some 200" by auto
  with step show ?case by (subst wait_loop.simps) auto
qed

text \<open>A clock that gets past the deadline stops the loop, whatever the service answers.\<close>

lemma wait_loop_returns:
  fixes deadline :: time
  assumes "deadline \<le> now k"
  shows "\<exists>m :: nat. (deadline \<le> now m \<or> get m url = Some (200 :: nat)) \<and>
    (\<forall>j < m. now j < deadline \<and> get j url \<noteq> Some 200)"
proof -
  let ?P = "\<lambda>m. deadline \<le> now m \<or> get m url = Some 200"
  have "\<exists>m. ?P m" using assms by blast
  then obtain m where "?P m" "\<forall>j < m. \<not> ?P j" unfolding exists_least_iff [of ?P] by blast
  then show ?thesis by (auto simp: not_le)
qed

end
