(* ===== verification/Deployment.thy ===== *)
theory Deployment
  imports Startup Haic
begin

text \<open>
  From the environment to a configured server: the tags of the configuration
  (\<open>internal/config/config.go\<close>), what \<open>envconfig\<close> documents it makes of them, and the server that the
  container harness (\<open>integration/haic\<close>) gets with the environment it passes.
\<close>

section \<open>The tags\<close>

text \<open>\<open>ft_Default\<close> is empty where there is no default.\<close>

record field_tag =
  ft_Name :: string
  ft_Default :: string
  ft_Required :: bool
  ft_Bool :: bool

definition config_tags :: "field_tag list" where
  "config_tags =
     [\<lparr>ft_Name = ''LISTEN_ADDR'', ft_Default = '':8080'', ft_Required = False, ft_Bool = False\<rparr>,
      \<lparr>ft_Name = ''HEADSCALE_ADDR'', ft_Default = [], ft_Required = True, ft_Bool = False\<rparr>,
      \<lparr>ft_Name = ''HEADSCALE_API_KEY'', ft_Default = [], ft_Required = True, ft_Bool = False\<rparr>,
      \<lparr>ft_Name = ''TAILNET_NAME'', ft_Default = ''-'', ft_Required = False, ft_Bool = False\<rparr>,
      \<lparr>ft_Name = ''OAUTH_HMAC_SECRET'', ft_Default = [], ft_Required = True, ft_Bool = False\<rparr>,
      \<lparr>ft_Name = ''OAUTH_CLIENT_ID'', ft_Default = [], ft_Required = True, ft_Bool = False\<rparr>,
      \<lparr>ft_Name = ''OAUTH_CLIENT_SECRET'', ft_Default = [], ft_Required = True, ft_Bool = False\<rparr>,
      \<lparr>ft_Name = ''TLS_CERT'', ft_Default = [], ft_Required = False, ft_Bool = False\<rparr>,
      \<lparr>ft_Name = ''TLS_KEY'', ft_Default = [], ft_Required = False, ft_Bool = False\<rparr>,
      \<lparr>ft_Name = ''WIF_ENABLED'', ft_Default = ''false'', ft_Required = False, ft_Bool = True\<rparr>,
      \<lparr>ft_Name = ''WIF_ISSUER_URL'', ft_Default = [], ft_Required = False, ft_Bool = False\<rparr>,
      \<lparr>ft_Name = ''WIF_AUDIENCE'', ft_Default = [], ft_Required = False, ft_Bool = False\<rparr>,
      \<lparr>ft_Name = ''WIF_CLIENT_ID'', ft_Default = [], ft_Required = False, ft_Bool = False\<rparr>,
      \<lparr>ft_Name = ''LOG_LEVEL'', ft_Default = ''info'', ft_Required = False, ft_Bool = False\<rparr>,
      \<lparr>ft_Name = ''LOG_ADD_SOURCE'', ft_Default = ''false'', ft_Required = False, ft_Bool = True\<rparr>,
      \<lparr>ft_Name = ''ENVIRONMENT'', ft_Default = ''production'', ft_Required = False, ft_Bool = False\<rparr>]"

text \<open>The fields in the order of the tags.\<close>

datatype field_value = VStr string | VBool bool

definition config_values :: "Config \<Rightarrow> field_value list" where
  "config_values c =
     [VStr (ListenAddr c), VStr (HeadscaleAddr c), VStr (HeadscaleAPIKey c), VStr (TailnetName c),
      VStr (OAuthHMACSecret c), VStr (OAuthClientID c), VStr (OAuthClientSecret c), VStr (TLSCert c),
      VStr (TLSKey c), VBool (WIFEnabled c), VStr (WIFIssuerURL c), VStr (WIFAudience c),
      VStr (WIFClientID c), VStr (LogLevel c), VBool (LogAddSource c), VStr (Environment c)]"

lemma config_values_inj: "config_values c = config_values c' \<Longrightarrow> c = c'"
  by (cases c; cases c') (simp add: config_values_def)

section \<open>Reading an environment\<close>

type_synonym environ = "string \<rightharpoonup> string"

text \<open>\<open>strconv.ParseBool\<close>.\<close>

definition ParseBool :: "string \<Rightarrow> bool option" where
  "ParseBool s =
     (if s \<in> {''1'', ''t'', ''T'', ''TRUE'', ''true'', ''True''} then Some True
      else if s \<in> {''0'', ''f'', ''F'', ''FALSE'', ''false'', ''False''} then Some False
      else None)"

definition parse_field :: "field_tag \<Rightarrow> string \<Rightarrow> field_value option" where
  "parse_field f s = (if ft_Bool f then map_option VBool (ParseBool s) else Some (VStr s))"

text \<open>
  What \<open>envconfig\<close> documents: the value of the variable if it is set, else the default if there is
  one, else an error if the field is required, else the field is left at its zero.
\<close>

definition read_field :: "environ \<Rightarrow> field_tag \<Rightarrow> field_value option" where
  "read_field env f =
     (case env (ft_Name f) of
        Some s \<Rightarrow> parse_field f s
      | None \<Rightarrow>
          if ft_Default f \<noteq> [] then parse_field f (ft_Default f)
          else if ft_Required f then None
          else Some (if ft_Bool f then VBool False else VStr []))"

definition envconfig_contract :: "(environ \<Rightarrow> string + Config) \<Rightarrow> bool" where
  "envconfig_contract Process \<longleftrightarrow> (\<forall>env.
     case Process env of
       Inr cfg \<Rightarrow> map_opt (read_field env) config_tags = Some (config_values cfg)
     | Inl _ \<Rightarrow> map_opt (read_field env) config_tags = None)"

lemma contract_config:
  assumes "envconfig_contract Process" and "map_opt (read_field env) config_tags = Some (config_values cfg)"
  shows "Process env = Inr cfg"
  using assms(1) [unfolded envconfig_contract_def, rule_format, of env] assms(2) config_values_inj
  by (auto split: sum.splits)

text \<open>An \<open>envconfig\<close> that keeps this contract.\<close>

definition config_of :: "field_value list \<Rightarrow> Config" where
  "config_of vs =
     (let str = (\<lambda>i. case vs ! i of VStr s \<Rightarrow> s | VBool _ \<Rightarrow> []);
          flag = (\<lambda>i. case vs ! i of VBool b \<Rightarrow> b | VStr _ \<Rightarrow> False)
      in \<lparr>ListenAddr = str 0, HeadscaleAddr = str 1, HeadscaleAPIKey = str 2, TailnetName = str 3,
          OAuthHMACSecret = str 4, OAuthClientID = str 5, OAuthClientSecret = str 6, TLSCert = str 7,
          TLSKey = str 8, WIFEnabled = flag 9, WIFIssuerURL = str 10, WIFAudience = str 11,
          WIFClientID = str 12, LogLevel = str 13, LogAddSource = flag 14, Environment = str 15\<rparr>)"

definition some_Process :: "environ \<Rightarrow> string + Config" where
  "some_Process env =
     (case map_opt (read_field env) config_tags of
        Some vs \<Rightarrow> Inr (config_of vs)
      | None \<Rightarrow> Inl ''required key missing value'')"

lemma read_field_kind: "read_field env f = Some v \<Longrightarrow> ft_Bool f \<longleftrightarrow> (\<exists>b. v = VBool b)"
  by (auto simp: read_field_def parse_field_def split: option.splits if_splits)

lemma map_opt_Some: "map_opt f xs = Some ys \<longleftrightarrow> list_all2 (\<lambda>x y. f x = Some y) xs ys"
  by (induction xs arbitrary: ys) (auto simp: list_all2_Cons1 split: option.splits)

lemma some_Process_contract: "envconfig_contract some_Process"
proof -
  have "config_values (config_of vs) = vs" if "map_opt (read_field env) config_tags = Some vs" for env vs
  proof -
    from that have "list_all2 (\<lambda>f v. read_field env f = Some v) config_tags vs" by (simp add: map_opt_Some)
    then have "list_all2 (\<lambda>f v. ft_Bool f = (\<exists>b. v = VBool b)) config_tags vs"
      by (rule list_all2_mono) (rule read_field_kind)
    moreover have "(\<forall>b. v \<noteq> VBool b) \<longleftrightarrow> (\<exists>s. v = VStr s)" for v by (cases v) simp_all
    ultimately show ?thesis
      by (auto simp: config_tags_def list_all2_Cons1 config_values_def config_of_def Let_def)
  qed
  then show ?thesis by (simp add: envconfig_contract_def some_Process_def split: option.split)
qed

section \<open>The container\<close>

text \<open>A list of \<open>NAME=value\<close> over the environment of the image.\<close>

definition set_vars :: "string list \<Rightarrow> environ \<Rightarrow> environ" where
  "set_vars vars env = fold (\<lambda>s e. case cut_at (CHR ''='') s of Some (k, v) \<Rightarrow> e(k \<mapsto> v) | None \<Rightarrow> e) vars env"

definition container_env :: "environ \<Rightarrow> HeadapiInContainer \<Rightarrow> environ" where
  "container_env base h = set_vars (haic_env h) base"

lemma set_var_simps [simp]:
  "set_vars [] env = env"
  "CHR ''='' \<notin> set k \<Longrightarrow> set_vars ((k @ CHR ''='' # v) # vars) env = set_vars vars (env(k \<mapsto> v))"
  by (simp_all add: set_vars_def)

lemma container_env_eq:
  "container_env base h = base(''LISTEN_ADDR'' \<mapsto> '':8080'', ''HEADSCALE_ADDR'' \<mapsto> hc_headscaleAddr h,
     ''HEADSCALE_API_KEY'' \<mapsto> hc_headscaleAPIKey h, ''TAILNET_NAME'' \<mapsto> hc_tailnetName h,
     ''OAUTH_CLIENT_ID'' \<mapsto> hc_oauthClientID h, ''OAUTH_CLIENT_SECRET'' \<mapsto> hc_oauthClientSecret h,
     ''OAUTH_HMAC_SECRET'' \<mapsto> hc_hmacSecret h)"
  by (simp add: container_env_def haic_env_def set_vars_def)

definition container_config :: "HeadapiInContainer \<Rightarrow> Config" where
  "container_config h =
     \<lparr>ListenAddr = '':8080'', HeadscaleAddr = hc_headscaleAddr h, HeadscaleAPIKey = hc_headscaleAPIKey h,
      TailnetName = hc_tailnetName h, OAuthHMACSecret = hc_hmacSecret h, OAuthClientID = hc_oauthClientID h,
      OAuthClientSecret = hc_oauthClientSecret h, TLSCert = [], TLSKey = [], WIFEnabled = False,
      WIFIssuerURL = [], WIFAudience = [], WIFClientID = [], LogLevel = ''info'', LogAddSource = False,
      Environment = ''production''\<rparr>"

lemma container_Process:
  assumes "envconfig_contract Process" and "\<forall>f \<in> set config_tags. base (ft_Name f) = None"
  shows "Process (container_env base h) = Inr (container_config h)"
proof (rule contract_config [OF assms(1)])
  have "ParseBool ''false'' = Some False" by (simp add: ParseBool_def)
  with assms(2) show "map_opt (read_field (container_env base h)) config_tags = Some (config_values (container_config h))"
    by (simp add: config_tags_def read_field_def parse_field_def container_env_eq config_values_def container_config_def)
qed

lemma container_starts:
  assumes "envconfig_contract (h_Process H)" and "\<forall>f \<in> set config_tags. base (ft_Name f) = None"
    and "h_env H = container_env base h" and "\<not> shouldPrintVersion (h_args H)"
    and "h_NewClient H (hc_headscaleAddr h) = Inr conn"
  shows "main_start L ul version H =
    (case validate_config (container_config h) of
       Some err \<Rightarrow> ExitFailure (Setup ul (bootstrap_options version) None) ''failed to load config'' err
     | None \<Rightarrow> Serving
         \<lparr>srv_Addr = '':8080'',
          srv_Router = NewRouter (grpc_client L \<lparr>gc_client = conn, gc_apiKey = hc_headscaleAPIKey h\<rparr>)
            (hc_tailnetName h) (hc_headscaleAPIKey h) (hc_oauthClientID h) (hc_oauthClientSecret h) (hc_hmacSecret h)
            \<lparr>wif_Enabled = False, wif_IssuerURL = [], wif_Audience = [], wif_ClientID = []\<rparr>,
          srv_ReadTimeout = 15 * Second, srv_WriteTimeout = 15 * Second, srv_IdleTimeout = 60 * Second,
          srv_TLS = False,
          srv_Logger = Setup ul (service_options version (container_config h))
            (Setup ul (bootstrap_options version) None)\<rparr>)"
proof -
  have p: "h_Process H (h_env H) = Inr (container_config h)"
    unfolding assms(3) by (rule container_Process [OF assms(1,2)])
  show ?thesis
  proof (cases "validate_config (container_config h)")
    case (Some err)
    with p assms(4) show ?thesis by (simp add: main_start_def Load_def Let_def)
  next
    case None
    with p assms(4,5) show ?thesis
      by (simp add: main_start_def Load_def Let_def New_GRPCClient_def) (simp add: container_config_def assms(5))
  qed
qed

end
