(* ===== verification/Lifecycle.thy ===== *)
theory Lifecycle
  imports Startup
begin

text \<open>
  The life of the server process after its start (\<open>cmd/headtotails/main.go\<close>, the second half
  of \<open>main\<close>): a goroutine that listens, the main goroutine that waits for a signal and shuts the
  server down, and the exit of the process. The two goroutines interleave in any order, as
  events; what the listener and the shutdown return is in the event.
\<close>

datatype listener = NotStarted | Listening | Returned

datatype waiter = Waiting | ShuttingDown

record process =
  listener :: listener
  waiter :: waiter
  exit_code :: "nat option"
  out :: "log_entry list"

text \<open>
  The result of \<open>ListenAndServe\<close> is \<open>None\<close> for a nil error and for \<open>ErrServerClosed\<close>; that of
  \<open>Shutdown\<close> is \<open>None\<close> for a nil error.
\<close>

datatype event =
    ListenerStarts string
  | ListenerReturns "string option"
  | SignalArrives
  | ShutdownReturns "string option"

definition log_line :: "level \<Rightarrow> string \<Rightarrow> (string \<times> attr) list \<Rightarrow> process \<Rightarrow> process" where
  "log_line l m as p = p\<lparr>out := out p @ [\<lparr>log_level = l, log_msg = m, log_attrs = as\<rparr>]\<rparr>"

text \<open>One event, or \<open>None\<close> where it cannot happen. A process that has exited does nothing more.\<close>

fun life_step :: "event \<Rightarrow> process \<Rightarrow> process option" where
  "life_step (ListenerStarts addr) p =
     (if exit_code p = None \<and> listener p = NotStarted
      then Some (log_line LevelInfo ''headtotails starting'' [(''addr'', AStr addr)] (p\<lparr>listener := Listening\<rparr>))
      else None)"
| "life_step (ListenerReturns res) p =
     (if exit_code p = None \<and> listener p = Listening
      then
        (case res of
           None \<Rightarrow> Some (p\<lparr>listener := Returned\<rparr>)
         | Some err \<Rightarrow>
             Some ((log_line LevelError ''server error'' [(''error'', AStr err)] p)
               \<lparr>listener := Returned, exit_code := Some 1\<rparr>))
      else None)"
| "life_step SignalArrives p =
     (if exit_code p = None \<and> waiter p = Waiting
      then Some (log_line LevelInfo ''shutting down headtotails'' [] (p\<lparr>waiter := ShuttingDown\<rparr>))
      else None)"
| "life_step (ShutdownReturns res) p =
     (if exit_code p = None \<and> waiter p = ShuttingDown
      then
        (case res of
           Some err \<Rightarrow>
             Some ((log_line LevelError ''shutdown error'' [(''error'', AStr err)] p)\<lparr>exit_code := Some 1\<rparr>)
         | None \<Rightarrow> Some ((log_line LevelInfo ''headtotails stopped'' [] p)\<lparr>exit_code := Some 0\<rparr>))
      else None)"

definition started :: process where
  "started = \<lparr>listener = NotStarted, waiter = Waiting, exit_code = None, out = []\<rparr>"

inductive lives :: "event list \<Rightarrow> process \<Rightarrow> bool" where
  lives_Nil: "lives [] started"
| lives_snoc: "lives es p \<Longrightarrow> life_step e p = Some p' \<Longrightarrow> lives (es @ [e]) p'"

inductive_cases lives_snocE: "lives (es @ [e]) p"

text \<open>The same as a function: events in order, \<open>None\<close> if one of them cannot happen.\<close>

fun life_run :: "event list \<Rightarrow> process \<Rightarrow> process option" where
  "life_run [] p = Some p"
| "life_run (e # es) p = Option.bind (life_step e p) (life_run es)"

lemma life_run_snoc: "life_run (es @ [e]) p = Option.bind (life_run es p) (life_step e)"
  by (induction es arbitrary: p) (auto split: Option.bind_splits)

lemma lives_iff: "lives es p \<longleftrightarrow> life_run es started = Some p"
proof
  show "lives es p \<Longrightarrow> life_run es started = Some p"
    by (induction rule: lives.induct) (simp_all add: life_run_snoc)
  show "life_run es started = Some p \<Longrightarrow> lives es p"
    by (induction es arbitrary: p rule: rev_induct)
      (auto simp: life_run_snoc bind_eq_Some_conv intro: lives.intros)
qed

text \<open>What the state of the process says about the events so far.\<close>

definition failed_listener :: "event \<Rightarrow> bool" where
  "failed_listener e \<longleftrightarrow> (\<exists>err. e = ListenerReturns (Some err))"

definition life_inv :: "event list \<Rightarrow> process \<Rightarrow> bool" where
  "life_inv es p \<longleftrightarrow>
     (waiter p = ShuttingDown \<longleftrightarrow> SignalArrives \<in> set es) \<and>
     (exit_code p = None \<longrightarrow> \<not> list_ex failed_listener es \<and> (\<forall>r. ShutdownReturns r \<notin> set es)) \<and>
     (exit_code p = Some 0 \<longrightarrow> SignalArrives \<in> set es \<and> ShutdownReturns None \<in> set es \<and>
        \<not> list_ex failed_listener es) \<and>
     (exit_code p \<in> {None, Some 0, Some 1}) \<and>
     (exit_code p = Some 1 \<longrightarrow> list_ex failed_listener es \<or> (\<exists>err. ShutdownReturns (Some err) \<in> set es))"

lemma log_line_fields [simp]:
  "listener (log_line l m as p) = listener p" "waiter (log_line l m as p) = waiter p"
  "exit_code (log_line l m as p) = exit_code p"
  by (simp_all add: log_line_def)

lemma life_step_inv:
  assumes "life_inv es p" and "life_step e p = Some p'"
  shows "life_inv (es @ [e]) p'"
proof (cases e)
  case (ListenerReturns res)
  with assms show ?thesis
    by (cases res) (auto simp: life_inv_def failed_listener_def split: if_splits)
next
  case (ShutdownReturns res)
  with assms show ?thesis
    by (cases res) (auto simp: life_inv_def failed_listener_def split: if_splits)
qed (use assms in \<open>auto simp: life_inv_def failed_listener_def split: if_splits\<close>)

lemma lives_inv: "lives es p \<Longrightarrow> life_inv es p"
proof (induction rule: lives.induct)
  case lives_Nil
  then show ?case by (simp add: life_inv_def started_def)
next
  case (lives_snoc es p e p')
  from lives_snoc.IH lives_snoc.hyps(2) show ?case by (rule life_step_inv)
qed

end
