(* ===== verification/Go_Json_Roundtrip.thy ===== *)
theory Go_Json_Roundtrip
  imports Go_Json_Text
begin

text \<open>
  Reading back what \<open>encoding/json\<close> prints. Whatever the strings are, the text of a value is
  one JSON value for the scanner, and it reads as the same value with every byte that is not
  UTF-8 replaced by U+FFFD; so on values whose strings are UTF-8 printing and reading are
  inverse to each other. Numbers are the decimal integers that \<open>FormatInt\<close> prints.
\<close>

section \<open>Replacing what is not UTF-8\<close>

function to_valid_utf8 :: "string \<Rightarrow> string" where
  "to_valid_utf8 [] = []"
| "to_valid_utf8 (c # cs) =
     (let n = utf8_len (c # cs)
      in if n = 0 then RuneError @ to_valid_utf8 cs
         else c # take (n - 1) cs @ to_valid_utf8 (drop (n - 1) cs))"
  by pat_completeness auto
termination by (relation "measure length") auto

function valid_utf8 :: "string \<Rightarrow> bool" where
  "valid_utf8 [] \<longleftrightarrow> True"
| "valid_utf8 (c # cs) \<longleftrightarrow>
     (let n = utf8_len (c # cs) in n \<noteq> 0 \<and> valid_utf8 (drop (n - 1) cs))"
  by pat_completeness auto
termination by (relation "measure length") auto

declare to_valid_utf8.simps(2) [simp del] valid_utf8.simps(2) [simp del] utf8_len.simps(2) [simp del]

lemma valid_utf8_fixed: "valid_utf8 s \<Longrightarrow> to_valid_utf8 s = s"
proof (induction s rule: valid_utf8.induct)
  case (2 c cs)
  then show ?case by (simp add: valid_utf8.simps(2) to_valid_utf8.simps(2) Let_def)
qed simp

lemma byte_val_bounds: "0 \<le> byte_val c" "byte_val c < 256"
proof -
  have "(of_char c :: int) = int (of_char c :: nat)" by (simp add: of_char_def)
  moreover have "(of_char c :: nat) < 256" by simp
  ultimately show "0 \<le> byte_val c" "byte_val c < 256" by simp_all
qed

text \<open>ASCII is its own encoding, and the length of a rune does not depend on what follows it.\<close>

lemma utf8_len_ascii: "byte_val c < 0x80 \<Longrightarrow> utf8_len (c # cs) = 1"
  using byte_val_bounds(1) [of c] by (simp add: utf8_len.simps(2) in_range_def)

lemma utf8_len_take:
  assumes "utf8_len s = n" and "0 < n"
  shows "n \<le> length s \<and> utf8_len (take n s @ t) = n"
proof (cases s)
  case (Cons c cs)
  with assms show ?thesis
    by (auto simp: utf8_len.simps(2) split: if_splits list.splits)
qed (use assms in simp)

section \<open>Strings\<close>

lemma char_of_byte_val [simp]: "char_of (byte_val c) = c"
  by (metis char_of_char)

lemma hex_val_digit: "0 \<le> n \<Longrightarrow> n < 16 \<Longrightarrow> hex_val (hex_digit n) = Some n"
proof -
  assume n: "0 \<le> n" "n < 16"
  then have "n \<in> set [0..15]" by simp
  moreover have "list_all (\<lambda>n. hex_val (hex_digit n) = Some n) [0..15]" by code_simp
  ultimately show ?thesis by (simp only: list_all_iff)
qed

text \<open>One escape at the front of a string literal.\<close>

lemma parse_string_plain:
  "0x20 \<le> byte_val c \<Longrightarrow> byte_val c < 0x80 \<Longrightarrow> c \<noteq> CHR 0x22 \<Longrightarrow> c \<noteq> CHR 0x5C \<Longrightarrow>
   parse_string (c # s) = map_option (\<lambda>(t, rest). (c # t, rest)) (parse_string s)"
  by (simp add: utf8_len_ascii Let_def)

lemma parse_string_simple:
  "simple_escape e = Some b \<Longrightarrow> e \<noteq> CHR ''u'' \<Longrightarrow>
   parse_string (CHR 0x5C # e # s) = map_option (\<lambda>(t, rest). (b # t, rest)) (parse_string s)"
  by simp

lemma parse_string_unicode:
  assumes "hex4 (h @ s) = Some (r, s)" and "r < 0xD800 \<or> 0xE000 \<le> r"
  shows "parse_string (CHR 0x5C # CHR ''u'' # h @ s) =
    map_option (\<lambda>(t, rest). (utf8_encode r @ t, rest)) (parse_string s)"
  using assms by (simp add: unescape_def)

declare parse_string.simps(2) [simp del]

definition short_escapes :: "char set" where
  "short_escapes = {CHR 0x22, CHR 0x5C, CHR 0x08, CHR 0x0C, CHR 0x0A, CHR 0x0D, CHR 0x09}"

lemma escape_byte_short:
  "c \<in> short_escapes \<Longrightarrow> \<exists>e. escape_byte c = [CHR 0x5C, e] \<and> simple_escape e = Some c \<and> e \<noteq> CHR ''u''"
  by (auto simp: short_escapes_def escape_byte_def simple_escape_def)

lemma escape_byte_hex:
  "c \<notin> short_escapes \<Longrightarrow> byte_val c < 0x20 \<or> c \<in> {CHR ''<'', CHR ''>'', CHR ''&''} \<Longrightarrow>
   escape_byte c = [CHR 0x5C, CHR ''u'', CHR ''0'', CHR ''0'', hex_digit (byte_val c div 16), hex_digit (byte_val c mod 16)]"
  by (auto simp: short_escapes_def escape_byte_def)

lemma escape_byte_plain:
  "c \<notin> short_escapes \<Longrightarrow> \<not> (byte_val c < 0x20 \<or> c \<in> {CHR ''<'', CHR ''>'', CHR ''&''}) \<Longrightarrow> escape_byte c = [c]"
  by (auto simp: short_escapes_def escape_byte_def)

lemma parse_escape_byte:
  assumes "byte_val c < 0x80"
  shows "parse_string (escape_byte c @ s) = map_option (\<lambda>(t, rest). (c # t, rest)) (parse_string s)"
proof (cases "c \<in> short_escapes")
  case True
  from escape_byte_short [OF this] show ?thesis by (auto simp: parse_string_simple)
next
  case False
  show ?thesis
  proof (cases "byte_val c < 0x20 \<or> c \<in> {CHR ''<'', CHR ''>'', CHR ''&''}")
    case True
    let ?h = "[CHR ''0'', CHR ''0'', hex_digit (byte_val c div 16), hex_digit (byte_val c mod 16)]"
    have z: "hex_val (CHR ''0'') = Some 0" by code_simp
    have "hex_val (hex_digit (byte_val c div 16)) = Some (byte_val c div 16)"
      "hex_val (hex_digit (byte_val c mod 16)) = Some (byte_val c mod 16)"
      using byte_val_bounds [of c] by (intro hex_val_digit; simp)+
    with z have "hex4 (?h @ s) = Some (byte_val c, s)" by simp
    from parse_string_unicode [OF this] assms escape_byte_hex [OF False True] show ?thesis
      by (simp add: utf8_encode_def)
  next
    case plain: False
    with False have "0x20 \<le> byte_val c" "c \<noteq> CHR 0x22" "c \<noteq> CHR 0x5C" by (auto simp: short_escapes_def)
    with assms escape_byte_plain [OF False plain] show ?thesis by (simp add: parse_string_plain)
  qed
qed

text \<open>A whole encoded rune in the text stands for itself.\<close>

lemma parse_string_rune:
  assumes "utf8_len (c # cs) = n" and "0 < n" and "0x80 \<le> byte_val c"
  shows "parse_string (c # take (n - 1) cs @ s) =
    map_option (\<lambda>(t, rest). (c # take (n - 1) cs @ t, rest)) (parse_string s)"
proof -
  obtain m where n: "n = Suc m" using assms(2) by (cases n) auto
  from utf8_len_take [OF assms(1,2)] n have l: "m \<le> length cs" "utf8_len (c # take m cs @ s) = Suc m"
    by simp_all
  have c: "c \<noteq> CHR 0x22" "c \<noteq> CHR 0x5C" "\<not> byte_val c < 0x20" using assms(3) by auto
  from l(1) have t: "take m (take m cs @ s) = take m cs" "drop m (take m cs @ s) = s" by simp_all
  show ?thesis
    unfolding n diff_Suc_1 by (subst parse_string.simps(2)) (simp only: c l(2) t Let_def diff_Suc_1 if_False nat.simps)
qed

text \<open>The escapes of the three runes that the printer writes by number.\<close>

lemma parse_string_named:
  "parse_string (CHR 0x5C # ''ufffd'' @ s) = map_option (\<lambda>(t, rest). (RuneError @ t, rest)) (parse_string s)"
  "parse_string (CHR 0x5C # ''u2028'' @ s) =
     map_option (\<lambda>(t, rest). ([CHR 0xE2, CHR 0x80, CHR 0xA8] @ t, rest)) (parse_string s)"
  "parse_string (CHR 0x5C # ''u2029'' @ s) =
     map_option (\<lambda>(t, rest). ([CHR 0xE2, CHR 0x80, CHR 0xA9] @ t, rest)) (parse_string s)"
proof -
  have d: "hex_val (CHR ''f'') = Some 15" "hex_val (CHR ''d'') = Some 13" "hex_val (CHR ''0'') = Some 0"
    "hex_val (CHR ''2'') = Some 2" "hex_val (CHR ''8'') = Some 8" "hex_val (CHR ''9'') = Some 9"
    by code_simp+
  have h: "hex4 (''fffd'' @ s) = Some (0xFFFD, s)" "hex4 (''2028'' @ s) = Some (0x2028, s)"
    "hex4 (''2029'' @ s) = Some (0x2029, s)" by (simp_all add: d)
  have u: "utf8_encode 0xFFFD = RuneError" "utf8_encode 0x2028 = [CHR 0xE2, CHR 0x80, CHR 0xA8]"
    "utf8_encode 0x2029 = [CHR 0xE2, CHR 0x80, CHR 0xA9]" by code_simp+
  from h [THEN parse_string_unicode] u
  show "parse_string (CHR 0x5C # ''ufffd'' @ s) = map_option (\<lambda>(t, rest). (RuneError @ t, rest)) (parse_string s)"
    "parse_string (CHR 0x5C # ''u2028'' @ s) =
     map_option (\<lambda>(t, rest). ([CHR 0xE2, CHR 0x80, CHR 0xA8] @ t, rest)) (parse_string s)"
    "parse_string (CHR 0x5C # ''u2029'' @ s) =
     map_option (\<lambda>(t, rest). ([CHR 0xE2, CHR 0x80, CHR 0xA9] @ t, rest)) (parse_string s)"
    by simp_all
qed

lemma to_valid_utf8_step:
  "utf8_len (c # cs) = n \<Longrightarrow> 0 < n \<Longrightarrow>
   to_valid_utf8 (c # cs) = c # take (n - 1) cs @ to_valid_utf8 (drop (n - 1) cs)"
  by (simp add: to_valid_utf8.simps(2) Let_def)

lemma parse_escape_string:
  "parse_string (escape_string s @ CHR 0x22 # rest) = Some (to_valid_utf8 s, rest)"
proof (induction s rule: escape_string.induct)
  case 1
  show ?case by (simp add: parse_string.simps(2))
next
  case (2 c cs)
  define n where "n = utf8_len (c # cs)"
  show ?case
  proof (cases "byte_val c < 0x80")
    case True
    with 2(1) show ?thesis
      by (simp add: parse_escape_byte to_valid_utf8_step [OF utf8_len_ascii])
  next
    case c: False
    show ?thesis
    proof (cases "n = 0")
      case True
      with 2(2) c show ?thesis
        by (simp add: n_def [symmetric] parse_string_named [simplified] to_valid_utf8.simps(2) Let_def)
    next
      case False
      let ?r = "take n (c # cs)" and ?d = "drop (n - 1) cs"
      have r: "?r = c # take (n - 1) cs" using False by (cases n) simp_all
      have v: "to_valid_utf8 (c # cs) = ?r @ to_valid_utf8 ?d"
        using False to_valid_utf8_step [of c cs n] r by (simp add: n_def)
      have rune: "parse_string (c # take (n - 1) cs @ t) = map_option (\<lambda>(u, rest). (?r @ u, rest)) (parse_string t)" for t
        using False c r parse_string_rune [of c cs n t] by (simp add: n_def)
      consider (ls) "?r = [CHR 0xE2, CHR 0x80, CHR 0xA8]" | (ps) "?r = [CHR 0xE2, CHR 0x80, CHR 0xA9]"
        | (raw) "?r \<notin> {[CHR 0xE2, CHR 0x80, CHR 0xA8], [CHR 0xE2, CHR 0x80, CHR 0xA9]}" by blast
      then show ?thesis
      proof cases
        case ls
        from 2(3) [OF c n_def False ls] c False ls v show ?thesis
          by (simp add: n_def [symmetric] Let_def parse_string_named [simplified])
      next
        case ps
        then have "?r \<noteq> [CHR 0xE2, CHR 0x80, CHR 0xA8]" by simp
        from 2(4) [OF c n_def False this ps] this c False ps v show ?thesis
          by (simp add: n_def [symmetric] Let_def parse_string_named [simplified])
      next
        case raw
        then have "?r \<noteq> [CHR 0xE2, CHR 0x80, CHR 0xA8]" "?r \<noteq> [CHR 0xE2, CHR 0x80, CHR 0xA9]" by simp_all
        from 2(5) [OF c n_def False this] this c False v rune show ?thesis
          by (simp add: n_def [symmetric] Let_def)
      qed
    qed
  qed
qed

section \<open>Numbers\<close>

text \<open>A text that a value can end before: what the printer puts after one.\<close>

definition ends :: "string \<Rightarrow> bool" where
  "ends rest \<longleftrightarrow> rest = [] \<or> hd rest \<in> {CHR '','', CHR '']'', CHR ''}'', CHR 0x0A}"

lemma dec_digits_head: "0 < n \<Longrightarrow> hd (dec_digits n) \<noteq> CHR ''0''"
proof (induction n rule: dec_digits.induct)
  case (1 n)
  show ?case
  proof (cases "n < 10")
    case True
    with 1(2) have "n \<in> set [1..<10]" by simp
    moreover have "list_all (\<lambda>n :: nat. char_of (48 + n) \<noteq> CHR ''0'') [1..<10]" by code_simp
    ultimately have "char_of (48 + n) \<noteq> CHR ''0''" unfolding list_all_iff by blast
    with True show ?thesis by (simp add: dec_digits.simps [of n])
  next
    case False
    with 1 have "hd (dec_digits (n div 10)) \<noteq> CHR ''0''" by simp
    with False dec_digits_props [of "n div 10"] show ?thesis by (simp add: dec_digits.simps [of n])
  qed
qed

lemma dec_digits_0: "dec_digits 0 = ''0''"
  by code_simp

lemma digit_facts: "is_digit (CHR ''0'')" "\<not> is_digit (CHR ''-'')" "\<not> is_digit (CHR '','')" "\<not> is_digit (CHR '']'')"
  "\<not> is_digit (CHR ''}'')" "\<not> is_digit (CHR 0x0A)" "\<not> is_digit (CHR 0x22)" "\<not> is_digit (CHR ''{'')"
  "\<not> is_digit (CHR ''['')" "\<not> is_digit (CHR ''t'')" "\<not> is_digit (CHR ''f'')" "\<not> is_digit (CHR ''n'')"
  "\<not> is_digit (CHR '' '')" "\<not> is_digit (CHR 0x09)" "\<not> is_digit (CHR 0x0D)"
  by code_simp+

lemma ends_digit: "ends (c # rest) \<Longrightarrow> \<not> is_digit c"
  by (auto simp: ends_def digit_facts)

lemma digits1_dec_digits:
  assumes "ends rest"
  shows "digits1 (dec_digits n @ rest) = Some (dec_digits n, rest)"
proof -
  have d: "list_all is_digit (dec_digits n)" "dec_digits n \<noteq> []" using dec_digits_props by auto
  have "takeWhile is_digit rest = [] \<and> dropWhile is_digit rest = rest"
    using assms ends_digit by (cases rest) auto
  with d have "takeWhile is_digit (dec_digits n @ rest) = dec_digits n"
    "dropWhile is_digit (dec_digits n @ rest) = rest"
    by (simp_all add: list_all_iff takeWhile_append dropWhile_append)
  with d show ?thesis by (simp add: digits1_def Let_def)
qed

lemma parse_int_part_dec_digits:
  assumes "ends rest"
  shows "parse_int_part (dec_digits n @ rest) = Some (dec_digits n, rest)"
proof (cases "n = 0")
  case True
  then show ?thesis by (simp add: dec_digits_0 parse_int_part_def)
next
  case False
  then have "hd (dec_digits n) \<noteq> CHR ''0''" "dec_digits n \<noteq> []"
    using dec_digits_head dec_digits_props by auto
  then show ?thesis
    using digits1_dec_digits [OF assms, of n]
    by (cases "dec_digits n") (auto simp: parse_int_part_def)
qed

lemma parse_number_FormatInt:
  assumes "ends rest"
  shows "parse_number (FormatInt i @ rest) = Some (FormatInt i, rest)"
proof -
  have f: "parse_frac_part rest = Some ([], rest)" "parse_exp_part rest = Some ([], rest)"
    using assms by (auto simp: ends_def parse_frac_part_def parse_exp_part_def split: list.split)
  have m: "\<not> prefix ''-'' (dec_digits n @ rest)" for n
  proof -
    have "dec_digits n \<noteq> []" "is_digit (hd (dec_digits n))"
      using dec_digits_props [of n] by (auto simp: list_all_iff)
    then show ?thesis using digit_facts(2) by (cases "dec_digits n") auto
  qed
  show ?thesis
    using m [of "nat i"] parse_int_part_dec_digits [OF assms] f
    by (simp add: parse_number_def FormatInt_def and_then_def)
qed

section \<open>Values\<close>

fun to_valid_json :: "json \<Rightarrow> json" where
  "to_valid_json (JStr s) = JStr (to_valid_utf8 s)"
| "to_valid_json (JArr js) = JArr (map to_valid_json js)"
| "to_valid_json (JObj kvs) = JObj (map (\<lambda>(k, j). (to_valid_utf8 k, to_valid_json j)) kvs)"
| "to_valid_json j = j"

fun json_depth :: "json \<Rightarrow> nat" where
  "json_depth (JArr js) = Suc (foldr max (map json_depth js) 0)"
| "json_depth (JObj kvs) = Suc (foldr max (map (\<lambda>(_, j). json_depth j) kvs) 0)"
| "json_depth _ = 0"

text \<open>Values whose numbers are printed integers.\<close>

fun ints_only :: "json \<Rightarrow> bool" where
  "ints_only (JNum lit) \<longleftrightarrow> (\<exists>i. lit = FormatInt i)"
| "ints_only (JArr js) \<longleftrightarrow> list_all ints_only js"
| "ints_only (JObj kvs) \<longleftrightarrow> list_all (\<lambda>(_, j). ints_only j) kvs"
| "ints_only _ \<longleftrightarrow> True"

lemma foldr_max: "x \<in> set xs \<Longrightarrow> x \<le> foldr max xs (0 :: nat)"
  by (induction xs) auto

lemma skip_space_Cons: "\<not> is_json_space c \<Longrightarrow> skip_space (c # s) = c # s"
  by (simp add: skip_space_def)

lemma not_space:
  "\<not> is_json_space (CHR 0x22)" "\<not> is_json_space (CHR ''{'')" "\<not> is_json_space (CHR ''['')"
  "\<not> is_json_space (CHR ''t'')" "\<not> is_json_space (CHR ''f'')" "\<not> is_json_space (CHR ''n'')"
  "\<not> is_json_space (CHR '','')" "\<not> is_json_space (CHR '']'')" "\<not> is_json_space (CHR ''}'')"
  "\<not> is_json_space (CHR '':'')" "\<not> is_json_space (CHR ''-'')"
  by (simp_all add: is_json_space_def)

lemma FormatInt_head: "\<exists>c s. FormatInt i = c # s \<and> (c = CHR ''-'' \<or> is_digit c)"
proof -
  have "dec_digits n \<noteq> []" "is_digit (hd (dec_digits n))" for n
    using dec_digits_props [of n] by (auto simp: list_all_iff)
  then show ?thesis
    by (cases "dec_digits (nat i)") (auto simp: FormatInt_def, metis list.sel(1))
qed

lemma digit_not_space: "is_digit c \<Longrightarrow> \<not> is_json_space c"
  using digit_facts by (auto simp: is_json_space_def)

text \<open>With fuel enough, the text of \<open>j\<close> is read as \<open>j\<close>, whatever can stand after it.\<close>

definition reads :: "int \<Rightarrow> json \<Rightarrow> bool" where
  "reads d j \<longleftrightarrow> (\<exists>N. \<forall>n \<ge> N. \<forall>rest. ends rest \<longrightarrow>
     parse_value n d (print_json j @ rest) = Some (to_valid_json j, rest))"

lemma readsD: "reads d j \<Longrightarrow> \<exists>N. \<forall>n \<ge> N. \<forall>rest. ends rest \<longrightarrow>
     parse_value n d (print_json j @ rest) = Some (to_valid_json j, rest)"
  by (simp add: reads_def)

lemma Suc_leE: "Suc N \<le> n \<Longrightarrow> (\<And>m. n = Suc m \<Longrightarrow> N \<le> m \<Longrightarrow> P) \<Longrightarrow> P"
  by (cases n) auto

lemma readsE:
  assumes "reads d j"
  obtains N where "\<forall>n \<ge> N. \<forall>rest. ends rest \<longrightarrow>
     parse_value n d (print_json j @ rest) = Some (to_valid_json j, rest)"
  using readsD [OF assms] by blast

lemma ends_simps [simp]:
  "ends []" "ends (CHR '','' # s)" "ends (CHR '']'' # s)" "ends (CHR ''}'' # s)" "ends [CHR 0x0A]"
  by (simp_all add: ends_def)

lemma parse_elems_Join:
  assumes "js \<noteq> []" and "\<forall>j \<in> set js. reads d j"
  shows "\<exists>N. \<forall>n \<ge> N. \<forall>rest. parse_elems n d (Join (map print_json js) '','' @ CHR '']'' # rest) =
    Some (map to_valid_json js, rest)"
  using assms
proof (induction js rule: list_nonempty_induct)
  case (single j)
  then have "reads d j" by simp
  then obtain N where "\<forall>n \<ge> N. \<forall>rest. ends rest \<longrightarrow>
     parse_value n d (print_json j @ rest) = Some (to_valid_json j, rest)" by (rule readsE)
  then have "\<forall>n \<ge> Suc N. \<forall>rest. parse_elems n d (print_json j @ CHR '']'' # rest) = Some ([to_valid_json j], rest)"
    by (auto simp: parse_elems.simps(2) skip_space_Cons not_space elim!: Suc_leE)
  then show ?case by auto
next
  case (cons j js)
  then have "reads d j" by simp
  then obtain N where N: "\<forall>n \<ge> N. \<forall>rest. ends rest \<longrightarrow>
     parse_value n d (print_json j @ rest) = Some (to_valid_json j, rest)" by (rule readsE)
  from cons obtain M where M: "\<forall>n \<ge> M. \<forall>rest. parse_elems n d (Join (map print_json js) '','' @ CHR '']'' # rest) =
    Some (map to_valid_json js, rest)" by auto
  obtain j' js' where js: "js = j' # js'" using cons(1) by (cases js) auto
  have J: "Join (map print_json (j # js)) '','' = print_json j @ CHR '','' # Join (map print_json js) '',''"
    by (simp add: js)
  have "parse_elems n d (Join (map print_json (j # js)) '','' @ CHR '']'' # rest) =
    Some (map to_valid_json (j # js), rest)" if "Suc (max N M) \<le> n" for n rest
  proof -
    from that obtain m where "n = Suc m" "max N M \<le> m" by (rule Suc_leE)
    with N M show ?thesis unfolding J by (simp add: parse_elems.simps(2) skip_space_Cons not_space)
  qed
  then show ?case by blast
qed

lemma parse_members_Join:
  assumes "kvs \<noteq> []" and "\<forall>(k, j) \<in> set kvs. reads d j"
  shows "\<exists>N. \<forall>n \<ge> N. \<forall>rest.
    parse_members n d (Join (map (\<lambda>(k, j). print_string k @ CHR '':'' # print_json j) kvs) '','' @ CHR ''}'' # rest) =
    Some (map (\<lambda>(k, j). (to_valid_utf8 k, to_valid_json j)) kvs, rest)"
  using assms
proof (induction kvs rule: list_nonempty_induct)
  case (single kj)
  obtain k j where kj: "kj = (k, j)" by (cases kj)
  with single have "reads d j" by simp
  then obtain N where N: "\<forall>n \<ge> N. \<forall>rest. ends rest \<longrightarrow>
     parse_value n d (print_json j @ rest) = Some (to_valid_json j, rest)" by (rule readsE)
  have "parse_members n d (print_string k @ CHR '':'' # print_json j @ CHR ''}'' # rest) =
    Some ([(to_valid_utf8 k, to_valid_json j)], rest)" if "Suc N \<le> n" for n rest
  proof -
    from that obtain m where "n = Suc m" "N \<le> m" by (rule Suc_leE)
    with N show ?thesis
      by (simp add: parse_members.simps(2) print_string_def skip_space_Cons not_space parse_escape_string)
  qed
  then show ?case by (auto simp: kj)
next
  case (cons kj kvs)
  obtain k j where kj: "kj = (k, j)" by (cases kj)
  with cons have "reads d j" by simp
  then obtain N where N: "\<forall>n \<ge> N. \<forall>rest. ends rest \<longrightarrow>
     parse_value n d (print_json j @ rest) = Some (to_valid_json j, rest)" by (rule readsE)
  let ?p = "\<lambda>(k, j). print_string k @ CHR '':'' # print_json j"
  from cons obtain M where M: "\<forall>n \<ge> M. \<forall>rest. parse_members n d (Join (map ?p kvs) '','' @ CHR ''}'' # rest) =
    Some (map (\<lambda>(k, j). (to_valid_utf8 k, to_valid_json j)) kvs, rest)" by auto
  obtain kj' kvs' where kvs: "kvs = kj' # kvs'" using cons(1) by (cases kvs) auto
  have J: "Join (map ?p (kj # kvs)) '','' = print_string k @ CHR '':'' # print_json j @ CHR '','' # Join (map ?p kvs) '',''"
    by (simp add: kvs kj)
  have "parse_members n d (Join (map ?p (kj # kvs)) '','' @ CHR ''}'' # rest) =
    Some (map (\<lambda>(k, j). (to_valid_utf8 k, to_valid_json j)) (kj # kvs), rest)" if "Suc (max N M) \<le> n" for n rest
  proof -
    from that obtain m where "n = Suc m" "max N M \<le> m" by (rule Suc_leE)
    with N M show ?thesis unfolding J
      by (simp add: parse_members.simps(2) print_string_def skip_space_Cons not_space parse_escape_string kj)
  qed
  then show ?case by blast
qed

lemma print_json_head:
  assumes "ints_only j"
  shows "\<exists>c s. print_json j = c # s \<and> \<not> is_json_space c \<and> c \<noteq> CHR '']''"
proof (cases j)
  case (JNum lit)
  with assms obtain i where "lit = FormatInt i" by auto
  moreover obtain c t where "FormatInt i = c # t" "c = CHR ''-'' \<or> is_digit c"
    using FormatInt_head by blast
  moreover from this have "\<not> is_json_space c" "c \<noteq> CHR '']''"
    using digit_not_space digit_facts(4) not_space(11) by auto
  ultimately show ?thesis using JNum by simp
qed (auto simp: print_string_def not_space)

lemma reads_number: "reads d (JNum (FormatInt i))"
proof -
  obtain c s where cs: "FormatInt i = c # s" "c = CHR ''-'' \<or> is_digit c" using FormatInt_head by blast
  then have c: "\<not> is_json_space c" "c \<noteq> CHR 0x22" "c \<noteq> CHR ''{''" "c \<noteq> CHR ''[''"
    "c \<noteq> CHR ''t''" "c \<noteq> CHR ''f''" "c \<noteq> CHR ''n''"
    using digit_facts digit_not_space not_space by auto
  have "parse_value (Suc m) d (FormatInt i @ rest) = Some (JNum (FormatInt i), rest)" if "ends rest" for m rest
    using parse_number_FormatInt [OF that, of i] c
    by (simp add: cs(1) parse_value.simps(2) skip_space_Cons)
  then have "\<forall>n \<ge> Suc 0. \<forall>rest. ends rest \<longrightarrow> parse_value n d (FormatInt i @ rest) = Some (JNum (FormatInt i), rest)"
    by (auto dest!: Suc_le_D)
  then show ?thesis unfolding reads_def print_json.simps to_valid_json.simps by blast
qed

lemma readsI:
  assumes "\<And>m rest. N \<le> m \<Longrightarrow> ends rest \<Longrightarrow>
    parse_value (Suc m) d (print_json j @ rest) = Some (to_valid_json j, rest)"
  shows "reads d j"
proof -
  have "parse_value n d (print_json j @ rest) = Some (to_valid_json j, rest)"
    if "Suc N \<le> n" "ends rest" for n rest
    using assms [of "n - 1" rest] that by (cases n) simp_all
  then show ?thesis unfolding reads_def by blast
qed

lemma reads_print_json:
  "ints_only j \<Longrightarrow> int (json_depth j) \<le> d \<Longrightarrow> reads d j"
proof (induction j arbitrary: d)
  case (JNum lit)
  then show ?case using reads_number by auto
next
  case (JStr s)
  show ?case
    by (rule readsI) (simp add: parse_value.simps(2) print_string_def skip_space_Cons not_space parse_escape_string)
next
  case (JArr js)
  show ?case
  proof (cases "js = []")
    case True
    with JArr(3) show ?thesis
      by (intro readsI) (auto simp: parse_value.simps(2) skip_space_Cons not_space)
  next
    case False
    have d: "d \<noteq> 0" using JArr(3) by auto
    have "reads (d - 1) j" if "j \<in> set js" for j
      using JArr(1) [OF that, of "d - 1"] JArr(2,3) that foldr_max [of "json_depth j" "map json_depth js"]
      by (auto simp: list_all_iff)
    with parse_elems_Join [OF False, of "d - 1"] obtain N where
      N: "\<forall>n \<ge> N. \<forall>rest. parse_elems n (d - 1) (Join (map print_json js) '','' @ CHR '']'' # rest) =
        Some (map to_valid_json js, rest)" by blast
    obtain j js' where js: "js = j # js'" using False by (cases js) auto
    obtain c s where "print_json j = c # s" and c: "\<not> is_json_space c" "c \<noteq> CHR '']''"
      using print_json_head [of j] JArr(2) js by auto
    then obtain t where t: "Join (map print_json js) '','' = c # t" by (cases js') (auto simp: js)
    have "parse_elems n (d - 1) (c # t @ CHR '']'' # rest) = Some (map to_valid_json js, rest)"
      if "N \<le> n" for n rest using N that t by simp
    with c d show ?thesis
      by (intro readsI [of N]) (simp add: parse_value.simps(2) t skip_space_Cons not_space)
  qed
next
  case (JObj kvs)
  let ?p = "\<lambda>(k, j). print_string k @ CHR '':'' # print_json j"
  show ?case
  proof (cases "kvs = []")
    case True
    with JObj(3) show ?thesis
      by (intro readsI) (auto simp: parse_value.simps(2) skip_space_Cons not_space)
  next
    case False
    have d: "d \<noteq> 0" using JObj(3) by auto
    have "reads (d - 1) j" if "(k, j) \<in> set kvs" for k j
    proof -
      have "json_depth j \<in> set (map (\<lambda>(_, j). json_depth j) kvs)" using that by force
      from foldr_max [OF this] JObj(3) have "int (json_depth j) \<le> d - 1" by simp
      with JObj(1) [OF that] JObj(2) that show ?thesis by (auto simp: list_all_iff)
    qed
    with parse_members_Join [OF False, of "d - 1"] obtain N where
      N: "\<forall>n \<ge> N. \<forall>rest. parse_members n (d - 1) (Join (map ?p kvs) '','' @ CHR ''}'' # rest) =
        Some (map (\<lambda>(k, j). (to_valid_utf8 k, to_valid_json j)) kvs, rest)" by blast
    obtain k j kvs' where kvs: "kvs = (k, j) # kvs'" using False by (cases kvs) auto
    then obtain t where t: "Join (map ?p kvs) '','' = CHR 0x22 # t"
      by (cases kvs') (auto simp: print_string_def)
    have "parse_members n (d - 1) (CHR 0x22 # t @ CHR ''}'' # rest) =
        Some (map (\<lambda>(k, j). (to_valid_utf8 k, to_valid_json j)) kvs, rest)"
      if "N \<le> n" for n rest using N that t by simp
    moreover have "print_json (JObj kvs) @ rest = CHR ''{'' # CHR 0x22 # t @ CHR ''}'' # rest" for rest
      by (simp add: t)
    ultimately show ?thesis using d
      by (intro readsI [of N])
        (simp del: print_json.simps add: parse_value.simps(2) skip_space_Cons not_space)
  qed
qed (rule readsI, simp add: parse_value.simps(2) skip_space_Cons not_space)+

text \<open>
  The two ways of reading a text that the encoder wrote.
\<close>

lemma json_Encode_reads:
  assumes "ints_only j" and "int (json_depth j) \<le> maxNestingDepth"
  shows "parse_value (json_fuel (json_Encode j)) maxNestingDepth (json_Encode j) =
    Some (to_valid_json j, [CHR 0x0A])"
proof -
  from readsD [OF reads_print_json [OF assms]] obtain N where
    N: "\<forall>n \<ge> N. parse_value n maxNestingDepth (json_Encode j) = Some (to_valid_json j, [CHR 0x0A])"
    unfolding json_Encode_def by (metis ends_simps(5))
  then have "parse_value (max N (json_fuel (json_Encode j))) maxNestingDepth (json_Encode j) =
    Some (to_valid_json j, [CHR 0x0A])" by simp
  then show ?thesis
    using parse_value_fuel [of "json_Encode j" "max N (json_fuel (json_Encode j))" maxNestingDepth]
    by (simp add: json_fuel_def)
qed

lemma json_Unmarshal_Encode:
  "ints_only j \<Longrightarrow> int (json_depth j) \<le> maxNestingDepth \<Longrightarrow>
   json_Unmarshal (json_Encode j) = Some (to_valid_json j)"
  by (simp add: json_Unmarshal_def json_Encode_reads skip_space_def is_json_space_def)

lemma json_Decode_Encode:
  "ints_only j \<Longrightarrow> int (json_depth j) \<le> maxNestingDepth \<Longrightarrow>
   json_Decode (json_Encode j) = Some (to_valid_json j)"
  by (simp add: json_Unmarshal_Encode json_Unmarshal_Decode)

end
