(* ===== verification/Wire.thy ===== *)
theory Wire
  imports Go_Json_Roundtrip Router
begin

text \<open>
  What clients read off the wire. A small type system for JSON documents gives each endpoint the
  type of its answers; a typed document survives the way through text, so what a client's parser
  makes of an answer has that type too. The theory models no code of its own: the documents are
  those of \<open>Model\<close> and of the handlers.
\<close>

section \<open>Types of documents\<close>

text \<open>\<open>Member\<close> is always there, \<open>Omitempty\<close> may be missing; the order is that of the struct.\<close>

datatype jtype = TString | TBool | TInt | TArr jtype | TNull_or jtype | TObj jfields
and jfields = Done | Member string jtype jfields | Omitempty string jtype jfields

definition int_val :: "string \<Rightarrow> int" where
  "int_val lit = (if prefix ''-'' lit then - int (dec_val 0 (tl lit)) else int (dec_val 0 lit))"

fun has_type :: "jtype \<Rightarrow> json \<Rightarrow> bool"
and has_fields :: "jfields \<Rightarrow> (string \<times> json) list \<Rightarrow> bool" where
  "has_type TString j \<longleftrightarrow> (case j of JStr _ \<Rightarrow> True | _ \<Rightarrow> False)"
| "has_type TBool j \<longleftrightarrow> (case j of JBool _ \<Rightarrow> True | _ \<Rightarrow> False)"
| "has_type TInt j \<longleftrightarrow> (case j of JNum lit \<Rightarrow> FormatInt (int_val lit) = lit | _ \<Rightarrow> False)"
| "has_type (TArr t) j \<longleftrightarrow> (case j of JArr js \<Rightarrow> list_all (has_type t) js | _ \<Rightarrow> False)"
| "has_type (TNull_or t) j \<longleftrightarrow> j = JNull \<or> has_type t j"
| "has_type (TObj fs) j \<longleftrightarrow> (case j of JObj kvs \<Rightarrow> has_fields fs kvs | _ \<Rightarrow> False)"
| "has_fields Done kvs \<longleftrightarrow> kvs = []"
| "has_fields (Member k t fs) kvs \<longleftrightarrow>
     (case kvs of (k', j) # kvs' \<Rightarrow> k' = k \<and> has_type t j \<and> has_fields fs kvs' | [] \<Rightarrow> False)"
| "has_fields (Omitempty k t fs) kvs \<longleftrightarrow>
     has_fields fs kvs \<or>
     (case kvs of (k', j) # kvs' \<Rightarrow> k' = k \<and> has_type t j \<and> has_fields fs kvs' | [] \<Rightarrow> False)"

fun type_depth :: "jtype \<Rightarrow> nat"
and fields_depth :: "jfields \<Rightarrow> nat" where
  "type_depth (TArr t) = Suc (type_depth t)"
| "type_depth (TNull_or t) = type_depth t"
| "type_depth (TObj fs) = Suc (fields_depth fs)"
| "type_depth _ = 0"
| "fields_depth Done = 0"
| "fields_depth (Member k t fs) = max (type_depth t) (fields_depth fs)"
| "fields_depth (Omitempty k t fs) = max (type_depth t) (fields_depth fs)"

text \<open>Types whose member names are UTF-8: the printer then leaves them as they are.\<close>

fun names_ok :: "jtype \<Rightarrow> bool"
and fields_ok :: "jfields \<Rightarrow> bool" where
  "names_ok (TArr t) \<longleftrightarrow> names_ok t"
| "names_ok (TNull_or t) \<longleftrightarrow> names_ok t"
| "names_ok (TObj fs) \<longleftrightarrow> fields_ok fs"
| "names_ok _ \<longleftrightarrow> True"
| "fields_ok Done \<longleftrightarrow> True"
| "fields_ok (Member k t fs) \<longleftrightarrow> valid_utf8 k \<and> names_ok t \<and> fields_ok fs"
| "fields_ok (Omitempty k t fs) \<longleftrightarrow> valid_utf8 k \<and> names_ok t \<and> fields_ok fs"

section \<open>Typed documents and their text\<close>

lemma has_type_ints:
  "has_type t j \<Longrightarrow> ints_only j"
  "has_fields fs kvs \<Longrightarrow> list_all (\<lambda>(_, j). ints_only j) kvs"
proof (induction t j and fs kvs rule: has_type_has_fields.induct)
  case (3 j)
  then show ?case by (cases j) (auto, metis)
next
  case (8 k t fs kvs)
  then show ?case by (cases kvs) auto
next
  case (9 k t fs kvs)
  then show ?case by (cases kvs) auto
qed (auto split: json.splits simp: list_all_iff)

lemma foldr_max_le: "foldr max xs (0 :: nat) \<le> n \<longleftrightarrow> (\<forall>x \<in> set xs. x \<le> n)"
  by (induction xs) auto

lemma has_type_depth:
  "has_type t j \<Longrightarrow> json_depth j \<le> type_depth t"
  "has_fields fs kvs \<Longrightarrow> \<forall>(_, j) \<in> set kvs. json_depth j \<le> fields_depth fs"
proof (induction t j and fs kvs rule: has_type_has_fields.induct)
  case (6 fs j)
  then show ?case by (cases j) (auto simp: foldr_max_le)
next
  case (9 k t fs kvs)
  then show ?case by (cases kvs) (fastforce simp: max.coboundedI1 max.coboundedI2)+
next
  case (8 k t fs kvs)
  then show ?case by (cases kvs) (fastforce simp: max.coboundedI1 max.coboundedI2)+
qed (auto split: json.splits simp: list_all_iff foldr_max_le)

lemma has_type_to_valid:
  "has_type t j \<Longrightarrow> names_ok t \<Longrightarrow> has_type t (to_valid_json j)"
  "has_fields fs kvs \<Longrightarrow> fields_ok fs \<Longrightarrow>
     has_fields fs (map (\<lambda>(k, j). (to_valid_utf8 k, to_valid_json j)) kvs)"
proof (induction t j and fs kvs rule: has_type_has_fields.induct)
  case (5 t j)
  then show ?case by (cases "j = JNull") auto
next
  case (9 k t fs kvs)
  then show ?case by (cases kvs) (auto simp: valid_utf8_fixed)
qed (auto split: json.splits list.splits simp: list_all_iff valid_utf8_fixed)

text \<open>What a client's parser makes of a typed document's text.\<close>

lemma typed_text:
  assumes "has_type t j" and "names_ok t" and "int (type_depth t) \<le> maxNestingDepth"
  shows "json_Unmarshal (json_Encode j) = Some (to_valid_json j) \<and> has_type t (to_valid_json j)"
proof -
  have "int (json_depth j) \<le> maxNestingDepth" using has_type_depth(1) [OF assms(1)] assms(3) by simp
  with json_Unmarshal_Encode [OF has_type_ints(1) [OF assms(1)]] has_type_to_valid(1) [OF assms(1,2)]
  show ?thesis by blast
qed

lemma int_val_FormatInt: "int_val (FormatInt i) = i"
proof -
  have "\<not> prefix ''-'' (dec_digits n)" for n
  proof -
    have "dec_digits n \<noteq> []" "is_digit (hd (dec_digits n))"
      using dec_digits_props [of n] by (auto simp: list_all_iff)
    then show ?thesis using digit_facts(2) by (cases "dec_digits n") auto
  qed
  then show ?thesis using dec_digits_props by (simp add: int_val_def FormatInt_def)
qed

section \<open>The types of the REST documents\<close>

definition TStrings :: jtype where
  "TStrings = TNull_or (TArr TString)"

definition Device_type :: jtype where
  "Device_type = TObj (
     Member ''id'' TString (Member ''addresses'' TStrings (Member ''name'' TString
     (Member ''hostname'' TString (Member ''clientVersion'' TString (Member ''updateAvailable'' TBool
     (Omitempty ''fqdn'' TString (Member ''os'' TString (Member ''created'' TString
     (Member ''lastSeen'' TString (Member ''keyExpiryDisabled'' TBool (Member ''expires'' TString
     (Member ''authorized'' TBool (Member ''isExternal'' TBool (Member ''machineKey'' TString
     (Member ''nodeKey'' TString (Member ''user'' TString (Member ''tags'' TStrings
     (Member ''blocksIncomingConnections'' TBool Done)))))))))))))))))))"

definition DeviceRoutes_type :: jtype where
  "DeviceRoutes_type =
     TObj (Member ''advertisedRoutes'' TStrings (Member ''enabledRoutes'' TStrings Done))"

definition Create_type :: jtype where
  "Create_type = TObj (
     Member ''reusable'' TBool (Member ''ephemeral'' TBool (Member ''preauthorized'' TBool
     (Omitempty ''tags'' (TArr TString) Done))))"

definition Key_type :: jtype where
  "Key_type = TObj (
     Member ''id'' TString (Omitempty ''key'' TString (Omitempty ''description'' TString
     (Member ''created'' TString (Member ''expires'' TString (Omitempty ''revoked'' TString
     (Member ''invalid'' TBool
     (Member ''capabilities'' (TObj (Member ''devices'' (TObj (Member ''create'' Create_type Done)) Done))
      Done))))))))"

definition User_type :: jtype where
  "User_type = TObj (
     Member ''id'' TString (Member ''displayName'' TString (Member ''loginName'' TString
     (Omitempty ''profilePicUrl'' TString (Omitempty ''tailnetId'' TString (Member ''created'' TString
     (Omitempty ''role'' TString (Omitempty ''status'' TString (Omitempty ''deviceCount'' TInt
     (Omitempty ''currentlyConnected'' TBool Done))))))))))"

definition Error_type :: jtype where
  "Error_type = TObj (Member ''message'' TString Done)"

definition Token_type :: jtype where
  "Token_type = TObj (
     Member ''access_token'' TString (Member ''token_type'' TString (Member ''expires_in'' TInt Done)))"

definition list_type :: "string \<Rightarrow> jtype \<Rightarrow> jtype" where
  "list_type k t = TObj (Member k (TArr t) Done)"

definition Policy_type :: jtype where
  "Policy_type = TObj (Member ''policy'' TString Done)"

definition Health_type :: jtype where
  "Health_type = TObj (Member ''status'' TString Done)"

lemmas type_defs = TStrings_def Device_type_def DeviceRoutes_type_def Create_type_def Key_type_def
  User_type_def Error_type_def Token_type_def list_type_def Policy_type_def Health_type_def

lemmas enc_parts = enc_strings_def omit_string_def omit_strings_def omit_int_def omit_bool_def

text \<open>The encoders produce documents of their types.\<close>

lemma enc_strings_type: "has_type TStrings (enc_strings xs)"
  by (simp add: TStrings_def enc_strings_def list_all_iff split: option.split)

lemma enc_Device_type: "has_type Device_type (enc_Device d)"
  unfolding Device_type_def enc_Device_def omit_string_def by (simp add: enc_strings_type)

lemma enc_DeviceRoutes_type: "has_type DeviceRoutes_type (enc_DeviceRoutes r)"
  unfolding DeviceRoutes_type_def enc_DeviceRoutes_def by (simp add: enc_strings_type)

lemma enc_Create_type: "has_type Create_type (enc_KeyCapabilityDevicesCreate c)"
  unfolding Create_type_def enc_KeyCapabilityDevicesCreate_def omit_strings_def
  by (simp add: list_all_iff split: option.split list.split)

lemma enc_Key_type: "has_type Key_type (enc_Key k)"
  unfolding Key_type_def enc_Key_def enc_KeyCapability_def omit_string_def by (simp add: enc_Create_type)

lemma enc_User_type: "has_type User_type (enc_User u)"
  unfolding User_type_def enc_User_def omit_string_def omit_int_def omit_bool_def
  by (simp add: int_val_FormatInt)

lemma enc_Error_type: "has_type Error_type (enc_Error e)"
  by (simp add: Error_type_def enc_Error_def)

lemma enc_Token_type: "has_type Token_type (enc_oauthTokenResponse t)"
  by (simp add: Token_type_def enc_oauthTokenResponse_def int_val_FormatInt)

lemmas enc_types = enc_Device_type enc_DeviceRoutes_type enc_Key_type enc_User_type enc_Error_type
  enc_Token_type

lemma list_types:
  "has_type (list_type ''devices'' Device_type) (enc_DeviceList \<lparr>dl_Devices = ds\<rparr>)"
  "has_type (list_type ''keys'' Key_type) (enc_KeyList \<lparr>kl_Keys = ks\<rparr>)"
  "has_type (list_type ''users'' User_type) (enc_UserList \<lparr>ul_Users = us\<rparr>)"
  by (simp_all add: list_type_def enc_DeviceList_def enc_KeyList_def enc_UserList_def list_all_iff
      enc_types del: has_type.simps(1-3) )

section \<open>The type of an endpoint's answers\<close>

text \<open>\<open>None\<close> where success has no body; the metrics are not JSON.\<close>

fun answer_type :: "endpoint \<Rightarrow> jtype option" where
  "answer_type E_OAuthToken = Some Token_type"
| "answer_type E_TokenExchange = Some Token_type"
| "answer_type E_Healthz = Some Health_type"
| "answer_type E_ListDevices = Some (list_type ''devices'' Device_type)"
| "answer_type E_GetDevice = Some Device_type"
| "answer_type E_RenameDevice = Some Device_type"
| "answer_type E_SetDeviceTags = Some Device_type"
| "answer_type E_GetDeviceRoutes = Some DeviceRoutes_type"
| "answer_type E_SetDeviceRoutes = Some DeviceRoutes_type"
| "answer_type E_ListKeys = Some (list_type ''keys'' Key_type)"
| "answer_type E_CreateKey = Some Key_type"
| "answer_type E_GetKey = Some Key_type"
| "answer_type E_ListUsers = Some (list_type ''users'' User_type)"
| "answer_type E_GetUser = Some User_type"
| "answer_type E_GetPolicy = Some Policy_type"
| "answer_type E_SetPolicy = Some Policy_type"
| "answer_type _ = None"

text \<open>
  A reply of type \<open>T\<close>: 200 with a document of the type (with no body where there is no type, and
  for the policy also its own text), any other status with the document of an error.
\<close>

definition typed_reply :: "jtype option \<Rightarrow> response \<Rightarrow> bool" where
  "typed_reply T resp \<longleftrightarrow>
     (if Status resp = 200 then
        (case RespBody resp of
           NoBody \<Rightarrow> T = None
         | JSONBody j \<Rightarrow> (case T of None \<Rightarrow> False | Some t \<Rightarrow> has_type t j)
         | TextBody _ \<Rightarrow> T = Some Policy_type \<and> ContentType resp = Some ''application/hujson'')
      else (case RespBody resp of JSONBody j \<Rightarrow> has_type Error_type j | _ \<Rightarrow> False))"

lemma typed_error: "n \<noteq> 200 \<Longrightarrow> typed_reply T (writeError n m)"
  by (simp add: typed_reply_def writeError_def enc_Error_type)

lemma typed_json: "has_type t j \<Longrightarrow> typed_reply (Some t) (writeJSON 200 j)"
  by (simp add: typed_reply_def writeJSON_def)

lemma typed_empty: "typed_reply None (WriteHeader 200)"
  by (simp add: typed_reply_def WriteHeader_def)

lemma typed_grpc: "typed_reply T (fst (writeGRPCError L r e \<sigma>))"
  using grpcStatusToHTTP_range [of e] by (auto intro!: typed_error)

lemma typed_on_ok:
  "(\<And>x \<sigma>'. typed_reply T (fst (k x \<sigma>'))) \<Longrightarrow> typed_reply T (fst (on_ok L r res k))"
  by (cases res; cases "fst res") (auto simp: on_ok_def typed_grpc simp del: writeGRPCError_response)

lemma typed_with_user:
  assumes "\<And>u \<sigma>'. typed_reply T (fst (k u \<sigma>'))"
  shows "typed_reply T (fst (with_user L h r \<sigma> k))"
proof -
  obtain res \<sigma>' where res: "resolveTailnetUser h (Context r) (URLParam r ''tailnet'') \<sigma> = (res, \<sigma>')"
    by fastforce
  show ?thesis
  proof (cases res)
    case (Inl err)
    show ?thesis
    proof (cases err)
      case (keyResolveError n m)
      with Inl res have "\<exists>us. resolve_user (kh_tailnetName h) (URLParam r ''tailnet'') us = Inl (keyResolveError n m)"
        by (auto simp: resolveTailnetUser_def split: prod.splits sum.splits)
      with resolve_user_Inl have "n \<in> {400, 404}" by blast
      then have "n \<noteq> 200" by auto
      with keyResolveError Inl res show ?thesis by (simp add: with_user_def writeResolveError_def typed_error)
    next
      case (UpstreamError e)
      with Inl res show ?thesis
        by (simp add: with_user_def writeResolveError_def typed_grpc del: writeGRPCError_response)
    qed
  next
    case (Inr u)
    with res assms show ?thesis by (simp add: with_user_def)
  qed
qed

lemmas typed_intros = typed_error typed_json typed_empty typed_grpc typed_on_ok typed_with_user
  enc_types list_types

lemma typed_devices:
  "typed_reply (answer_type E_ListDevices) (fst (ListDevices L h r \<sigma>))"
  "typed_reply (answer_type E_GetDevice) (fst (GetDevice L h r \<sigma>))"
  "typed_reply (answer_type E_DeleteDevice) (fst (DeleteDevice L h r \<sigma>))"
  "typed_reply (answer_type E_AuthorizeDevice) (fst (AuthorizeDevice L h r \<sigma>))"
  "typed_reply (answer_type E_ExpireDevice) (fst (ExpireDevice L h r \<sigma>))"
  "typed_reply (answer_type E_RenameDevice) (fst (RenameDevice L h r \<sigma>))"
  "typed_reply (answer_type E_SetDeviceTags) (fst (SetDeviceTags L h r \<sigma>))"
  "typed_reply (answer_type E_GetDeviceRoutes) (fst (GetDeviceRoutes L h r \<sigma>))"
  "typed_reply (answer_type E_SetDeviceRoutes) (fst (SetDeviceRoutes L h r \<sigma>))"
  unfolding device_handlers Let_def answer_type.simps
  by (auto split: sum.split option.split simp del: has_type.simps intro!: typed_intros)

lemma typed_keys:
  "typed_reply (answer_type E_ListKeys) (fst (ListKeys L h r \<sigma>))"
  "typed_reply (answer_type E_CreateKey) (fst (CreateKey L now h r \<sigma>))"
  "typed_reply (answer_type E_GetKey) (fst (GetKey L h r \<sigma>))"
  "typed_reply (answer_type E_DeleteKey) (fst (DeleteKey L h r \<sigma>))"
  unfolding key_handlers Let_def answer_type.simps
  by (auto split: option.split simp del: has_type.simps intro!: typed_intros)

lemma typed_users:
  "typed_reply (answer_type E_ListUsers) (fst (ListUsers L hs r \<sigma>))"
  "typed_reply (answer_type E_GetUser) (fst (GetUser L hs r \<sigma>))"
  "typed_reply (answer_type E_DeleteUser) (fst (DeleteUser L hs r \<sigma>))"
  unfolding user_handlers Let_def answer_type.simps
  by (auto split: sum.split option.split simp del: has_type.simps intro!: typed_intros)

lemma Policy_document: "has_type Policy_type (JObj [(''policy'', JStr p)])"
  by (simp add: Policy_type_def)

lemma typed_policy:
  "typed_reply (answer_type E_GetPolicy) (fst (GetPolicy L hs r \<sigma>))"
  "typed_reply (answer_type E_SetPolicy) (fst (SetPolicy L hs r \<sigma>))"
proof -
  have hujson: "typed_reply (Some Policy_type)
    \<lparr>Status = 200, ContentType = Some ''application/hujson'', RespBody = TextBody p\<rparr>" for p
    by (simp add: typed_reply_def)
  obtain res \<sigma>' where res: "call (hs_GetPolicy hs (Context r)) \<sigma> = (res, \<sigma>')" by fastforce
  show "typed_reply (answer_type E_GetPolicy) (fst (GetPolicy L hs r \<sigma>))"
    unfolding GetPolicy_def Let_def res answer_type.simps
    by (cases res) (auto simp del: has_type.simps writeGRPCError_response
        intro!: typed_intros Policy_document hujson)
  show "typed_reply (answer_type E_SetPolicy) (fst (SetPolicy L hs r \<sigma>))"
    unfolding SetPolicy_def answer_type.simps
    by (auto split: option.split simp del: has_type.simps intro!: typed_intros Policy_document)
qed

lemma typed_issue: "typed_reply (Some Token_type) (fst (issueToken secret rand now \<sigma>))"
  by (auto simp: issueToken_def Let_def split: option.split simp del: has_type.simps intro!: typed_intros)

lemma typed_token:
  "typed_reply (answer_type E_OAuthToken) (fst (OAuthTokenHandler cid cs secret rand now r \<sigma>))"
  "typed_reply (answer_type E_TokenExchange) (fst (TokenExchangeHandler validator text' secret cid rand now r \<sigma>))"
  unfolding OAuthTokenHandler_def TokenExchangeHandler_def Let_def answer_type.simps
  by (auto split: option.split prod.split sum.split simp del: has_type.simps intro!: typed_intros typed_issue)

lemma typed_endpoint:
  assumes "ep \<noteq> E_Metrics"
  shows "typed_reply (answer_type ep) (fst (serve_endpoint D ro i ep r \<sigma>))"
  using assms
  by (cases ep) (simp_all only: serve_endpoint.simps typed_devices typed_keys typed_users typed_policy typed_token,
    auto simp: healthzHandler_def Health_type_def notImplementedReason_def intro!: typed_json typed_error)

section \<open>The types are printable\<close>

lemma answer_types_ok:
  assumes "answer_type ep = Some t"
  shows "names_ok t \<and> int (type_depth t) \<le> maxNestingDepth"
proof -
  let ?ts = "[Token_type, Health_type, list_type ''devices'' Device_type, Device_type, DeviceRoutes_type,
    list_type ''keys'' Key_type, Key_type, list_type ''users'' User_type, User_type, Policy_type]"
  have "list_all (\<lambda>t. names_ok t \<and> int (type_depth t) \<le> maxNestingDepth) ?ts" by code_simp
  moreover have "t \<in> set ?ts" using assms by (cases ep) auto
  ultimately show ?thesis unfolding list_all_iff by blast
qed

lemma Error_type_ok: "names_ok Error_type \<and> int (type_depth Error_type) \<le> maxNestingDepth"
  by code_simp

text \<open>What a client's parser reads off a typed reply.\<close>

lemma typed_reply_text:
  assumes "typed_reply (answer_type ep) resp" and "RespBody resp = JSONBody j"
  shows "\<exists>v. json_Unmarshal (json_Encode j) = Some v \<and>
    (if Status resp = 200 then (\<exists>t. answer_type ep = Some t \<and> has_type t v) else has_type Error_type v)"
proof (cases "Status resp = 200")
  case True
  with assms obtain t where t: "answer_type ep = Some t" "has_type t j"
    by (auto simp: typed_reply_def split: option.splits)
  with answer_types_ok [OF t(1)] typed_text [OF t(2)] True show ?thesis by auto
next
  case False
  with assms have "has_type Error_type j" by (simp add: typed_reply_def)
  with Error_type_ok typed_text False show ?thesis by auto
qed

section \<open>Documents read back as requests\<close>

lemma foldName_members:
  "foldName ''id'' = ''ID''"
  "foldName ''addresses'' = ''ADDRESSES''"
  "foldName ''name'' = ''NAME''"
  "foldName ''hostname'' = ''HOSTNAME''"
  "foldName ''clientVersion'' = ''CLIENTVERSION''"
  "foldName ''updateAvailable'' = ''UPDATEAVAILABLE''"
  "foldName ''fqdn'' = ''FQDN''"
  "foldName ''os'' = ''OS''"
  "foldName ''created'' = ''CREATED''"
  "foldName ''lastSeen'' = ''LASTSEEN''"
  "foldName ''keyExpiryDisabled'' = ''KEYEXPIRYDISABLED''"
  "foldName ''expires'' = ''EXPIRES''"
  "foldName ''authorized'' = ''AUTHORIZED''"
  "foldName ''isExternal'' = ''ISEXTERNAL''"
  "foldName ''machineKey'' = ''MACHINEKEY''"
  "foldName ''nodeKey'' = ''NODEKEY''"
  "foldName ''user'' = ''USER''"
  "foldName ''tags'' = ''TAGS''"
  "foldName ''blocksIncomingConnections'' = ''BLOCKSINCOMINGCONNECTIONS''"
  "foldName ''key'' = ''KEY''"
  "foldName ''description'' = ''DESCRIPTION''"
  "foldName ''revoked'' = ''REVOKED''"
  "foldName ''invalid'' = ''INVALID''"
  "foldName ''capabilities'' = ''CAPABILITIES''"
  "foldName ''devices'' = ''DEVICES''"
  "foldName ''create'' = ''CREATE''"
  "foldName ''reusable'' = ''REUSABLE''"
  "foldName ''ephemeral'' = ''EPHEMERAL''"
  "foldName ''preauthorized'' = ''PREAUTHORIZED''"
  "foldName ''expirySeconds'' = ''EXPIRYSECONDS''"
  by code_simp+

declare foldName.simps(2) [simp del]

lemma valid_members:
  "list_all (\<lambda>k. to_valid_utf8 k = k)
    [''id'', ''addresses'', ''name'', ''hostname'', ''clientVersion'', ''updateAvailable'', ''fqdn'', ''os'', ''created'', ''lastSeen'', ''keyExpiryDisabled'', ''expires'', ''authorized'', ''isExternal'', ''machineKey'', ''nodeKey'', ''user'', ''tags'', ''blocksIncomingConnections'', ''key'', ''description'', ''revoked'', ''invalid'', ''capabilities'', ''devices'', ''create'', ''reusable'', ''ephemeral'', ''preauthorized'']"
  by code_simp

lemmas read_back = foldName_members valid_members [simplified]

text \<open>A document that was typed is what the decoder of a request sees.\<close>

lemma decode_body_text:
  assumes "Body r = Some (json_Encode j)" and "has_type t j" and "int (type_depth t) \<le> maxNestingDepth"
  shows "decode_body d zero r = d (to_valid_json j) zero"
proof -
  have "int (json_depth j) \<le> maxNestingDepth" using has_type_depth(1) [OF assms(2)] assms(3) by simp
  with assms(1) json_Decode_Encode [OF has_type_ints(1) [OF assms(2)]] show ?thesis
    by (simp add: decode_body_def)
qed

definition valid_slice :: "string slice \<Rightarrow> string slice" where
  "valid_slice = map_option (map to_valid_utf8)"

lemma map_opt_strings: "map_opt (\<lambda>j. dec_string j []) (map (to_valid_json \<circ> JStr) ss) = Some (map to_valid_utf8 ss)"
  by (induction ss) simp_all

lemma dec_enc_strings: "dec_strings (to_valid_json (enc_strings xs)) old = Some (valid_slice xs)"
  by (cases xs) (simp_all add: enc_strings_def valid_slice_def map_opt_strings)

text \<open>A struct with one field sees only the members of its name.\<close>

lemma dec_members_filter:
  "dec_members [(name, d)] kvs r = dec_members [(name, d)] (filter (\<lambda>(k, _). foldName name = foldName k) kvs) r"
proof (induction kvs arbitrary: r)
  case (Cons kj kvs)
  then show ?case by (cases kj) (auto simp: dec_member_def split: option.split)
qed simp

lemma device_members:
  assumes "kvs = (case to_valid_json (enc_Device d) of JObj kvs \<Rightarrow> kvs | _ \<Rightarrow> [])"
  shows "to_valid_json (enc_Device d) = JObj kvs"
    and "filter (\<lambda>(k, _). foldName ''name'' = foldName k) kvs = [(''name'', JStr (to_valid_utf8 (dev_Name d)))]"
    and "filter (\<lambda>(k, _). foldName ''tags'' = foldName k) kvs = [(''tags'', to_valid_json (enc_strings (dev_Tags d)))]"
    and "filter (\<lambda>(k, _). foldName ''authorized'' = foldName k) kvs = [(''authorized'', JBool (dev_Authorized d))]"
  unfolding assms enc_Device_def omit_string_def
  by (simp_all add: foldName_members valid_members [simplified])

lemma device_read_back:
  assumes "Body r = Some (json_Encode (enc_Device d))"
  shows "decode_body dec_DeviceNameRequest \<lparr>dnr_Name = []\<rparr> r = Some \<lparr>dnr_Name = to_valid_utf8 (dev_Name d)\<rparr>"
    and "decode_body dec_DeviceTagsRequest \<lparr>dtr_Tags = None\<rparr> r = Some \<lparr>dtr_Tags = valid_slice (dev_Tags d)\<rparr>"
    and "decode_body dec_DeviceAuthorizeRequest \<lparr>dar_Authorized = False\<rparr> r = Some \<lparr>dar_Authorized = dev_Authorized d\<rparr>"
proof -
  have ok: "int (type_depth Device_type) \<le> maxNestingDepth" by code_simp
  define kvs where "kvs = (case to_valid_json (enc_Device d) of JObj kvs \<Rightarrow> kvs | _ \<Rightarrow> [])"
  note members = device_members [OF kvs_def]
  note eq = decode_body_text [OF assms enc_Device_type ok, unfolded members(1)]
  show "decode_body dec_DeviceNameRequest \<lparr>dnr_Name = []\<rparr> r = Some \<lparr>dnr_Name = to_valid_utf8 (dev_Name d)\<rparr>"
    unfolding eq dec_DeviceNameRequest_def dec_struct.simps field_def
    by (subst dec_members_filter) (simp add: members dec_member_def)
  show "decode_body dec_DeviceTagsRequest \<lparr>dtr_Tags = None\<rparr> r = Some \<lparr>dtr_Tags = valid_slice (dev_Tags d)\<rparr>"
    unfolding eq dec_DeviceTagsRequest_def dec_struct.simps field_def
    by (subst dec_members_filter) (simp add: members dec_member_def dec_enc_strings)
  show "decode_body dec_DeviceAuthorizeRequest \<lparr>dar_Authorized = False\<rparr> r = Some \<lparr>dar_Authorized = dev_Authorized d\<rparr>"
    unfolding eq dec_DeviceAuthorizeRequest_def dec_struct.simps field_def
    by (subst dec_members_filter) (simp add: members dec_member_def)
qed

text \<open>\<open>omitempty\<close> drops an empty list of tags along with nil.\<close>

definition valid_tags :: "string slice \<Rightarrow> string slice" where
  "valid_tags ts = (case ts of Some (t # ts') \<Rightarrow> Some (map to_valid_utf8 (t # ts')) | _ \<Rightarrow> None)"

lemma create_read_back:
  "dec_KeyCapabilityDevicesCreate (to_valid_json (enc_KeyCapabilityDevicesCreate c))
     \<lparr>kc_Reusable = False, kc_Ephemeral = False, kc_Preauthorized = False, kc_Tags = None\<rparr> =
   Some (c\<lparr>kc_Tags := valid_tags (kc_Tags c)\<rparr>)"
proof -
  have l: "map_opt (\<lambda>j. dec_string j []) (map (to_valid_json \<circ> JStr) ss) = Some (map to_valid_utf8 ss)" for ss
    by (rule map_opt_strings)
  show ?thesis
    by (cases c; cases "kc_Tags c" rule: option.exhaust; cases "the (kc_Tags c)")
      (simp_all add: enc_KeyCapabilityDevicesCreate_def omit_strings_def dec_KeyCapabilityDevicesCreate_def
        field_def dec_member_def read_back valid_tags_def l)
qed

lemma key_read_back:
  assumes "Body r = Some (json_Encode (enc_Key k))"
  shows "decode_body dec_CreateKeyRequest zero_CreateKeyRequest r = Some
    \<lparr>ckr_Capabilities = \<lparr>kcap_Devices = \<lparr>kcd_Create =
       (let c = kcd_Create (kcap_Devices (key_Capabilities k)) in c\<lparr>kc_Tags := valid_tags (kc_Tags c)\<rparr>)\<rparr>\<rparr>,
     ckr_ExpirySeconds = 0, ckr_Description = to_valid_utf8 (key_Description k)\<rparr>"
proof -
  have ok: "int (type_depth Key_type) \<le> maxNestingDepth" by code_simp
  have cap: "dec_KeyCapability (to_valid_json (enc_KeyCapability kc)) zero_KeyCapability = Some
      \<lparr>kcap_Devices = \<lparr>kcd_Create =
        (let c = kcd_Create (kcap_Devices kc) in c\<lparr>kc_Tags := valid_tags (kc_Tags c)\<rparr>)\<rparr>\<rparr>" for kc
    by (simp add: Let_def enc_KeyCapability_def dec_KeyCapability_def dec_KeyCapabilityDevices_def zero_KeyCapability_def
        field_def dec_member_def read_back create_read_back)
  show ?thesis
    unfolding decode_body_text [OF assms enc_Key_type ok] enc_Key_def
    by (simp add: omit_string_def dec_CreateKeyRequest_def zero_CreateKeyRequest_def
        field_def dec_member_def read_back cap)
qed

text \<open>So a key's document, posted, asks headscale for a key of the same kind that lasts an hour.\<close>

lemma key_template:
  assumes "Body r = Some (json_Encode (enc_Key (PreAuthKeyToKey L (Some k))))"
  shows "map_option (\<lambda>req. KeyRequestToCreatePreAuthKeyRequest L now req uid)
      (decode_body dec_CreateKeyRequest zero_CreateKeyRequest r) = Some
    \<lparr>cr_User = uid, cr_Reusable = k_Reusable k, cr_Ephemeral = k_Ephemeral k,
     cr_Expiration = Some (timestamppb_New L (now + 3600000000000)), cr_AclTags = valid_tags (k_AclTags k)\<rparr>"
proof -
  have "key_Capabilities (PreAuthKeyToKey L (Some k)) = \<lparr>kcap_Devices = \<lparr>kcd_Create =
      \<lparr>kc_Reusable = k_Reusable k, kc_Ephemeral = k_Ephemeral k, kc_Preauthorized = False,
       kc_Tags = k_AclTags k\<rparr>\<rparr>\<rparr>"
    by (simp add: PreAuthKeyToKey_def Let_def getter_def split: option.split)
  then show ?thesis
    using Add_expiry [of 0 now]
    by (simp add: key_read_back [OF assms] KeyRequestToCreatePreAuthKeyRequest_def Let_def)
qed

end
