(* ===== verification/Key_Cache.thy ===== *)
theory Key_Cache
  imports Wif
begin

text \<open>
  The cache of signing keys under concurrent requests (\<open>getKey\<close> and \<open>refreshJWKS\<close> of
  \<open>internal/api/wif.go\<close>). Neither holds the lock while it talks to the issuer, so requests
  interleave between the sections that do: the first look at the cache, the two exchanges with
  the issuer, the replacement of the cache, the second look. Each is one move of a task here;
  a move of a task that runs alone is the \<open>getKey\<close> of \<open>Wif\<close>.
\<close>

section \<open>Tasks\<close>

text \<open>
  \<open>Returned\<close> and \<open>Panicked\<close> are final. The second look reads \<open>v.jwks.keys\<close> with no test that
  \<open>v.jwks\<close> is not nil; if it were, the goroutine would panic.
\<close>

datatype task =
    Lookup string
  | Discover string
  | Fetch string string
  | Install string jwks_doc
  | Relookup string
  | Returned string "key_error + publicKey"
  | Panicked

fun final :: "task \<Rightarrow> bool" where
  "final (Returned kid res) \<longleftrightarrow> True"
| "final Panicked \<longleftrightarrow> True"
| "final _ \<longleftrightarrow> False"

fun task_step ::
  "'s http_client \<Rightarrow> OIDCValidator \<Rightarrow> time \<Rightarrow> task \<Rightarrow> ('s, 'm) wif_st_scheme \<Rightarrow> task \<times> ('s, 'm) wif_st_scheme" where
  "task_step hc v now (Lookup kid) \<sigma> =
     (case cached_key now (jwks \<sigma>) kid of
        Some key \<Rightarrow> (Returned kid (Inr key), \<sigma>)
      | None \<Rightarrow> (Discover kid, \<sigma>))"
| "task_step hc v now (Discover kid) \<sigma> =
     (case discoverJWKSURI hc v \<sigma> of
        (Inl err, \<sigma>) \<Rightarrow> (Returned kid (Inl err), \<sigma>)
      | (Inr jwksURI, \<sigma>) \<Rightarrow> (Fetch kid jwksURI, \<sigma>))"
| "task_step hc v now (Fetch kid jwksURI) \<sigma> =
     (case fetchJWKS hc jwksURI \<sigma> of
        (Inl err, \<sigma>) \<Rightarrow> (Returned kid (Inl err), \<sigma>)
      | (Inr doc, \<sigma>) \<Rightarrow> (Install kid doc, \<sigma>))"
| "task_step hc v now (Install kid doc) \<sigma> = (Relookup kid, storeJWKS now doc \<sigma>)"
| "task_step hc v now (Relookup kid) \<sigma> =
     (case jwks \<sigma> of
        None \<Rightarrow> (Panicked, \<sigma>)
      | Some c \<Rightarrow>
          (case keys c kid of
             None \<Rightarrow> (Returned kid (Inl (KidNotFound kid)), \<sigma>)
           | Some key \<Rightarrow> (Returned kid (Inr key), \<sigma>)))"
| "task_step hc v now t \<sigma> = (t, \<sigma>)"

text \<open>A task that runs alone, with the clock readings of its moves.\<close>

fun run_alone ::
  "'s http_client \<Rightarrow> OIDCValidator \<Rightarrow> time list \<Rightarrow> task \<Rightarrow> ('s, 'm) wif_st_scheme \<Rightarrow> task \<times> ('s, 'm) wif_st_scheme" where
  "run_alone hc v [] t \<sigma> = (t, \<sigma>)"
| "run_alone hc v (now # ts) t \<sigma> = (case task_step hc v now t \<sigma> of (t', \<sigma>') \<Rightarrow> run_alone hc v ts t' \<sigma>')"

lemma run_alone_final: "final t \<Longrightarrow> run_alone hc v ts t \<sigma> = (t, \<sigma>)"
  by (induction ts) (auto elim!: final.elims)

lemma run_alone_getKey:
  "run_alone hc v [t1, t2, t3, t4, t5] (Lookup kid) \<sigma> =
     (case getKey hc v t1 t4 kid \<sigma> of (res, \<sigma>') \<Rightarrow> (Returned kid res, \<sigma>'))"
proof (cases "cached_key t1 (jwks \<sigma>) kid")
  case (Some key)
  then show ?thesis by (simp add: getKey_def)
next
  case None
  obtain d \<sigma>1 where d: "discoverJWKSURI hc v \<sigma> = (d, \<sigma>1)" by fastforce
  show ?thesis
  proof (cases d)
    case (Inl e)
    with None d show ?thesis by (simp add: getKey_def refreshJWKS_def)
  next
    case (Inr uri)
    obtain f \<sigma>2 where f: "fetchJWKS hc uri \<sigma>1 = (f, \<sigma>2)" by fastforce
    show ?thesis
    proof (cases f)
      case (Inl e)
      with None d Inr f show ?thesis by (simp add: getKey_def refreshJWKS_def)
    next
      case doc: (Inr doc)
      with None d Inr f show ?thesis
        by (cases "jwks_of_doc doc kid") (simp_all add: getKey_def refreshJWKS_def storeJWKS_def)
    qed
  qed
qed

section \<open>Interleavings\<close>

text \<open>
  \<open>docs\<close> records every document that was fetched. \<open>other\<close> is whatever the rest of the process
  does meanwhile; it does not touch the cache.
\<close>

record ('s, 'm) cache_sys =
  shared :: "('s, 'm) wif_st_scheme"
  tasks :: "nat \<Rightarrow> task option"
  docs :: "jwks_doc list"

datatype turn_label = Arrive nat string | Move nat time | Other

definition fetched_by :: "task \<Rightarrow> jwks_doc list" where
  "fetched_by t = (case t of Install _ doc \<Rightarrow> [doc] | _ \<Rightarrow> [])"

inductive turn ::
  "'s http_client \<Rightarrow> OIDCValidator \<Rightarrow> ('s, 'm) cache_sys \<Rightarrow> turn_label \<Rightarrow> ('s, 'm) cache_sys \<Rightarrow> bool"
  for hc :: "'s http_client" and v :: OIDCValidator where
  arrive: "tasks s n = None \<Longrightarrow>
    turn hc v s (Arrive n kid) (s\<lparr>tasks := (tasks s)(n \<mapsto> Lookup kid)\<rparr>)"
| move: "tasks s n = Some t \<Longrightarrow> \<not> final t \<Longrightarrow> task_step hc v now t (shared s) = (t', \<sigma>') \<Longrightarrow>
    turn hc v s (Move n now)
      (s\<lparr>shared := \<sigma>', tasks := (tasks s)(n \<mapsto> t'), docs := docs s @ fetched_by t'\<rparr>)"
| other: "jwks \<sigma>' = jwks (shared s) \<Longrightarrow> turn hc v s Other (s\<lparr>shared := \<sigma>'\<rparr>)"

inductive_cases turn_ArriveE: "turn hc v s (Arrive n kid) s'"
inductive_cases turn_MoveE: "turn hc v s (Move n now) s'"
inductive_cases turn_OtherE: "turn hc v s Other s'"

inductive turns ::
  "'s http_client \<Rightarrow> OIDCValidator \<Rightarrow> ('s, 'm) cache_sys \<Rightarrow> turn_label list \<Rightarrow> ('s, 'm) cache_sys \<Rightarrow> bool"
  for hc :: "'s http_client" and v :: OIDCValidator where
  turns_Nil: "turns hc v s [] s"
| turns_snoc: "turns hc v s ls s' \<Longrightarrow> turn hc v s' l s'' \<Longrightarrow> turns hc v s (ls @ [l]) s''"

text \<open>The cache is empty and no request is being served.\<close>

definition quiet :: "('s, 'm) cache_sys \<Rightarrow> bool" where
  "quiet s \<longleftrightarrow> jwks (shared s) = None \<and> tasks s = Map.empty"

section \<open>The invariant\<close>

text \<open>What a task may hold, given the cache and the documents fetched so far.\<close>

fun task_ok :: "jwksCache option \<Rightarrow> jwks_doc list \<Rightarrow> task \<Rightarrow> bool" where
  "task_ok c ds (Install kid doc) \<longleftrightarrow> doc \<in> set ds"
| "task_ok c ds (Relookup kid) \<longleftrightarrow> c \<noteq> None"
| "task_ok c ds (Returned kid (Inr key)) \<longleftrightarrow> (\<exists>doc \<in> set ds. jwks_of_doc doc kid = Some key)"
| "task_ok c ds Panicked \<longleftrightarrow> False"
| "task_ok c ds _ \<longleftrightarrow> True"

definition cache_ok :: "jwksCache option \<Rightarrow> jwks_doc list \<Rightarrow> bool" where
  "cache_ok c ds \<longleftrightarrow> (case c of None \<Rightarrow> True | Some c \<Rightarrow> \<exists>doc \<in> set ds. keys c = jwks_of_doc doc)"

definition cache_inv :: "('s, 'm) cache_sys \<Rightarrow> bool" where
  "cache_inv s \<longleftrightarrow> cache_ok (jwks (shared s)) (docs s) \<and>
     (\<forall>n t. tasks s n = Some t \<longrightarrow> task_ok (jwks (shared s)) (docs s) t)"

lemma task_ok_mono:
  "task_ok c ds t \<Longrightarrow> set ds \<subseteq> set ds' \<Longrightarrow> (c \<noteq> None \<Longrightarrow> c' \<noteq> None) \<Longrightarrow> task_ok c' ds' t"
  by (cases "(c, ds, t)" rule: task_ok.cases) auto

lemma exchange_keeps_cache:
  "discoverJWKSURI hc v \<sigma> = (x, \<sigma>') \<Longrightarrow> jwks \<sigma>' = jwks \<sigma>"
  "fetchJWKS hc uri \<sigma> = (y, \<sigma>') \<Longrightarrow> jwks \<sigma>' = jwks \<sigma>"
proof -
  assume "discoverJWKSURI hc v \<sigma> = (x, \<sigma>')"
  with discoverJWKSURI_frame(3) [of hc v \<sigma>] have "st.more \<sigma>' = st.more \<sigma>" by simp
  then show "jwks \<sigma>' = jwks \<sigma>" by (rule jwks_more)
next
  assume "fetchJWKS hc uri \<sigma> = (y, \<sigma>')"
  with fetchJWKS_frame(3) [of hc uri \<sigma>] have "st.more \<sigma>' = st.more \<sigma>" by simp
  then show "jwks \<sigma>' = jwks \<sigma>" by (rule jwks_more)
qed

lemma cached_key_keys: "cached_key now c kid = Some key \<Longrightarrow> \<exists>c'. c = Some c' \<and> keys c' kid = Some key"
  by (auto simp: cached_key_def split: option.splits if_splits)

text \<open>One move keeps the task and the cache good, and never empties the cache.\<close>

lemma task_step_ok:
  assumes "task_step hc v now t \<sigma> = (t', \<sigma>')"
    and "cache_ok (jwks \<sigma>) ds" and "task_ok (jwks \<sigma>) ds t"
  shows "task_ok (jwks \<sigma>') (ds @ fetched_by t') t' \<and> cache_ok (jwks \<sigma>') (ds @ fetched_by t') \<and>
    (jwks \<sigma> \<noteq> None \<longrightarrow> jwks \<sigma>' \<noteq> None)"
proof (cases t)
  case (Lookup kid)
  with assms show ?thesis
    by (auto simp: fetched_by_def cache_ok_def split: option.splits dest!: cached_key_keys)
next
  case (Discover kid)
  with assms show ?thesis
    by (auto simp: fetched_by_def cache_ok_def exchange_keeps_cache split: prod.splits sum.splits option.splits)
next
  case (Fetch kid uri)
  with assms show ?thesis
    by (auto simp: fetched_by_def cache_ok_def exchange_keeps_cache split: prod.splits sum.splits option.splits)
next
  case (Install kid doc)
  with assms show ?thesis by (auto simp: fetched_by_def cache_ok_def storeJWKS_def)
next
  case (Relookup kid)
  with assms show ?thesis by (auto simp: fetched_by_def cache_ok_def split: option.splits)
qed (use assms in \<open>auto simp: fetched_by_def\<close>)

lemma turn_inv: "turn hc v s l s' \<Longrightarrow> cache_inv s \<Longrightarrow> cache_inv s'"
proof (induction rule: turn.induct)
  case (arrive s n kid)
  then show ?case by (auto simp: cache_inv_def)
next
  case (move s n t now t' \<sigma>')
  from task_step_ok [OF move(3)] move(1,4) have
    ok: "task_ok (jwks \<sigma>') (docs s @ fetched_by t') t'" "cache_ok (jwks \<sigma>') (docs s @ fetched_by t')"
    and grow: "jwks (shared s) \<noteq> None \<longrightarrow> jwks \<sigma>' \<noteq> None" by (auto simp: cache_inv_def)
  have "task_ok (jwks \<sigma>') (docs s @ fetched_by t') u" if "tasks s m = Some u" for m u
  proof -
    from that move(4) have "task_ok (jwks (shared s)) (docs s) u" by (simp add: cache_inv_def)
    then show ?thesis by (rule task_ok_mono) (use grow in auto)
  qed
  with ok show ?case by (auto simp: cache_inv_def)
next
  case (other \<sigma>' s)
  then show ?case by (simp add: cache_inv_def)
qed

lemma turns_inv: "turns hc v s ls s' \<Longrightarrow> quiet s \<Longrightarrow> cache_inv s'"
proof (induction rule: turns.induct)
  case (turns_Nil s)
  then show ?case by (simp add: cache_inv_def quiet_def cache_ok_def)
next
  case (turns_snoc s ls s' l s'')
  then show ?case using turn_inv by blast
qed

section \<open>Progress\<close>

fun moves_left :: "task \<Rightarrow> nat" where
  "moves_left (Lookup kid) = 5"
| "moves_left (Discover kid) = 4"
| "moves_left (Fetch kid uri) = 3"
| "moves_left (Install kid doc) = 2"
| "moves_left (Relookup kid) = 1"
| "moves_left _ = 0"

lemma task_step_less: "\<not> final t \<Longrightarrow> moves_left (fst (task_step hc v now t \<sigma>)) < moves_left t"
  by (cases t) (auto split: option.split prod.split sum.split)

definition moves_of :: "nat \<Rightarrow> turn_label list \<Rightarrow> nat" where
  "moves_of n ls = length (filter (\<lambda>l. case l of Move m _ \<Rightarrow> m = n | _ \<Rightarrow> False) ls)"

definition budget :: "('s, 'm) cache_sys \<Rightarrow> nat \<Rightarrow> nat" where
  "budget s n = (case tasks s n of None \<Rightarrow> 5 | Some t \<Rightarrow> moves_left t)"

lemma turn_budget: "turn hc v s l s' \<Longrightarrow> budget s' n + moves_of n [l] \<le> budget s n"
proof (induction rule: turn.induct)
  case (move s m t now t' \<sigma>')
  with task_step_less [of t hc v now "shared s"] show ?case by (auto simp: budget_def moves_of_def)
qed (auto simp: budget_def moves_of_def)

lemma turns_budget: "turns hc v s ls s' \<Longrightarrow> budget s' n + moves_of n ls \<le> budget s n"
proof (induction rule: turns.induct)
  case (turns_snoc s ls s' l s'')
  have "moves_of n (ls @ [l]) = moves_of n ls + moves_of n [l]" by (simp add: moves_of_def)
  with turns_snoc(3) turn_budget [OF turns_snoc(2), of n] show ?case by simp
qed (simp add: moves_of_def)

lemma can_move: "tasks s n = Some t \<Longrightarrow> \<not> final t \<Longrightarrow> \<exists>s'. turn hc v s (Move n now) s'"
  using move [of s n t hc v now] by (metis prod.collapse)

section \<open>Running a schedule\<close>

fun exec_turn ::
  "'s http_client \<Rightarrow> OIDCValidator \<Rightarrow> ('s, 'm) cache_sys \<Rightarrow> turn_label \<Rightarrow> ('s, 'm) cache_sys option" where
  "exec_turn hc v s (Arrive n kid) =
     (case tasks s n of
        None \<Rightarrow> Some (s\<lparr>tasks := (tasks s)(n \<mapsto> Lookup kid)\<rparr>)
      | Some t \<Rightarrow> None)"
| "exec_turn hc v s (Move n now) =
     (case tasks s n of
        None \<Rightarrow> None
      | Some t \<Rightarrow>
          if final t then None
          else (case task_step hc v now t (shared s) of
                  (t', \<sigma>') \<Rightarrow> Some (s\<lparr>shared := \<sigma>', tasks := (tasks s)(n \<mapsto> t'), docs := docs s @ fetched_by t'\<rparr>)))"
| "exec_turn hc v s Other = Some s"

fun exec_turns ::
  "'s http_client \<Rightarrow> OIDCValidator \<Rightarrow> ('s, 'm) cache_sys \<Rightarrow> turn_label list \<Rightarrow> ('s, 'm) cache_sys option" where
  "exec_turns hc v s [] = Some s"
| "exec_turns hc v s (l # ls) =
     (case exec_turn hc v s l of None \<Rightarrow> None | Some s' \<Rightarrow> exec_turns hc v s' ls)"

lemma exec_turn_sound: "exec_turn hc v s l = Some s' \<Longrightarrow> turn hc v s l s'"
proof (cases l)
  case (Arrive n kid)
  assume "exec_turn hc v s l = Some s'"
  with Arrive show ?thesis by (auto intro: turn.arrive split: option.splits)
next
  case (Move n now)
  assume "exec_turn hc v s l = Some s'"
  with Move show ?thesis by (auto intro: turn.move split: option.splits if_splits prod.splits)
next
  case Other
  assume "exec_turn hc v s l = Some s'"
  with Other turn.other [of "shared s" s hc v] show ?thesis by simp
qed

lemma turns_append: "turns hc v s' ls' s'' \<Longrightarrow> turns hc v s ls s' \<Longrightarrow> turns hc v s (ls @ ls') s''"
proof (induction rule: turns.induct)
  case (turns_snoc s1 ls1 s2 l s3)
  from turns.turns_snoc [OF turns_snoc(3) [OF turns_snoc(4)] turns_snoc(2)] show ?case by simp
qed simp

lemma exec_turns_sound: "exec_turns hc v s ls = Some s' \<Longrightarrow> turns hc v s ls s'"
proof (induction ls arbitrary: s)
  case (Cons l ls)
  then obtain s1 where s1: "exec_turn hc v s l = Some s1" "exec_turns hc v s1 ls = Some s'"
    by (auto split: option.splits)
  from turns.turns_snoc [OF turns.turns_Nil exec_turn_sound [OF s1(1)]]
  have "turns hc v s [l] s1" by simp
  from turns_append [OF Cons.IH [OF s1(2)] this] show ?case by simp
qed (auto intro: turns.turns_Nil)

end
