(* ===== verification/Mock_Client.thy ===== *)
theory Mock_Client
  imports Headscale
begin

text \<open>
  The mock of the client interface that the unit tests script
  (\<open>internal/headscale/mock_client.go\<close>). A method asks the \<open>mock.Mock\<close> inside it for the values
  that the test set up, and makes its results of them: a function among the values is called
  with the arguments, anything else is the result itself; where the values do not fit, it
  panics. \<open>testify\<close> is third-party, so \<open>Called\<close>, \<open>Get\<close> and \<open>Error\<close> are parameters.
\<close>

section \<open>What a test can set up\<close>

text \<open>
  A value of type \<open>interface{}\<close>, as far as a method with arguments \<open>'a\<close> and result \<open>'r\<close> can tell
  them apart: nil, a result, an error, the three types of functions, and any other type.
\<close>

datatype ('a, 'r, 's) mock_value =
    V_nil
  | V_result 'r
  | V_error grpc_error
  | F_both "'a \<Rightarrow> 's \<Rightarrow> ('r \<times> grpc_error option) \<times> 's"
  | F_result "'a \<Rightarrow> 's \<Rightarrow> 'r \<times> 's"
  | F_error "'a \<Rightarrow> 's \<Rightarrow> grpc_error option \<times> 's"
  | V_other

text \<open>\<open>None\<close> is a panic throughout.\<close>

record ('a, 'r, 's) mock_method =
  mm_Called :: "'a \<Rightarrow> 's \<Rightarrow> ('a, 'r, 's) mock_value list option \<times> 's"
  mm_Get :: "('a, 'r, 's) mock_value list \<Rightarrow> nat \<Rightarrow> ('a, 'r, 's) mock_value option"
  mm_Error :: "('a, 'r, 's) mock_value list \<Rightarrow> nat \<Rightarrow> grpc_error option option"

type_synonym ('r, 's) mock_result = "('r \<times> grpc_error option) option \<times> 's"

section \<open>The three shapes of a generated method\<close>

definition mock_r1 ::
  "('a, 'r, 's) mock_method \<Rightarrow> ('a, 'r, 's) mock_value list \<Rightarrow> nat \<Rightarrow> 'a \<Rightarrow> 'r \<Rightarrow> 's \<Rightarrow> ('r, 's) mock_result" where
  "mock_r1 m ret i a r0 s =
     (case mm_Get m ret i of
        None \<Rightarrow> (None, s)
      | Some (F_error rf) \<Rightarrow> (case rf a s of (r1, s) \<Rightarrow> (Some (r0, r1), s))
      | Some _ \<Rightarrow>
          (case mm_Error m ret i of
             None \<Rightarrow> (None, s)
           | Some r1 \<Rightarrow> (Some (r0, r1), s)))"

text \<open>A pointer or a slice, and an error: nil stands for the zero value \<open>zero\<close>.\<close>

definition mock_pair ::
  "'r \<Rightarrow> ('a, 'r, 's) mock_method \<Rightarrow> 'a \<Rightarrow> 's \<Rightarrow> ('r, 's) mock_result" where
  "mock_pair zero m a s =
     (case mm_Called m a s of
        (None, s) \<Rightarrow> (None, s)
      | (Some ret, s) \<Rightarrow>
          if length ret = 0 then (None, s)
          else
            (case mm_Get m ret 0 of
               None \<Rightarrow> (None, s)
             | Some (F_both rf) \<Rightarrow> (case rf a s of (r, s) \<Rightarrow> (Some r, s))
             | Some (F_result rf) \<Rightarrow> (case rf a s of (r0, s) \<Rightarrow> mock_r1 m ret 1 a r0 s)
             | Some V_nil \<Rightarrow> mock_r1 m ret 1 a zero s
             | Some (V_result r0) \<Rightarrow> mock_r1 m ret 1 a r0 s
             | Some _ \<Rightarrow> (None, s)))"

text \<open>A string and an error: the type assertion has no test for nil.\<close>

definition mock_string ::
  "('a, string, 's) mock_method \<Rightarrow> 'a \<Rightarrow> 's \<Rightarrow> (string, 's) mock_result" where
  "mock_string m a s =
     (case mm_Called m a s of
        (None, s) \<Rightarrow> (None, s)
      | (Some ret, s) \<Rightarrow>
          if length ret = 0 then (None, s)
          else
            (case mm_Get m ret 0 of
               None \<Rightarrow> (None, s)
             | Some (F_both rf) \<Rightarrow> (case rf a s of (r, s) \<Rightarrow> (Some r, s))
             | Some (F_result rf) \<Rightarrow> (case rf a s of (r0, s) \<Rightarrow> mock_r1 m ret 1 a r0 s)
             | Some (V_result r0) \<Rightarrow> mock_r1 m ret 1 a r0 s
             | Some _ \<Rightarrow> (None, s)))"

text \<open>An error alone.\<close>

definition mock_error ::
  "('a, unit, 's) mock_method \<Rightarrow> 'a \<Rightarrow> 's \<Rightarrow> (unit, 's) mock_result" where
  "mock_error m a s =
     (case mm_Called m a s of
        (None, s) \<Rightarrow> (None, s)
      | (Some ret, s) \<Rightarrow> if length ret = 0 then (None, s) else mock_r1 m ret 0 a () s)"

section \<open>The mock\<close>

record 's MockHeadscaleClient =
  mk_AuthApprove :: "(ctx \<times> string \<times> string, Node option, 's) mock_method"
  mk_CreatePreAuthKey :: "(ctx \<times> CreatePreAuthKeyRequest, PreAuthKey option, 's) mock_method"
  mk_DeleteNode :: "(ctx \<times> u64, unit, 's) mock_method"
  mk_DeletePreAuthKey :: "(ctx \<times> u64, unit, 's) mock_method"
  mk_DeleteUser :: "(ctx \<times> u64, unit, 's) mock_method"
  mk_ExpireNode :: "(ctx \<times> u64, unit, 's) mock_method"
  mk_ExpirePreAuthKey :: "(ctx \<times> u64, unit, 's) mock_method"
  mk_GetNode :: "(ctx \<times> u64, Node option, 's) mock_method"
  mk_GetPolicy :: "(ctx, string, 's) mock_method"
  mk_ListNodes :: "(ctx \<times> string, Node list, 's) mock_method"
  mk_ListPreAuthKeys :: "(ctx \<times> string, PreAuthKey list, 's) mock_method"
  mk_ListUsers :: "(ctx, pbUser list, 's) mock_method"
  mk_RenameNode :: "(ctx \<times> u64 \<times> string, Node option, 's) mock_method"
  mk_SetApprovedRoutes :: "(ctx \<times> u64 \<times> string slice, Node option, 's) mock_method"
  mk_SetPolicy :: "(ctx \<times> string, unit, 's) mock_method"
  mk_SetTags :: "(ctx \<times> u64 \<times> string slice, Node option, 's) mock_method"

definition mock_AuthApprove ::
  "'s MockHeadscaleClient \<Rightarrow> ctx \<Rightarrow> string \<Rightarrow> string \<Rightarrow> 's \<Rightarrow> (Node option, 's) mock_result" where
  "mock_AuthApprove m ctx user nodeKey = mock_pair None (mk_AuthApprove m) (ctx, user, nodeKey)"

definition mock_CreatePreAuthKey ::
  "'s MockHeadscaleClient \<Rightarrow> ctx \<Rightarrow> CreatePreAuthKeyRequest \<Rightarrow> 's \<Rightarrow> (PreAuthKey option, 's) mock_result" where
  "mock_CreatePreAuthKey m ctx req = mock_pair None (mk_CreatePreAuthKey m) (ctx, req)"

definition mock_DeleteNode ::
  "'s MockHeadscaleClient \<Rightarrow> ctx \<Rightarrow> u64 \<Rightarrow> 's \<Rightarrow> (unit, 's) mock_result" where
  "mock_DeleteNode m ctx nid = mock_error (mk_DeleteNode m) (ctx, nid)"

definition mock_DeletePreAuthKey ::
  "'s MockHeadscaleClient \<Rightarrow> ctx \<Rightarrow> u64 \<Rightarrow> 's \<Rightarrow> (unit, 's) mock_result" where
  "mock_DeletePreAuthKey m ctx nid = mock_error (mk_DeletePreAuthKey m) (ctx, nid)"

definition mock_DeleteUser ::
  "'s MockHeadscaleClient \<Rightarrow> ctx \<Rightarrow> u64 \<Rightarrow> 's \<Rightarrow> (unit, 's) mock_result" where
  "mock_DeleteUser m ctx nid = mock_error (mk_DeleteUser m) (ctx, nid)"

definition mock_ExpireNode ::
  "'s MockHeadscaleClient \<Rightarrow> ctx \<Rightarrow> u64 \<Rightarrow> 's \<Rightarrow> (unit, 's) mock_result" where
  "mock_ExpireNode m ctx nid = mock_error (mk_ExpireNode m) (ctx, nid)"

definition mock_ExpirePreAuthKey ::
  "'s MockHeadscaleClient \<Rightarrow> ctx \<Rightarrow> u64 \<Rightarrow> 's \<Rightarrow> (unit, 's) mock_result" where
  "mock_ExpirePreAuthKey m ctx nid = mock_error (mk_ExpirePreAuthKey m) (ctx, nid)"

definition mock_GetNode ::
  "'s MockHeadscaleClient \<Rightarrow> ctx \<Rightarrow> u64 \<Rightarrow> 's \<Rightarrow> (Node option, 's) mock_result" where
  "mock_GetNode m ctx nid = mock_pair None (mk_GetNode m) (ctx, nid)"

definition mock_GetPolicy ::
  "'s MockHeadscaleClient \<Rightarrow> ctx \<Rightarrow> 's \<Rightarrow> (string, 's) mock_result" where
  "mock_GetPolicy m ctx = mock_string (mk_GetPolicy m) ctx"

definition mock_ListNodes ::
  "'s MockHeadscaleClient \<Rightarrow> ctx \<Rightarrow> string \<Rightarrow> 's \<Rightarrow> (Node list, 's) mock_result" where
  "mock_ListNodes m ctx user = mock_pair [] (mk_ListNodes m) (ctx, user)"

definition mock_ListPreAuthKeys ::
  "'s MockHeadscaleClient \<Rightarrow> ctx \<Rightarrow> string \<Rightarrow> 's \<Rightarrow> (PreAuthKey list, 's) mock_result" where
  "mock_ListPreAuthKeys m ctx user = mock_pair [] (mk_ListPreAuthKeys m) (ctx, user)"

definition mock_ListUsers ::
  "'s MockHeadscaleClient \<Rightarrow> ctx \<Rightarrow> 's \<Rightarrow> (pbUser list, 's) mock_result" where
  "mock_ListUsers m ctx = mock_pair [] (mk_ListUsers m) ctx"

definition mock_RenameNode ::
  "'s MockHeadscaleClient \<Rightarrow> ctx \<Rightarrow> u64 \<Rightarrow> string \<Rightarrow> 's \<Rightarrow> (Node option, 's) mock_result" where
  "mock_RenameNode m ctx nid name = mock_pair None (mk_RenameNode m) (ctx, nid, name)"

definition mock_SetApprovedRoutes ::
  "'s MockHeadscaleClient \<Rightarrow> ctx \<Rightarrow> u64 \<Rightarrow> string slice \<Rightarrow> 's \<Rightarrow> (Node option, 's) mock_result" where
  "mock_SetApprovedRoutes m ctx nid routes = mock_pair None (mk_SetApprovedRoutes m) (ctx, nid, routes)"

definition mock_SetPolicy ::
  "'s MockHeadscaleClient \<Rightarrow> ctx \<Rightarrow> string \<Rightarrow> 's \<Rightarrow> (unit, 's) mock_result" where
  "mock_SetPolicy m ctx policy = mock_error (mk_SetPolicy m) (ctx, policy)"

definition mock_SetTags ::
  "'s MockHeadscaleClient \<Rightarrow> ctx \<Rightarrow> u64 \<Rightarrow> string slice \<Rightarrow> 's \<Rightarrow> (Node option, 's) mock_result" where
  "mock_SetTags m ctx nid tags = mock_pair None (mk_SetTags m) (ctx, nid, tags)"

section \<open>The mock as a client\<close>

text \<open>
  A handler looks at the error first, and at the result if there is none. A panic reaches the
  test; the client interface has no value for it, so it is the fixed error \<open>p\<close> here.
\<close>

definition as_client_result :: "grpc_error \<Rightarrow> ('r, 's) mock_result \<Rightarrow> (grpc_error + 'r) \<times> 's" where
  "as_client_result p x =
     (case x of
        (None, s) \<Rightarrow> (Inl p, s)
      | (Some (r, None), s) \<Rightarrow> (Inr r, s)
      | (Some (r, Some e), s) \<Rightarrow> (Inl e, s))"

definition mock_client :: "grpc_error \<Rightarrow> 's MockHeadscaleClient \<Rightarrow> 's HeadscaleClient" where
  "mock_client p m =
     \<lparr>hs_ListNodes = (\<lambda>ctx user s. as_client_result p (mock_ListNodes m ctx user s)),
      hs_GetNode = (\<lambda>ctx nid s. as_client_result p (mock_GetNode m ctx nid s)),
      hs_DeleteNode = (\<lambda>ctx nid s. as_client_result p (mock_DeleteNode m ctx nid s)),
      hs_ExpireNode = (\<lambda>ctx nid s. as_client_result p (mock_ExpireNode m ctx nid s)),
      hs_RenameNode = (\<lambda>ctx nid name s. as_client_result p (mock_RenameNode m ctx nid name s)),
      hs_SetTags = (\<lambda>ctx nid tags s. as_client_result p (mock_SetTags m ctx nid tags s)),
      hs_SetApprovedRoutes = (\<lambda>ctx nid routes s. as_client_result p (mock_SetApprovedRoutes m ctx nid routes s)),
      hs_AuthApprove = (\<lambda>ctx user nodeKey s. as_client_result p (mock_AuthApprove m ctx user nodeKey s)),
      hs_ListPreAuthKeys = (\<lambda>ctx user s. as_client_result p (mock_ListPreAuthKeys m ctx user s)),
      hs_CreatePreAuthKey = (\<lambda>ctx req s. as_client_result p (mock_CreatePreAuthKey m ctx req s)),
      hs_ExpirePreAuthKey = (\<lambda>ctx nid s. as_client_result p (mock_ExpirePreAuthKey m ctx nid s)),
      hs_DeletePreAuthKey = (\<lambda>ctx nid s. as_client_result p (mock_DeletePreAuthKey m ctx nid s)),
      hs_ListUsers = (\<lambda>ctx s. as_client_result p (mock_ListUsers m ctx s)),
      hs_DeleteUser = (\<lambda>ctx nid s. as_client_result p (mock_DeleteUser m ctx nid s)),
      hs_GetPolicy = (\<lambda>ctx s. as_client_result p (mock_GetPolicy m ctx s)),
      hs_SetPolicy = (\<lambda>ctx policy s. as_client_result p (mock_SetPolicy m ctx policy s))\<rparr>"

lemmas mock_method_defs = mock_AuthApprove_def mock_CreatePreAuthKey_def mock_DeleteNode_def mock_DeletePreAuthKey_def mock_DeleteUser_def mock_ExpireNode_def mock_ExpirePreAuthKey_def mock_GetNode_def mock_GetPolicy_def mock_ListNodes_def mock_ListPreAuthKeys_def mock_ListUsers_def mock_RenameNode_def mock_SetApprovedRoutes_def mock_SetPolicy_def mock_SetTags_def

section \<open>Scripting a mock\<close>

text \<open>What \<open>testify\<close> documents of \<open>Arguments\<close>.\<close>

definition arguments_ok :: "('a, 'r, 's) mock_method \<Rightarrow> bool" where
  "arguments_ok m \<longleftrightarrow> (\<forall>ret i.
     mm_Get m ret i = (if i < length ret then Some (ret ! i) else None) \<and>
     mm_Error m ret i =
       (if i < length ret then (case ret ! i of V_nil \<Rightarrow> Some None | V_error e \<Rightarrow> Some (Some e) | _ \<Rightarrow> None)
        else None))"

text \<open>\<open>On(...).Return(vs...)\<close>: the values that a call gets.\<close>

definition returns :: "('a, 'r, 's) mock_method \<Rightarrow> 'a \<Rightarrow> ('a, 'r, 's) mock_value list \<Rightarrow> bool" where
  "returns m a vs \<longleftrightarrow> arguments_ok m \<and> (\<forall>s. mm_Called m a s = (Some vs, s))"

lemma mock_pair_returns:
  "returns m a [V_result r, V_nil] \<Longrightarrow> mock_pair zero m a s = (Some (r, None), s)"
  "returns m a [V_nil, V_error e] \<Longrightarrow> mock_pair zero m a s = (Some (zero, Some e), s)"
  "returns m a [F_both f] \<Longrightarrow> mock_pair zero m a s = (case f a s of (r, s') \<Rightarrow> (Some r, s'))"
  "returns m a [F_result g, F_error h] \<Longrightarrow> mock_pair zero m a s =
     (case g a s of (r, s1) \<Rightarrow> case h a s1 of (e, s2) \<Rightarrow> (Some (r, e), s2))"
  by (simp_all add: mock_pair_def mock_r1_def returns_def arguments_ok_def split: prod.split)

lemma mock_string_returns:
  "returns m a [V_result r, V_nil] \<Longrightarrow> mock_string m a s = (Some (r, None), s)"
  "returns m a [F_both f] \<Longrightarrow> mock_string m a s = (case f a s of (r, s') \<Rightarrow> (Some r, s'))"
  "returns m a [V_nil, V_error e] \<Longrightarrow> mock_string m a s = (None, s)"
  by (simp_all add: mock_string_def mock_r1_def returns_def arguments_ok_def)

lemma mock_error_returns:
  "returns m a [V_nil] \<Longrightarrow> mock_error m a s = (Some ((), None), s)"
  "returns m a [V_error e] \<Longrightarrow> mock_error m a s = (Some ((), Some e), s)"
  "returns m a [F_error f] \<Longrightarrow> mock_error m a s = (case f a s of (e, s') \<Rightarrow> (Some ((), e), s'))"
  by (simp_all add: mock_error_def mock_r1_def returns_def arguments_ok_def)

text \<open>Nothing set up to return is a panic, in each shape.\<close>

lemma mock_no_values:
  "returns m a [] \<Longrightarrow> mock_pair zero m a s = (None, s)"
  "returns m' a [] \<Longrightarrow> mock_string m' a s = (None, s)"
  "returns m'' a [] \<Longrightarrow> mock_error m'' a s = (None, s)"
  by (simp_all add: mock_pair_def mock_string_def mock_error_def returns_def)

text \<open>
  A mock whose methods are given functions: a call of a client, its result split into the
  two that Go returns. \<open>zero\<close> is the result next to an error.
\<close>

definition go_result :: "'r \<Rightarrow> (grpc_error + 'r) \<times> 's \<Rightarrow> ('r \<times> grpc_error option) \<times> 's" where
  "go_result zero x = (case x of (Inl e, s) \<Rightarrow> ((zero, Some e), s) | (Inr r, s) \<Rightarrow> ((r, None), s))"

definition go_error :: "(grpc_error + unit) \<times> 's \<Rightarrow> grpc_error option \<times> 's" where
  "go_error x = (case x of (Inl e, s) \<Rightarrow> (Some e, s) | (Inr r, s) \<Rightarrow> (None, s))"

definition scripted :: "'s HeadscaleClient \<Rightarrow> 's MockHeadscaleClient \<Rightarrow> bool" where
  "scripted hs m \<longleftrightarrow>
     (\<forall>a. returns (mk_AuthApprove m) a [F_both (\<lambda>(ctx, user, nodeKey). go_result None \<circ> hs_AuthApprove hs ctx user nodeKey)]) \<and>
     (\<forall>a. returns (mk_CreatePreAuthKey m) a [F_both (\<lambda>(ctx, req). go_result None \<circ> hs_CreatePreAuthKey hs ctx req)]) \<and>
     (\<forall>a. returns (mk_DeleteNode m) a [F_error (\<lambda>(ctx, nid). go_error \<circ> hs_DeleteNode hs ctx nid)]) \<and>
     (\<forall>a. returns (mk_DeletePreAuthKey m) a [F_error (\<lambda>(ctx, nid). go_error \<circ> hs_DeletePreAuthKey hs ctx nid)]) \<and>
     (\<forall>a. returns (mk_DeleteUser m) a [F_error (\<lambda>(ctx, nid). go_error \<circ> hs_DeleteUser hs ctx nid)]) \<and>
     (\<forall>a. returns (mk_ExpireNode m) a [F_error (\<lambda>(ctx, nid). go_error \<circ> hs_ExpireNode hs ctx nid)]) \<and>
     (\<forall>a. returns (mk_ExpirePreAuthKey m) a [F_error (\<lambda>(ctx, nid). go_error \<circ> hs_ExpirePreAuthKey hs ctx nid)]) \<and>
     (\<forall>a. returns (mk_GetNode m) a [F_both (\<lambda>(ctx, nid). go_result None \<circ> hs_GetNode hs ctx nid)]) \<and>
     (\<forall>a. returns (mk_GetPolicy m) a [F_both (\<lambda>ctx. go_result [] \<circ> hs_GetPolicy hs ctx)]) \<and>
     (\<forall>a. returns (mk_ListNodes m) a [F_both (\<lambda>(ctx, user). go_result [] \<circ> hs_ListNodes hs ctx user)]) \<and>
     (\<forall>a. returns (mk_ListPreAuthKeys m) a [F_both (\<lambda>(ctx, user). go_result [] \<circ> hs_ListPreAuthKeys hs ctx user)]) \<and>
     (\<forall>a. returns (mk_ListUsers m) a [F_both (\<lambda>ctx. go_result [] \<circ> hs_ListUsers hs ctx)]) \<and>
     (\<forall>a. returns (mk_RenameNode m) a [F_both (\<lambda>(ctx, nid, name). go_result None \<circ> hs_RenameNode hs ctx nid name)]) \<and>
     (\<forall>a. returns (mk_SetApprovedRoutes m) a [F_both (\<lambda>(ctx, nid, routes). go_result None \<circ> hs_SetApprovedRoutes hs ctx nid routes)]) \<and>
     (\<forall>a. returns (mk_SetPolicy m) a [F_error (\<lambda>(ctx, policy). go_error \<circ> hs_SetPolicy hs ctx policy)]) \<and>
     (\<forall>a. returns (mk_SetTags m) a [F_both (\<lambda>(ctx, nid, tags). go_result None \<circ> hs_SetTags hs ctx nid tags)])"

lemma as_client_go [simp]:
  "as_client_result p (case go_result zero x of (r, s) \<Rightarrow> (Some r, s)) = x"
  "as_client_result p (case go_error y of (e, s) \<Rightarrow> (Some ((), e), s)) = y"
  by (auto simp: as_client_result_def go_result_def go_error_def split: prod.split sum.split)

text \<open>A mock scripted with a client is that client.\<close>

lemma scripted_mock_client:
  assumes "scripted hs m"
  shows "mock_client p m = hs"
  unfolding mock_client_def mock_method_defs
  by (rule HeadscaleClient.equality)
    (use assms [unfolded scripted_def returns_def arguments_ok_def] in
      \<open>simp_all add: fun_eq_iff mock_pair_def mock_string_def mock_error_def mock_r1_def\<close>)

text \<open>Such a mock exists.\<close>

definition answering :: "('a, 'r, 's) mock_value list \<Rightarrow> ('a, 'r, 's) mock_method" where
  "answering vs =
     \<lparr>mm_Called = (\<lambda>a s. (Some vs, s)),
      mm_Get = (\<lambda>ret i. if i < length ret then Some (ret ! i) else None),
      mm_Error = (\<lambda>ret i.
        if i < length ret then (case ret ! i of V_nil \<Rightarrow> Some None | V_error e \<Rightarrow> Some (Some e) | _ \<Rightarrow> None)
        else None)\<rparr>"

lemma returns_answering: "returns (answering vs) a vs"
  by (simp add: returns_def arguments_ok_def answering_def)

definition script :: "'s HeadscaleClient \<Rightarrow> 's MockHeadscaleClient" where
  "script hs =
     \<lparr>mk_AuthApprove = answering [F_both (\<lambda>(ctx, user, nodeKey). go_result None \<circ> hs_AuthApprove hs ctx user nodeKey)],
      mk_CreatePreAuthKey = answering [F_both (\<lambda>(ctx, req). go_result None \<circ> hs_CreatePreAuthKey hs ctx req)],
      mk_DeleteNode = answering [F_error (\<lambda>(ctx, nid). go_error \<circ> hs_DeleteNode hs ctx nid)],
      mk_DeletePreAuthKey = answering [F_error (\<lambda>(ctx, nid). go_error \<circ> hs_DeletePreAuthKey hs ctx nid)],
      mk_DeleteUser = answering [F_error (\<lambda>(ctx, nid). go_error \<circ> hs_DeleteUser hs ctx nid)],
      mk_ExpireNode = answering [F_error (\<lambda>(ctx, nid). go_error \<circ> hs_ExpireNode hs ctx nid)],
      mk_ExpirePreAuthKey = answering [F_error (\<lambda>(ctx, nid). go_error \<circ> hs_ExpirePreAuthKey hs ctx nid)],
      mk_GetNode = answering [F_both (\<lambda>(ctx, nid). go_result None \<circ> hs_GetNode hs ctx nid)],
      mk_GetPolicy = answering [F_both (\<lambda>ctx. go_result [] \<circ> hs_GetPolicy hs ctx)],
      mk_ListNodes = answering [F_both (\<lambda>(ctx, user). go_result [] \<circ> hs_ListNodes hs ctx user)],
      mk_ListPreAuthKeys = answering [F_both (\<lambda>(ctx, user). go_result [] \<circ> hs_ListPreAuthKeys hs ctx user)],
      mk_ListUsers = answering [F_both (\<lambda>ctx. go_result [] \<circ> hs_ListUsers hs ctx)],
      mk_RenameNode = answering [F_both (\<lambda>(ctx, nid, name). go_result None \<circ> hs_RenameNode hs ctx nid name)],
      mk_SetApprovedRoutes = answering [F_both (\<lambda>(ctx, nid, routes). go_result None \<circ> hs_SetApprovedRoutes hs ctx nid routes)],
      mk_SetPolicy = answering [F_error (\<lambda>(ctx, policy). go_error \<circ> hs_SetPolicy hs ctx policy)],
      mk_SetTags = answering [F_both (\<lambda>(ctx, nid, tags). go_result None \<circ> hs_SetTags hs ctx nid tags)]\<rparr>"

lemma scripted_script: "scripted hs (script hs)"
  by (simp add: scripted_def script_def returns_answering)

end
