(* ===== verification/Key_Store.thy ===== *)
theory Key_Store
  imports Keys
begin

text \<open>
  What the key endpoints are for: with a dedicated tailnet they are a map from identifiers to
  keys. The concrete side is the four handlers over \<open>GRPCClient\<close> over a headscale that
  answers; what such a headscale does to the keys it stores is a hypothesis (\<open>key_server\<close>).
  The abstract side is the map, which a look-up reads, a creation extends at a fresh
  identifier, and a deletion restricts.
\<close>

section \<open>A headscale that stores keys\<close>

definition others :: "u64 \<Rightarrow> PreAuthKey list \<Rightarrow> PreAuthKey list" where
  "others i ks = filter (\<lambda>k. k_Id k \<noteq> i) ks"

text \<open>
  The users do not change, and all stored keys are listed. A creation that succeeds stores an
  entry for the asked user under the new identifier that it answers; entry and answer may
  differ otherwise (the secret is shown once). The expiry and the deletion of a stored key
  succeed, and touch no other key.
\<close>

definition key_server ::
  "'s HeadscaleServiceClient \<Rightarrow> pbUser list \<Rightarrow> ('s \<Rightarrow> PreAuthKey list) \<Rightarrow> bool" where
  "key_server svc users stored \<longleftrightarrow> (\<forall>ctx w.
     rpc_ListUsers svc ctx w = (Inr users, w) \<and>
     rpc_ListPreAuthKeys svc ctx w = (Inr (stored w), w) \<and>
     (\<forall>q. case rpc_CreatePreAuthKey svc ctx q w of
        (Inl e, w') \<Rightarrow> stored w' = stored w
      | (Inr made, w') \<Rightarrow> \<exists>key entry u.
          made = Some key \<and> k_Id entry = k_Id key \<and> k_Id key \<notin> k_Id ` set (stored w) \<and>
          k_User entry = Some u \<and> u \<in> set users \<and> u_Id u = cr_User q \<and> stored w' = stored w @ [entry]) \<and>
     (\<forall>i \<in> k_Id ` set (stored w).
        (\<exists>w'. rpc_ExpirePreAuthKey svc ctx i w = (Inr (), w') \<and>
           i \<in> k_Id ` set (stored w') \<and> others i (stored w') = others i (stored w)) \<and>
        (\<exists>w'. rpc_DeletePreAuthKey svc ctx i w = (Inr (), w') \<and> stored w' = others i (stored w))))"

lemma key_server_calls:
  assumes "key_server svc users stored"
  shows "rpc_ListUsers svc ctx w = (Inr users, w)" and "rpc_ListPreAuthKeys svc ctx w = (Inr (stored w), w)"
    and "rpc_CreatePreAuthKey svc ctx q w = (Inl e, w') \<Longrightarrow> stored w' = stored w"
    and "rpc_CreatePreAuthKey svc ctx q w = (Inr made, w') \<Longrightarrow> \<exists>key entry u.
      made = Some key \<and> k_Id entry = k_Id key \<and> k_Id key \<notin> k_Id ` set (stored w) \<and>
      k_User entry = Some u \<and> u \<in> set users \<and> u_Id u = cr_User q \<and> stored w' = stored w @ [entry]"
    and "i \<in> k_Id ` set (stored w) \<Longrightarrow> \<exists>w'. rpc_ExpirePreAuthKey svc ctx i w = (Inr (), w') \<and>
      i \<in> k_Id ` set (stored w') \<and> others i (stored w') = others i (stored w)"
    and "i \<in> k_Id ` set (stored w) \<Longrightarrow> \<exists>w'. rpc_DeletePreAuthKey svc ctx i w = (Inr (), w') \<and>
      stored w' = others i (stored w)"
proof -
  note c = assms [unfolded key_server_def, rule_format, of ctx w]
  from c show "rpc_ListUsers svc ctx w = (Inr users, w)" "rpc_ListPreAuthKeys svc ctx w = (Inr (stored w), w)"
    by blast+
  note q = c [THEN conjunct2, THEN conjunct2, THEN conjunct1, rule_format, of q]
  from q show "rpc_CreatePreAuthKey svc ctx q w = (Inl e, w') \<Longrightarrow> stored w' = stored w" by simp
  from q show "rpc_CreatePreAuthKey svc ctx q w = (Inr made, w') \<Longrightarrow> \<exists>key entry u.
      made = Some key \<and> k_Id entry = k_Id key \<and> k_Id key \<notin> k_Id ` set (stored w) \<and>
      k_User entry = Some u \<and> u \<in> set users \<and> u_Id u = cr_User q \<and> stored w' = stored w @ [entry]" by simp
  from c show "i \<in> k_Id ` set (stored w) \<Longrightarrow> \<exists>w'. rpc_ExpirePreAuthKey svc ctx i w = (Inr (), w') \<and>
      i \<in> k_Id ` set (stored w') \<and> others i (stored w') = others i (stored w)"
    "i \<in> k_Id ` set (stored w) \<Longrightarrow> \<exists>w'. rpc_DeletePreAuthKey svc ctx i w = (Inr (), w') \<and>
      stored w' = others i (stored w)" by blast+
qed

section \<open>The map of a tailnet\<close>

definition tailnet_keys :: "('s \<Rightarrow> PreAuthKey list) \<Rightarrow> string \<Rightarrow> 's \<Rightarrow> string \<Rightarrow> PreAuthKey option" where
  "tailnet_keys stored name w = findKeyByID (filter (key_owned name) (stored w))"

lemma find_others:
  "findKeyByID (filter P (others i ks)) = (findKeyByID (filter P ks))(FormatUint i := None)"
proof
  fix s
  show "findKeyByID (filter P (others i ks)) s = ((findKeyByID (filter P ks))(FormatUint i := None)) s"
    by (induction ks) (auto simp: others_def findKeyByID_def)
qed

lemma find_snoc:
  assumes "k_Id e \<notin> k_Id ` set ks" and "P e"
  shows "findKeyByID (filter P (ks @ [e])) = (findKeyByID (filter P ks))(FormatUint (k_Id e) \<mapsto> e)"
    and "findKeyByID (filter P ks) (FormatUint (k_Id e)) = None"
proof -
  show "findKeyByID (filter P ks) (FormatUint (k_Id e)) = None"
    using assms(1) by (fastforce simp: findKeyByID_def find_None_all image_iff)
  show "findKeyByID (filter P (ks @ [e])) = (findKeyByID (filter P ks))(FormatUint (k_Id e) \<mapsto> e)"
  proof
    fix s
    show "findKeyByID (filter P (ks @ [e])) s = ((findKeyByID (filter P ks))(FormatUint (k_Id e) \<mapsto> e)) s"
      using assms by (induction ks) (auto simp: findKeyByID_def)
  qed
qed

lemma dom_findKeyByID: "dom (findKeyByID ks) = (\<lambda>k. FormatUint (k_Id k)) ` set ks"
proof -
  have "findKeyByID ks s \<noteq> None \<longleftrightarrow> s \<in> (\<lambda>k. FormatUint (k_Id k)) ` set ks" for s
    unfolding findKeyByID_def find_None_all by auto
  then show ?thesis by (simp add: dom_def set_eq_iff)
qed

section \<open>The handlers of a dedicated tailnet\<close>

text \<open>A handler that serves the tailnet \<open>name\<close>, one of headscale's users, and a request for it.\<close>

definition serves_tailnet ::
  "'s keysHandler \<Rightarrow> lib \<Rightarrow> 's GRPCClient \<Rightarrow> pbUser list \<Rightarrow> string \<Rightarrow> request \<Rightarrow> bool" where
  "serves_tailnet h L' c users name r \<longleftrightarrow>
     kh_hs h = grpc_client L' c \<and> kh_tailnetName h = name \<and> name \<noteq> ''-'' \<and> name \<noteq> [] \<and>
     name \<in> u_Name ` set users \<and> distinct (map u_Id users) \<and> URLParam r ''tailnet'' \<in> {''-'', name}"

lemma served_user:
  assumes "serves_tailnet h L' c users name r" and "key_server (gc_client c) users stored"
  shows "\<exists>user. user \<in> set users \<and> u_Name user = name \<and> (\<forall>k. with_user L h r \<sigma> k = k user \<sigma>)"
proof -
  from assms(1) have h: "kh_hs h = grpc_client L' c" "kh_tailnetName h = name" "name \<noteq> ''-''"
    "name \<in> u_Name ` set users" "URLParam r ''tailnet'' \<in> {''-'', name}"
    by (simp_all add: serves_tailnet_def)
  from h(4) have "find (\<lambda>u. u_Name u = name) users \<noteq> None" by (auto simp: find_None_all)
  then obtain user where f: "find (\<lambda>u. u_Name u = name) users = Some user" by blast
  with h have "resolve_user (kh_tailnetName h) (URLParam r ''tailnet'') users = Inr user"
    by (auto simp: resolve_user_Inr Let_def)
  moreover have "hs_ListUsers (kh_hs h) ctx w = (Inr users, w)" for ctx w
    by (simp add: h(1) grpc_client_def grpc_defs key_server_calls(1) [OF assms(2)])
  ultimately have "with_user L h r \<sigma> k = k user \<sigma>" for k
    by (simp add: with_user_def resolveTailnetUser_def call_def)
  with find_SomeD [OF f] show ?thesis by blast
qed

lemma owned_filter: "(\<lambda>k. (\<exists>u. k_User k = Some u) \<and> getter [] u_Name (k_User k) = name) = key_owned name"
  by (auto simp: key_owned_def fun_eq_iff)

lemma served_list:
  assumes "serves_tailnet h L' c users name r" and "key_server (gc_client c) users stored"
  shows "call (hs_ListPreAuthKeys (kh_hs h) ctx name) \<sigma> = (Inr (filter (key_owned name) (stored (world \<sigma>))), \<sigma>)"
  using assms(1)
  by (simp add: serves_tailnet_def grpc_client_def grpc_ListPreAuthKeys_def call_def
      key_server_calls(2) [OF assms(2)] owned_filter)

text \<open>Look-up and listing read the map.\<close>

lemma GetKey_map:
  assumes "serves_tailnet h L' c users name r" and "key_server (gc_client c) users stored"
  shows "GetKey L h r \<sigma> =
    (case tailnet_keys stored name (world \<sigma>) (URLParam r ''keyId'') of
       None \<Rightarrow> (writeError 404 (''key '' @ URLParam r ''keyId'' @ '' not found''), \<sigma>)
     | Some k \<Rightarrow> (writeJSON 200 (enc_Key (PreAuthKeyToKey L (Some k))), \<sigma>))"
proof -
  from served_user [OF assms, of L \<sigma>] obtain user where u: "u_Name user = name"
    "\<And>k. with_user L h r \<sigma> k = k user \<sigma>" by blast
  show ?thesis by (simp add: GetKey_def u served_list [OF assms] on_ok_def tailnet_keys_def Let_def)
qed

lemma ListKeys_map:
  assumes "serves_tailnet h L' c users name r" and "key_server (gc_client c) users stored"
  shows "\<exists>ks. ListKeys L h r \<sigma> = (writeJSON 200 (enc_KeyList \<lparr>kl_Keys = map (\<lambda>k. PreAuthKeyToKey L (Some k)) ks\<rparr>), \<sigma>) \<and>
    (\<lambda>k. FormatUint (k_Id k)) ` set ks = dom (tailnet_keys stored name (world \<sigma>))"
proof -
  from served_user [OF assms, of L \<sigma>] obtain user where u: "u_Name user = name"
    "\<And>k. with_user L h r \<sigma> k = k user \<sigma>" by blast
  show ?thesis
    by (rule exI [of _ "filter (key_owned name) (stored (world \<sigma>))"])
      (simp only: ListKeys_def u served_list [OF assms] on_ok_def tailnet_keys_def dom_findKeyByID Let_def
        prod.case sum.case simp_thms)
qed

text \<open>A deletion takes the identifier out of the map.\<close>

lemma DeleteKey_map:
  assumes "serves_tailnet h L' c users name r" and "key_server (gc_client c) users stored"
  shows "Status (fst (DeleteKey L h r \<sigma>)) =
      (if tailnet_keys stored name (world \<sigma>) (URLParam r ''keyId'') = None then 404 else 200) \<and>
    tailnet_keys stored name (world (snd (DeleteKey L h r \<sigma>))) =
      (tailnet_keys stored name (world \<sigma>))(URLParam r ''keyId'' := None)"
proof -
  let ?V = "tailnet_keys stored name" and ?id = "URLParam r ''keyId''" and ?ks = "filter (key_owned name) (stored (world \<sigma>))"
  from served_user [OF assms, of L \<sigma>] obtain user where u: "u_Name user = name"
    "\<And>k. with_user L h r \<sigma> k = k user \<sigma>" by blast
  note found = served_list [OF assms] tailnet_keys_def
  show ?thesis
  proof (cases "?V (world \<sigma>) ?id")
    case None
    then show ?thesis by (simp add: DeleteKey_def u found on_ok_def Let_def fun_upd_idem)
  next
    case (Some k)
    then have f: "findKeyByID ?ks ?id = Some k" by (simp add: tailnet_keys_def)
    from findKeyByID_Some [OF f] have k: "k_Id k \<in> k_Id ` set (stored (world \<sigma>))" "?id = FormatUint (k_Id k)"
      by auto
    let ?ctx = "withAPIKey L' c (Context r)"
    from key_server_calls(5) [OF assms(2) k(1)] obtain w1 where
      w1: "rpc_ExpirePreAuthKey (gc_client c) ?ctx (k_Id k) (world \<sigma>) = (Inr (), w1)"
        "k_Id k \<in> k_Id ` set (stored w1)" "others (k_Id k) (stored w1) = others (k_Id k) (stored (world \<sigma>))" by blast
    from key_server_calls(6) [OF assms(2) w1(2)] obtain w2 where
      w2: "rpc_DeletePreAuthKey (gc_client c) ?ctx (k_Id k) w1 = (Inr (), w2)" "stored w2 = others (k_Id k) (stored w1)"
      by blast
    from assms(1) have "kh_hs h = grpc_client L' c" by (simp add: serves_tailnet_def)
    with w1(1) w2(1) have
      "call (hs_ExpirePreAuthKey (kh_hs h) (Context r) (k_Id k)) \<sigma> = (Inr (), \<sigma>\<lparr>world := w1\<rparr>)"
      "call (hs_DeletePreAuthKey (kh_hs h) (Context r) (k_Id k)) (\<sigma>\<lparr>world := w1\<rparr>) = (Inr (), \<sigma>\<lparr>world := w2\<rparr>)"
      by (simp_all add: grpc_client_def grpc_ExpirePreAuthKey_def grpc_DeletePreAuthKey_def call_def)
    with f have "DeleteKey L h r \<sigma> = (WriteHeader 200, \<sigma>\<lparr>world := w2\<rparr>)"
      by (simp add: DeleteKey_def u served_list [OF assms] on_ok_def Let_def)
    moreover have "?V w2 = (?V (world \<sigma>))(?id := None)"
      by (simp add: tailnet_keys_def w2(2) w1(3) find_others k(2))
    ultimately show ?thesis using Some by simp
  qed
qed

text \<open>A creation that succeeds adds the key it answers at a fresh identifier; another one changes nothing.\<close>

lemma CreateKey_map:
  assumes "serves_tailnet h L' c users name r" and "key_server (gc_client c) users stored"
  shows "if Status (fst (CreateKey L now h r \<sigma>)) = 200
    then \<exists>key entry. fst (CreateKey L now h r \<sigma>) = writeJSON 200 (enc_Key (PreAuthKeyToKey L (Some key))) \<and>
      k_Id entry = k_Id key \<and> tailnet_keys stored name (world \<sigma>) (FormatUint (k_Id key)) = None \<and>
      tailnet_keys stored name (world (snd (CreateKey L now h r \<sigma>))) =
        (tailnet_keys stored name (world \<sigma>))(FormatUint (k_Id key) \<mapsto> entry)
    else tailnet_keys stored name (world (snd (CreateKey L now h r \<sigma>))) = tailnet_keys stored name (world \<sigma>)"
proof -
  from served_user [OF assms, of L \<sigma>] obtain user where u: "user \<in> set users" "u_Name user = name"
    "\<And>k. with_user L h r \<sigma> k = k user \<sigma>" by blast
  from assms(1) have h: "kh_hs h = grpc_client L' c" and d: "distinct (map u_Id users)"
    by (simp_all add: serves_tailnet_def)
  show ?thesis
  proof (cases "decode_body dec_CreateKeyRequest zero_CreateKeyRequest r")
    case None
    then show ?thesis by (simp add: CreateKey_def u(3))
  next
    case (Some req)
    let ?q = "KeyRequestToCreatePreAuthKeyRequest L now req (u_Id user)"
    obtain res w where c: "rpc_CreatePreAuthKey (gc_client c) (withAPIKey L' c (Context r)) ?q (world \<sigma>) = (res, w)"
      by fastforce
    then have call: "call (hs_CreatePreAuthKey (kh_hs h) (Context r) ?q) \<sigma> = (res, \<sigma>\<lparr>world := w\<rparr>)"
      by (cases res) (simp_all add: h grpc_client_def grpc_CreatePreAuthKey_def call_def)
    show ?thesis
    proof (cases res)
      case (Inl e)
      from key_server_calls(3) [OF assms(2)] c Inl have "stored w = stored (world \<sigma>)" by blast
      with Inl Some call show ?thesis
        by (simp add: CreateKey_def u(3) on_ok_def Let_def tailnet_keys_def frame_simps writeGRPCError_not_200
            del: writeGRPCError_response)
    next
      case (Inr made)
      from key_server_calls(4) [OF assms(2) c [unfolded Inr]] obtain key entry v where
        m: "made = Some key" "k_Id entry = k_Id key" "k_Id key \<notin> k_Id ` set (stored (world \<sigma>))"
          "k_User entry = Some v" "v \<in> set users" "u_Id v = cr_User ?q" "stored w = stored (world \<sigma>) @ [entry]"
        by blast
      have "u_Id v = u_Id user" using m(6) by (simp add: KeyRequestToCreatePreAuthKeyRequest_def Let_def)
      with d u(1) m(5) have "v = user" by (simp add: distinct_map inj_on_def)
      with m(4) u(2) have "key_owned name entry" by (simp add: key_owned_def)
      with find_snoc [of entry "stored (world \<sigma>)" "key_owned name"] m(2,3,7) have
        "tailnet_keys stored name w = (tailnet_keys stored name (world \<sigma>))(FormatUint (k_Id key) \<mapsto> entry)"
        "tailnet_keys stored name (world \<sigma>) (FormatUint (k_Id key)) = None"
        by (simp_all add: tailnet_keys_def)
      with Inr Some call m(1,2) show ?thesis
        by (auto simp: CreateKey_def u(3) on_ok_def Let_def)
    qed
  qed
qed

end
