(* ===== verification/Scenario.thy ===== *)
theory Scenario
  imports Routes Deployment Lifecycle Wire Key_Cache Mock_Client Key_Store
begin

text \<open>
  A concrete surroundings for the examples that show the hypotheses of the properties can
  hold: a headscale with one user whose state is its list of keys, a router for it, and
  requests. Nothing here models code of the repository.
\<close>

definition ex_lib :: lib where
  "ex_lib =
     \<lparr>AppendToOutgoingContext = (\<lambda>ctx k v. (k, v) # ctx),
      code_String = (\<lambda>c. if c = NotFound then ''NotFound'' else ''Unknown''),
      AsTime = (\<lambda>ts. ts_seconds ts * 1000000000 + ts_nanos ts),
      timestamppb_New = (\<lambda>t. \<lparr>ts_seconds = t div 1000000000, ts_nanos = t mod 1000000000\<rparr>)\<rparr>"

definition ex_error :: grpc_error where
  "ex_error = \<lparr>status_code = NotFound, err_text = ''no such thing''\<rparr>"

definition ex_user :: pbUser where
  "ex_user = \<lparr>u_Id = 1, u_Name = ''alice'', u_CreatedAt = None, u_DisplayName = [], u_ProfilePicUrl = []\<rparr>"

definition ex_key :: PreAuthKey where
  "ex_key = \<lparr>k_User = Some ex_user, k_Id = 7, k_Key = ''abc'', k_Reusable = False, k_Ephemeral = False,
     k_Used = False, k_Expiration = None, k_CreatedAt = None, k_AclTags = None\<rparr>"

definition ex_node :: Node where
  "ex_node = \<lparr>n_Id = 42, n_Name = ''box'', n_NodeKey = ''nk'', n_IpAddresses = None, n_User = Some ex_user,
     n_LastSeen = None, n_Expiry = None, n_Online = True, n_ApprovedRoutes = None,
     n_AvailableRoutes = None, n_Tags = None\<rparr>"

type_synonym ex_world = "PreAuthKey list"

definition ex_service :: "ex_world HeadscaleServiceClient" where
  "ex_service =
     \<lparr>rpc_ListNodes = (\<lambda>ctx u w. (Inr [ex_node], w)),
      rpc_GetNode = (\<lambda>ctx i w. (if i = 42 then Inr (Some ex_node) else Inl ex_error, w)),
      rpc_DeleteNode = (\<lambda>ctx i w. (Inl ex_error, w)),
      rpc_ExpireNode = (\<lambda>ctx i w. (Inl ex_error, w)),
      rpc_RenameNode = (\<lambda>ctx i n w. (Inl ex_error, w)),
      rpc_SetTags = (\<lambda>ctx i ts w. (Inl ex_error, w)),
      rpc_SetApprovedRoutes = (\<lambda>ctx i rs w. (Inl ex_error, w)),
      rpc_RegisterNode = (\<lambda>ctx u k w. (Inl ex_error, w)),
      rpc_ListPreAuthKeys = (\<lambda>ctx w. (Inr w, w)),
      rpc_CreatePreAuthKey = (\<lambda>ctx q w. (Inl ex_error, w)),
      rpc_ExpirePreAuthKey = (\<lambda>ctx i w. (Inr (), w)),
      rpc_DeletePreAuthKey = (\<lambda>ctx i w. (Inr (), filter (\<lambda>k. k_Id k \<noteq> i) w)),
      rpc_ListUsers = (\<lambda>ctx w. (Inr [ex_user], w)),
      rpc_DeleteUser = (\<lambda>ctx i w. (Inr (), w)),
      rpc_GetPolicy = (\<lambda>ctx w. (Inl \<lparr>status_code = Unknown, err_text = ''dial''\<rparr>, w)),
      rpc_SetPolicy = (\<lambda>ctx p w. (Inr (), w))\<rparr>"

definition ex_grpc :: "ex_world GRPCClient" where
  "ex_grpc = \<lparr>gc_client = ex_service, gc_apiKey = ''hskey''\<rparr>"

definition ex_hs :: "ex_world HeadscaleClient" where
  "ex_hs = grpc_client ex_lib ex_grpc"

lemmas ex_grpc_defs = ex_hs_def grpc_client_def grpc_defs withAPIKey_def ex_grpc_def ex_service_def

definition ex_router :: "ex_world Router" where
  "ex_router = NewRouter ex_hs ''alice'' ''hskey'' ''cid'' ''sec'' ''hmac''
     \<lparr>wif_Enabled = False, wif_IssuerURL = [], wif_Audience = [], wif_ClientID = []\<rparr>"

definition ex_chi :: "string \<Rightarrow> string \<Rightarrow> chi_match" where
  "ex_chi m p =
     (if m = ''POST'' \<and> p = ''/oauth/token'' then
        \<lparr>cm_outcome = RootRoute E_OAuthToken, cm_params = [], cm_pattern = p\<rparr>
      else if m = ''GET'' \<and> p = ''/api/v2/tailnet/-/devices'' then
        \<lparr>cm_outcome = ApiRoute E_ListDevices, cm_params = [(''tailnet'', ''-'')],
         cm_pattern = ''/api/v2/tailnet/{tailnet}/devices''\<rparr>
      else if m = ''GET'' \<and> p = ''/api/v2/tailnet/-/settings'' then
        \<lparr>cm_outcome = ApiRoute (Stub reason_settings), cm_params = [(''tailnet'', ''-'')],
         cm_pattern = ''/api/v2/tailnet/{tailnet}/settings''\<rparr>
      else \<lparr>cm_outcome = RootNotFound, cm_params = [], cm_pattern = []\<rparr>)"

definition ex_deps :: "ex_world deps" where
  "ex_deps =
     \<lparr>d_lib = ex_lib,
      d_http = \<lparr>NewRequest = (\<lambda>_. True), Do_Get = (\<lambda>_ w. (None, w))\<rparr>,
      d_chi = ex_chi,
      d_notFound = \<lparr>Status = 404, ContentType = None, RespBody = TextBody ''404 page not found''\<rparr>,
      d_methodNotAllowed = \<lparr>Status = 405, ContentType = None, RespBody = NoBody\<rparr>,
      d_promhttp = (\<lambda>_ _ _ _. \<lparr>Status = 200, ContentType = None, RespBody = NoBody\<rparr>),
      d_wif_text = (\<lambda>_. [])\<rparr>"

definition ex_request :: "string \<Rightarrow> string \<Rightarrow> (string \<times> string) list \<Rightarrow> (string \<times> string) list \<Rightarrow> request" where
  "ex_request m p hdrs form =
     \<lparr>Method = m, Path = p, Headers = hdrs, FormErr = False, Form = form, URLParams = [],
      RoutePattern = None, Body = None, RemoteAddr = ''10.0.0.1:1234'', ReqID = ''r1'', Context = []\<rparr>"

text \<open>A token request with the right credentials, and an API request with a bearer token.\<close>

definition ex_issue :: request where
  "ex_issue = ex_request ''POST'' ''/oauth/token'' []
     [(''client_id'', ''cid''), (''client_secret'', ''sec''), (''grant_type'', ''client_credentials'')]"

definition ex_bearer :: "string \<Rightarrow> request" where
  "ex_bearer tok = ex_request ''GET'' ''/api/v2/tailnet/-/devices'' [(''Authorization'', ''Bearer '' @ tok)] []"

definition ex_nonce :: bytes where
  "ex_nonce = ''0123456789abcdef0123456789abcdef''"

definition ex_token :: string where
  "ex_token = (case generateToken ''hmac'' (Some ex_nonce) of Some t \<Rightarrow> t | None \<Rightarrow> [])"

definition ex_readings :: "time \<Rightarrow> readings" where
  "ex_readings t =
     \<lparr>in_start = t, in_auth = t, in_rand = Some ex_nonce, in_issue = t, in_key = t,
      in_wif = \<lparr>t_cache = t, t_fetch = t, t_claims = t\<rparr>, in_stop = t\<rparr>"

lemma ex_token: "generateToken ''hmac'' (Some ex_nonce) = Some ex_token"
  by (simp add: ex_token_def generateToken_def Let_def)

section \<open>A run that issues a token\<close>

definition ex_served :: "ex_world sys" where
  "ex_served = (initial [ex_key] 0)
     \<lparr>sys_st := snd (ServeHTTP ex_deps ex_router (ex_readings 0) ex_issue (initial_state [ex_key]))\<rparr>"

definition ex_label :: label where
  "ex_label = Serve (ex_readings 0) ex_issue
     (fst (ServeHTTP ex_deps ex_router (ex_readings 0) ex_issue (initial_state [ex_key])))"

lemma ex_step: "step ex_deps ex_router (initial [ex_key] 0) ex_label ex_served"
  unfolding ex_label_def ex_served_def
  by (rule step.serve) (simp_all add: initial_def readings_ok_def ex_readings_def)

lemma ex_run: "run ex_deps ex_router (initial [ex_key] 0) [ex_label] ex_served"
  using run_snoc [OF run_Nil ex_step] by simp

lemma ex_issue_credentials: "parseOAuthCredentials ex_issue = Some (''cid'', ''sec'')"
  by (simp add: ex_issue_def ex_request_def parseOAuthCredentials_def BasicAuth_def first_value_def)

lemma ex_issue_fields:
  "Form ex_issue = [(''client_id'', ''cid''), (''client_secret'', ''sec''), (''grant_type'', ''client_credentials'')]"
  "Method ex_issue = ''POST''" "Path ex_issue = ''/oauth/token''"
  by (simp_all add: ex_issue_def ex_request_def)

lemma ex_issue_ok:
  "parseOAuthCredentials r = Some (''cid'', ''sec'') \<Longrightarrow> Form r = Form ex_issue \<Longrightarrow>
   OAuthTokenHandler ''cid'' ''sec'' ''hmac'' (Some ex_nonce) t r \<sigma> =
     issueToken ''hmac'' (Some ex_nonce) t \<sigma>"
  by (simp add: OAuthTokenHandler_def ex_issue_fields first_value_def)

lemma ex_served_tokens: "tokens (sys_st ex_served) = [ex_token \<mapsto> \<lparr>expiry = 3600000000000\<rparr>]"
  by (simp add: ex_served_def initial_def ServeHTTP_routed middleware_frame routeHTTP_def
      ex_deps_def ex_chi_def ex_issue_fields ex_issue_credentials ex_issue_ok ex_router_def
      NewRouter_def ex_readings_def issueToken_def ex_token oauthTokenTTL_def initial_state_def
      newTokenStore_def store_def)

lemma ex_token_presented: "presentedToken (ex_bearer ex_token) = ex_token"
  by (rule bearer_presented)
    (simp_all add: ex_bearer_def ex_request_def first_value_def generateToken_graphic [OF ex_token]
      generateToken_not_Nil [OF ex_token])

lemma ex_token_not_key: "ex_token \<noteq> ''hskey''"
proof
  assume "ex_token = ''hskey''"
  moreover have "cut_at (CHR ''.'') ''hskey'' = None" by simp
  ultimately show False using generateToken_cut [OF ex_token] by (metis option.distinct(1))
qed

lemma ex_router_fields [simp]:
  "ro_headscaleAPIKey ex_router = ''hskey''" "ro_hmacSecret ex_router = ''hmac''"
  "ro_hs ex_router = ex_hs" "ro_tailnetName ex_router = ''alice''" "ro_wifValidator ex_router = None"
  "ro_clientID ex_router = ''cid''" "ro_clientSecret ex_router = ''sec''"
  by (simp_all add: ex_router_def NewRouter_def)

lemma ex_bearer_authorized:
  "now \<le> 3600000000000 \<Longrightarrow> authorized ''hskey'' now (ex_bearer ex_token) (tokens (sys_st ex_served))"
  by (simp add: authorized_def ex_token_presented generateToken_not_Nil [OF ex_token]
      ex_served_tokens lookup_def)

text \<open>Afterwards the store is purged, and the token stays.\<close>

definition ex_purged :: "ex_world sys" where
  "ex_purged = ex_served\<lparr>purging := None,
     sys_st := (sys_st ex_served)\<lparr>tokens := purge 0 [ex_token] (tokens (sys_st ex_served))\<rparr>\<rparr>"

lemma ex_served_clock: "clock_now ex_served = 0" "purging ex_served = None"
  by (simp_all add: ex_served_def initial_def)

lemma ex_purge_run: "run ex_deps ex_router ex_served [PurgeTick, PurgeRun [ex_token]] ex_purged"
proof -
  let ?m = "ex_served\<lparr>purging := Some 0\<rparr>"
  have 1: "step ex_deps ex_router ex_served PurgeTick ?m"
    using step.purge_tick [of ex_served ex_deps ex_router] by (simp add: ex_served_clock)
  have 2: "step ex_deps ex_router ?m (PurgeRun [ex_token]) ex_purged"
    using step.purge_run [of ?m 0 "[ex_token]" ex_deps ex_router]
    by (simp add: ex_purged_def ex_served_tokens ranges_over_def)
  show ?thesis
    using run_snoc [OF run_snoc [OF run_Nil 1] 2] by simp
qed

section \<open>A JWT that is accepted\<close>

text \<open>The key is chosen after the signature (\<open>some_key_verifies\<close>), so nothing is to be factored.\<close>

definition dq :: string where
  "dq = [CHR 0x22]"

definition ex_header_json :: string where
  "ex_header_json = ''{'' @ dq @ ''alg'' @ dq @ '':'' @ dq @ ''RS256'' @ dq @ '','' @ dq @ ''kid'' @ dq @ '':''
     @ dq @ ''k1'' @ dq @ ''}''"

definition ex_claims_json :: string where
  "ex_claims_json = ''{'' @ dq @ ''iss'' @ dq @ '':'' @ dq @ ''https://idp'' @ dq @ '','' @ dq @ ''exp'' @ dq @ '':90''
     @ '','' @ dq @ ''aud'' @ dq @ '':['' @ dq @ ''hs'' @ dq @ '']}''"

definition ex_p0 :: string where "ex_p0 = RawURLEncode ex_header_json"

definition ex_p1 :: string where "ex_p1 = RawURLEncode ex_claims_json"

definition ex_digest :: bytes where "ex_digest = Sum256 (ex_p0 @ ''.'' @ ex_p1)"

definition ex_p2 :: string where "ex_p2 = RawURLEncode (FillBytes 128 (some_root ex_digest))"

definition ex_jwt :: string where "ex_jwt = ex_p0 @ ''.'' @ ex_p1 @ ''.'' @ ex_p2"

definition ex_claims :: JWTClaims where
  "ex_claims = \<lparr>Issuer = ''https://idp'', Subject = [], Audience = JArr [JStr ''hs''], ExpiresAt = 90, IssuedAt = 0\<rparr>"

definition ex_validator :: OIDCValidator where
  "ex_validator = NewOIDCValidator ''https://idp/'' ''hs'' ''cid''"

definition ex_keys :: "string \<rightharpoonup> publicKey" where
  "ex_keys = [''k1'' \<mapsto> RSAKey (some_key ex_digest)]"

lemma ex_header_of: "header_of ex_p0 = Some \<lparr>Alg = ''RS256'', hdr_Kid = ''k1''\<rparr>"
proof -
  have "Option.bind (json_Unmarshal ex_header_json) (\<lambda>j. dec_jwt_header j \<lparr>Alg = [], hdr_Kid = []\<rparr>) =
    Some \<lparr>Alg = ''RS256'', hdr_Kid = ''k1''\<rparr>" by code_simp
  then show ?thesis by (simp add: header_of_def ex_p0_def)
qed

lemma ex_claims_of: "claims_of ex_p1 = Some ex_claims"
proof -
  have "Option.bind (json_Unmarshal ex_claims_json) (\<lambda>j. dec_JWTClaims j zero_JWTClaims) = Some ex_claims"
    by code_simp
  then show ?thesis by (simp add: claims_of_def ex_p1_def)
qed

lemma ex_validator: "ex_validator = \<lparr>issuerURL = ''https://idp'', audience = ''hs'', clientID = ''cid''\<rparr>"
  by code_simp

lemma ex_jwt_split: "SplitN ex_jwt (CHR ''.'') 3 = [ex_p0, ex_p1, ex_p2]"
  using RawURLEncode_no_dot
  by (simp add: ex_jwt_def ex_p0_def ex_p1_def numeral_3_eq_3)

lemma ex_jwt_valid: "Unix now \<le> 90 \<Longrightarrow> valid_jwt ex_validator now ex_keys ex_jwt ex_claims"
proof -
  assume now: "Unix now \<le> 90"
  have v: "verifySignature ''RS256'' (RSAKey (some_key ex_digest)) (ex_p0 @ ''.'' @ ex_p1)
      (FillBytes 128 (some_root ex_digest)) = None"
    using some_key_verifies [of ex_digest] by (simp add: verifySignature_def ex_digest_def)
  have c: "AudienceContains ex_claims ''hs''" "ExpiresAt ex_claims = 90" "Issuer ex_claims = ''https://idp''"
    by code_simp+
  have "RawURLDecode ex_p2 = Some (FillBytes 128 (some_root ex_digest))" by (simp add: ex_p2_def)
  with v now c show ?thesis
    by (simp add: valid_jwt_def ex_jwt_split ex_header_of ex_keys_def ex_claims_of ex_validator)
qed

text \<open>The state that holds the issuer's keys, fetched at the epoch.\<close>

definition ex_cached :: "ex_world sys_st" where
  "ex_cached = (initial_state [])\<lparr>jwks := Some \<lparr>keys = ex_keys, fetchedAt = 0\<rparr>\<rparr>"

definition ex_http :: "ex_world http_client" where
  "ex_http = \<lparr>NewRequest = (\<lambda>_. True), Do_Get = (\<lambda>_ w. (None, w))\<rparr>"

definition ex_clock :: "int \<Rightarrow> clock" where
  "ex_clock t = \<lparr>t_cache = t, t_fetch = t, t_claims = t\<rparr>"

lemma ex_validates: "Validate ex_http ex_validator (ex_clock 60) ex_jwt ex_cached = (Inr ex_claims, ex_cached)"
  by (rule Validate_cached [where c = "\<lparr>keys = ex_keys, fetchedAt = 0\<rparr>"])
    (simp_all add: ex_cached_def ex_clock_def ex_jwt_valid Unix_def)

text \<open>A token request that carries the JWT.\<close>

definition ex_exchange :: request where
  "ex_exchange = ex_request ''POST'' ''/oauth/token-exchange'' []
     [(''client_id'', ''cid''), (''grant_type'', ''client_credentials''), (''jwt'', ex_jwt)]"

lemma ex_exchange_ok:
  "TokenExchangeHandler (Some (Validate ex_http ex_validator (ex_clock 60))) txt ''hmac'' ''cid''
     (Some ex_nonce) 60 ex_exchange ex_cached = issueToken ''hmac'' (Some ex_nonce) 60 ex_cached"
proof -
  have f: "FormValue ex_exchange ''grant_type'' = ''client_credentials''"
    "FormValue ex_exchange ''client_id'' = ''cid''" "FormValue ex_exchange ''jwt'' = ex_jwt"
    "BasicAuth ex_exchange = None"
    by (simp_all add: ex_exchange_def ex_request_def first_value_def BasicAuth_def)
  have "ex_jwt \<noteq> []" by (simp add: ex_jwt_def)
  with f show ?thesis by (simp add: TokenExchangeHandler_def ex_validates)
qed

section \<open>Requests of the handlers\<close>

definition ex_params :: "(string \<times> string) list \<Rightarrow> string option \<Rightarrow> request" where
  "ex_params ps b = (ex_request ''GET'' ''/'' [] [])\<lparr>URLParams := ps, Body := b\<rparr>"

lemma ex_params_fields [simp]:
  "URLParams (ex_params ps b) = ps" "Body (ex_params ps b) = b" "Context (ex_params ps b) = []"
  by (simp_all add: ex_params_def ex_request_def)

definition ex_keysHandler :: "ex_world keysHandler" where
  "ex_keysHandler = \<lparr>kh_hs = ex_hs, kh_tailnetName = ''alice''\<rparr>"

lemma ex_keysHandler_fields [simp]:
  "kh_hs ex_keysHandler = ex_hs" "kh_tailnetName ex_keysHandler = ''alice''"
  by (simp_all add: ex_keysHandler_def)

lemma initial_state_fields [simp]:
  "world (initial_state w) = w" "tokens (initial_state w) = newTokenStore" "jwks (initial_state w) = None"
  by (simp_all add: initial_state_def)

definition ex_devicesHandler :: "ex_world devicesHandler" where
  "ex_devicesHandler = \<lparr>dh_hs = ex_hs, dh_tailnetName = ''alice''\<rparr>"

lemma ex_devicesHandler_fields [simp]: "dh_hs ex_devicesHandler = ex_hs"
  by (simp add: ex_devicesHandler_def)

lemma ex_hs_calls:
  "hs_ListUsers ex_hs ctx w = (Inr [ex_user], w)"
  "hs_ListPreAuthKeys ex_hs ctx ''alice'' [ex_key] = (Inr [ex_key], [ex_key])"
  "hs_ExpirePreAuthKey ex_hs ctx i w = (Inr (), w)"
  "hs_DeletePreAuthKey ex_hs ctx i w = (Inr (), filter (\<lambda>k. k_Id k \<noteq> i) w)"
  "hs_GetNode ex_hs ctx 42 w = (Inr (Some ex_node), w)"
  "hs_DeleteUser ex_hs ctx i w = (Inr (), w)"
  by (simp_all add: ex_grpc_defs ex_key_def ex_user_def)

lemma ex_find: "findKeyByID [ex_key] ''7'' = Some ex_key"
proof -
  have "FormatUint (k_Id ex_key) = ''7''" by code_simp
  then show ?thesis by (simp add: findKeyByID_def)
qed

lemma ex_resolve: "resolve_user ''alice'' ''alice'' [ex_user] = Inr ex_user"
  by code_simp

lemma ex_delete_200:
  "DeleteKey ex_lib ex_keysHandler (ex_params [(''tailnet'', ''alice''), (''keyId'', ''7'')] None)
     (initial_state [ex_key]) = (WriteHeader 200, initial_state [])"
proof -
  have n: "u_Name ex_user = ''alice''" "k_Id ex_key = 7" by (simp_all add: ex_user_def ex_key_def)
  show ?thesis
    by (simp add: DeleteKey_def with_user_def resolveTailnetUser_def call_def
        ex_hs_calls first_value_def ex_resolve n ex_find) (simp add: initial_state_def)
qed

section \<open>A process that starts\<close>

definition ex_config :: Config where
  "ex_config =
     \<lparr>ListenAddr = '':8080'', HeadscaleAddr = ''hs:50443'', HeadscaleAPIKey = ''hskey'', TailnetName = ''alice'',
      OAuthHMACSecret = ''hmac'', OAuthClientID = ''cid'', OAuthClientSecret = ''sec'', TLSCert = ''cert.pem'',
      TLSKey = [], WIFEnabled = False, WIFIssuerURL = [], WIFAudience = [], WIFClientID = [],
      LogLevel = ''info'', LogAddSource = False, Environment = ''test''\<rparr>"

definition ex_host :: "(unit, ex_world) host" where
  "ex_host =
     \<lparr>h_args = [''headtotails''], h_env = (), h_Process = (\<lambda>_. Inr ex_config),
      h_NewClient = (\<lambda>_. Inr ex_service), h_LoadX509KeyPair = (\<lambda>_ _. None)\<rparr>"

lemma ex_config_valid: "validate_config ex_config = None"
proof -
  have "is_graphic (CHR ''h'')" "is_graphic (CHR ''c'')" "is_graphic (CHR ''s'')" "is_graphic (CHR ''d'')"
    "is_graphic (CHR ''y'')" by code_simp+
  then show ?thesis by (simp add: validate_config_None ex_config_def TrimSpace_graphic)
qed

lemma ex_starts: "\<exists>srv. main_start ex_lib (\<lambda>s. s) ''v1'' ex_host = Serving srv \<and>
    ro_headscaleAPIKey (srv_Router srv) = ''hskey''"
  by (simp add: main_start_def ex_host_def shouldPrintVersion_def Load_def ex_config_valid
      New_GRPCClient_def Let_def) (simp add: ex_config_def NewRouter_def)

section \<open>A service that looks at the metadata\<close>

definition ex_strict_service :: "ex_world HeadscaleServiceClient" where
  "ex_strict_service = ex_service\<lparr>rpc_ListUsers := \<lambda>ctx w.
     (if (''authorization'', ''Bearer hskey'') \<in> set ctx then Inr [ex_user] else Inl ex_error, w)\<rparr>"

lemma ex_strict_agrees: "agree_on (authorized_ctxs ''hskey'') ex_service ex_strict_service"
  by (auto simp: agree_on_def authorized_ctxs_def ex_strict_service_def ex_service_def fun_eq_iff)

lemma routes_toI: "route m p ep \<in> set rts \<Longrightarrow> routes_to rts m ep"
  unfolding routes_to_def by (rule bexI [of _ "route m p ep"]) (simp_all add: route_def)

lemma ex_deps_chi: "chi_sound (d_chi ex_deps)"
proof -
  have "route ''POST'' ''/oauth/token'' E_OAuthToken \<in> set root_routes"
    "route ''GET'' ''/tailnet/{tailnet}/devices'' E_ListDevices \<in> set api_routes"
    "route ''GET'' ''/tailnet/{tailnet}/settings'' (Stub reason_settings) \<in> set api_routes"
    by (simp_all add: root_routes_def api_routes_def)
  from this [THEN routes_toI] show ?thesis by (simp add: chi_sound_def ex_deps_def ex_chi_def)
qed

section \<open>An issuer that publishes a new key\<close>

text \<open>The state of the network is how often the keys were fetched; the first time there are none.\<close>

definition ex_jwk :: json where
  "ex_jwk = JObj [(''kty'', JStr ''EC''), (''kid'', JStr ''k2''), (''crv'', JStr ''P-256''),
     (''x'', JStr ''AQ''), (''y'', JStr ''AQ'')]"

definition ex_doc :: "nat \<Rightarrow> jwks_doc" where
  "ex_doc n = \<lparr>Keys = Some (if n = 0 then [] else [ex_jwk])\<rparr>"

definition ex_jwks_text :: "nat \<Rightarrow> string" where
  "ex_jwks_text n = json_Encode (JObj [(''keys'', JArr (if n = 0 then [] else [ex_jwk]))])"

definition ex_idp :: "nat http_client" where
  "ex_idp = \<lparr>NewRequest = (\<lambda>_. True), Do_Get = (\<lambda>url n.
     if url = ''https://idp/keys''
     then (Some \<lparr>hr_StatusCode = 200, hr_Body = Some (ex_jwks_text n)\<rparr>, Suc n)
     else (Some \<lparr>hr_StatusCode = 200,
             hr_Body = Some (json_Encode (JObj [(''jwks_uri'', JStr ''https://idp/keys'')]))\<rparr>, n))\<rparr>"

lemma ex_discovers: "discoverJWKSURI ex_idp ex_validator \<sigma> = (Inr ''https://idp/keys'', \<sigma>)"
proof -
  have "Option.bind (json_Decode (json_Encode (JObj [(''jwks_uri'', JStr ''https://idp/keys'')])))
      (\<lambda>j. dec_discovery j \<lparr>JWKSURI = []\<rparr>) = Some \<lparr>JWKSURI = ''https://idp/keys''\<rparr>" by code_simp
  then show ?thesis by (simp add: discoverJWKSURI_def ex_validator call_def ex_idp_def)
qed

lemma ex_doc_parsed:
  "Option.bind (json_Unmarshal (LimitReader 1048576 (ex_jwks_text n))) (\<lambda>j. dec_jwks j \<lparr>Keys = None\<rparr>) =
   Some (ex_doc n)"
proof -
  define j where "j = JObj [(''keys'', JArr (if n = 0 then [] else [ex_jwk]))]"
  have l: "length (ex_jwks_text 0) < 200" "length (ex_jwks_text 1) < 200" by code_simp+
  have t: "ex_jwks_text n = (if n = 0 then ex_jwks_text 0 else ex_jwks_text 1)" by (simp add: ex_jwks_text_def)
  have "length (ex_jwks_text n) < 200" by (subst t) (simp add: l del: One_nat_def)
  then have "LimitReader 1048576 (ex_jwks_text n) = ex_jwks_text n" unfolding LimitReader_def by simp
  moreover have "ex_jwks_text n = json_Encode j" unfolding ex_jwks_text_def j_def by (rule refl)
  moreover have "ints_only j" "int (json_depth j) \<le> maxNestingDepth"
    by (simp_all add: j_def ex_jwk_def maxNestingDepth_def)
  moreover have d: "dec_jwks (to_valid_json (JObj [(''keys'', JArr [])])) \<lparr>Keys = None\<rparr> = Some (ex_doc 0)"
    "dec_jwks (to_valid_json (JObj [(''keys'', JArr [ex_jwk])])) \<lparr>Keys = None\<rparr> = Some (ex_doc 1)"
    by code_simp+
  have "dec_jwks (to_valid_json j) \<lparr>Keys = None\<rparr> = Some (ex_doc n)"
  proof (cases "n = 0")
    case True
    then have "j = JObj [(''keys'', JArr [])]" by (simp add: j_def)
    with d(1) True show ?thesis by (simp only:)
  next
    case False
    then have "j = JObj [(''keys'', JArr [ex_jwk])]" "ex_doc n = ex_doc 1" by (simp_all add: j_def ex_doc_def)
    with d(2) show ?thesis by (simp only:)
  qed
  ultimately show ?thesis by (simp only: json_Unmarshal_Encode Option.bind.bind_lunit)
qed

lemma ex_fetches:
  "fetchJWKS ex_idp ''https://idp/keys'' \<sigma> = (Inr (ex_doc (world \<sigma>)), \<sigma>\<lparr>world := Suc (world \<sigma>)\<rparr>)"
  using ex_doc_parsed [of "world \<sigma>"] by (simp add: fetchJWKS_def call_def ex_idp_def)

lemma ex_doc_keys: "jwks_of_doc (ex_doc 0) ''k2'' = None" "jwks_of_doc (ex_doc 1) ''k2'' \<noteq> None"
proof -
  show "jwks_of_doc (ex_doc 0) ''k2'' = None" by code_simp
  have d: "dec_jwk ex_jwk zero_jwk = Some \<lparr>Kty = ''EC'', Kid = ''k2'', jwk_N = [], jwk_E = [],
      Crv = ''P-256'', jwk_X = ''AQ'', jwk_Y = ''AQ''\<rparr>" by code_simp
  have "''AQ'' = RawURLEncode [CHR 0x01]"
    by (simp add: RawURLEncode_def sextet_def encodeURL_def Let_def)
  then have "RawURLDecode ''AQ'' = Some [CHR 0x01]" by simp
  then have "parseECPublicKey ''P-256'' ''AQ'' ''AQ'' \<noteq> None" by (simp add: parseECPublicKey_def)
  with d show "jwks_of_doc (ex_doc 1) ''k2'' \<noteq> None"
    by (auto simp: jwks_of_doc_def ex_doc_def add_jwk_def)
qed

definition ex_quiet :: "(nat, unit) cache_sys" where
  "ex_quiet =
     \<lparr>shared = \<lparr>world = 0, grpcErrorsTotal = (\<lambda>_. 0), slog = [], tokens = newTokenStore, jwks = None\<rparr>,
      tasks = Map.empty, docs = []\<rparr>"

text \<open>
  Two requests want the new key. The second one fetches the keys first, the first one after it;
  the first one replaces the cache, then the second one does.
\<close>

definition ex_before :: "turn_label list" where
  "ex_before = [Arrive 1 ''k2'', Arrive 2 ''k2'', Move 1 0, Move 2 0, Move 1 0, Move 2 0, Move 2 0, Move 1 0]"

definition ex_after :: "turn_label list" where
  "ex_after = [Move 1 0, Move 2 0, Move 1 0]"

lemma ex_race:
  "\<exists>s1 s2. exec_turns ex_idp ex_validator ex_quiet ex_before = Some s1 \<and>
     tasks s1 1 = Some (Install ''k2'' (ex_doc 1)) \<and> tasks s1 2 = Some (Install ''k2'' (ex_doc 0)) \<and>
     docs s1 = [ex_doc 0, ex_doc 1] \<and>
     exec_turns ex_idp ex_validator s1 ex_after = Some s2 \<and>
     tasks s2 1 = Some (Returned ''k2'' (Inl (KidNotFound ''k2''))) \<and>
     jwks (shared s2) = Some \<lparr>keys = jwks_of_doc (ex_doc 0), fetchedAt = 0\<rparr>"
  by (simp add: ex_before_def ex_after_def ex_quiet_def cached_key_def ex_discovers ex_fetches
      fetched_by_def storeJWKS_def ex_doc_keys)

lemma ex_quiet: "quiet ex_quiet"
  by (simp add: quiet_def ex_quiet_def)

text \<open>One request alone finds the key when the cache has it.\<close>

lemma ex_found:
  "\<exists>s key. exec_turns ex_idp ex_validator ex_quiet
       (Arrive 3 [] # replicate 5 (Move 3 0) @ Arrive 1 ''k2'' # replicate 5 (Move 1 0)) = Some s \<and>
     tasks s 1 = Some (Returned ''k2'' (Inr key))"
proof -
  obtain key where key: "jwks_of_doc (ex_doc 1) ''k2'' = Some key" using ex_doc_keys(2) by auto
  have n: "jwks_of_doc (ex_doc 0) [] = None" by code_simp
  show ?thesis
    by (simp add: ex_quiet_def cached_key_def ex_discovers ex_fetches fetched_by_def storeJWKS_def
        ex_doc_keys key [simplified] n numeral_eq_Suc)
qed

section \<open>A key that is created\<close>

definition ex_create :: request where
  "ex_create = ex_params [(''tailnet'', ''alice'')] (Some ''{}'')"

definition ex_creator :: "ex_world keysHandler" where
  "ex_creator = \<lparr>kh_hs = ex_hs\<lparr>hs_CreatePreAuthKey := \<lambda>ctx q w. (Inr (Some ex_key), ex_key # w)\<rparr>,
     kh_tailnetName = ''alice''\<rparr>"

lemma ex_create_200: "Status (fst (CreateKey ex_lib 0 ex_creator ex_create (initial_state []))) = 200"
proof -
  have "Option.bind (json_Decode ''{}'') (\<lambda>j. dec_CreateKeyRequest j zero_CreateKeyRequest) \<noteq> None" by code_simp
  then obtain req where "decode_body dec_CreateKeyRequest zero_CreateKeyRequest ex_create = Some req"
    by (auto simp: decode_body_def ex_create_def split: Option.bind_splits)
  moreover have "hs_ListUsers (kh_hs ex_creator) ctx w = (Inr [ex_user], w)" for ctx w
    by (simp add: ex_creator_def ex_hs_calls)
  ultimately show ?thesis
    by (simp add: CreateKey_def with_user_def resolveTailnetUser_def call_def Let_def)
      (simp add: ex_creator_def ex_create_def first_value_def ex_resolve)
qed

section \<open>A headscale that makes one more key\<close>

definition ex_minted :: PreAuthKey where
  "ex_minted = ex_key\<lparr>k_Id := 8\<rparr>"

definition ex_minter :: "ex_world GRPCClient" where
  "ex_minter = \<lparr>gc_client = ex_service\<lparr>rpc_CreatePreAuthKey := \<lambda>ctx q w.
       if 8 \<in> k_Id ` set w \<or> cr_User q \<noteq> 1 then (Inl ex_error, w) else (Inr (Some ex_minted), w @ [ex_minted])\<rparr>,
     gc_apiKey = ''hskey''\<rparr>"

lemma ex_minter_keys: "key_server (gc_client ex_minter) [ex_user] (\<lambda>w. w)"
proof -
  have m: "k_Id ex_minted = 8" "k_User ex_minted = Some ex_user" "u_Id ex_user = 1"
    by (simp_all add: ex_minted_def ex_key_def ex_user_def)
  then show ?thesis by (auto simp: key_server_def ex_minter_def ex_service_def others_def)
qed

definition ex_minter_handler :: "ex_world keysHandler" where
  "ex_minter_handler = \<lparr>kh_hs = grpc_client ex_lib ex_minter, kh_tailnetName = ''alice''\<rparr>"

lemma ex_minter_serves:
  "serves_tailnet ex_minter_handler ex_lib ex_minter [ex_user] ''alice''
     (ex_params [(''tailnet'', ''alice''), (''keyId'', ''7'')] None)"
  by (simp add: serves_tailnet_def ex_minter_handler_def ex_user_def first_value_def)

section \<open>Routing by the table, configuration by the tags\<close>

definition table_deps :: "ex_world deps" where
  "table_deps = ex_deps\<lparr>d_chi := table_chi\<rparr>"

lemma table_deps_contract: "chi_contract (d_chi table_deps)"
  by (simp add: table_deps_def table_chi_contract)

lemma ex_bearer_request:
  "request_for (route ''GET'' ''/tailnet/{tailnet}/devices'' E_ListDevices) [''-''] (ex_bearer tok)"
proof -
  have "api_path (route ''GET'' ''/tailnet/{tailnet}/devices'' E_ListDevices) [''-''] = ''/api/v2/tailnet/-/devices''"
    "length (api_params (route ''GET'' ''/tailnet/{tailnet}/devices'' E_ListDevices)) = 1" by code_simp+
  moreover have "route ''GET'' ''/tailnet/{tailnet}/devices'' E_ListDevices \<in> set api_routes"
    by (simp add: api_routes_def)
  ultimately show ?thesis by (simp add: request_for_def ex_bearer_def ex_request_def) (simp add: route_def)
qed

definition harness_host :: "HeadapiInContainer \<Rightarrow> (environ, ex_world) host" where
  "harness_host h =
     \<lparr>h_args = [''headtotails''], h_env = container_env Map.empty h, h_Process = some_Process,
      h_NewClient = (\<lambda>_. Inr ex_service), h_LoadX509KeyPair = (\<lambda>_ _. None)\<rparr>"

lemma harness_host_contract: "envconfig_contract (h_Process (harness_host h))"
  by (simp add: harness_host_def some_Process_contract)

end
