(* ===== verification/Gen_Docs.thy ===== *)
theory Gen_Docs
  imports Metrics
begin

text \<open>
  The search for the repository root of \<open>cmd/gen-metrics-docs\<close>, over \<open>path/filepath\<close> on Unix.
  The loop is a \<open>partial_function\<close>, so that not returning would be \<open>None\<close>; the file system is
  the arguments \<open>stat\<close> and \<open>WriteFile\<close>.
\<close>

section \<open>Paths\<close>

fun split_on :: "char \<Rightarrow> string \<Rightarrow> string list" where
  "split_on c [] = [[]]"
| "split_on c (x # xs) =
     (if x = c then [] # split_on c xs
      else (case split_on c xs of [] \<Rightarrow> [[x]] | w # ws \<Rightarrow> (x # w) # ws))"

text \<open>One element of a path, on the stack of those kept (the last one first).\<close>

definition clean_step :: "bool \<Rightarrow> string \<Rightarrow> string list \<Rightarrow> string list" where
  "clean_step rooted w stack =
     (if w = [] \<or> w = ''.'' then stack
      else if w = ''..'' then
        (case stack of
           [] \<Rightarrow> if rooted then [] else [w]
         | d # rest \<Rightarrow> if d = ''..'' then w # stack else rest)
      else w # stack)"

definition Clean :: "string \<Rightarrow> string" where
  "Clean path =
     (if path = [] then ''.''
      else
        (let rooted = (hd path = CHR ''/'');
             out = Join (rev (fold (clean_step rooted) (split_on (CHR ''/'') path) [])) ''/''
         in if rooted then CHR ''/'' # out else if out = [] then ''.'' else out))"

definition Dir :: "string \<Rightarrow> string" where
  "Dir path = Clean (rev (dropWhile (\<lambda>c. c \<noteq> CHR ''/'') (rev path)))"

definition Join_path :: "string \<Rightarrow> string \<Rightarrow> string" where
  "Join_path a b = (if a = [] then (if b = [] then [] else Clean b) else Clean (a @ ''/'' @ b))"

section \<open>The loop\<close>

text \<open>\<open>Some None\<close> is the error \<open>ErrNotExist\<close>.\<close>

partial_function (option) findRepoRoot_from :: "(string \<Rightarrow> bool) \<Rightarrow> string \<Rightarrow> string option option" where
  "findRepoRoot_from stat dir =
     (if stat (Join_path dir ''go.mod'') then Some (Some dir)
      else
        let parent = Dir dir
        in if parent = dir then Some None else findRepoRoot_from stat parent)"

definition findRepoRoot :: "string option \<Rightarrow> (string \<Rightarrow> bool) \<Rightarrow> string option option" where
  "findRepoRoot getwd stat =
     (case getwd of None \<Rightarrow> Some None | Some dir \<Rightarrow> findRepoRoot_from stat dir)"

text \<open>The program: the document below the root, or a fatal error.\<close>

datatype gen_docs_outcome = NoRepoRoot | WriteFailed string string | Written string string

definition gen_docs_main ::
  "string option \<Rightarrow> (string \<Rightarrow> bool) \<Rightarrow> (string \<Rightarrow> string \<Rightarrow> string option) \<Rightarrow> gen_docs_outcome option" where
  "gen_docs_main getwd stat WriteFile =
     (case findRepoRoot getwd stat of
        None \<Rightarrow> None
      | Some None \<Rightarrow> Some NoRepoRoot
      | Some (Some repoRoot) \<Rightarrow>
          (let outPath = Join_path repoRoot ''docs/metrics.md'';
               content = RenderMetricsMarkdown
           in case WriteFile outPath content of
                Some err \<Rightarrow> Some (WriteFailed outPath err)
              | None \<Rightarrow> Some (Written outPath content)))"

section \<open>Absolute paths\<close>

definition proper :: "string \<Rightarrow> bool" where
  "proper w \<longleftrightarrow> w \<noteq> [] \<and> w \<noteq> ''.'' \<and> w \<noteq> ''..'' \<and> CHR ''/'' \<notin> set w"

definition abs_path :: "string list \<Rightarrow> string" where
  "abs_path ws = CHR ''/'' # Join ws ''/''"

lemma split_on_word: "c \<notin> set w \<Longrightarrow> split_on c w = [w]"
  by (induction w) auto

lemma split_on_append: "c \<notin> set w \<Longrightarrow> split_on c (w @ c # s) = w # split_on c s"
  by (induction w) auto

lemma split_on_Join:
  "ws \<noteq> [] \<Longrightarrow> \<forall>w \<in> set ws. c \<notin> set w \<Longrightarrow> split_on c (Join ws [c]) = ws"
proof (induction ws)
  case (Cons w ws)
  then show ?case by (cases ws) (simp_all add: split_on_word split_on_append)
qed simp

lemma Join_snoc: "ws \<noteq> [] \<Longrightarrow> Join (ws @ [w]) sep = Join ws sep @ sep @ w"
proof (induction ws)
  case (Cons x xs)
  then show ?case by (cases xs) simp_all
qed simp

lemma fold_clean: "list_all proper ws \<Longrightarrow> fold (clean_step rooted) ws stack = rev ws @ stack"
  by (induction ws arbitrary: stack) (auto simp: clean_step_def proper_def)

lemma split_abs_path:
  assumes "list_all proper ws"
  shows "fold (clean_step True) (split_on (CHR ''/'') (abs_path ws)) [] = rev ws"
proof (cases "ws = []")
  case True
  then show ?thesis by (simp add: abs_path_def clean_step_def)
next
  case False
  have "split_on (CHR ''/'') (Join ws ''/'') = ws"
    using False assms by (intro split_on_Join) (auto simp: list_all_iff proper_def)
  then show ?thesis using fold_clean [OF assms] by (simp add: abs_path_def clean_step_def)
qed

lemma Clean_abs_path: "list_all proper ws \<Longrightarrow> Clean (abs_path ws) = abs_path ws"
  using split_abs_path [of ws] by (simp add: Clean_def abs_path_def Let_def)

lemma split_on_not_Nil: "split_on c s \<noteq> []"
  by (induction s) (auto split: list.split)

lemma split_on_snoc: "split_on c (s @ [c]) = split_on c s @ [[]]"
  using split_on_not_Nil by (induction s) (auto split: list.split)

lemma Clean_abs_path_slash: "list_all proper ws \<Longrightarrow> Clean (abs_path ws @ ''/'') = abs_path ws"
  using split_abs_path [of ws] split_on_snoc [of "CHR ''/''" "abs_path ws"]
  by (simp add: Clean_def abs_path_def Let_def clean_step_def)

lemma Dir_snoc:
  assumes "list_all proper (ws @ [w])"
  shows "Dir (abs_path (ws @ [w])) = abs_path ws"
proof -
  have w: "CHR ''/'' \<notin> set w" and ws: "list_all proper ws" using assms by (auto simp: proper_def)
  have cut: "rev (dropWhile (\<lambda>c. c \<noteq> CHR ''/'') (rev (s @ CHR ''/'' # w))) = s @ ''/''" for s
    using w by (subst rev_append, subst rev.simps(2), subst append_assoc, subst dropWhile_append2) auto
  show ?thesis
  proof (cases "ws = []")
    case True
    with cut [of "[]"] Clean_abs_path [of "[]"] show ?thesis
      by (simp add: Dir_def abs_path_def)
  next
    case False
    then have "abs_path (ws @ [w]) = abs_path ws @ CHR ''/'' # w"
      by (simp add: abs_path_def Join_snoc)
    with cut [of "abs_path ws"] Clean_abs_path_slash [OF ws] show ?thesis by (simp only: Dir_def)
  qed
qed

lemma Dir_root: "Dir (abs_path []) = abs_path []"
  using Clean_abs_path [of "[]"] by (simp add: Dir_def abs_path_def)

lemma Join_path_abs:
  assumes "list_all proper ws"
  shows "Join_path (abs_path ws) ''go.mod'' = abs_path (ws @ [''go.mod''])"
proof (cases "ws = []")
  case True
  then show ?thesis by (simp add: Join_path_def abs_path_def Clean_def clean_step_def)
next
  case False
  then have "abs_path ws @ ''/'' @ ''go.mod'' = abs_path (ws @ [''go.mod''])"
    by (simp add: abs_path_def Join_snoc)
  with assms Clean_abs_path [of "ws @ [''go.mod'']"] show ?thesis
    by (simp add: Join_path_def proper_def) (simp add: abs_path_def)
qed

lemma abs_path_inject_snoc: "w \<noteq> [] \<Longrightarrow> abs_path (ws @ [w]) \<noteq> abs_path ws"
  by (cases "ws = []") (auto simp: abs_path_def Join_snoc)

text \<open>
  Ancestors of a directory, itself first. The loop returns, with the first one that holds a
  \<open>go.mod\<close>, and with the error only if none does.
\<close>

definition ancestors :: "string list \<Rightarrow> string list list" where
  "ancestors ws = map (\<lambda>n. take n ws) (rev [0..<Suc (length ws)])"

lemma ancestors_snoc: "ancestors (ws @ [w]) = (ws @ [w]) # ancestors ws"
  by (auto simp: ancestors_def)

lemma findRepoRoot_from_eq:
  assumes "list_all proper ws"
  shows "findRepoRoot_from stat (abs_path ws) =
    Some (map_option abs_path (find (\<lambda>a. stat (abs_path (a @ [''go.mod'']))) (ancestors ws)))"
  using assms
proof (induction ws rule: rev_induct)
  case Nil
  then show ?case
    using Join_path_abs [of "[]"] Dir_root
    by (subst findRepoRoot_from.simps) (simp add: ancestors_def Let_def)
next
  case (snoc w ws)
  have "proper w" using snoc.prems by simp
  then have "abs_path ws \<noteq> abs_path (ws @ [w])"
    using abs_path_inject_snoc [of w ws] by (auto simp: proper_def)
  with snoc Join_path_abs [OF snoc.prems] Dir_snoc [OF snoc.prems] show ?case
    by (subst findRepoRoot_from.simps) (simp add: ancestors_snoc Let_def)
qed

end
