(* ===== verification/Spec2Isabelle.thy ===== *)
theory Spec2Isabelle
  imports Scenario Gen_Docs
begin

text \<open>
  A verification of headtotails, a proxy that serves the Tailscale REST API on top of a
  headscale control server. It authenticates HTTP requests, translates them to gRPC calls and
  translates the answers back.

  \<^bold>\<open>The program and the theories.\<close> A request passes the metrics and the logging middleware, is
  matched by the router, is authenticated if it is below \<open>/api/v2\<close>, and reaches a handler, which
  calls headscale. Two token endpoints fill a store of tokens, which a background purge empties.

    \<^item> \<open>Prelude\<close>: named collections, facts on lists. Conventions: a Go string is a list of bytes, a
      \<open>uint64\<close> a \<open>64 word\<close>, a slice whose nil-ness shows in JSON a list option, \<open>(T, error)\<close> a sum.
    \<^item> \<open>Go_Strings\<close>, \<open>Go_Base64\<close>, \<open>Go_Time\<close>, \<open>Go_Json\<close>, \<open>Go_Json_Text\<close>, \<open>Go_Crypto\<close>: what the source uses
      of Go's standard library, as definitions that compute: trimming and splitting, \<open>strconv\<close>
      with its overflow checks, base64, \<open>time.Duration\<close> as \<open>int64\<close> and RFC 3339 printing, JSON
      parsing and printing, SHA-256, HMAC, the verification of RSA (PKCS 1 v1.5) and ECDSA
      (ASN.1) signatures. A reading of the clock is an \<open>int\<close> of nanoseconds. \<open>Go_Json_Roundtrip\<close>
      shows that the parser reads back what the printer prints, whatever the strings are.
    \<^item> \<open>Model\<close> (\<open>internal/model\<close>): the REST types, their JSON encoders and decoders.
    \<^item> \<open>Headscale\<close> (\<open>internal/headscale/client.go\<close>): the messages, the client interface as a record
      of operations on an unknown state \<open>'s\<close>, and \<open>GRPCClient\<close>, which implements it over a stub.
      \<open>Mock_Client\<close> (\<open>mock_client.go\<close>) is the other implementation, which the tests script.
    \<^item> \<open>Translate\<close> (\<open>internal/translate\<close>): messages to REST types and back.
    \<^item> \<open>Http\<close> (\<open>errors.go\<close>, \<open>logging_helpers.go\<close>): requests, responses, the state every handler
      shares (\<open>world\<close>, the counter of upstream errors, the log), error responses.
    \<^item> \<open>Devices\<close>, \<open>Keys\<close>, \<open>Users\<close>, \<open>Policy\<close>: the eighteen handlers, in the order of the files.
      \<open>Key_Store\<close>: the key handlers as a map, over a headscale that stores keys.
    \<^item> \<open>Token_Store\<close> and \<open>Auth\<close> (\<open>auth.go\<close>): the store with its purge, tokens, the token endpoint,
      the bearer middleware. \<open>Wif\<close> (\<open>wif.go\<close>): JWT validation, the key cache, the exchange endpoint.
      \<open>Key_Cache\<close>: \<open>getKey\<close> once more, as the moves that overlapping requests interleave.
    \<^item> \<open>Config\<close>, \<open>Logging\<close>, \<open>Metrics\<close>: \<open>config.go\<close>, \<open>logger.go\<close>, and \<open>metrics.go\<close> with the catalog and
      its document.
    \<^item> \<open>Router\<close> (\<open>router.go\<close>): the table of routes, the middleware chain, \<open>ServeHTTP\<close>. \<open>Wire\<close>: the
      types of the documents that the routes answer with, and what reading them back gives.
    \<^item> \<open>Startup\<close> and \<open>Lifecycle\<close> (\<open>cmd/headtotails\<close>): \<open>main\<close> up to the server, and its two goroutines
      from there to the exit code.
    \<^item> \<open>System\<close>: the running process as a step relation with labels; \<open>Effects\<close>: what requests read,
      change and count; \<open>Routes\<close>: the table of routes against the paths of requests.
    \<^item> \<open>Gen_Docs\<close> (\<open>cmd/gen-metrics-docs\<close>), \<open>Haic\<close> (\<open>integration/haic\<close>); \<open>Deployment\<close>: the tags of the
      configuration, and the server that the environment of a container makes.
    \<^item> \<open>Scenario\<close>: concrete surroundings for the witnesses; it models no code.

  \<^bold>\<open>State.\<close> The state is one extensible record: \<open>st\<close> (\<open>world\<close>, \<open>grpcErrorsTotal\<close>, \<open>slog\<close>), extended by
  \<open>auth_st\<close> with the token store, by \<open>wif_st\<close> with the key cache, by \<open>sys_st\<close> with the request metrics;
  a component works on the record that has just its fields and is polymorphic in the rest.
  \<open>sys\<close> adds the clock and the purge that may be under way. A handler maps a request and a state
  to a response and a state. What a request reads of the clock and of the random source is an
  argument (\<open>readings\<close>), one field for each call in the source.

  \<^bold>\<open>Interfaces.\<close> Locales state what one component relies on in another, and each is interpreted on
  the model's own definitions: \<open>encoding\<close> (decimal numbers, raw base64), \<open>token_store\<close> (the Go map),
  \<open>headscale_client\<close> (\<open>GRPCClient\<close>), \<open>jwt_validator\<close> (\<open>OIDCValidator\<close>).

  \<^bold>\<open>What is shown.\<close> C1 to C6: authentication below \<open>/api/v2\<close>, over all runs of the process, purges
  interleaved: what is let in was issued, what was issued is let in and gets to every route, down to
  a refinement of a specification that only knows grants. C7 to C11, C33 to C35: the token endpoints
  and JWT validation, sound and, on a fresh cache, complete; where it departs from the standards. C12
  and C13: each route is reached, and GET only reads. C14 to C17, C31, C32: the key endpoints as a map,
  tenant isolation, what is asked of headscale, the expiry of keys with its overflow. C18, C20, C21: the
  types of answers, their text, and documents posted back. C19, C24, C30: the key cache when requests
  overlap. C22, C40: the clients of headscale. C23, C29, C25: metrics and redaction. C26 to C28: start,
  configuration and exit. C36, C37: identifiers, the policy. C38, C39: tools. Findings among them: C17,
  C29, C30, C32, C33, C34, C36, C37. The theorems without a number are as much part of the development.

  \<^bold>\<open>Fuel and termination.\<close> The JSON parser takes the length of its input as fuel, and
  \<open>parse_value_fuel\<close> shows that more changes nothing. Two loops of the program are partial
  functions with None for a run that does not end, \<open>findRepoRoot_from\<close> and \<open>wait_loop\<close>; C38 and C39 show
  that they end. All other recursion is structural or has a measure.

  \<^bold>\<open>Parameters.\<close> Code outside the repository is an argument: the gRPC stub, the metadata and
  timestamp functions of gRPC and protobuf (\<open>lib\<close>), the HTTP client, \<open>chi\<close>'s matching and its two
  default answers and the Prometheus exposition (\<open>deps\<close>), \<open>envconfig\<close>, the loading of
  certificates, the file system, Docker, \<open>testify\<close>. What is assumed of them has a name. \<open>chi_sound\<close>, of
  C13: the router runs a handler only for a route of the table and its method. \<open>chi_contract\<close>, of C5,
  C12 and C29: besides, it runs one where a route matches, and passes on the values of the parameters.
  \<open>key_server\<close>, of C14: what a headscale that answers does to its keys. \<open>envconfig_contract\<close>, of C27: what a
  tag makes of an environment. \<open>table_chi\<close>, \<open>ex_minter\<close> and \<open>some_Process\<close> keep these contracts.

  \<^bold>\<open>Not modelled.\<close> In \<open>System\<close> a request is one step of the process, at the moment it touches the
  token store; the one place where requests share state across calls to the network, the key cache,
  is taken apart in \<open>Key_Cache\<close>. Left out are the panics that \<open>Recoverer\<close> turns into a 500,
  \<open>RequestID\<close> and \<open>RealIP\<close> (the request is as they leave it), the sockets, timeouts and draining
  of \<open>net/http\<close>, the Prometheus registry, and the lower-case tables of Unicode (an argument; ASCII
  is exact). Of \<open>mock_client.go\<close> only the registration of clean-up with the test is left out;
  \<open>model.Policy\<close> and \<open>TokenStoreKey\<close> have no use in the program.
\<close>

section \<open>Authentication and tokens\<close>

text \<open>C1. Below \<open>/api/v2\<close>, whatever the path, a request without a valid token is answered 401
  and reaches nothing: not headscale, not the token store, not the key cache, not a counter of
  upstream errors.\<close>

theorem api_requires_token:
  assumes "cm_outcome (d_chi D (Method r) (Path r)) \<in> range ApiRoute \<union> {ApiNotFound, ApiMethodNotAllowed}"
    and "\<not> authorized (ro_headscaleAPIKey ro) (in_auth i) r (tokens \<sigma>)"
  shows "Status (fst (ServeHTTP D ro i r \<sigma>)) = 401 \<and>
    world (snd (ServeHTTP D ro i r \<sigma>)) = world \<sigma> \<and>
    tokens (snd (ServeHTTP D ro i r \<sigma>)) = tokens \<sigma> \<and>
    jwks (snd (ServeHTTP D ro i r \<sigma>)) = jwks \<sigma> \<and>
    grpcErrorsTotal (snd (ServeHTTP D ro i r \<sigma>)) = grpcErrorsTotal \<sigma>"
proof -
  have "\<not> authorized (ro_headscaleAPIKey ro) (in_auth i) (routed D r) (tokens \<sigma>)"
    using assms(2) by (simp add: authorized_def)
  with assms(1) show ?thesis
    by (auto simp: ServeHTTP_routed middleware_frame routeHTTP_def serve_api_def BearerAuthMiddleware_eq)
qed

theorem api_requires_token_witness:
  "Status (fst (ServeHTTP ex_deps ex_router (ex_readings 0)
     (ex_request ''GET'' ''/api/v2/tailnet/-/devices'' [] []) (initial_state []))) = 401"
  using api_requires_token [of ex_deps "ex_request ''GET'' ''/api/v2/tailnet/-/devices'' [] []"
      ex_router "ex_readings 0" "initial_state []"]
  by (simp add: ex_deps_def ex_chi_def ex_request_def authorized_def presentedToken_def
      extractBearerToken_def BasicAuth_def first_value_def)



text \<open>C3. Invariant of every run, purges under way included: each stored token is a nonce with
  its HMAC under the configured secret, and expires at most an hour after the present.\<close>

theorem stored_tokens_are_signed:
  assumes "run D ro (initial w t) ls s"
  shows "store_ok (ro_hmacSecret ro) s"
  by (rule run_store_ok [OF assms initial_store_ok])

theorem stored_tokens_are_signed_witness: "store_ok ''hmac'' ex_served"
  using stored_tokens_are_signed [OF ex_run] by simp



text \<open>C7. The token endpoint answers 200 exactly when the client's credentials are the
  configured ones, the grant is \<open>client_credentials\<close> and the random source works; otherwise the
  state is untouched. A 200 carries the token it has stored for an hour.\<close>

theorem oauth_token_endpoint:
  fixes \<sigma> :: "('s, 'm) auth_st_scheme"
  shows "(Status (fst (OAuthTokenHandler cid cs secret rand now r \<sigma>)) = 200 \<longleftrightarrow>
      parseOAuthCredentials r = Some (cid, cs) \<and> FormValue r ''grant_type'' = ''client_credentials'' \<and>
      rand \<noteq> None) \<and>
    OAuthTokenHandler cid cs secret rand now r \<sigma> \<in>
      {(writeError n m, \<sigma>) | n m. n \<in> {400, 401, 500}} \<union>
      {(writeJSON 200 (JObj [(''access_token'', JStr tok), (''token_type'', JStr ''Bearer''),
          (''expires_in'', JNum ''3600'')]),
        \<sigma>\<lparr>tokens := (tokens \<sigma>)(tok \<mapsto> \<lparr>expiry = now + 3600000000000\<rparr>)\<rparr>) | tok.
        generateToken secret rand = Some tok}"
proof -
  have g: "generateToken secret rand = None \<longleftrightarrow> rand = None"
    by (simp add: generateToken_def Let_def split: option.split)
  show ?thesis
  proof (cases "parseOAuthCredentials r")
    case None
    then show ?thesis by (simp add: OAuthTokenHandler_def)
  next
    case (Some ab)
    then show ?thesis
      using g by (cases ab; cases "generateToken secret rand") (auto simp: OAuthTokenHandler_def issueToken_eq Let_def)
  qed
qed

text \<open>C5. A client that logs in gets to every route for an hour. With \<open>chi\<close> as documented, a request to the
  token endpoint, under either path, with the right credentials is answered with a token; from then on,
  after any run of requests and purges that ends within the hour, a request for any route of the table,
  with any values of its parameters, that carries the token is answered by that route's handler.\<close>

theorem client_gets_to_every_route:
  assumes "chi_contract (d_chi D)" and "run D ro (initial w t) ls s"
    and "Method r0 = ''POST''" and "Path r0 \<in> {''/oauth/token'', ''/api/v2/oauth/token''}"
    and "parseOAuthCredentials r0 = Some (ro_clientID ro, ro_clientSecret ro)"
    and "FormValue r0 ''grant_type'' = ''client_credentials''"
    and "generateToken (ro_hmacSecret ro) (in_rand i0) = Some tok"
    and "step D ro s (Serve i0 r0 resp) s1"
    and "run D ro s1 ls' s'" and "\<not> list_ex (reissues ro tok) ls'" and "clock_now s' \<le> in_issue i0 + 3600000000000"
    and "request_for rt args r" and "Header_Get r ''Authorization'' = ''Bearer '' @ tok"
    and "in_auth i \<le> in_issue i0 + 3600000000000"
  shows "resp = writeJSON 200 (JObj [(''access_token'', JStr tok), (''token_type'', JStr ''Bearer''),
      (''expires_in'', JNum ''3600'')]) \<and>
    fst (ServeHTTP D ro i r (sys_st s')) = fst (serve_endpoint D ro i (rt_Endpoint rt) (routed D r) (sys_st s')) \<and>
    (\<forall>(k, v) \<in> set (zip (api_params rt) args). URLParam (routed D r) k = v)"
proof -
  from assms(8) obtain \<sigma>' where "ServeHTTP D ro i0 r0 (sys_st s) = (resp, \<sigma>')" and s1: "sys_st s1 = \<sigma>'"
    by (rule step_ServeE) simp
  with login_served [OF assms(1,3-7), of "sys_st s"] have
    a: "resp = writeJSON 200 (JObj [(''access_token'', JStr tok), (''token_type'', JStr ''Bearer''), (''expires_in'', JNum ''3600'')])"
    and tok: "tokens (sys_st s1) tok = Some \<lparr>expiry = in_issue i0 + 3600000000000\<rparr>" by simp_all
  have "store_ok (ro_hmacSecret ro) s1"
    by (rule step_store_ok [OF assms(8) run_store_ok [OF assms(2) initial_store_ok]])
  then have auth: "authorized (ro_headscaleAPIKey ro) (in_auth i) r (tokens (sys_st s'))"
    by (rule stored_token_lets_in [OF assms(9) _ assms(10) tok _ assms(7,13)]) (simp_all add: assms(11,14))
  note served = request_for_served [OF assms(1,12) auth]
  show ?thesis by (intro conjI a served [THEN conjunct1] served [THEN conjunct2, THEN conjunct2, THEN conjunct2])
qed

theorem client_gets_to_every_route_witness:
  "\<exists>s1 :: ex_world sys. fst (ServeHTTP table_deps ex_router (ex_readings 5) (ex_bearer ex_token) (sys_st s1)) =
     fst (serve_endpoint table_deps ex_router (ex_readings 5) E_ListDevices (routed table_deps (ex_bearer ex_token)) (sys_st s1))"
proof -
  let ?resp = "fst (ServeHTTP table_deps ex_router (ex_readings 0) ex_issue (initial_state [ex_key]))"
  let ?s1 = "(initial [ex_key] 0)\<lparr>sys_st :=
    snd (ServeHTTP table_deps ex_router (ex_readings 0) ex_issue (initial_state [ex_key]))\<rparr>"
  have st: "step table_deps ex_router (initial [ex_key] 0) (Serve (ex_readings 0) ex_issue ?resp) ?s1"
    by (rule step.serve) (simp_all add: initial_def readings_ok_def ex_readings_def)
  have login: "Method ex_issue = ''POST''" "Path ex_issue \<in> {''/oauth/token'', ''/api/v2/oauth/token''}"
    "parseOAuthCredentials ex_issue = Some (ro_clientID ex_router, ro_clientSecret ex_router)"
    "FormValue ex_issue ''grant_type'' = ''client_credentials''"
    by (simp_all add: ex_issue_fields ex_issue_credentials first_value_def)
  have tok: "generateToken (ro_hmacSecret ex_router) (in_rand (ex_readings 0)) = Some ex_token"
    by (simp add: ex_readings_def ex_token)
  have time: "clock_now ?s1 \<le> in_issue (ex_readings 0) + 3600000000000"
    "in_auth (ex_readings 5) \<le> in_issue (ex_readings 0) + 3600000000000"
    by (simp_all add: ex_readings_def initial_def)
  have bearer: "Header_Get (ex_bearer ex_token) ''Authorization'' = ''Bearer '' @ ex_token"
    by (simp add: first_value_def ex_bearer_def ex_request_def)
  have "\<not> list_ex (reissues ex_router ex_token) []" by simp
  note served = client_gets_to_every_route [OF table_deps_contract run_Nil login tok st run_Nil this time(1)
      ex_bearer_request bearer time(2), THEN conjunct2, THEN conjunct1]
  have "rt_Endpoint (route ''GET'' ''/tailnet/{tailnet}/devices'' E_ListDevices) = E_ListDevices"
    by (simp add: route_def)
  from served [unfolded this] show ?thesis by (rule exI)
qed

section \<open>Workload identity federation\<close>

text \<open>C8. Soundness of JWT validation: whatever the network answers, a JWT is accepted only if
  it has three parts, the first two are signed, under the algorithm its header names, by the key
  its header names among those in the cache, the cache was fetched just now or less than an hour
  ago, and the claims are unexpired, from the configured issuer and for the configured audience.\<close>

theorem jwt_validation_sound:
  assumes "Validate hc v clk raw \<sigma> = (Inr claims, \<sigma>')"
  shows "\<exists>c. jwks \<sigma>' = Some c \<and> valid_jwt v (t_claims clk) (keys c) raw claims \<and>
    (fetchedAt c = t_fetch clk \<or> jwks \<sigma>' = jwks \<sigma> \<and> t_cache clk - fetchedAt c < 3600000000000)"
  by (rule Validate_sound [OF assms])

theorem jwt_validation_sound_witness:
  "valid_jwt ex_validator 60 ex_keys ex_jwt ex_claims"
  using jwt_validation_sound [OF ex_validates] by (simp add: ex_cached_def ex_clock_def)

text \<open>C9. Completeness on a fresh cache: a JWT that meets the specification under the cached keys
  is accepted, without a call to the network and without a change of state.\<close>

theorem jwt_validation_complete:
  assumes "jwks \<sigma> = Some c" and "t_cache clk - fetchedAt c < 3600000000000"
    and "valid_jwt v (t_claims clk) (keys c) raw claims"
  shows "Validate hc v clk raw \<sigma> = (Inr claims, \<sigma>)"
  by (rule Validate_cached [OF assms])

theorem jwt_validation_complete_witness:
  "Validate ex_http ex_validator (ex_clock 60) ex_jwt ex_cached = (Inr ex_claims, ex_cached)"
  by (rule jwt_validation_complete [where c = "\<lparr>keys = ex_keys, fetchedAt = 0\<rparr>"])
    (simp_all add: ex_cached_def ex_clock_def ex_jwt_valid Unix_def)

text \<open>C10. The exchange endpoint: a 200 means that the JWT of the form was valid under the keys now
  cached, and has added to the store one signed token, good for an hour; any other answer leaves
  the store as it was.\<close>

theorem token_exchange_needs_valid_jwt:
  fixes \<sigma> :: "('s, 'm) wif_st_scheme"
  shows "let (resp, \<sigma>') = TokenExchangeHandler (Some (Validate hc v clk)) txt secret cid rand now r \<sigma> in
    if Status resp = 200
    then jwt_proved v (t_claims clk) (FormValue r ''jwt'') \<sigma>' \<and>
      (\<exists>tok. generateToken secret rand = Some tok \<and> wellformed_token secret tok \<and>
        tokens \<sigma>' = (tokens \<sigma>)(tok \<mapsto> \<lparr>expiry = now + 3600000000000\<rparr>))
    else tokens \<sigma>' = tokens \<sigma>"
proof -
  obtain resp \<sigma>' where h: "TokenExchangeHandler (Some (Validate hc v clk)) txt secret cid rand now r \<sigma>
      = (resp, \<sigma>')" by fastforce
  show ?thesis
  proof (cases "Status resp = 200")
    case True
    with h oidc.exchange_issued [of hc v clk "txt" secret cid rand now r \<sigma>]
    show ?thesis by (auto simp: jwt_proved_def store_def generateToken_wellformed)
  next
    case False
    with h oidc.exchange_refused [of hc v clk "txt" secret cid rand now r \<sigma>] show ?thesis by simp
  qed
qed



text \<open>C33. ES256 wants an ASN.1 signature: the fixed-width \<open>r || s\<close> of RFC 7518, which is what a
  JWS carries, is refused even where \<open>(r, s)\<close> verifies, unless its bytes happen to start like a
  DER sequence that is 62 bytes long.\<close>

theorem es256_refuses_jws_signatures:
  assumes "length sig = 64" and "take 2 sig \<noteq> [CHR 0x30, CHR 0x3E]"
  shows "verifySignature ''ES256'' key msg sig \<noteq> None"
proof
  assume "verifySignature ''ES256'' key msg sig = None"
  then obtain k rs where "parseSignature sig = Some rs"
    by (auto simp: verifySignature_def VerifyASN1_def split: if_splits publicKey.splits option.splits)
  from parseSignature_shape [OF this] obtain l rest where
    "sig = CHR 0x30 # l # rest" and l: "of_char l = length rest" by blast
  with assms have "of_char l = (62 :: nat)" "l \<noteq> CHR 0x3E" by auto
  moreover from this(1) have "l = char_of (62 :: nat)" by (metis char_of_char)
  moreover have "char_of (62 :: nat) = CHR 0x3E" by code_simp
  ultimately show False by simp
qed

theorem es256_refuses_jws_signatures_witness:
  "verifySignature ''ES256'' (ECKey \<lparr>ec_Curve = P256, ec_X = 1, ec_Y = 2\<rparr>) ''m'' (FillBytes 32 5 @ FillBytes 32 7) \<noteq> None"
  by (rule es256_refuses_jws_signatures) (simp, code_simp)


text \<open>C34. An issuer URL configured with a trailing slash: the slash is trimmed for the discovery
  URL, and the claim is compared with the trimmed URL, so no token that such an issuer signs with
  its own name is ever accepted.\<close>

theorem trailing_slash_issuer_never_accepted:
  assumes "SplitN raw (CHR ''.'') 3 = [p0, p1, p2]" and "claims_of p1 = Some claims"
    and "Issuer claims = iss @ ''/''"
  shows "fst (Validate hc (NewOIDCValidator (iss @ ''/'') aud cid) clk raw \<sigma>) \<noteq> Inr c"
proof
  assume "fst (Validate hc (NewOIDCValidator (iss @ ''/'') aud cid) clk raw \<sigma>) = Inr c"
  then obtain \<sigma>' where "Validate hc (NewOIDCValidator (iss @ ''/'') aud cid) clk raw \<sigma> = (Inr c, \<sigma>')"
    by (metis prod.collapse)
  from Validate_sound [OF this] assms
  have "issuerURL (NewOIDCValidator (iss @ ''/'') aud cid) = iss @ ''/''"
    by (auto simp: valid_jwt_def)
  with NewOIDCValidator_no_slash show False by blast
qed

theorem trailing_slash_issuer_never_accepted_witness:
  "fst (Validate ex_http (NewOIDCValidator ''a/'' [] []) (ex_clock 0)
     (ex_p0 @ ''.'' @ RawURLEncode (''{'' @ dq @ ''iss'' @ dq @ '':'' @ dq @ ''a/'' @ dq @ ''}'') @ ''.'') ex_cached)
   \<noteq> Inr ex_claims"
proof -
  let ?j = "''{'' @ dq @ ''iss'' @ dq @ '':'' @ dq @ ''a/'' @ dq @ ''}''"
  have "Option.bind (json_Unmarshal ?j) (\<lambda>j. dec_JWTClaims j zero_JWTClaims) =
      Some (zero_JWTClaims\<lparr>Issuer := ''a/''\<rparr>)" by code_simp
  then have c: "claims_of (RawURLEncode ?j) = Some (zero_JWTClaims\<lparr>Issuer := ''a/''\<rparr>)"
    by (simp add: claims_of_def)
  have s: "SplitN (ex_p0 @ ''.'' @ RawURLEncode ?j @ ''.'') (CHR ''.'') 3 = [ex_p0, RawURLEncode ?j, []]"
    using RawURLEncode_no_dot by (simp add: ex_p0_def numeral_3_eq_3)
  show ?thesis
    using trailing_slash_issuer_never_accepted [OF s c, of "''a''"] by simp
qed



section \<open>The key cache under concurrent requests\<close>

text \<open>C19. However the requests that need a signing key interleave, with each other and with the rest of
  the process: none dereferences a cache that is not there; a key that one of them gets is the key of
  that id in a document fetched from the issuer in the same run; and none makes more than five moves,
  since nobody holds the lock while it talks to the issuer.\<close>

theorem key_cache_safe_concurrently:
  assumes "turns hc v s ls s'" and "quiet s"
  shows "tasks s' n \<noteq> Some Panicked \<and>
    (tasks s' n = Some (Returned kid (Inr key)) \<longrightarrow> (\<exists>doc \<in> set (docs s'). jwks_of_doc doc kid = Some key)) \<and>
    moves_of n ls \<le> 5 \<and>
    (tasks s' n = Some t \<and> \<not> final t \<longrightarrow> (\<exists>s''. turn hc v s' (Move n now) s''))"
proof -
  from turns_inv [OF assms] have "tasks s' n = Some u \<Longrightarrow> task_ok (jwks (shared s')) (docs s') u" for u
    by (simp add: cache_inv_def)
  moreover have "moves_of n ls \<le> 5"
    using turns_budget [OF assms(1), of n] assms(2) by (simp add: budget_def quiet_def)
  ultimately show ?thesis using can_move by fastforce
qed

theorem key_cache_safe_concurrently_witness:
  "\<exists>s key. tasks s 1 = Some (Returned ''k2'' (Inr key)) \<and>
     (\<exists>doc \<in> set (docs (s :: (nat, unit) cache_sys)). jwks_of_doc doc ''k2'' = Some key)"
proof -
  from ex_found obtain s key where
    s: "exec_turns ex_idp ex_validator ex_quiet
       (Arrive 3 [] # replicate 5 (Move 3 0) @ Arrive 1 ''k2'' # replicate 5 (Move 1 0)) = Some s"
    and t: "tasks s 1 = Some (Returned ''k2'' (Inr key))" by blast
  from key_cache_safe_concurrently [OF exec_turns_sound [OF s] ex_quiet] t show ?thesis by blast
qed


text \<open>C30. Two refreshes at once: an older document of keys can replace a newer one. There is a run in
  which a request has fetched a document with the key it needs, installs it, and still fails to find
  the key, because a request that fetched before it installs after it; and the older document then
  counts as fresh for an hour.\<close>

theorem older_key_document_can_win:
  "\<exists>hc v s0 ls1 s1 ls2 s2 kid doc old.
     quiet (s0 :: (nat, unit) cache_sys) \<and> turns hc v s0 ls1 s1 \<and> docs s1 = [old, doc] \<and>
     tasks s1 1 = Some (Install kid doc) \<and> jwks_of_doc doc kid \<noteq> None \<and>
     turns hc v s1 ls2 s2 \<and> tasks s2 1 = Some (Returned kid (Inl (KidNotFound kid))) \<and>
     map_option keys (jwks (shared s2)) = Some (jwks_of_doc old)"
proof -
  from ex_race obtain s1 s2 where
    s1: "exec_turns ex_idp ex_validator ex_quiet ex_before = Some s1"
      "tasks s1 1 = Some (Install ''k2'' (ex_doc 1))" "docs s1 = [ex_doc 0, ex_doc 1]" and
    s2: "exec_turns ex_idp ex_validator s1 ex_after = Some s2"
      "tasks s2 1 = Some (Returned ''k2'' (Inl (KidNotFound ''k2'')))"
      "jwks (shared s2) = Some \<lparr>keys = jwks_of_doc (ex_doc 0), fetchedAt = 0\<rparr>" by blast
  from s2(3) have "map_option keys (jwks (shared s2)) = Some (jwks_of_doc (ex_doc 0))" by simp
  with ex_quiet exec_turns_sound [OF s1(1)] s1(2,3) ex_doc_keys(2) exec_turns_sound [OF s2(1)] s2(2)
  show ?thesis by blast
qed

section \<open>Auth keys\<close>

text \<open>C31. The expiry of a new key is exact: now plus the requested seconds, an hour where the
  request has none or a negative number, as long as the nanoseconds fit \<open>int64\<close>.\<close>

theorem key_expiry_exact:
  assumes "sint (ckr_ExpirySeconds q) \<le> 9223372036"
  shows "cr_Expiration (KeyRequestToCreatePreAuthKeyRequest L now q uid) =
    Some (timestamppb_New L (now +
      (if sint (ckr_ExpirySeconds q) \<le> 0 then 3600 else sint (ckr_ExpirySeconds q)) * 1000000000))"
  using Add_expiry [OF assms, of now] by (simp add: KeyRequestToCreatePreAuthKeyRequest_def Let_def)

theorem key_expiry_exact_witness:
  "cr_Expiration (KeyRequestToCreatePreAuthKeyRequest ex_lib 0 (zero_CreateKeyRequest\<lparr>ckr_ExpirySeconds := 60\<rparr>) 1)
     = Some \<lparr>ts_seconds = 60, ts_nanos = 0\<rparr>"
  using key_expiry_exact [of "zero_CreateKeyRequest\<lparr>ckr_ExpirySeconds := 60\<rparr>" ex_lib 0 1]
  by (simp add: ex_lib_def)

text \<open>C32. Beyond that the product of seconds and \<open>time.Second\<close> overflows: every number of seconds
  from 9223372037 to 18446744073 gives a key that expired before it was made.\<close>

theorem key_expiry_overflows:
  assumes "9223372037 \<le> sint (ckr_ExpirySeconds q)" and "sint (ckr_ExpirySeconds q) \<le> 18446744073"
  shows "\<exists>t < now. cr_Expiration (KeyRequestToCreatePreAuthKeyRequest L now q uid) = Some (timestamppb_New L t)"
proof -
  let ?e = "ckr_ExpirySeconds q" and ?x = "sint (ckr_ExpirySeconds q) * 1000000000"
  have b: "2 ^ 63 \<le> ?x" "?x < 2 ^ 64" using assms by simp_all
  then have "?x div 2 ^ 63 = 1" by (simp add: int_div_pos_eq [of ?x "2 ^ 63" 1 "?x - 2 ^ 63"])
  then have bit: "bit ?x 63" by (simp add: bit_iff_odd)
  have "sint (?e * Second) = signed_take_bit 63 ?x"
    by (simp add: Second_def signed_take_bit_mult sint_word_ariths(3))
  also have "\<dots> = ?x - 2 ^ 64"
    using b bit by (simp add: signed_take_bit_eq_take_bit_minus take_bit_int_eq_self)
  finally have "Add now (expiry_seconds ?e * Second) < now"
    using b assms by (simp add: expiry_seconds_def Add_def)
  then show ?thesis by (auto simp: KeyRequestToCreatePreAuthKeyRequest_def Let_def)
qed

theorem key_expiry_overflows_witness:
  "\<exists>t < 0. cr_Expiration (KeyRequestToCreatePreAuthKeyRequest ex_lib 0
     (zero_CreateKeyRequest\<lparr>ckr_ExpirySeconds := 10000000000\<rparr>) 1) = Some (timestamppb_New ex_lib t)"
  by (rule key_expiry_overflows) simp_all

text \<open>C15. With a dedicated tailnet, a deletion that reports success has deleted a key that belongs
  to that tailnet's user and prints as the asked identifier, whatever headscale answered.\<close>

theorem deleted_key_was_owned:
  assumes "Status (fst (DeleteKey L h r \<sigma>)) = 200" and "kh_hs h = grpc_client L' c"
    and "kh_tailnetName h \<noteq> ''-''" and "kh_tailnetName h \<noteq> []"
  shows "\<exists>k s3. key_owned (kh_tailnetName h) k \<and> FormatUint (k_Id k) = URLParam r ''keyId'' \<and>
    hs_DeletePreAuthKey (kh_hs h) (Context r) (k_Id k) s3 = (Inr (), world (snd (DeleteKey L h r \<sigma>)))"
  using grpc.DeleteKey_own_key [OF assms] assms(2) by simp

theorem deleted_key_was_owned_witness:
  "\<exists>k s3. key_owned ''alice'' k \<and> FormatUint (k_Id k) = ''7'' \<and>
     hs_DeletePreAuthKey ex_hs [] (k_Id k) s3 = (Inr (), [])"
  using deleted_key_was_owned [of ex_lib ex_keysHandler
      "ex_params [(''tailnet'', ''alice''), (''keyId'', ''7'')] None" "initial_state [ex_key]" ex_lib ex_grpc]
  by (simp add: ex_delete_200 ex_hs_def [symmetric] first_value_def)

text \<open>Expire, then delete: when the expiry of the key fails the deletion is not attempted, and
  the failure is the answer.\<close>

theorem failed_expiry_stops_deletion:
  assumes "hs_ListUsers (kh_hs h) (Context r) (world \<sigma>) = (Inr users, s1)"
    and "resolve_user (kh_tailnetName h) (URLParam r ''tailnet'') users = Inr user"
    and "hs_ListPreAuthKeys (kh_hs h) (Context r) (u_Name user) s1 = (Inr ks, s2)"
    and "findKeyByID ks (URLParam r ''keyId'') = Some k"
    and "hs_ExpirePreAuthKey (kh_hs h) (Context r) (k_Id k) s2 = (Inl e, s3)"
  shows "fst (DeleteKey L h r \<sigma>) = writeError (grpcStatusToHTTP e) (err_text e) \<and>
    world (snd (DeleteKey L h r \<sigma>)) = s3"
  using assms
  by (simp add: DeleteKey_def with_user_def resolveTailnetUser_def call_def Let_def frame_simps)

theorem failed_expiry_stops_deletion_witness:
  "world (snd (DeleteKey ex_lib (ex_keysHandler\<lparr>kh_hs := ex_hs\<lparr>hs_ExpirePreAuthKey := \<lambda>_ _ w. (Inl ex_error, w)\<rparr>\<rparr>)
     (ex_params [(''tailnet'', ''alice''), (''keyId'', ''7'')] None) (initial_state [ex_key]))) = [ex_key]"
proof -
  have n: "u_Name ex_user = ''alice''" by (simp add: ex_user_def)
  let ?h = "ex_keysHandler\<lparr>kh_hs := ex_hs\<lparr>hs_ExpirePreAuthKey := \<lambda>_ _ w. (Inl ex_error, w)\<rparr>\<rparr>"
  let ?r = "ex_params [(''tailnet'', ''alice''), (''keyId'', ''7'')] None"
  have "fst (DeleteKey ex_lib ?h ?r (initial_state [ex_key])) =
      writeError (grpcStatusToHTTP ex_error) (err_text ex_error) \<and>
    world (snd (DeleteKey ex_lib ?h ?r (initial_state [ex_key]))) = [ex_key]"
    by (rule failed_expiry_stops_deletion [where users = "[ex_user]" and ?s1.0 = "[ex_key]"
          and ?s2.0 = "[ex_key]" and user = ex_user and ks = "[ex_key]" and k = ex_key])
      (simp_all add: ex_hs_calls first_value_def n ex_find ex_resolve)
  then show ?thesis by simp
qed

text \<open>C16. Tenant isolation: with a dedicated tailnet, a key request for another tailnet is answered
  404 after the users have been listed, and no key is listed, made or deleted.\<close>

theorem other_tailnet_not_found:
  assumes "kh_tailnetName h \<noteq> ''-''" and "URLParam r ''tailnet'' \<notin> {''-'', kh_tailnetName h}"
    and "hs_ListUsers (kh_hs h) (Context r) (world \<sigma>) = (Inr users, w)"
    and "f \<in> {ListKeys L h, CreateKey L now h, GetKey L h, DeleteKey L h}"
  shows "Status (fst (f r \<sigma>)) = 404 \<and> snd (f r \<sigma>) = \<sigma>\<lparr>world := w\<rparr>"
proof -
  have "\<exists>m. resolve_user (kh_tailnetName h) (URLParam r ''tailnet'') users = Inl (keyResolveError 404 m)"
    using assms(1,2) by (auto simp: resolve_user_def Let_def)
  with assms(3,4) show ?thesis
    by (auto simp: key_handlers with_user_def resolveTailnetUser_def writeResolveError_def call_def Let_def)
qed

theorem other_tailnet_not_found_witness:
  "Status (fst (ListKeys ex_lib ex_keysHandler (ex_params [(''tailnet'', ''bob'')] None) (initial_state [ex_key]))) = 404"
  using other_tailnet_not_found [of ex_keysHandler "ex_params [(''tailnet'', ''bob'')] None" "initial_state [ex_key]"
      "[ex_user]" "[ex_key]" "ListKeys ex_lib ex_keysHandler" ex_lib 0]
  by (simp add: first_value_def ex_hs_calls)

text \<open>C14. With a dedicated tailnet the key endpoints refine a map from identifiers to keys, over any headscale
  that answers (\<open>key_server\<close>). A look-up answers with the entry or 404 and a listing with all of them, and
  neither changes the map; a deletion is 200 exactly for an identifier of the map, and takes just that
  out of it; a creation that succeeds adds the key it answers, at an identifier that was free, and one
  that fails changes nothing.\<close>

theorem key_handlers_refine_map:
  assumes "serves_tailnet h L' c users name r" and "key_server (gc_client c) users stored"
  shows "let V = tailnet_keys stored name; kid = URLParam r ''keyId'' in
    GetKey L h r \<sigma> =
      (case V (world \<sigma>) kid of
         None \<Rightarrow> (writeError 404 (''key '' @ kid @ '' not found''), \<sigma>)
       | Some k \<Rightarrow> (writeJSON 200 (enc_Key (PreAuthKeyToKey L (Some k))), \<sigma>)) \<and>
    (\<exists>ks. ListKeys L h r \<sigma> = (writeJSON 200 (enc_KeyList \<lparr>kl_Keys = map (\<lambda>k. PreAuthKeyToKey L (Some k)) ks\<rparr>), \<sigma>) \<and>
      (\<lambda>k. FormatUint (k_Id k)) ` set ks = dom (V (world \<sigma>))) \<and>
    Status (fst (DeleteKey L h r \<sigma>)) = (if V (world \<sigma>) kid = None then 404 else 200) \<and>
    V (world (snd (DeleteKey L h r \<sigma>))) = (V (world \<sigma>))(kid := None) \<and>
    (if Status (fst (CreateKey L now h r \<sigma>)) = 200
     then \<exists>key entry. fst (CreateKey L now h r \<sigma>) = writeJSON 200 (enc_Key (PreAuthKeyToKey L (Some key))) \<and>
       k_Id entry = k_Id key \<and> V (world \<sigma>) (FormatUint (k_Id key)) = None \<and>
       V (world (snd (CreateKey L now h r \<sigma>))) = (V (world \<sigma>))(FormatUint (k_Id key) \<mapsto> entry)
     else V (world (snd (CreateKey L now h r \<sigma>))) = V (world \<sigma>))"
  unfolding Let_def
  by (intro conjI GetKey_map [OF assms] ListKeys_map [OF assms] CreateKey_map [OF assms]
      DeleteKey_map [OF assms, THEN conjunct1] DeleteKey_map [OF assms, THEN conjunct2])

theorem key_handlers_refine_map_witness:
  "tailnet_keys (\<lambda>w. w) ''alice'' (world (snd (DeleteKey ex_lib ex_minter_handler
      (ex_params [(''tailnet'', ''alice''), (''keyId'', ''7'')] None) (initial_state [ex_key])))) =
   (tailnet_keys (\<lambda>w. w) ''alice'' [ex_key])(''7'' := None)"
  using key_handlers_refine_map [OF ex_minter_serves ex_minter_keys, of ex_lib "initial_state [ex_key]"]
  by (simp add: Let_def first_value_def)

text \<open>Keys are found by their canonical decimal identifier and by nothing else: leading zeros,
  signs and spaces find no key.\<close>

theorem key_found_iff_canonical:
  assumes "distinct (map k_Id ks)" and "k \<in> set ks"
  shows "findKeyByID ks s = Some k \<longleftrightarrow> s = FormatUint (k_Id k)"
  using decimal.find_enc_unique [OF assms] findKeyByID_Some [of ks s k] by (auto simp: findKeyByID_def)

theorem key_found_iff_canonical_witness: "findKeyByID [ex_key] ''07'' \<noteq> Some ex_key"
proof -
  have "FormatUint (k_Id ex_key) = ''7''" by code_simp
  with key_found_iff_canonical [of "[ex_key]" ex_key "''07''"] show ?thesis by simp
qed

text \<open>C17. A creation that is answered 200 asked headscale, once, for a key of the user that the tailnet
  resolves to, with the reuse, the ephemerality and the tags of the body, and answers with what headscale
  created. Whatever was asked, the answer says that the key is not preauthorized and has no description:
  those two members are dropped on the way.\<close>

theorem created_key_is_what_was_asked:
  assumes "Status (fst (CreateKey L now h r \<sigma>)) = 200"
  shows "\<exists>users s1 user req key s2.
     hs_ListUsers (kh_hs h) (Context r) (world \<sigma>) = (Inr users, s1) \<and>
     resolve_user (kh_tailnetName h) (URLParam r ''tailnet'') users = Inr user \<and> user \<in> set users \<and>
     decode_body dec_CreateKeyRequest zero_CreateKeyRequest r = Some req \<and>
     (let asked = kcd_Create (kcap_Devices (ckr_Capabilities req))
      in hs_CreatePreAuthKey (kh_hs h) (Context r)
           \<lparr>cr_User = u_Id user, cr_Reusable = kc_Reusable asked, cr_Ephemeral = kc_Ephemeral asked,
            cr_Expiration = Some (timestamppb_New L (Add now (expiry_seconds (ckr_ExpirySeconds req) * Second))),
            cr_AclTags = kc_Tags asked\<rparr> s1 = (Inr key, s2)) \<and>
     CreateKey L now h r \<sigma> = (writeJSON 200 (enc_Key (PreAuthKeyToKey L key)), \<sigma>\<lparr>world := s2\<rparr>) \<and>
     \<not> kc_Preauthorized (kcd_Create (kcap_Devices (key_Capabilities (PreAuthKeyToKey L key)))) \<and>
     key_Description (PreAuthKeyToKey L key) = []"
proof -
  from CreateKey_ok [OF assms] obtain users s1 user req key s2 where
    c: "hs_ListUsers (kh_hs h) (Context r) (world \<sigma>) = (Inr users, s1)"
      "resolve_user (kh_tailnetName h) (URLParam r ''tailnet'') users = Inr user"
      "decode_body dec_CreateKeyRequest zero_CreateKeyRequest r = Some req"
      "hs_CreatePreAuthKey (kh_hs h) (Context r)
         (KeyRequestToCreatePreAuthKeyRequest L now req (u_Id user)) s1 = (Inr key, s2)"
      "CreateKey L now h r \<sigma> = (writeJSON 200 (enc_Key (PreAuthKeyToKey L key)), \<sigma>\<lparr>world := s2\<rparr>)" by blast
  moreover have "user \<in> set users"
    using c(2) by (auto simp: resolve_user_Inr Let_def split: if_splits dest: find_SomeD)
  moreover have "\<not> kc_Preauthorized (kcd_Create (kcap_Devices (key_Capabilities (PreAuthKeyToKey L key))))"
    "key_Description (PreAuthKeyToKey L key) = []"
    by (simp_all add: PreAuthKeyToKey_def Let_def split: option.split)
  moreover note c(4) [unfolded KeyRequestToCreatePreAuthKeyRequest_def Let_def]
  ultimately show ?thesis by (auto simp: Let_def)
qed

theorem created_key_is_what_was_asked_witness:
  "\<exists>req. decode_body dec_CreateKeyRequest zero_CreateKeyRequest ex_create = Some req"
  using created_key_is_what_was_asked [OF ex_create_200] by blast

text \<open>C21. The document of a key is a template for more: posted as the body of a creation it asks
  headscale for a key of the same reuse, ephemerality and tags, for an hour. (Tags that are not UTF-8 are
  repaired, and an empty list of tags is no list.)\<close>

theorem key_document_is_a_template:
  assumes "Body r = Some (json_Encode (enc_Key (PreAuthKeyToKey L (Some k))))"
  shows "CreateKey L now h r \<sigma> = with_user L h r \<sigma> (\<lambda>user \<sigma>.
     on_ok L r (call (hs_CreatePreAuthKey (kh_hs h) (Context r)
         \<lparr>cr_User = u_Id user, cr_Reusable = k_Reusable k, cr_Ephemeral = k_Ephemeral k,
          cr_Expiration = Some (timestamppb_New L (now + 3600000000000)), cr_AclTags = valid_tags (k_AclTags k)\<rparr>) \<sigma>)
       (\<lambda>key \<sigma>. (writeJSON 200 (enc_Key (PreAuthKeyToKey L key)), \<sigma>)))"
proof -
  obtain req where "decode_body dec_CreateKeyRequest zero_CreateKeyRequest r = Some req"
    using key_read_back [OF assms] by blast
  with key_template [OF assms, of now] show ?thesis by (simp add: CreateKey_def Let_def)
qed

theorem key_document_is_a_template_witness:
  "fst (CreateKey ex_lib 0 ex_keysHandler
      (ex_params [(''tailnet'', ''alice'')] (Some (json_Encode (enc_Key (PreAuthKeyToKey ex_lib (Some ex_key))))))
      (initial_state [])) = writeError 404 ''no such thing''"
  by (subst key_document_is_a_template, simp)
    (simp add: with_user_def resolveTailnetUser_def call_def first_value_def ex_hs_calls ex_resolve
      ex_grpc_defs ex_error_def grpcStatusToHTTP_def)

section \<open>Users, devices and policy\<close>

text \<open>C36. The two user endpoints read an identifier differently: a decimal with leading zeros is
  404 to \<open>GetUser\<close>, whoever the users are, and reaches headscale as a deletion of the number it
  denotes through \<open>DeleteUser\<close>.\<close>

theorem user_ids_read_differently:
  assumes "ParseUint (URLParam r ''userId'') = Inr uid" and "URLParam r ''userId'' \<noteq> FormatUint uid"
    and "hs_ListUsers hs (Context r) (world \<sigma>) = (Inr users, w)"
  shows "Status (fst (GetUser L hs r \<sigma>)) = 404 \<and>
    world (snd (DeleteUser L hs r \<sigma>)) = snd (hs_DeleteUser hs (Context r) uid (world \<sigma>))"
proof -
  have "FindUserByID users (URLParam r ''userId'') = None"
  proof (cases "FindUserByID users (URLParam r ''userId'')")
    case (Some u)
    then have u: "FormatUint (u_Id u) = URLParam r ''userId''" by (simp add: FindUserByID_Some)
    then have "ParseUint (URLParam r ''userId'') = Inr (u_Id u)" using ParseUint_FormatUint by metis
    with assms(1,2) u show ?thesis by simp
  qed
  then have "Status (fst (GetUser L hs r \<sigma>)) = 404"
    using assms(3) by (simp add: GetUser_def call_def Let_def)
  moreover have "world (snd (DeleteUser L hs r \<sigma>)) = snd (hs_DeleteUser hs (Context r) uid (world \<sigma>))"
  proof (cases "hs_DeleteUser hs (Context r) uid (world \<sigma>)")
    case (Pair res w')
    with assms(1) show ?thesis by (cases res) (simp_all add: DeleteUser_def call_def frame_simps)
  qed
  ultimately show ?thesis ..
qed

theorem user_ids_read_differently_witness:
  "Status (fst (GetUser ex_lib ex_hs (ex_params [(''userId'', ''01'')] None) (initial_state []))) = 404"
proof -
  have p: "ParseUint ''01'' = Inr 1" "''01'' \<noteq> FormatUint 1" by code_simp+
  show ?thesis
    using user_ids_read_differently [of "ex_params [(''userId'', ''01'')] None" 1 ex_hs "initial_state []"
        "[ex_user]" "[]" ex_lib] p
    by (simp add: first_value_def ex_hs_calls)
qed

text \<open>A device identifier that is not a non-empty string of decimal digits below 2^64 is
  answered 400 by every handler that takes one, and nothing else happens.\<close>

theorem invalid_device_id_refused:
  assumes "f \<in> set (device_id_handlers L h)"
    and "\<not> (URLParam r ''deviceId'' \<noteq> [] \<and> list_all is_digit (URLParam r ''deviceId'') \<and>
      dec_val 0 (URLParam r ''deviceId'') < 2 ^ 64)"
  shows "f r \<sigma> = (writeError 400 ''invalid device id'', \<sigma>)"
proof -
  have "parseDeviceID r \<noteq> Inr n" for n using assms(2) by (auto simp: parseDeviceID_def ParseUint_Inr_iff)
  then obtain e where "parseDeviceID r = Inl e" by (cases "parseDeviceID r") auto
  from device_id_invalid [OF this assms(1)] show ?thesis .
qed

theorem invalid_device_id_refused_witness:
  "DeleteDevice ex_lib ex_devicesHandler (ex_params [(''deviceId'', ''1x'')] None) (initial_state []) =
     (writeError 400 ''invalid device id'', initial_state [])"
  by (rule invalid_device_id_refused [where h = ex_devicesHandler and L = ex_lib])
    (simp_all add: device_id_handlers_def first_value_def is_digit_def)

text \<open>The identifier that a device is listed with leads back to it: a request with the \<open>id\<close> of a
  listed node parses to the number of that node, so the next call to headscale names it.\<close>

theorem listed_device_id_leads_back:
  assumes "URLParam r ''deviceId'' = dev_ID (NodeToDevice L (Some n))"
  shows "parseDeviceID r = Inr (n_Id n) \<and>
    world (snd (DeleteDevice L h r \<sigma>)) = snd (hs_DeleteNode (dh_hs h) (Context r) (n_Id n) (world \<sigma>))"
proof -
  have p: "parseDeviceID r = Inr (n_Id n)" using assms by (simp add: parseDeviceID_def)
  obtain res w where "hs_DeleteNode (dh_hs h) (Context r) (n_Id n) (world \<sigma>) = (res, w)" by fastforce
  with p show ?thesis by (cases res) (simp_all add: DeleteDevice_def call_def frame_simps)
qed

theorem listed_device_id_leads_back_witness:
  "parseDeviceID (ex_params [(''deviceId'', ''42'')] None) = Inr 42"
proof -
  have "dev_ID (NodeToDevice ex_lib (Some ex_node)) = ''42''" "n_Id ex_node = 42" by code_simp+
  with listed_device_id_leads_back [of "ex_params [(''deviceId'', ''42'')] None" ex_lib ex_node
      ex_devicesHandler "initial_state []"] show ?thesis
    by (simp add: first_value_def)
qed

text \<open>C20. The document of a device leads back to it. A client that reads a device and posts the
  document as it is to the device's \<open>name\<close> or \<open>tags\<close>, with the \<open>id\<close> it read in the path, asks
  headscale to give that node the name and the tags that it has (bytes that are not UTF-8 apart).\<close>

theorem device_document_leads_back:
  assumes "GetDevice L h r0 \<sigma>0 = (resp, \<sigma>1)" and "Status resp = 200" and "RespBody resp = JSONBody (JObj kvs)"
    and "map_of kvs ''id'' = Some (JStr (URLParam r ''deviceId''))" and "Body r = Some (json_Encode (JObj kvs))"
  shows "\<exists>did node. hs_GetNode (dh_hs h) (Context r0) did (world \<sigma>0) = (Inr node, world \<sigma>1) \<and>
     RenameDevice L h r \<sigma> =
       on_ok L r (call (hs_RenameNode (dh_hs h) (Context r) (getter 0 n_Id node) (to_valid_utf8 (getter [] n_Name node))) \<sigma>)
         (\<lambda>node \<sigma>. (writeJSON 200 (enc_Device (NodeToDevice L node)), \<sigma>)) \<and>
     SetDeviceTags L h r \<sigma> =
       on_ok L r (call (hs_SetTags (dh_hs h) (Context r) (getter 0 n_Id node) (valid_slice (getter None n_Tags node))) \<sigma>)
         (\<lambda>node \<sigma>. (writeJSON 200 (enc_Device (NodeToDevice L node)), \<sigma>))"
proof -
  from GetDevice_ok [OF assms(1,2)] obtain did node where
    node: "hs_GetNode (dh_hs h) (Context r0) did (world \<sigma>0) = (Inr node, world \<sigma>1)" and
    resp: "resp = writeJSON 200 (enc_Device (NodeToDevice L node))" by blast
  from resp assms(3) have doc: "JObj kvs = enc_Device (NodeToDevice L node)" by (simp add: writeJSON_def)
  with assms(4) have "URLParam r ''deviceId'' = dev_ID (NodeToDevice L node)" by (auto simp: enc_Device_def)
  then have "parseDeviceID r = Inr (getter 0 n_Id node)" by (simp add: parseDeviceID_def)
  moreover have "dev_Tags (NodeToDevice L node) = getter None n_Tags node"
    by (simp add: NodeToDevice_def Let_def split: option.split)
  ultimately show ?thesis
    using node device_read_back [OF assms(5) [unfolded doc]]
    by (auto simp: RenameDevice_def SetDeviceTags_def)
qed

theorem device_document_leads_back_witness:
  "RenameDevice ex_lib ex_devicesHandler
     (ex_params [(''deviceId'', ''42'')] (Some (json_Encode (enc_Device (NodeToDevice ex_lib (Some ex_node))))))
     (initial_state []) =
   writeGRPCError ex_lib
     (ex_params [(''deviceId'', ''42'')] (Some (json_Encode (enc_Device (NodeToDevice ex_lib (Some ex_node))))))
     ex_error (initial_state [])"
proof -
  let ?d = "NodeToDevice ex_lib (Some ex_node)"
  let ?r = "ex_params [(''deviceId'', ''42'')] (Some (json_Encode (enc_Device ?d)))"
  have u: "ParseUint ''42'' = Inr 42" by code_simp
  obtain kvs where kvs: "enc_Device ?d = JObj kvs" by (simp add: enc_Device_def)
  have "dev_ID ?d = ''42''" by code_simp
  with kvs have m: "map_of kvs ''id'' = Some (JStr (URLParam ?r ''deviceId''))"
    by (auto simp: enc_Device_def first_value_def)
  have g: "GetDevice ex_lib ex_devicesHandler ?r (initial_state []) =
      (writeJSON 200 (enc_Device ?d), initial_state [])"
    by (simp add: GetDevice_def parseDeviceID_def first_value_def u call_def ex_hs_calls initial_state_def)
  have b: "Body ?r = Some (json_Encode (JObj kvs))" by (simp add: kvs)
  have "RespBody (writeJSON 200 (enc_Device ?d)) = JSONBody (JObj kvs)" by (simp add: writeJSON_def kvs)
  from device_document_leads_back [OF g _ this m b, of "initial_state []"] show ?thesis
    by (auto simp: call_def ex_grpc_defs initial_state_def)
qed

text \<open>\<open>authorized: false\<close> is answered 200 and does nothing: the node is looked up and no other
  call is made.\<close>

theorem deauthorize_does_nothing:
  assumes "parseDeviceID r = Inr did"
    and "decode_body dec_DeviceAuthorizeRequest \<lparr>dar_Authorized = False\<rparr> r = Some q" and "\<not> dar_Authorized q"
    and "hs_GetNode (dh_hs h) (Context r) did (world \<sigma>) = (Inr node, w)"
  shows "AuthorizeDevice L h r \<sigma> = (WriteHeader 200, \<sigma>\<lparr>world := w\<rparr>)"
  using assms by (simp add: AuthorizeDevice_def call_def)

theorem deauthorize_does_nothing_witness:
  "AuthorizeDevice ex_lib ex_devicesHandler (ex_params [(''deviceId'', ''42'')] (Some ''{}'')) (initial_state []) =
     (WriteHeader 200, initial_state [])"
proof -
  let ?r = "ex_params [(''deviceId'', ''42'')] (Some ''{}'')"
  have "ParseUint ''42'' = Inr 42" by code_simp
  then have p: "parseDeviceID ?r = Inr 42" by (simp add: parseDeviceID_def first_value_def)
  have "Option.bind (json_Decode ''{}'') (\<lambda>j. dec_DeviceAuthorizeRequest j \<lparr>dar_Authorized = False\<rparr>) =
      Some \<lparr>dar_Authorized = False\<rparr>" by code_simp
  then have b: "decode_body dec_DeviceAuthorizeRequest \<lparr>dar_Authorized = False\<rparr> ?r = Some \<lparr>dar_Authorized = False\<rparr>"
    by (simp add: decode_body_def split: option.splits Option.bind_splits)
  show ?thesis
    using deauthorize_does_nothing [OF p b, of ex_devicesHandler "initial_state []" "Some ex_node" "[]" ex_lib]
    by (simp add: ex_hs_calls initial_state_def)
qed


text \<open>An upstream failure is answered with the status of its code, never a success, and with its
  text; it counts once under its code, and is logged once, as a warning below 500 and an error
  otherwise; nothing else of the state moves.\<close>

theorem upstream_failure_reported:
  fixes \<sigma> :: "('s, 'm) st_scheme"
  shows "let (resp, \<sigma>') = writeGRPCError L r err \<sigma>; c = code_String L (status_code err) in
    Status resp = grpcStatusToHTTP err \<and> Status resp \<in> {400, 401, 403, 404, 409, 500} \<and>
    RespBody resp = JSONBody (JObj [(''message'', JStr (err_text err))]) \<and>
    grpcErrorsTotal \<sigma>' = (grpcErrorsTotal \<sigma>)(c := Suc (grpcErrorsTotal \<sigma> c)) \<and>
    (\<exists>e. slog \<sigma>' = slog \<sigma> @ [e] \<and>
      log_level e = (if Status resp < 500 then LevelWarn else LevelError) \<and>
      (''error'', AStr (err_text err)) \<in> set (log_attrs e)) \<and>
    world \<sigma>' = world \<sigma> \<and> st.more \<sigma>' = st.more \<sigma>"
  using grpcStatusToHTTP_range [of err]
  by (simp add: writeGRPCError_def observeGRPCError_def Let_def writeError_def enc_Error_def)

section \<open>The connection to headscale\<close>

text \<open>C22. Every RPC carries the API key: replace the service by any other that answers as it does to
  calls with \<open>authorization: Bearer <key>\<close> in their metadata, and no operation of the client
  changes. The hypothesis on \<open>AppendToOutgoingContext\<close> is that it adds the pair.\<close>

theorem every_rpc_carries_api_key:
  assumes "\<And>ctx v. (''authorization'', v) \<in> set (AppendToOutgoingContext L ctx ''authorization'' v)"
    and "agree_on (authorized_ctxs (gc_apiKey c)) (gc_client c) v"
  shows "grpc_client L c = grpc_client L (c\<lparr>gc_client := v\<rparr>)"
  by (rule grpc_client_agree [OF assms(2)]) (simp add: withAPIKey_def authorized_ctxs_def assms(1))

theorem every_rpc_carries_api_key_witness:
  "hs_ListUsers ex_hs [] [] = hs_ListUsers (grpc_client ex_lib (ex_grpc\<lparr>gc_client := ex_strict_service\<rparr>)) [] []"
  using every_rpc_carries_api_key [of ex_lib ex_grpc ex_strict_service] ex_strict_agrees
  by (simp add: ex_hs_def ex_grpc_def) (simp add: ex_lib_def)

section \<open>Start and end of the process\<close>

text \<open>C26. A server never starts without credentials: the API key, the client's identifier and secret
  and the HMAC secret of the router are not blank, and with federation on the client identifier of
  the exchange is not blank either.\<close>

theorem server_needs_credentials:
  assumes "main_start L ul version h = Serving srv"
  shows "[] \<notin> TrimSpace ` {ro_headscaleAPIKey (srv_Router srv), ro_clientID (srv_Router srv),
      ro_clientSecret (srv_Router srv), ro_hmacSecret (srv_Router srv)} \<and>
    (ro_wifValidator (srv_Router srv) = None \<or> TrimSpace (ro_wifClientID (srv_Router srv)) \<noteq> [])"
proof -
  from main_start_Serving [OF assms] obtain cfg conn where "validate_config cfg = None" and
    "srv_Router srv = NewRouter (grpc_client L \<lparr>gc_client = conn, gc_apiKey = HeadscaleAPIKey cfg\<rparr>)
      (TailnetName cfg) (HeadscaleAPIKey cfg) (OAuthClientID cfg) (OAuthClientSecret cfg)
      (OAuthHMACSecret cfg)
      \<lparr>wif_Enabled = WIFEnabled cfg, wif_IssuerURL = WIFIssuerURL cfg,
       wif_Audience = WIFAudience cfg, wif_ClientID = WIFClientID cfg\<rparr>" by blast
  then show ?thesis by (auto simp: validate_config_None NewRouter_def)
qed

theorem server_needs_credentials_witness: "TrimSpace ''hskey'' \<noteq> []"
proof -
  from ex_starts obtain srv where s: "main_start ex_lib (\<lambda>s. s) ''v1'' ex_host = Serving srv"
    and k: "ro_headscaleAPIKey (srv_Router srv) = ''hskey''" by blast
  from server_needs_credentials [OF s] k show ?thesis by auto
qed

text \<open>C27. The environment that the container harness passes configures the server it means: with
  \<open>envconfig\<close> as documented, the server listens on 8080 in plain HTTP, without federation, with the
  credentials, the tailnet and the address of the harness; and where a credential is blank, as the API
  key is by default, the process leaves with a configuration error instead.\<close>

theorem harness_configures_server:
  assumes "envconfig_contract (h_Process H)" and "\<forall>f \<in> set config_tags. base (ft_Name f) = None"
    and "h_env H = container_env base h" and "\<not> shouldPrintVersion (h_args H)"
    and "h_NewClient H (hc_headscaleAddr h) = Inr conn"
  shows "if [] \<in> TrimSpace ` {hc_headscaleAPIKey h, hc_oauthClientID h, hc_oauthClientSecret h, hc_hmacSecret h}
    then \<exists>lg err. main_start L ul version H = ExitFailure lg ''failed to load config'' err
    else \<exists>srv. main_start L ul version H = Serving srv \<and> srv_Addr srv = '':8080'' \<and> \<not> srv_TLS srv \<and>
      ro_hs (srv_Router srv) = grpc_client L \<lparr>gc_client = conn, gc_apiKey = hc_headscaleAPIKey h\<rparr> \<and>
      ro_headscaleAPIKey (srv_Router srv) = hc_headscaleAPIKey h \<and>
      ro_clientID (srv_Router srv) = GetOAuthClientID h \<and>
      ro_clientSecret (srv_Router srv) = GetOAuthClientSecret h \<and>
      ro_hmacSecret (srv_Router srv) = hc_hmacSecret h \<and> ro_tailnetName (srv_Router srv) = hc_tailnetName h \<and>
      ro_wifValidator (srv_Router srv) = None"
proof -
  let ?keys = "{hc_headscaleAPIKey h, hc_oauthClientID h, hc_oauthClientSecret h, hc_hmacSecret h}"
  note starts = container_starts [OF assms, of L ul version]
  have valid: "validate_config (container_config h) = None \<longleftrightarrow> [] \<notin> TrimSpace ` ?keys"
    by (auto simp: validate_config_None container_config_def)
  show ?thesis
  proof (cases "[] \<in> TrimSpace ` ?keys")
    case True
    with valid obtain err where "validate_config (container_config h) = Some err" by fastforce
    with starts True show ?thesis by simp
  next
    case False
    with valid have "validate_config (container_config h) = None" by blast
    with starts False show ?thesis by (simp add: NewRouter_def GetOAuthClientID_def GetOAuthClientSecret_def)
  qed
qed

theorem harness_configures_server_witness:
  "\<exists>lg err. main_start ex_lib (\<lambda>s. s) ''v1'' (harness_host (haic_config ''hs'' [])) =
     ExitFailure lg ''failed to load config'' err"
  using harness_configures_server [where H = "harness_host (haic_config ''hs'' [])" and base = Map.empty
      and h = "haic_config ''hs'' []" and conn = ex_service and L = ex_lib and ul = "\<lambda>s. s" and version = "''v1''",
      OF harness_host_contract]
  by (simp add: harness_host_def shouldPrintVersion_def haic_config_def)

text \<open>A certificate without its key, or a key without its certificate, is no error: the server
  starts and speaks plain HTTP.\<close>

theorem half_of_tls_is_plain_http:
  assumes "\<not> shouldPrintVersion (h_args h)" and "Load (h_Process h) (h_env h) = Inr cfg"
    and "h_NewClient h (HeadscaleAddr cfg) = Inr conn" and "TLSCert cfg = [] \<or> TLSKey cfg = []"
  shows "\<exists>srv. main_start L ul version h = Serving srv \<and> \<not> srv_TLS srv"
  using assms by (auto simp: main_start_def New_GRPCClient_def Let_def)

theorem half_of_tls_is_plain_http_witness:
  "TLSCert ex_config = ''cert.pem'' \<and>
   (\<exists>srv. main_start ex_lib (\<lambda>s. s) ''v1'' ex_host = Serving srv \<and> \<not> srv_TLS srv)"
  using half_of_tls_is_plain_http [of ex_host ex_config ex_service ex_lib "\<lambda>s. s" "''v1''"]
  by (simp add: ex_host_def shouldPrintVersion_def Load_def ex_config_valid) (simp add: ex_config_def)



section \<open>Logs\<close>



text \<open>Which keys are sensitive: those that, without case and the separators \<open>-_. \<close>, are
  \<open>authorization\<close>, \<open>cookie\<close> or \<open>setcookie\<close>, or end in \<open>token\<close>, \<open>secret\<close>, \<open>password\<close> or
  \<open>apikey\<close>. The other eight names of the source's list add nothing.\<close>

theorem sensitive_keys_are_suffixes:
  "isSensitiveKey ul key \<longleftrightarrow>
     normalizeKey ul key \<in> {''authorization'', ''cookie'', ''setcookie''} \<or>
     (\<exists>w \<in> {''token'', ''secret'', ''password'', ''apikey''}. HasSuffix (normalizeKey ul key) w)"
  by (rule isSensitiveKey_iff)

section \<open>The surface of the API\<close>

text \<open>What is not implemented says so: an authenticated request to a stub, or to a path below
  \<open>/api/v2\<close> that no route has, is answered 501 with the reason, and headscale, the tokens, the
  key cache and the error counters are as before.\<close>

theorem unimplemented_is_501:
  assumes "authorized (ro_headscaleAPIKey ro) (in_auth i) r (tokens \<sigma>)"
    and "(cm_outcome (d_chi D (Method r) (Path r)), reason) \<in>
      {(ApiNotFound, reason_unknown)} \<union> {(ApiRoute (Stub m), m) | m. True}"
  shows "fst (ServeHTTP D ro i r \<sigma>) = writeError 501 reason \<and>
    world (snd (ServeHTTP D ro i r \<sigma>)) = world \<sigma> \<and>
    tokens (snd (ServeHTTP D ro i r \<sigma>)) = tokens \<sigma> \<and>
    jwks (snd (ServeHTTP D ro i r \<sigma>)) = jwks \<sigma> \<and>
    grpcErrorsTotal (snd (ServeHTTP D ro i r \<sigma>)) = grpcErrorsTotal \<sigma>"
proof -
  have "authorized (ro_headscaleAPIKey ro) (in_auth i) (routed D r) (tokens \<sigma>)"
    using assms(1) by (simp add: authorized_def)
  with assms(2) show ?thesis
    by (auto simp: ServeHTTP_routed middleware_frame routeHTTP_def serve_api_def
        BearerAuthMiddleware_eq notImplementedReason_def)
qed

theorem unimplemented_is_501_witness:
  "fst (ServeHTTP ex_deps ex_router (ex_readings 0)
     (ex_request ''GET'' ''/api/v2/tailnet/-/settings'' [(''Authorization'', ''Bearer hskey'')] []) (initial_state []))
   = writeError 501 reason_settings"
proof -
  let ?r = "ex_request ''GET'' ''/api/v2/tailnet/-/settings'' [(''Authorization'', ''Bearer hskey'')] []"
  have "presentedToken ?r = ''hskey''"
  proof (rule bearer_presented)
    show "list_all is_graphic ''hskey''" by code_simp
  qed (simp_all add: ex_request_def first_value_def)
  then show ?thesis
    using unimplemented_is_501 [of ex_router "ex_readings 0" ?r "initial_state []" ex_deps reason_settings]
    by (simp add: authorized_def ex_deps_def ex_chi_def ex_request_def)
qed

text \<open>C12. No route of the table is shadowed by another: with \<open>chi\<close> as documented, an authorized request for
  a route below \<open>/api/v2\<close>, whatever the values of its parameters, gets the answer and the effect of that
  route's handler, with those values, and is counted under the route's pattern.\<close>

theorem api_route_served:
  assumes "chi_contract (d_chi D)" and "request_for rt args r"
    and "authorized (ro_headscaleAPIKey ro) (in_auth i) r (tokens \<sigma>)"
  shows "fst (ServeHTTP D ro i r \<sigma>) = fst (serve_endpoint D ro i (rt_Endpoint rt) (routed D r) \<sigma>) \<and>
    world (snd (ServeHTTP D ro i r \<sigma>)) = world (snd (serve_endpoint D ro i (rt_Endpoint rt) (routed D r) \<sigma>)) \<and>
    path_label (routed D r) = ''/api/v2'' @ rt_Pattern rt \<and>
    (\<forall>(k, v) \<in> set (zip (api_params rt) args). URLParam (routed D r) k = v)"
  by (rule request_for_served [OF assms])

theorem api_route_served_witness:
  "path_label (routed table_deps (ex_bearer ex_token)) = ''/api/v2/tailnet/{tailnet}/devices''"
  using api_route_served [OF table_deps_contract ex_bearer_request, of ex_router "ex_readings 0" ex_token "sys_st ex_served"]
    ex_bearer_authorized [of 0]
  by (simp add: ex_readings_def) (simp add: route_def)

text \<open>The table of routes has no pattern twice for a method, has 18 implemented routes below
  \<open>/api/v2\<close> and 53 stubs, and registers each handler once there.\<close>

theorem route_table:
  "distinct (map (\<lambda>rt. (rt_Method rt, rt_Pattern rt)) root_routes) \<and>
   distinct (map (\<lambda>rt. (rt_Method rt, rt_Pattern rt)) api_routes) \<and>
   length (filter (\<lambda>rt. is_stub (rt_Endpoint rt)) api_routes) = 53 \<and>
   length (filter (\<lambda>rt. \<not> is_stub (rt_Endpoint rt)) api_routes) = 18 \<and>
   distinct (filter (\<lambda>e. \<not> is_stub e) (map rt_Endpoint api_routes))"
  by (intro conjI; code_simp)

text \<open>C18. Every answer of a route is of the type that the route promises: with 200 a document of that
  type (none where there is nothing to report; the policy may also come as its own text), with any
  other status the document of an error. And whatever bytes the names in it contain, the text on the
  wire parses, as a value of the same type.\<close>

theorem answers_have_their_type:
  assumes "cm_outcome (d_chi D (Method r) (Path r)) \<in> {RootRoute ep, ApiRoute ep}" and "ep \<noteq> E_Metrics"
  shows "typed_reply (answer_type ep) (fst (ServeHTTP D ro i r \<sigma>)) \<and>
    (\<forall>j. RespBody (fst (ServeHTTP D ro i r \<sigma>)) = JSONBody j \<longrightarrow>
       (\<exists>v. json_Unmarshal (json_Encode j) = Some v \<and>
          (if Status (fst (ServeHTTP D ro i r \<sigma>)) = 200
           then \<exists>t. answer_type ep = Some t \<and> has_type t v else has_type Error_type v)))"
proof -
  have "typed_reply (answer_type ep) (fst (ServeHTTP D ro i r \<sigma>))"
    using assms typed_endpoint
    by (auto simp: ServeHTTP_routed middleware_frame routeHTTP_def serve_api_def BearerAuthMiddleware_eq
        typed_error)
  with typed_reply_text show ?thesis by blast
qed

theorem answers_have_their_type_witness:
  "typed_reply (Some Token_type) (fst (ServeHTTP ex_deps ex_router (ex_readings 0) ex_issue (initial_state [])))"
  using answers_have_their_type [of ex_deps ex_issue E_OAuthToken ex_router "ex_readings 0" "initial_state []"]
  by (simp add: ex_deps_def ex_chi_def ex_issue_def ex_request_def)

text \<open>C13. \<open>GET\<close> is safe: such a request gets the same answer and leaves the same state under any
  client that differs from the router's only in the operations that change something at
  headscale; and it issues no token.\<close>

theorem get_requests_only_read:
  assumes "chi_sound (d_chi D)" and "Method r = ''GET''" and "agree_reads (ro_hs ro) hs'"
  shows "ServeHTTP D (ro\<lparr>ro_hs := hs'\<rparr>) i r \<sigma> = ServeHTTP D ro i r \<sigma> \<and>
    tokens (snd (ServeHTTP D ro i r \<sigma>)) = tokens \<sigma>"
proof -
  let ?out = "cm_outcome (d_chi D (Method r) (Path r))"
  have reads: "is_read ep" if "endpoint_of ?out = Some ep" for ep
    using chi_sound_GET [OF assms(1), of "Path r" ep] assms(2) that by simp
  have "routeHTTP D (ro\<lparr>ro_hs := hs'\<rparr>) i ?out = routeHTTP D ro i ?out"
    by (rule routeHTTP_reads(1) [OF reads assms(3)])
  moreover have "tokens (snd (routeHTTP D ro i ?out (routed D r) \<sigma>)) = tokens \<sigma>"
    by (rule routeHTTP_reads(2) [OF reads])
  ultimately show ?thesis by (simp add: ServeHTTP_routed middleware_frame)
qed

theorem get_requests_only_read_witness:
  "ServeHTTP ex_deps (ex_router\<lparr>ro_hs := ex_hs\<lparr>hs_DeleteNode := \<lambda>_ _ w. (Inr (), [])\<rparr>\<rparr>) (ex_readings 0)
     (ex_bearer ''hskey'') (initial_state [ex_key]) =
   ServeHTTP ex_deps ex_router (ex_readings 0) (ex_bearer ''hskey'') (initial_state [ex_key])"
  using get_requests_only_read [OF ex_deps_chi, of "ex_bearer ''hskey''" ex_router
      "ex_hs\<lparr>hs_DeleteNode := \<lambda>_ _ w. (Inr (), [])\<rparr>" "ex_readings 0" "initial_state [ex_key]"]
  by (simp add: ex_bearer_def ex_request_def agree_reads_def)

section \<open>Metrics\<close>





text \<open>The catalog covers the metrics in use: no look-up at the start of the program panics, the three
  collectors have distinct names and as many labels as the code gives them values, no name is listed
  twice, and the rendered document has the row and the note of each.\<close>

theorem metric_docs_complete:
  "map_option (\<lambda>vs. (distinct (map mv_Name vs), map (\<lambda>v. length (mv_Labels v)) vs)) metrics_init =
     Some (True, [3, 2, 1]) \<and>
   distinct (map md_Name CustomMetricDocs) \<and>
   list_all (\<lambda>m. sublist (metric_row m) RenderMetricsMarkdown \<and> sublist (metric_note m) RenderMetricsMarkdown)
     CustomMetricDocs"
proof -
  have "map_option (\<lambda>vs. (distinct (map mv_Name vs), map (\<lambda>v. length (mv_Labels v)) vs)) metrics_init =
     Some (True, [3, 2, 1])"
    "distinct (map md_Name CustomMetricDocs)" by code_simp+
  with RenderMetricsMarkdown_lists show ?thesis by (simp add: list_all_iff CustomMetricDocs_def)
qed

section \<open>The purge of the token store\<close>

text \<open>Purging in a loop over the map while deleting from it, in whatever order the keys come, is
  filtering the map: exactly the entries that have not expired stay.\<close>

theorem purge_is_filter:
  assumes "ranges_over toks ts"
  shows "purge now toks ts = (\<lambda>t. if live now (ts t) then ts t else None)"
  using go_map.lookup_purge [OF assms] by (simp add: lookup_def fun_eq_iff)

theorem purge_is_filter_witness:
  "purge 5 [''b'', ''a''] [''a'' \<mapsto> \<lparr>expiry = 4\<rparr>, ''b'' \<mapsto> \<lparr>expiry = 5\<rparr>] = [''b'' \<mapsto> \<lparr>expiry = 5\<rparr>]"
proof -
  have "ranges_over [''b'', ''a''] [''a'' \<mapsto> \<lparr>expiry = 4\<rparr>, ''b'' \<mapsto> \<lparr>expiry = 5\<rparr>]"
    by (auto simp: ranges_over_def)
  from purge_is_filter [OF this, of 5] show ?thesis by (auto simp: fun_eq_iff)
qed

text \<open>A purge never changes a decision of the middleware: with its clock read before the
  request's, a request is let in or refused, and answered, exactly as without the purge.\<close>

theorem purge_invisible_to_auth:
  assumes "ranges_over toks (tokens \<sigma>)" and "t \<le> now"
  shows "fst (BearerAuthMiddleware key now (\<lambda>r _. (answer r, \<sigma>')) r (\<sigma>\<lparr>tokens := purge t toks (tokens \<sigma>)\<rparr>)) =
    fst (BearerAuthMiddleware key now (\<lambda>r _. (answer r, \<sigma>')) r \<sigma>)"
  using go_map.accepts_purge [OF assms, of "presentedToken r"]
  by (auto simp: BearerAuthMiddleware_eq authorized_def go_map.accepts_def)

theorem purge_invisible_to_auth_witness:
  "fst (BearerAuthMiddleware ''hskey'' 5 (\<lambda>r _. (WriteHeader 200, ex_cached)) (ex_bearer ex_token)
     ((sys_st ex_served)\<lparr>tokens := purge 5 [ex_token] (tokens (sys_st ex_served))\<rparr>)) =
   fst (BearerAuthMiddleware ''hskey'' 5 (\<lambda>r _. (WriteHeader 200, ex_cached)) (ex_bearer ex_token) (sys_st ex_served))"
  by (rule purge_invisible_to_auth) (simp_all add: ex_served_tokens ranges_over_def)



section \<open>Tools\<close>

text \<open>C38. The generator's search for the repository always ends, at the nearest directory, from the
  working directory upwards, that holds a \<open>go.mod\<close>, and in failure if there is none; so the
  generator always ends.\<close>

theorem repo_root_is_nearest:
  assumes "list_all proper ws"
  shows "findRepoRoot (Some (abs_path ws)) stat =
      Some (map_option abs_path (find (\<lambda>a. stat (abs_path (a @ [''go.mod'']))) (ancestors ws))) \<and>
    gen_docs_main (Some (abs_path ws)) stat WriteFile \<noteq> None"
  using findRepoRoot_from_eq [OF assms, of stat]
  by (simp add: findRepoRoot_def gen_docs_main_def Let_def split: option.split)

theorem repo_root_is_nearest_witness:
  "findRepoRoot (Some (abs_path [''src'', ''cmd''])) (\<lambda>p. p = ''/src/go.mod'') = Some (Some ''/src'')"
  using repo_root_is_nearest [of "[''src'', ''cmd'']" "\<lambda>p. p = ''/src/go.mod''"]
  by (simp add: proper_def ancestors_def abs_path_def)

text \<open>C39. The wait for the container ends once the clock passes the minute, whatever the service
  answers; it reports success exactly if the first turn that stops it is a healthy answer in time.\<close>

theorem wait_for_running_ends:
  assumes "start + 60000000000 \<le> now k"
  shows "\<exists>m. (start + 60000000000 \<le> now m \<or> get m (GetEndpoint h @ ''/healthz'') = Some 200) \<and>
    (\<forall>j < m. now j < start + 60000000000 \<and> get j (GetEndpoint h @ ''/healthz'') \<noteq> Some 200) \<and>
    WaitForRunning h start now get =
      Some (if now m < start + 60000000000 then None
            else Some ''headtotails did not become healthy within timeout'')"
proof -
  have d: "Add start (60 * Second) = start + 60000000000" by (simp add: Add_def Second_def)
  from wait_loop_returns [where now = now and k = k and get = get and url = "GetEndpoint h @ ''/healthz''", OF assms]
  obtain m where
    m: "start + 60000000000 \<le> now m \<or> get m (GetEndpoint h @ ''/healthz'') = Some 200"
       "\<forall>j < m. now j < start + 60000000000 \<and> get j (GetEndpoint h @ ''/healthz'') \<noteq> Some 200" by blast
  with wait_loop_stops [of 0 m "start + 60000000000" now get "GetEndpoint h @ ''/healthz''"]
  have "WaitForRunning h start now get =
      Some (if now m < start + 60000000000 then None
            else Some ''headtotails did not become healthy within timeout'')"
    by (simp add: WaitForRunning_def d)
  with m show ?thesis by blast
qed

theorem wait_for_running_ends_witness:
  "\<exists>m. WaitForRunning (haic_config ''hs'' []) 0 (\<lambda>n. int n * 1000000000) (\<lambda>_ _. None) =
     Some (if int m * 1000000000 < 60000000000 then None
           else Some ''headtotails did not become healthy within timeout'')"
  using wait_for_running_ends [of 0 "\<lambda>n. int n * 1000000000" 60 "\<lambda>_ _. None" "haic_config ''hs'' []"]
  by auto

text \<open>C40. The mock that the tests use can stand for any client: scripted with the operations of a client
  it serves every request just as that client does.\<close>

theorem mock_is_the_client:
  assumes "scripted hs m"
  shows "ServeHTTP D (ro\<lparr>ro_hs := mock_client p m\<rparr>) i r \<sigma> = ServeHTTP D (ro\<lparr>ro_hs := hs\<rparr>) i r \<sigma>"
  by (simp add: scripted_mock_client [OF assms])

theorem mock_is_the_client_witness:
  "ServeHTTP ex_deps (ex_router\<lparr>ro_hs := mock_client ex_error (script ex_hs)\<rparr>) (ex_readings 0) ex_issue (initial_state []) =
   ServeHTTP ex_deps (ex_router\<lparr>ro_hs := ex_hs\<rparr>) (ex_readings 0) ex_issue (initial_state [])"
  by (rule mock_is_the_client [OF scripted_script])

end
